(* ===== verification/Prelude.thy ===== *)
theory Prelude
  imports Main "HOL-Library.Sublist"
begin

text \<open>
  Shared vocabulary of the development: the collections of simplification rules that the component
  theories extend, Go's integer and time values, and generic lemmas on lists and maps.

  \<^item> Go's \<^verbatim>\<open>int64\<close>/\<^verbatim>\<open>int\<close> values are \<^typ>\<open>int\<close>; where the code adds to a
    caller-supplied value the wrap-around is written out with \<open>wrap64\<close>.
  \<^item> \<^verbatim>\<open>time.Time\<close> is an \<^typ>\<open>int\<close>: the number of nanoseconds since Go's zero time,
    0001-01-01 00:00:00 UTC, so that \<^verbatim>\<open>IsZero\<close> is equality with \<open>0\<close> and
    \<^verbatim>\<open>Truncate\<close> (which Go defines relative to the zero time) is arithmetic.
    \<^verbatim>\<open>UTC()\<close> and \<^verbatim>\<open>In(loc)\<close> do not change the instant.
  \<^item> \<^verbatim>\<open>time.Duration\<close> is an \<^typ>\<open>int\<close> number of nanoseconds.
\<close>

section \<open>Collections of facts\<close>

named_theorems rec_inv \<open>preservation of the invariants of one job record\<close>
named_theorems engine_inv \<open>preservation of the invariants of the engine state\<close>
named_theorems codec_simps \<open>decoding what an encoder wrote\<close>

section \<open>Integers\<close>

type_synonym go_time = int
type_synonym duration = int

definition wrap64 :: "int \<Rightarrow> int" where
  "wrap64 x = (x + 2 ^ 63) mod 2 ^ 64 - 2 ^ 63"

definition int64 :: "int \<Rightarrow> bool" where
  "int64 x \<longleftrightarrow> - (2 ^ 63) \<le> x \<and> x < 2 ^ 63"

lemma wrap64_id [simp]: "int64 x \<Longrightarrow> wrap64 x = x"
  by (simp add: wrap64_def int64_def)

lemma int64_wrap64 [simp]: "int64 (wrap64 x)"
  by (simp add: wrap64_def int64_def)

definition nanosecond :: duration where "nanosecond = 1"
definition millisecond :: duration where "millisecond = 1000000"
definition second :: duration where "second = 1000000000"
definition minute :: duration where "minute = 60000000000"

lemmas duration_defs = nanosecond_def millisecond_def second_def minute_def

text \<open>\<^verbatim>\<open>Time.Truncate(d)\<close> for a positive \<open>d\<close>.\<close>

definition truncate_time :: "duration \<Rightarrow> go_time \<Rightarrow> go_time" where
  "truncate_time d t = t - t mod d"

lemma truncate_time_le: "0 < d \<Longrightarrow> truncate_time d t \<le> t"
  by (simp add: truncate_time_def)

lemma truncate_time_gt: "0 < d \<Longrightarrow> t < truncate_time d t + d"
  using pos_mod_bound [of d t] by (simp add: truncate_time_def)

lemma truncate_time_dvd: "d dvd truncate_time d t"
  by (simp add: truncate_time_def)

lemma truncate_time_mono: "0 < d \<Longrightarrow> s \<le> t \<Longrightarrow> truncate_time d s \<le> truncate_time d t"
  by (simp add: truncate_time_def minus_mod_eq_mult_div zdiv_mono1)

section \<open>Lists\<close>

text \<open>A stable insertion sort by a strict comparison callback: \<^verbatim>\<open>sort.Slice\<close>.\<close>

fun insert_by :: "('a \<Rightarrow> 'a \<Rightarrow> bool) \<Rightarrow> 'a \<Rightarrow> 'a list \<Rightarrow> 'a list" where
  "insert_by lt x [] = [x]"
| "insert_by lt x (y # ys) = (if lt y x then y # insert_by lt x ys else x # y # ys)"

fun sort_slice :: "('a \<Rightarrow> 'a \<Rightarrow> bool) \<Rightarrow> 'a list \<Rightarrow> 'a list" where
  "sort_slice lt [] = []"
| "sort_slice lt (x # xs) = insert_by lt x (sort_slice lt xs)"

lemma set_insert_by [simp]: "set (insert_by lt x xs) = insert x (set xs)"
  by (induction xs) auto

lemma set_sort_slice [simp]: "set (sort_slice lt xs) = set xs"
  by (induction xs) auto

lemma length_insert_by [simp]: "length (insert_by lt x xs) = Suc (length xs)"
  by (induction xs) auto

lemma length_sort_slice [simp]: "length (sort_slice lt xs) = length xs"
  by (induction xs) auto

lemma distinct_insert_by [simp]: "distinct (insert_by lt x xs) \<longleftrightarrow> x \<notin> set xs \<and> distinct xs"
  by (induction xs) auto

lemma distinct_sort_slice [simp]: "distinct (sort_slice lt xs) = distinct xs"
  by (induction xs) auto

section \<open>Maps\<close>

definition map_update :: "'k \<Rightarrow> ('v \<Rightarrow> 'v) \<Rightarrow> ('k \<rightharpoonup> 'v) \<Rightarrow> ('k \<rightharpoonup> 'v)" where
  "map_update k f m = m(k := map_option f (m k))"

lemma map_update_same [simp]: "map_update k f m k = map_option f (m k)"
  by (simp add: map_update_def)

lemma map_update_other [simp]: "k' \<noteq> k \<Longrightarrow> map_update k f m k' = m k'"
  by (simp add: map_update_def)

lemma dom_map_update [simp]: "dom (map_update k f m) = dom m"
  by (auto simp: map_update_def dom_def split: if_splits)

end
