(* ===== verification/Go_Strings.thy ===== *)
theory Go_Strings
  imports Prelude "HOL-Library.Char_ord" "HOL-Library.List_Lexorder"
begin

text \<open>
  The parts of Go's \<^verbatim>\<open>strings\<close>, \<^verbatim>\<open>strconv\<close> and \<^verbatim>\<open>fmt\<close> packages that the
  sources call. Strings are byte strings (\<^typ>\<open>string\<close>) compared bytewise, as in Go: the order is
  the lexicographic one of \<^theory_text>\<open>List_Lexorder\<close>. White space is ASCII white space; the two
  non-ASCII spaces of \<^verbatim>\<open>unicode.IsSpace\<close> are not considered.
\<close>

section \<open>strings\<close>

definition go_space :: "char \<Rightarrow> bool" where
  "go_space c \<longleftrightarrow> c \<in> {CHR '' '', CHR 0x09, CHR 0x0A, CHR 0x0B, CHR 0x0C, CHR 0x0D}"

text \<open>\<^verbatim>\<open>strings.TrimSpace\<close>\<close>

definition trim_space :: "string \<Rightarrow> string" where
  "trim_space s = rev (dropWhile go_space (rev (dropWhile go_space s)))"

lemma trim_space_Nil_iff: "trim_space s = [] \<longleftrightarrow> (\<forall>c \<in> set s. go_space c)"
proof -
  have "dropWhile go_space s = [] \<or> \<not> go_space (hd (dropWhile go_space s))"
    using hd_dropWhile by blast
  then have "(\<forall>c \<in> set (dropWhile go_space s). go_space c) \<longleftrightarrow> dropWhile go_space s = []"
    by (metis empty_iff hd_in_set list.set(1))
  then show ?thesis by (simp add: trim_space_def dropWhile_eq_Nil_conv)
qed

lemma trim_space_Nil [simp]: "trim_space [] = []"
  by (simp add: trim_space_def)

lemma trim_space_id: "s \<noteq> [] \<Longrightarrow> \<not> go_space (hd s) \<Longrightarrow> \<not> go_space (last s) \<Longrightarrow> trim_space s = s"
  by (metis dropWhile.simps(2) hd_rev list.collapse rev_is_Nil_conv rev_rev_ident trim_space_def)

text \<open>\<^verbatim>\<open>strings.Split\<close> with a separator of one character, and its generalisation to a class of
  separators, from which \<^verbatim>\<open>strings.Fields\<close> keeps the non-empty parts.\<close>

fun split_pred :: "(char \<Rightarrow> bool) \<Rightarrow> string \<Rightarrow> string list" where
  "split_pred p [] = [[]]"
| "split_pred p (x # xs) =
     (if p x then [] # split_pred p xs
      else case split_pred p xs of [] \<Rightarrow> [[x]] | q # qs \<Rightarrow> (x # q) # qs)"

definition split_char :: "char \<Rightarrow> string \<Rightarrow> string list" where
  "split_char c = split_pred (\<lambda>x. x = c)"

definition fields :: "string \<Rightarrow> string list" where
  "fields s = filter (\<lambda>p. p \<noteq> []) (split_pred go_space s)"

lemma split_pred_not_Nil [simp]: "split_pred p s \<noteq> []"
  by (induction s) (auto split: list.splits)

lemma split_pred_single: "\<forall>x \<in> set s. \<not> p x \<Longrightarrow> split_pred p s = [s]"
  by (induction s) auto

lemma split_pred_append:
  "\<forall>x \<in> set a. \<not> p x \<Longrightarrow> p c \<Longrightarrow> split_pred p (a @ c # b) = a # split_pred p b"
  by (induction a) auto

lemma split_char_single: "c \<notin> set s \<Longrightarrow> split_char c s = [s]"
  by (auto simp: split_char_def intro!: split_pred_single)

lemma split_char_append: "c \<notin> set a \<Longrightarrow> split_char c (a @ c # b) = a # split_char c b"
  by (auto simp: split_char_def intro!: split_pred_append)

lemma split_char_parts: "q \<in> set (split_char c s) \<Longrightarrow> c \<notin> set q"
proof (induction s arbitrary: q)
  case Nil
  then show ?case by (simp add: split_char_def)
next
  case (Cons x s)
  then show ?case
    by (fastforce simp: split_char_def split: if_splits list.splits)
qed

fun join_char :: "char \<Rightarrow> string list \<Rightarrow> string" where
  "join_char c [] = []"
| "join_char c [p] = p"
| "join_char c (p # q # ps) = p @ c # join_char c (q # ps)"

lemma join_split_char: "join_char c (split_char c s) = s"
proof (induction s)
  case Nil
  then show ?case by (simp add: split_char_def)
next
  case (Cons x s)
  obtain q qs where q: "split_pred (\<lambda>x. x = c) s = q # qs"
    using split_pred_not_Nil by (meson neq_Nil_conv)
  with Cons show ?case
    by (cases qs) (auto simp: split_char_def)
qed

section \<open>strconv and fmt\<close>

definition digit_char :: "nat \<Rightarrow> char" where
  "digit_char d = char_of (48 + d)"

definition char_digit :: "char \<Rightarrow> nat option" where
  "char_digit c = (let n = of_char c in if 48 \<le> n \<and> n \<le> 57 then Some (n - 48) else None)"

lemma char_digit_digit_char [simp]: "d < 10 \<Longrightarrow> char_digit (digit_char d) = Some d"
  by (simp add: char_digit_def digit_char_def)

definition is_digit :: "char \<Rightarrow> bool" where
  "is_digit c \<longleftrightarrow> char_digit c \<noteq> None"

lemma is_digit_digit_char [simp]: "d < 10 \<Longrightarrow> is_digit (digit_char d)"
  by (simp add: is_digit_def)

text \<open>\<^verbatim>\<open>%d\<close> of a natural number and of an integer.\<close>

fun nat_digits :: "nat \<Rightarrow> string" where
  "nat_digits n = (if n < 10 then [digit_char n] else nat_digits (n div 10) @ [digit_char (n mod 10)])"

declare nat_digits.simps [simp del]

definition itoa :: "int \<Rightarrow> string" where
  "itoa i = (if i < 0 then CHR ''-'' # nat_digits (nat (- i)) else nat_digits (nat i))"

text \<open>\<^verbatim>\<open>%0wd\<close> of a natural number below \<open>10 ^ w\<close>.\<close>

fun pad_digits :: "nat \<Rightarrow> nat \<Rightarrow> string" where
  "pad_digits 0 n = []"
| "pad_digits (Suc w) n = pad_digits w (n div 10) @ [digit_char (n mod 10)]"

lemma length_pad_digits [simp]: "length (pad_digits w n) = w"
  by (induction w arbitrary: n) auto

lemma pad_digits_are_digits: "c \<in> set (pad_digits w n) \<Longrightarrow> is_digit c"
  by (induction w arbitrary: n) auto

text \<open>The value of a string of digits; \<open>None\<close> when another character occurs.\<close>

fun digits_value :: "nat \<Rightarrow> string \<Rightarrow> nat option" where
  "digits_value acc [] = Some acc"
| "digits_value acc (c # cs) =
     (case char_digit c of None \<Rightarrow> None | Some d \<Rightarrow> digits_value (10 * acc + d) cs)"

lemma digits_value_append:
  "digits_value acc (xs @ ys) = (case digits_value acc xs of None \<Rightarrow> None | Some v \<Rightarrow> digits_value v ys)"
  by (induction xs arbitrary: acc) (auto split: option.splits)

lemma digits_value_nat_digits: "digits_value 0 (nat_digits n) = Some n"
proof (induction n rule: nat_digits.induct)
  case (1 n)
  then show ?case
    by (cases "n < 10") (simp_all add: nat_digits.simps [of n] digits_value_append)
qed

lemma digits_value_pad_digits: "n < 10 ^ w \<Longrightarrow> digits_value 0 (pad_digits w n) = Some n"
proof (induction w arbitrary: n)
  case 0
  then show ?case by simp
next
  case (Suc w)
  then have "n div 10 < 10 ^ w" by (simp add: less_mult_imp_div_less mult.commute)
  with Suc.IH show ?case by (simp add: digits_value_append)
qed

lemma pad_digits_inject: "m < 10 ^ w \<Longrightarrow> n < 10 ^ w \<Longrightarrow> pad_digits w m = pad_digits w n \<longleftrightarrow> m = n"
  by (metis digits_value_pad_digits option.inject)

lemma nat_digits_inject [simp]: "nat_digits m = nat_digits n \<longleftrightarrow> m = n"
  by (metis digits_value_nat_digits option.inject)

lemma nat_digits_are_digits: "c \<in> set (nat_digits n) \<Longrightarrow> is_digit c"
proof (induction n rule: nat_digits.induct)
  case (1 n)
  then show ?case by (cases "n < 10") (auto simp: nat_digits.simps [of n])
qed

lemma nat_digits_not_Nil [simp]: "nat_digits n \<noteq> []"
  by (subst nat_digits.simps) simp

lemma itoa_nonneg: "0 \<le> i \<Longrightarrow> itoa i = nat_digits (nat i)"
  by (simp add: itoa_def)

text \<open>\<^verbatim>\<open>strconv.Atoi\<close>: an optional sign, then digits, in the range of \<^verbatim>\<open>int\<close>.\<close>

definition parse_digits :: "string \<Rightarrow> int option" where
  "parse_digits s = (if s = [] then None else map_option int (digits_value 0 s))"

definition atoi :: "string \<Rightarrow> int option" where
  "atoi s =
     (let v = (case s of
                 [] \<Rightarrow> None
               | c # cs \<Rightarrow>
                   if c = CHR ''-'' then map_option uminus (parse_digits cs)
                   else if c = CHR ''+'' then parse_digits cs
                   else parse_digits s)
      in case v of None \<Rightarrow> None | Some i \<Rightarrow> if int64 i then Some i else None)"

lemma atoi_int64: "atoi s = Some i \<Longrightarrow> int64 i"
  by (auto simp: atoi_def Let_def split: option.splits if_splits)

lemma hd_nat_digits_is_digit: "is_digit (hd (nat_digits n))"
  by (metis hd_in_set nat_digits_are_digits nat_digits_not_Nil)

lemma atoi_itoa: "int64 i \<Longrightarrow> atoi (itoa i) = Some i"
proof (cases "i < 0")
  case True
  moreover assume "int64 i"
  ultimately show ?thesis
    by (simp add: itoa_def atoi_def parse_digits_def digits_value_nat_digits Let_def)
next
  case False
  moreover assume "int64 i"
  moreover obtain c cs where cs: "nat_digits (nat i) = c # cs"
    by (meson neq_Nil_conv nat_digits_not_Nil)
  moreover have "is_digit c"
    using hd_nat_digits_is_digit [of "nat i"] cs by simp
  then have "c \<noteq> CHR ''-''" "c \<noteq> CHR ''+''"
    by (auto simp: is_digit_def char_digit_def)
  moreover have "digits_value 0 (c # cs) = Some (nat i)"
    using digits_value_nat_digits [of "nat i"] cs by simp
  ultimately show ?thesis
    by (simp add: itoa_def atoi_def parse_digits_def Let_def)
qed

end
