(* ===== verification/Go_Json.thy ===== *)
theory Go_Json
  imports Go_Strings Complex_Main
begin

text \<open>
  What the sources use of \<^verbatim>\<open>encoding/json\<close>, and Go maps with string keys.

  A Go map with string keys is its association list in increasing key order (\<open>gomap\<close>): the order
  in which \<^verbatim>\<open>json.Marshal\<close> writes it. A JSON document is a tree: integer literals and
  literals with a fraction or an exponent are kept apart, as \<^verbatim>\<open>json.Number\<close> and the decoding
  of integer fields do; \<^verbatim>\<open>float64\<close> values are rational numbers. A string that
  \<^verbatim>\<open>time.Time.MarshalJSON\<close> wrote has a constructor of its own, so that the date syntax is not
  part of the model. A \<^verbatim>\<open>json.RawMessage\<close> (or \<^verbatim>\<open>[]byte\<close> handed to the decoder) is either the
  text of one JSON document, seen as the tree, or a text that is not one; the empty text and a nil
  slice are \<open>Text []\<close>. Texts that differ in white space or escapes only are one value, and the
  keys of an object are taken to be distinct.
\<close>

section \<open>Maps with string keys\<close>

type_synonym 'v gomap = "(string \<times> 'v) list"

definition gsorted :: "'v gomap \<Rightarrow> bool" where
  "gsorted m \<longleftrightarrow> sorted_wrt (<) (map fst m)"

fun gput :: "string \<Rightarrow> 'v \<Rightarrow> 'v gomap \<Rightarrow> 'v gomap" where
  "gput k v [] = [(k, v)]"
| "gput k v ((k', v') # m) =
     (if k < k' then (k, v) # (k', v') # m
      else if k = k' then (k, v) # m
      else (k', v') # gput k v m)"

abbreviation gget :: "'v gomap \<Rightarrow> string \<Rightarrow> 'v option" where
  "gget \<equiv> map_of"

definition gfilter :: "(string \<Rightarrow> bool) \<Rightarrow> 'v gomap \<Rightarrow> 'v gomap" where
  "gfilter p m = filter (\<lambda>(k, v). p k) m"

text \<open>\<^verbatim>\<open>for k, v := range src { dst[k] = v }\<close>\<close>

definition gunion :: "'v gomap \<Rightarrow> 'v gomap \<Rightarrow> 'v gomap" where
  "gunion dst src = fold (\<lambda>(k, v) m. gput k v m) src dst"

lemma gsorted_Nil [simp]: "gsorted []"
  by (simp add: gsorted_def)

lemma gsorted_Cons: "gsorted ((k, v) # m) \<longleftrightarrow> (\<forall>k' \<in> fst ` set m. k < k') \<and> gsorted m"
  by (auto simp: gsorted_def)

lemma keys_gput [simp]: "fst ` set (gput k v m) = insert k (fst ` set m)"
  by (induction k v m rule: gput.induct) auto

lemma gsorted_gput [simp, intro]: "gsorted m \<Longrightarrow> gsorted (gput k v m)"
  by (induction k v m rule: gput.induct) (auto simp: gsorted_Cons)

lemma gget_gput [simp]: "gsorted m \<Longrightarrow> gget (gput k v m) = (gget m)(k \<mapsto> v)"
proof (induction k v m rule: gput.induct)
  case (2 k v k' v' m)
  have "k < k' \<Longrightarrow> k \<notin> fst ` set m" using "2.prems" by (force simp: gsorted_Cons)
  with 2 show ?case by (auto simp: gsorted_Cons fun_eq_iff)
qed simp

lemma gsorted_gfilter [simp, intro]: "gsorted m \<Longrightarrow> gsorted (gfilter p m)"
  by (induction m) (auto simp: gsorted_Cons gfilter_def)

lemma gget_gfilter [simp]: "gget (gfilter p m) k = (if p k then gget m k else None)"
  by (induction m) (auto simp: gfilter_def)

lemma gsorted_gunion [simp, intro]: "gsorted dst \<Longrightarrow> gsorted (gunion dst src)"
  unfolding gunion_def by (induction src arbitrary: dst) auto

lemma gsorted_distinct: "gsorted m \<Longrightarrow> distinct (map fst m)"
  by (simp add: gsorted_def strict_sorted_imp_sorted strict_sorted_iff)

lemma gget_gunion:
  "gsorted dst \<Longrightarrow> gsorted src \<Longrightarrow>
   gget (gunion dst src) k = (case gget src k of Some v \<Rightarrow> Some v | None \<Rightarrow> gget dst k)"
proof (induction src arbitrary: dst)
  case Nil
  then show ?case by (simp add: gunion_def)
next
  case (Cons a src)
  obtain k' v' where a: "a = (k', v')" by (cases a)
  have "gunion dst (a # src) = gunion (gput k' v' dst) src" by (simp add: gunion_def a)
  moreover have "k' \<notin> fst ` set src" using Cons.prems by (auto simp: a gsorted_Cons)
  then have "gget src k' = None" by (simp add: map_of_eq_None_iff)
  ultimately show ?case
    using Cons by (auto simp: a gsorted_Cons split: option.splits)
qed

declare gput.simps [simp del]

text \<open>Two maps with the same entries are the same list.\<close>

lemma gomap_eqI:
  assumes "gsorted m" "gsorted n" "\<And>k. gget m k = gget n k"
  shows "m = n"
proof -
  have "set m = set n"
    using assms gsorted_distinct map_of_eq_Some_iff by (metis surj_pair subsetI subset_antisym)
  moreover have "sorted_wrt (\<lambda>a b. fst a < fst b) m" "sorted_wrt (\<lambda>a b. fst a < fst b) n"
    using assms(1,2) by (auto simp: gsorted_def sorted_wrt_map)
  ultimately show ?thesis
  proof (induction m arbitrary: n)
    case (Cons a m)
    then obtain b n' where n: "n = b # n'" by (cases n) auto
    have "b \<in> set (a # m)" "a \<in> set (b # n')" using Cons.prems(1) n by auto
    then have "b = a \<or> fst a < fst b" "a = b \<or> fst b < fst a" using Cons.prems(2,3) n by auto
    then have "a = b" by (metis less_asym)
    moreover have "a \<notin> set m" "b \<notin> set n'" using Cons.prems by (auto simp: n)
    ultimately have "set m = set n'" using Cons.prems(1) n by (metis insert_ident list.simps(15))
    with Cons n have "m = n'" by simp
    then show ?case using \<open>a = b\<close> n by simp
  qed simp
qed

section \<open>Documents\<close>

datatype json =
    JNull
  | JBool bool
  | JInt int
  | JDec rat
  | JStr string
  | JTime go_time
  | JArr "json list"
  | JObj "(string \<times> json) list"

datatype raw = Text string | Json json

definition raw_len0 :: "raw \<Rightarrow> bool" where
  "raw_len0 r = (case r of Text s \<Rightarrow> s = [] | Json _ \<Rightarrow> False)"

text \<open>\<^verbatim>\<open>len(strings.TrimSpace(string(raw))) == 0\<close>\<close>

definition raw_blank :: "raw \<Rightarrow> bool" where
  "raw_blank r = (case r of Text s \<Rightarrow> trim_space s = [] | Json _ \<Rightarrow> False)"

definition raw_valid :: "raw \<Rightarrow> bool" where
  "raw_valid r = (case r of Text _ \<Rightarrow> False | Json _ \<Rightarrow> True)"

lemma raw_simps [simp]:
  "raw_len0 (Text s) = (s = [])" "\<not> raw_len0 (Json j)"
  "raw_blank (Text s) = (trim_space s = [])" "\<not> raw_blank (Json j)"
  "\<not> raw_valid (Text s)" "raw_valid (Json j)"
  by (simp_all add: raw_len0_def raw_blank_def raw_valid_def)

text \<open>\<^verbatim>\<open>cloneJSON\<close>: a copy; an empty message becomes nil, which is the same value here.\<close>

definition clone_json :: "raw \<Rightarrow> raw" where
  "clone_json r = r"

lemma clone_json_id [simp]: "clone_json r = r"
  by (simp add: clone_json_def)

section \<open>Decoding\<close>

text \<open>
  Decoding an object into a \<^verbatim>\<open>map[string]json.RawMessage\<close> finds a key exactly; decoding into a
  struct also accepts a key that differs in (ASCII) letter case when no key matches exactly. A
  decoder returns \<open>None\<close> where \<^verbatim>\<open>json.Unmarshal\<close> returns an error. \<open>null\<close> and a missing
  field leave the zero value.
\<close>

definition fold_char :: "char \<Rightarrow> char" where
  "fold_char c = (let n = of_char c :: nat in if 65 \<le> n \<and> n \<le> 90 then char_of (n + 32) else c)"

definition key_map :: "json \<Rightarrow> json gomap option" where
  "key_map j = (case j of JObj m \<Rightarrow> Some m | JNull \<Rightarrow> Some [] | _ \<Rightarrow> None)"

definition raw_key_map :: "raw \<Rightarrow> json gomap option" where
  "raw_key_map r = (case r of Text _ \<Rightarrow> None | Json j \<Rightarrow> key_map j)"

definition jfield :: "string \<Rightarrow> json gomap \<Rightarrow> json option" where
  "jfield k m =
     (case gget m k of
        Some v \<Rightarrow> Some v
      | None \<Rightarrow> gget (map (\<lambda>(k', v). (map fold_char k', v)) m) (map fold_char k))"

lemma jfield_exact: "gget m k = Some v \<Longrightarrow> jfield k m = Some v"
  by (simp add: jfield_def)

text \<open>On an object with lower-case keys only, as the encoders write them, a lower-case field is found
  exactly.\<close>

definition lower_key :: "string \<Rightarrow> bool" where
  "lower_key k \<longleftrightarrow> map fold_char k = k"

definition lower_keys :: "json gomap \<Rightarrow> bool" where
  "lower_keys m \<longleftrightarrow> list_all (\<lambda>(k, v). lower_key k) m"

lemma jfield_lower: "lower_keys m \<Longrightarrow> lower_key k \<Longrightarrow> jfield k m = gget m k"
proof -
  assume "lower_keys m" "lower_key k"
  then have "map (\<lambda>(k', v). (map fold_char k', v)) m = m"
    by (induction m) (auto simp: lower_keys_def lower_key_def)
  with \<open>lower_key k\<close> show ?thesis by (simp add: jfield_def lower_key_def split: option.split)
qed

lemma lower_keys_simps [simp]:
  "lower_keys []" "lower_keys ((k, v) # m) = (lower_key k \<and> lower_keys m)"
  "lower_keys (m @ n) = (lower_keys m \<and> lower_keys n)"
  by (simp_all add: lower_keys_def)

definition dec_string :: "json option \<Rightarrow> string option" where
  "dec_string v =
     (case v of None \<Rightarrow> Some [] | Some JNull \<Rightarrow> Some [] | Some (JStr s) \<Rightarrow> Some s | _ \<Rightarrow> None)"

definition dec_int64 :: "json option \<Rightarrow> int option" where
  "dec_int64 v =
     (case v of None \<Rightarrow> Some 0 | Some JNull \<Rightarrow> Some 0
      | Some (JInt i) \<Rightarrow> if int64 i then Some i else None
      | _ \<Rightarrow> None)"

definition dec_bool :: "json option \<Rightarrow> bool option" where
  "dec_bool v =
     (case v of None \<Rightarrow> Some False | Some JNull \<Rightarrow> Some False | Some (JBool b) \<Rightarrow> Some b | _ \<Rightarrow> None)"

definition dec_float :: "json option \<Rightarrow> rat option" where
  "dec_float v =
     (case v of None \<Rightarrow> Some 0 | Some JNull \<Rightarrow> Some 0
      | Some (JInt i) \<Rightarrow> Some (of_int i) | Some (JDec r) \<Rightarrow> Some r | _ \<Rightarrow> None)"

definition dec_time :: "json option \<Rightarrow> go_time option" where
  "dec_time v =
     (case v of None \<Rightarrow> Some 0 | Some JNull \<Rightarrow> Some 0 | Some (JTime t) \<Rightarrow> Some t | _ \<Rightarrow> None)"

text \<open>A pointer field: \<open>null\<close> and a missing field are nil.\<close>

definition dec_ptr :: "(json option \<Rightarrow> 'a option) \<Rightarrow> json option \<Rightarrow> 'a option option" where
  "dec_ptr d v =
     (case v of None \<Rightarrow> Some None | Some JNull \<Rightarrow> Some None | Some j \<Rightarrow> map_option Some (d (Some j)))"

text \<open>A slice field; \<open>None\<close> inside is the nil slice.\<close>

fun dec_items :: "(json option \<Rightarrow> 'a option) \<Rightarrow> json list \<Rightarrow> 'a list option" where
  "dec_items d [] = Some []"
| "dec_items d (j # js) =
     (case d (Some j) of None \<Rightarrow> None
      | Some x \<Rightarrow> (case dec_items d js of None \<Rightarrow> None | Some xs \<Rightarrow> Some (x # xs)))"

definition dec_slice :: "(json option \<Rightarrow> 'a option) \<Rightarrow> json option \<Rightarrow> 'a list option option" where
  "dec_slice d v =
     (case v of None \<Rightarrow> Some None | Some JNull \<Rightarrow> Some None
      | Some (JArr js) \<Rightarrow> map_option Some (dec_items d js) | _ \<Rightarrow> None)"

text \<open>Encoders for the same types. \<^verbatim>\<open>float64\<close> values that are integers are written without a
  fraction.\<close>

definition enc_float :: "rat \<Rightarrow> json" where
  "enc_float r = (if r = of_int \<lfloor>r\<rfloor> then JInt \<lfloor>r\<rfloor> else JDec r)"

definition enc_ptr :: "('a \<Rightarrow> json) \<Rightarrow> 'a option \<Rightarrow> json" where
  "enc_ptr e v = (case v of None \<Rightarrow> JNull | Some x \<Rightarrow> e x)"

definition enc_slice :: "('a \<Rightarrow> json) \<Rightarrow> 'a list option \<Rightarrow> json" where
  "enc_slice e v = (case v of None \<Rightarrow> JNull | Some xs \<Rightarrow> JArr (map e xs))"

text \<open>A struct is written field by field; a field tagged \<^verbatim>\<open>omitempty\<close> is left out when empty.\<close>

definition omit_if :: "bool \<Rightarrow> string \<Rightarrow> json \<Rightarrow> json gomap" where
  "omit_if e k j = (if e then [] else [(k, j)])"

lemma gget_omit_if_append:
  "gget (omit_if e k j @ m) k' = (if k' = k \<and> \<not> e then Some j else gget m k')"
  by (simp add: omit_if_def)

lemma gget_omit_if: "gget (omit_if e k j) k' = (if k' = k \<and> \<not> e then Some j else None)"
  by (simp add: omit_if_def)

lemma lower_keys_omit_if [simp]: "lower_keys (omit_if e k j) = (e \<or> lower_key k)"
  by (simp add: omit_if_def)

lemma dec_string_simps [codec_simps]:
  "dec_string None = Some []" "dec_string (Some (JStr s)) = Some s"
  by (simp_all add: dec_string_def)

lemma dec_int64_simps [codec_simps]:
  "dec_int64 None = Some 0" "int64 i \<Longrightarrow> dec_int64 (Some (JInt i)) = Some i"
  by (simp_all add: dec_int64_def)

lemma dec_bool_simps [codec_simps]:
  "dec_bool None = Some False" "dec_bool (Some (JBool b)) = Some b"
  by (simp_all add: dec_bool_def)

lemma dec_float_enc_float [codec_simps]: "dec_float (Some (enc_float r)) = Some r"
  by (simp add: dec_float_def enc_float_def)

lemma dec_time_simps [codec_simps]: "dec_time (Some (JTime t)) = Some t"
  by (simp add: dec_time_def)

lemma dec_ptr_None [codec_simps]: "dec_ptr d None = Some None"
  by (simp add: dec_ptr_def)

lemma dec_ptr_enc_ptr:
  "(\<And>x. v = Some x \<Longrightarrow> d (Some (e x)) = Some x \<and> e x \<noteq> JNull) \<Longrightarrow>
   dec_ptr d (Some (enc_ptr e v)) = Some v"
  by (cases v) (auto simp: dec_ptr_def enc_ptr_def split: json.splits)

lemma dec_items_map: "(\<And>x. x \<in> set xs \<Longrightarrow> d (Some (e x)) = Some x) \<Longrightarrow> dec_items d (map e xs) = Some xs"
  by (induction xs) auto

lemma dec_slice_enc_slice:
  "(\<And>xs x. v = Some xs \<Longrightarrow> x \<in> set xs \<Longrightarrow> d (Some (e x)) = Some x) \<Longrightarrow>
   dec_slice d (Some (enc_slice e v)) = Some v"
  by (cases v) (auto simp: dec_slice_def enc_slice_def dec_items_map)

lemma dec_slice_None [codec_simps]: "dec_slice d None = Some None"
  by (simp add: dec_slice_def)

lemma gunion_Nil_gsorted: "gsorted m \<Longrightarrow> gunion [] m = m"
  by (rule gomap_eqI) (simp_all add: gget_gunion split: option.split)

text \<open>\<^verbatim>\<open>NormalizeJSON\<close> and a canonical schema decode and encode again: object keys become sorted
  and the last of equal keys wins.\<close>

fun jnormalize :: "json \<Rightarrow> json" where
  "jnormalize (JObj m) = JObj (fold (\<lambda>(k, v) acc. gput k v acc) (map (\<lambda>(k, v). (k, jnormalize v)) m) [])"
| "jnormalize (JArr js) = JArr (map jnormalize js)"
| "jnormalize j = j"

end
