(* ===== verification/Job_Types.thy ===== *)
theory Job_Types
  imports Go_Json
begin

text \<open>
  The data types of \<^verbatim>\<open>pkg/jobdb/types.go\<close>, \<^verbatim>\<open>jobs.go\<close>, \<^verbatim>\<open>errors.go\<close> and \<^verbatim>\<open>timeout.go\<close>: job keys
  with their textual form, run policies, error payloads, and the error values that the runtime
  returns, with Go's \<^verbatim>\<open>errors.Is\<close>/\<^verbatim>\<open>errors.As\<close> as functions on the chain of wrapped errors.
  A pointer is an \<^typ>\<open>'a option\<close>. A slice is a list, and an optional list where the code compares
  it with \<^verbatim>\<open>reflect.DeepEqual\<close>, which tells the nil slice from an empty one. Formatted messages
  are kept as their format text without the interpolated values.
\<close>

section \<open>Keys\<close>

datatype JobKey = JobKey (TenantId: string) (JobId: string)

definition JobKey_String :: "JobKey \<Rightarrow> string" where
  "JobKey_String jk = TenantId jk @ ''/'' @ JobId jk"

definition ParseJobKey :: "string \<Rightarrow> JobKey option" where
  "ParseJobKey s =
     (case split_char CHR ''/'' s of [t, j] \<Rightarrow> Some (JobKey t j) | _ \<Rightarrow> None)"

definition JobKey_IsZero :: "JobKey \<Rightarrow> bool" where
  "JobKey_IsZero jk \<longleftrightarrow> TenantId jk = [] \<and> JobId jk = []"

record ArtifactKey =
  ak_JobId :: string
  ak_TaskOrdinal :: int
  ak_Name :: string
  ak_SizeBytes :: int

definition ArtifactKey_Validate :: "ArtifactKey \<Rightarrow> string option" where
  "ArtifactKey_Validate ak =
     (if ak_JobId ak = [] then Some ''jobId cannot be empty''
      else if ak_TaskOrdinal ak < 0 then Some ''taskOrdinal cannot be negative''
      else if ak_Name ak = [] then Some ''artifact name cannot be empty''
      else if ak_SizeBytes ak < -1 then Some ''sizeBytes cannot be less than -1''
      else None)"

definition slash_free :: "JobKey \<Rightarrow> bool" where
  "slash_free jk \<longleftrightarrow> CHR ''/'' \<notin> set (TenantId jk) \<and> CHR ''/'' \<notin> set (JobId jk)"

lemma ParseJobKey_String_aux: "slash_free jk \<Longrightarrow> ParseJobKey (JobKey_String jk) = Some jk"
  by (cases jk) (simp add: slash_free_def JobKey_String_def ParseJobKey_def split_char_append
      split_char_single)

lemma ParseJobKey_Some_aux: "ParseJobKey s = Some jk \<Longrightarrow> slash_free jk \<and> JobKey_String jk = s"
proof -
  assume a: "ParseJobKey s = Some jk"
  then obtain t j where p: "split_char CHR ''/'' s = [t, j]" "jk = JobKey t j"
    by (auto simp: ParseJobKey_def split: list.splits)
  then have "s = t @ CHR ''/'' # j"
    using join_split_char [of "CHR ''/''" s] by simp
  moreover have "CHR ''/'' \<notin> set t" "CHR ''/'' \<notin> set j"
    using split_char_parts [of _ "CHR ''/''" s] p by auto
  ultimately show ?thesis using p by (simp add: slash_free_def JobKey_String_def)
qed

lemma TenantId_of_String:
  "CHR ''/'' \<notin> set (TenantId k) \<Longrightarrow> takeWhile (\<lambda>c. c \<noteq> CHR ''/'') (JobKey_String k) = TenantId k"
  unfolding JobKey_String_def by (subst takeWhile_append2) auto

lemma JobKey_String_inject:
  "CHR ''/'' \<notin> set (TenantId a) \<Longrightarrow> CHR ''/'' \<notin> set (TenantId b) \<Longrightarrow>
   JobKey_String a = JobKey_String b \<longleftrightarrow> a = b"
proof
  assume h: "CHR ''/'' \<notin> set (TenantId a)" "CHR ''/'' \<notin> set (TenantId b)"
    and eq: "JobKey_String a = JobKey_String b"
  from h have "TenantId a = TenantId b" using TenantId_of_String eq by metis
  moreover from this eq have "JobId a = JobId b" by (simp add: JobKey_String_def)
  ultimately show "a = b" by (simp add: JobKey.expand)
qed simp

section \<open>Run policies\<close>

record RetryPolicy =
  InitialInterval :: duration
  BackoffCoefficient :: rat
  MaximumInterval :: duration
  MaximumAttempts :: int
  NonRetryableErrorTypes :: "string list option"

record RunPolicy =
  Retry :: RetryPolicy
  InvocationTimeout :: "duration option"
  TotalTimeout :: "duration option"

definition zero_RetryPolicy :: RetryPolicy where
  "zero_RetryPolicy = \<lparr>InitialInterval = 0, BackoffCoefficient = 0, MaximumInterval = 0,
     MaximumAttempts = 0, NonRetryableErrorTypes = None\<rparr>"

definition zero_RunPolicy :: RunPolicy where
  "zero_RunPolicy = \<lparr>Retry = zero_RetryPolicy, InvocationTimeout = None, TotalTimeout = None\<rparr>"

definition DefaultRunPolicy :: RunPolicy where
  "DefaultRunPolicy = \<lparr>
     Retry = \<lparr>InitialInterval = 100 * millisecond, BackoffCoefficient = 2,
       MaximumInterval = 30 * second, MaximumAttempts = 3,
       NonRetryableErrorTypes = Some [''SystemError'']\<rparr>,
     InvocationTimeout = Some (10 * minute),
     TotalTimeout = Some (30 * minute)\<rparr>"

section \<open>Job life cycle vocabulary\<close>

datatype JobStatus =
    Ready | Expired | PendingJobs | AwaitingFuture | Active | CrashConcern | Cancelled | Completed

type_synonym JobPrereqCondition = string

definition JobPrereqComplete :: JobPrereqCondition where "JobPrereqComplete = ''complete''"
definition JobPrereqSuccess :: JobPrereqCondition where "JobPrereqSuccess = ''success''"

record JobPrerequisite =
  pre_JobID :: string
  pre_Condition :: JobPrereqCondition

section \<open>Error payloads and errors\<close>

record InputReference =
  ref_Ordinal :: int
  ref_Hash :: string

record AppErrorPayload =
  app_Message :: string
  app_Level :: string
  app_Attrs :: "json gomap"
  app_InputRef :: "InputReference option"
  app_Stacktrace :: "string list"

record SystemErrorPayload =
  sys_Message :: string
  sys_Component :: string
  sys_Code :: string
  sys_Retryable :: bool
  sys_InputRef :: "InputReference option"
  sys_Stacktrace :: "string list"

record TimeoutPayload =
  to_Scope :: string
  to_After :: duration
  to_Retryable :: bool
  to_InputRef :: "InputReference option"
  to_Kind :: string
  to_Component :: string
  to_Code :: string
  to_Message :: string

datatype sentinel =
    ErrWorkflowNotDeterministic | ErrMissingInputHash | ErrChapterNotFound | ErrJobNotComplete
  | ErrJobFailed | ErrJobCancelled | ErrJobNotFound | ErrExecutionLeaseLost | ErrConflict
  | ErrExistingJobMismatch | ErrJobSchemaNotFound | ErrJobSchemaArchived | ErrJobSchemaValidation
  | ContextCanceled | ErrReplayShouldNeverMutate

text \<open>
  The errors of \<^verbatim>\<open>pkg/workflow/replay.go\<close> and \<^verbatim>\<open>determinism.go\<close>: replay found no stored result, and
  a stored task has another input than the one that the job passes now.
\<close>

datatype ReplayCacheMissReason =
  ReplayCacheMissTaskResultMissing | ReplayCacheMissJobResultMissing | ReplayCacheMissAwaitNotReady
  | ReplayCacheMissAwaitJobsPending

record ReplayCacheMissError =
  miss_JobKey :: JobKey
  miss_TaskType :: string
  miss_Ordinal :: int
  miss_Attempt :: int
  miss_Reason :: ReplayCacheMissReason

record TaskDeterminismMeta =
  dm_Ordinal :: int
  dm_TaskType :: string
  dm_WorkerID :: string
  dm_CreatedAt :: go_time
  dm_Attempt :: int
  dm_MaxAttempts :: int
  dm_NextAttemptAt :: "go_time option"
  dm_BackoffMillis :: int
  dm_Retryable :: "bool option"
  dm_InputHash :: string
  dm_InputRef :: "InputReference option"
  dm_RunPolicy :: "RunPolicy option"
  dm_InputPayload :: raw
  dm_Version :: int

record TaskInputMismatchError =
  mis_TaskType :: string
  mis_Ordinal :: int
  mis_CachedInputHash :: string
  mis_ComputedInputHash :: string
  mis_CachedInput :: raw
  mis_Meta :: TaskDeterminismMeta

text \<open>
  \<open>Errorf\<close> is \<^verbatim>\<open>fmt.Errorf\<close> without \<^verbatim>\<open>%w\<close>, \<open>Wrap\<close> one with it; \<open>Mismatch\<close> is
  \<^verbatim>\<open>NewExistingJobMismatchError\<close>; \<open>PrereqFailed\<close> is the worker's \<^verbatim>\<open>prereqFailedError\<close>.
\<close>

datatype go_error =
    Sentinel sentinel
  | Errorf string
  | Wrap string go_error
  | Mismatch string
  | AppError AppErrorPayload
  | SystemError SystemErrorPayload
  | TimeoutError TimeoutPayload
  | JobFailed "go_error option"
  | PrereqFailed AppErrorPayload
  | ReplayCacheMiss ReplayCacheMissError
  | TaskInputMismatch TaskInputMismatchError

type_synonym 'a res = "go_error + 'a"

fun unwrap_error :: "go_error \<Rightarrow> go_error option" where
  "unwrap_error (Wrap _ e) = Some e"
| "unwrap_error (JobFailed c) = c"
| "unwrap_error (PrereqFailed p) = Some (AppError p)"
| "unwrap_error (TaskInputMismatch _) = Some (Sentinel ErrWorkflowNotDeterministic)"
| "unwrap_error _ = None"

text \<open>\<^verbatim>\<open>Error()\<close>: the messages of the package's sentinels and of the error types.\<close>

fun sentinel_message :: "sentinel \<Rightarrow> string" where
  "sentinel_message ErrWorkflowNotDeterministic = ''workflow was not deterministic''"
| "sentinel_message ErrMissingInputHash = ''workflow deterministic metadata missing input hash''"
| "sentinel_message ErrChapterNotFound = ''chapter not found''"
| "sentinel_message ErrJobNotComplete = ''job not complete''"
| "sentinel_message ErrJobFailed = ''job failed''"
| "sentinel_message ErrJobCancelled = ''job cancelled''"
| "sentinel_message ErrJobNotFound = ''job not found''"
| "sentinel_message ErrExecutionLeaseLost = ''execution lease lost''"
| "sentinel_message ErrConflict = ''workflow state conflict''"
| "sentinel_message ErrExistingJobMismatch = ''existing job does not match request''"
| "sentinel_message ErrJobSchemaNotFound = ''job schema not found''"
| "sentinel_message ErrJobSchemaArchived = ''job schema is archived''"
| "sentinel_message ErrJobSchemaValidation = ''job schema validation failed''"
| "sentinel_message ContextCanceled = ''context canceled''"
| "sentinel_message ErrReplayShouldNeverMutate = ''replay run should never mutate state''"

text \<open>The error followed by what it wraps, outermost first.\<close>

fun error_chain :: "go_error \<Rightarrow> go_error list" where
  "error_chain (Wrap m e) = Wrap m e # error_chain e"
| "error_chain (JobFailed None) = [JobFailed None]"
| "error_chain (JobFailed (Some e)) = JobFailed (Some e) # error_chain e"
| "error_chain (PrereqFailed p) = [PrereqFailed p, AppError p]"
| "error_chain (TaskInputMismatch m) = [TaskInputMismatch m, Sentinel ErrWorkflowNotDeterministic]"
| "error_chain e = [e]"

text \<open>An error's own \<^verbatim>\<open>Is\<close> method, or equality with the target.\<close>

fun error_is_self :: "sentinel \<Rightarrow> go_error \<Rightarrow> bool" where
  "error_is_self t (Sentinel s) = (s = t)"
| "error_is_self t (Mismatch _) = (t = ErrExistingJobMismatch \<or> t = ErrConflict)"
| "error_is_self t (JobFailed _) = (t = ErrJobFailed)"
| "error_is_self t _ = False"

definition errors_is :: "go_error \<Rightarrow> sentinel \<Rightarrow> bool" where
  "errors_is e t = list_ex (error_is_self t) (error_chain e)"

fun as_app_self :: "go_error \<Rightarrow> AppErrorPayload option" where
  "as_app_self (AppError p) = Some p"
| "as_app_self _ = None"

fun as_system_self :: "go_error \<Rightarrow> SystemErrorPayload option" where
  "as_system_self (SystemError p) = Some p"
| "as_system_self _ = None"

fun as_timeout_self :: "go_error \<Rightarrow> TimeoutPayload option" where
  "as_timeout_self (TimeoutError p) = Some p"
| "as_timeout_self _ = None"

fun as_job_failed_self :: "go_error \<Rightarrow> go_error option option" where
  "as_job_failed_self (JobFailed c) = Some c"
| "as_job_failed_self _ = None"

fun first_some :: "('a \<Rightarrow> 'b option) \<Rightarrow> 'a list \<Rightarrow> 'b option" where
  "first_some f [] = None"
| "first_some f (x # xs) = (case f x of Some y \<Rightarrow> Some y | None \<Rightarrow> first_some f xs)"

definition errors_as_app :: "go_error \<Rightarrow> AppErrorPayload option" where
  "errors_as_app e = first_some as_app_self (error_chain e)"

definition errors_as_system :: "go_error \<Rightarrow> SystemErrorPayload option" where
  "errors_as_system e = first_some as_system_self (error_chain e)"

definition errors_as_timeout :: "go_error \<Rightarrow> TimeoutPayload option" where
  "errors_as_timeout e = first_some as_timeout_self (error_chain e)"

definition errors_as_job_failed :: "go_error \<Rightarrow> go_error option option" where
  "errors_as_job_failed e = first_some as_job_failed_self (error_chain e)"

fun error_message :: "go_error \<Rightarrow> string" where
  "error_message (Sentinel s) = sentinel_message s"
| "error_message (Errorf m) = m"
| "error_message (Wrap m e) = m"
| "error_message (Mismatch m) = (if m = [] then sentinel_message ErrExistingJobMismatch else m)"
| "error_message (AppError p) = app_Message p"
| "error_message (SystemError p) = sys_Message p"
| "error_message (TimeoutError p) = (if to_Message p \<noteq> [] then to_Message p else ''timeout exceeded'')"
| "error_message (JobFailed None) = sentinel_message ErrJobFailed"
| "error_message (JobFailed (Some c)) =
     (if errors_as_job_failed c \<noteq> None then error_message c
      else sentinel_message ErrJobFailed @ '': '' @ error_message c)"
| "error_message (PrereqFailed p) = app_Message p"
| "error_message (ReplayCacheMiss m) = ''replay cache miss''"
| "error_message (TaskInputMismatch m) = ''workflow was not deterministic: input hash mismatch''"

definition IsConflict :: "go_error \<Rightarrow> bool" where
  "IsConflict e = errors_is e ErrConflict"

definition IsExistingJobMismatch :: "go_error \<Rightarrow> bool" where
  "IsExistingJobMismatch e = errors_is e ErrExistingJobMismatch"

definition IsExecutionLeaseLost :: "go_error \<Rightarrow> bool" where
  "IsExecutionLeaseLost e = errors_is e ErrExecutionLeaseLost"

definition IsAppError :: "go_error \<Rightarrow> bool" where
  "IsAppError e \<longleftrightarrow> errors_as_app e \<noteq> None"

definition IsSystemError :: "go_error \<Rightarrow> bool" where
  "IsSystemError e \<longleftrightarrow> errors_as_system e \<noteq> None"

lemmas errors_as_defs = errors_as_app_def errors_as_system_def errors_as_timeout_def
  errors_as_job_failed_def

definition conflict :: "string \<Rightarrow> go_error" where
  "conflict m = Wrap (''workflow state conflict: '' @ m) (Sentinel ErrConflict)"

lemma errors_is_simps [simp]:
  "errors_is (Sentinel s) t = (s = t)"
  "errors_is (Wrap m e) t = errors_is e t"
  "errors_is (Errorf m) t = False"
  "errors_is (Mismatch m) t = (t = ErrExistingJobMismatch \<or> t = ErrConflict)"
  by (auto simp: errors_is_def)

lemma IsConflict_conflict [simp]: "IsConflict (conflict m)"
  by (simp add: IsConflict_def conflict_def)

definition JobKey_Validate :: "JobKey \<Rightarrow> unit res" where
  "JobKey_Validate jk =
     (if TenantId jk = [] then Inl (Errorf ''TenantId cannot be empty'')
      else if JobId jk = [] then Inl (Errorf ''JobId cannot be empty'')
      else Inr ())"

lemma JobKey_Validate_Inr [simp]: "JobKey_Validate jk = Inr u \<longleftrightarrow> TenantId jk \<noteq> [] \<and> JobId jk \<noteq> []"
  by (simp add: JobKey_Validate_def)

end
