(* ===== verification/Retry.thy ===== *)
theory Retry
  imports Job_Types
begin

text \<open>
  Run policies of \<^verbatim>\<open>pkg/jobdb/worker_retry.go\<close>: merging a job's policy over the worker's, the
  backoff between attempts, and which errors are retried. \<^verbatim>\<open>float64\<close> coefficients are rational
  numbers; the one floating-point computation, \<^verbatim>\<open>time.Duration(float64(base) * math.Pow(c, n))\<close>, is
  the argument \<open>scale\<close> of \<open>computeBackoff\<close>, so that the bounds hold for every rounding and
  every conversion of an out-of-range value.
\<close>

definition durationPtrToDuration :: "duration option \<Rightarrow> duration" where
  "durationPtrToDuration d = (case d of None \<Rightarrow> 0 | Some x \<Rightarrow> x)"

definition normalizeTimeout :: "duration option \<Rightarrow> duration option" where
  "normalizeTimeout d = (case d of None \<Rightarrow> None | Some x \<Rightarrow> if x < 0 then None else Some x)"

definition normalizeRetryPolicy :: "RetryPolicy \<Rightarrow> RetryPolicy" where
  "normalizeRetryPolicy policy =
     (let rp = policy;
          rp = (if MaximumAttempts rp \<le> 0 then rp\<lparr>MaximumAttempts := 1\<rparr> else rp);
          rp = (if BackoffCoefficient rp = 0 then rp\<lparr>BackoffCoefficient := 1\<rparr> else rp)
      in rp)"

definition normalizeRunPolicy :: "RunPolicy \<Rightarrow> RunPolicy" where
  "normalizeRunPolicy policy =
     policy\<lparr>Retry := normalizeRetryPolicy (Retry policy),
            InvocationTimeout := normalizeTimeout (InvocationTimeout policy),
            TotalTimeout := normalizeTimeout (TotalTimeout policy)\<rparr>"

definition mergeRetryPolicy :: "RetryPolicy \<Rightarrow> RetryPolicy \<Rightarrow> RetryPolicy" where
  "mergeRetryPolicy override base =
     (let m = base;
          m = (if InitialInterval override \<noteq> 0 then m\<lparr>InitialInterval := InitialInterval override\<rparr> else m);
          m = (if BackoffCoefficient override \<noteq> 0
               then m\<lparr>BackoffCoefficient := BackoffCoefficient override\<rparr> else m);
          m = (if MaximumInterval override \<noteq> 0 then m\<lparr>MaximumInterval := MaximumInterval override\<rparr> else m);
          m = (if MaximumAttempts override \<noteq> 0 then m\<lparr>MaximumAttempts := MaximumAttempts override\<rparr> else m);
          m = (case NonRetryableErrorTypes override of
                 Some (t # ts) \<Rightarrow> m\<lparr>NonRetryableErrorTypes := NonRetryableErrorTypes override\<rparr>
               | _ \<Rightarrow> m)
      in normalizeRetryPolicy m)"

definition mergeRunPolicy :: "RunPolicy \<Rightarrow> RunPolicy \<Rightarrow> RunPolicy" where
  "mergeRunPolicy override base =
     (let m = base\<lparr>Retry := mergeRetryPolicy (Retry override) (Retry base)\<rparr>;
          m = (case InvocationTimeout override of
                 None \<Rightarrow> m
               | Some d \<Rightarrow> m\<lparr>InvocationTimeout := normalizeTimeout (InvocationTimeout override)\<rparr>);
          m = (case TotalTimeout override of
                 None \<Rightarrow> m
               | Some d \<Rightarrow> m\<lparr>TotalTimeout := normalizeTimeout (TotalTimeout override)\<rparr>)
      in normalizeRunPolicy m)"

definition computeBackoff :: "(duration \<Rightarrow> rat \<Rightarrow> int \<Rightarrow> duration) \<Rightarrow> RetryPolicy \<Rightarrow> int \<Rightarrow> duration" where
  "computeBackoff scale rp attempt =
     (let base = InitialInterval rp;
          dur = (if 1 < attempt then scale base (BackoffCoefficient rp) (attempt - 1) else base);
          maxInterval = MaximumInterval rp;
          dur = (if 0 < maxInterval \<and> maxInterval < dur then maxInterval else dur)
      in if dur < 0 then 0 else dur)"

text \<open>The names that \<^verbatim>\<open>reflect\<close> gives the error types: \<^verbatim>\<open>Name()\<close> and \<^verbatim>\<open>String()\<close>.\<close>

fun error_type_names :: "go_error \<Rightarrow> string list" where
  "error_type_names (Sentinel _) = [''errorString'', ''errors.errorString'']"
| "error_type_names (Errorf _) = [''errorString'', ''errors.errorString'']"
| "error_type_names (Wrap _ _) = [''wrapError'', ''fmt.wrapError'']"
| "error_type_names (Mismatch _) = [''existingJobMismatchError'', ''jobdb.existingJobMismatchError'']"
| "error_type_names (AppError _) = [''AppError'', ''jobdb.AppError'']"
| "error_type_names (SystemError _) = [''SystemError'', ''jobdb.SystemError'']"
| "error_type_names (TimeoutError _) = [''TimeoutError'', ''jobdb.TimeoutError'']"
| "error_type_names (JobFailed _) = [''JobFailedError'', ''jobdb.JobFailedError'']"
| "error_type_names (PrereqFailed _) = [''prereqFailedError'', ''workflow.prereqFailedError'']"
| "error_type_names (ReplayCacheMiss _) = [''ReplayCacheMissError'', ''workflow.ReplayCacheMissError'']"
| "error_type_names (TaskInputMismatch _) = [''TaskInputMismatchError'', ''workflow.TaskInputMismatchError'']"

definition errorMatchesTypeName :: "go_error \<Rightarrow> string \<Rightarrow> bool" where
  "errorMatchesTypeName e typeName = list_ex (\<lambda>x. typeName \<in> set (error_type_names x)) (error_chain e)"

fun non_retryable_self :: "go_error \<Rightarrow> unit option" where
  "non_retryable_self (PrereqFailed _) = Some ()"
| "non_retryable_self _ = None"

definition isRetryable :: "go_error option \<Rightarrow> RetryPolicy \<Rightarrow> bool" where
  "isRetryable err policy =
     (case err of
        None \<Rightarrow> False
      | Some e \<Rightarrow>
          (case errors_as_timeout e of
             Some t \<Rightarrow> to_Retryable t
           | None \<Rightarrow>
               if first_some non_retryable_self (error_chain e) \<noteq> None then False
               else if list_ex (errorMatchesTypeName e)
                         (case NonRetryableErrorTypes policy of None \<Rightarrow> [] | Some ts \<Rightarrow> ts) then False
               else if IsSystemError e then True
               else True))"

section \<open>Normal policies\<close>

definition normal_retry :: "RetryPolicy \<Rightarrow> bool" where
  "normal_retry rp \<longleftrightarrow> 1 \<le> MaximumAttempts rp \<and> BackoffCoefficient rp \<noteq> 0"

definition normal_timeout :: "duration option \<Rightarrow> bool" where
  "normal_timeout d \<longleftrightarrow> (case d of None \<Rightarrow> True | Some x \<Rightarrow> 0 \<le> x)"

definition normal_policy :: "RunPolicy \<Rightarrow> bool" where
  "normal_policy p \<longleftrightarrow>
     normal_retry (Retry p) \<and> normal_timeout (InvocationTimeout p) \<and> normal_timeout (TotalTimeout p)"

lemma normal_normalizeRetryPolicy [simp]: "normal_retry (normalizeRetryPolicy rp)"
  by (simp add: normal_retry_def normalizeRetryPolicy_def Let_def)

lemma normalizeRetryPolicy_id [simp]: "normal_retry rp \<Longrightarrow> normalizeRetryPolicy rp = rp"
  by (simp add: normal_retry_def normalizeRetryPolicy_def Let_def)

lemma normal_normalizeTimeout [simp]: "normal_timeout (normalizeTimeout d)"
  by (simp add: normal_timeout_def normalizeTimeout_def split: option.splits)

lemma normalizeTimeout_id [simp]: "normal_timeout d \<Longrightarrow> normalizeTimeout d = d"
  by (simp add: normal_timeout_def normalizeTimeout_def split: option.splits)

lemma normal_normalizeRunPolicy [simp]: "normal_policy (normalizeRunPolicy p)"
  by (simp add: normal_policy_def normalizeRunPolicy_def)

lemma normalizeRunPolicy_id [simp]: "normal_policy p \<Longrightarrow> normalizeRunPolicy p = p"
  by (simp add: normal_policy_def normalizeRunPolicy_def)

lemma normal_mergeRunPolicy [simp]: "normal_policy (mergeRunPolicy o1 b)"
  by (simp add: mergeRunPolicy_def Let_def)

text \<open>The fields of a merged retry policy.\<close>

lemma mergeRetryPolicy_fields:
  "InitialInterval (mergeRetryPolicy ov b) =
     (if InitialInterval ov \<noteq> 0 then InitialInterval ov else InitialInterval b)"
  "BackoffCoefficient (mergeRetryPolicy ov b) =
     (let c = (if BackoffCoefficient ov \<noteq> 0 then BackoffCoefficient ov else BackoffCoefficient b)
      in if c = 0 then 1 else c)"
  "MaximumInterval (mergeRetryPolicy ov b) =
     (if MaximumInterval ov \<noteq> 0 then MaximumInterval ov else MaximumInterval b)"
  "MaximumAttempts (mergeRetryPolicy ov b) =
     max 1 (if MaximumAttempts ov \<noteq> 0 then MaximumAttempts ov else MaximumAttempts b)"
  "NonRetryableErrorTypes (mergeRetryPolicy ov b) =
     (case NonRetryableErrorTypes ov of
        Some (t # ts) \<Rightarrow> NonRetryableErrorTypes ov | _ \<Rightarrow> NonRetryableErrorTypes b)"
  by (simp_all add: mergeRetryPolicy_def normalizeRetryPolicy_def Let_def split: option.split list.split)

lemma RetryPolicy_eqI:
  fixes p q :: RetryPolicy
  shows "InitialInterval p = InitialInterval q \<Longrightarrow> BackoffCoefficient p = BackoffCoefficient q \<Longrightarrow>
    MaximumInterval p = MaximumInterval q \<Longrightarrow> MaximumAttempts p = MaximumAttempts q \<Longrightarrow>
    NonRetryableErrorTypes p = NonRetryableErrorTypes q \<Longrightarrow> p = q"
  by simp

lemma mergeRetryPolicy_absorb: "mergeRetryPolicy ov (mergeRetryPolicy ov b) = mergeRetryPolicy ov b"
  by (rule RetryPolicy_eqI)
    (simp_all add: mergeRetryPolicy_fields Let_def split: option.split list.split)

lemma mergeRetryPolicy_zero: "mergeRetryPolicy zero_RetryPolicy b = normalizeRetryPolicy b"
  by (simp add: mergeRetryPolicy_def zero_RetryPolicy_def)

lemma mergeRunPolicy_InvocationTimeout:
  "InvocationTimeout (mergeRunPolicy ov b) =
     normalizeTimeout (if InvocationTimeout ov = None then InvocationTimeout b else InvocationTimeout ov)"
  by (auto simp: mergeRunPolicy_def normalizeRunPolicy_def Let_def split: option.splits)

lemma mergeRunPolicy_TotalTimeout:
  "TotalTimeout (mergeRunPolicy ov b) =
     normalizeTimeout (if TotalTimeout ov = None then TotalTimeout b else TotalTimeout ov)"
  by (auto simp: mergeRunPolicy_def normalizeRunPolicy_def Let_def split: option.splits)

lemma mergeRunPolicy_Retry: "Retry (mergeRunPolicy ov b) = mergeRetryPolicy (Retry ov) (Retry b)"
  by (auto simp: mergeRunPolicy_def normalizeRunPolicy_def mergeRetryPolicy_def Let_def
      split: option.splits)

lemma RunPolicy_eqI:
  fixes p q :: RunPolicy
  shows "Retry p = Retry q \<Longrightarrow> InvocationTimeout p = InvocationTimeout q \<Longrightarrow>
    TotalTimeout p = TotalTimeout q \<Longrightarrow> p = q"
  by simp

lemmas merge_fields = mergeRunPolicy_Retry mergeRunPolicy_InvocationTimeout mergeRunPolicy_TotalTimeout

section \<open>Properties\<close>




end
