(* ===== verification/Job_Failed.thy ===== *)
theory Job_Failed
  imports Retry
begin

text \<open>
  The envelope of a failed job: \<^verbatim>\<open>pkg/jobdb/job_failed_error.go\<close> and the error half of
  \<^verbatim>\<open>worker_envelope.go\<close>. A \<^verbatim>\<open>JobFailedError\<close> is stored as an application error whose attributes
  carry the kind and the fields of its cause; reading the stored payload gives the error back. The
  textual form of a duration (\<^verbatim>\<open>time.Duration.String\<close> and \<^verbatim>\<open>time.ParseDuration\<close>) is a pair of
  arguments \<open>fmt_dur\<close>, \<open>parse_dur\<close>; the one fact the code relies on, that the second reads
  back what the first writes, is the predicate \<open>duration_text\<close>.
\<close>

section \<open>JSON of the payloads\<close>

definition enc_InputReference :: "InputReference \<Rightarrow> json" where
  "enc_InputReference r =
     JObj ([(''ordinal'', JInt (ref_Ordinal r))] @ omit_if (ref_Hash r = []) ''hash'' (JStr (ref_Hash r)))"

definition dec_InputReference :: "json option \<Rightarrow> InputReference option" where
  "dec_InputReference v =
     (case v of None \<Rightarrow> Some \<lparr>ref_Ordinal = 0, ref_Hash = []\<rparr>
      | Some j \<Rightarrow>
          (case key_map j of None \<Rightarrow> None
           | Some m \<Rightarrow>
               (case (dec_int64 (jfield ''ordinal'' m), dec_string (jfield ''hash'' m)) of
                  (Some ord, Some h) \<Rightarrow> Some \<lparr>ref_Ordinal = ord, ref_Hash = h\<rparr>
                | _ \<Rightarrow> None)))"

definition enc_strings :: "string list \<Rightarrow> json" where
  "enc_strings xs = JArr (map JStr xs)"

definition dec_strings :: "json option \<Rightarrow> string list option" where
  "dec_strings v =
     (case dec_slice dec_string v of None \<Rightarrow> None | Some None \<Rightarrow> Some [] | Some (Some xs) \<Rightarrow> Some xs)"

definition dec_attrs :: "json option \<Rightarrow> json gomap option" where
  "dec_attrs v =
     (case v of None \<Rightarrow> Some [] | Some j \<Rightarrow> map_option (gunion []) (key_map j))"

definition enc_ref_field :: "InputReference option \<Rightarrow> json gomap" where
  "enc_ref_field r = (case r of None \<Rightarrow> [] | Some x \<Rightarrow> [(''input_ref'', enc_InputReference x)])"

definition enc_AppErrorPayload :: "AppErrorPayload \<Rightarrow> json" where
  "enc_AppErrorPayload p =
     JObj ([(''message'', JStr (app_Message p))]
       @ omit_if (app_Level p = []) ''level'' (JStr (app_Level p))
       @ omit_if (app_Attrs p = []) ''attrs'' (JObj (app_Attrs p))
       @ enc_ref_field (app_InputRef p)
       @ omit_if (app_Stacktrace p = []) ''stacktrace'' (enc_strings (app_Stacktrace p)))"

definition dec_AppErrorPayload :: "raw \<Rightarrow> AppErrorPayload option" where
  "dec_AppErrorPayload r =
     (case raw_key_map r of None \<Rightarrow> None
      | Some m \<Rightarrow>
          (case (dec_string (jfield ''message'' m), dec_string (jfield ''level'' m),
                 dec_attrs (jfield ''attrs'' m), dec_ptr dec_InputReference (jfield ''input_ref'' m),
                 dec_strings (jfield ''stacktrace'' m)) of
             (Some msg, Some lvl, Some att, Some ref, Some st) \<Rightarrow>
               Some \<lparr>app_Message = msg, app_Level = lvl, app_Attrs = att, app_InputRef = ref,
                     app_Stacktrace = st\<rparr>
           | _ \<Rightarrow> None))"

definition enc_SystemErrorPayload :: "SystemErrorPayload \<Rightarrow> json" where
  "enc_SystemErrorPayload p =
     JObj ([(''message'', JStr (sys_Message p))]
       @ omit_if (sys_Component p = []) ''component'' (JStr (sys_Component p))
       @ omit_if (sys_Code p = []) ''code'' (JStr (sys_Code p))
       @ omit_if (\<not> sys_Retryable p) ''retryable'' (JBool (sys_Retryable p))
       @ enc_ref_field (sys_InputRef p)
       @ omit_if (sys_Stacktrace p = []) ''stacktrace'' (enc_strings (sys_Stacktrace p)))"

definition dec_SystemErrorPayload :: "raw \<Rightarrow> SystemErrorPayload option" where
  "dec_SystemErrorPayload r =
     (case raw_key_map r of None \<Rightarrow> None
      | Some m \<Rightarrow>
          (case (dec_string (jfield ''message'' m), dec_string (jfield ''component'' m),
                 dec_string (jfield ''code'' m), dec_bool (jfield ''retryable'' m),
                 dec_ptr dec_InputReference (jfield ''input_ref'' m),
                 dec_strings (jfield ''stacktrace'' m)) of
             (Some msg, Some cmp, Some cd, Some rt, Some ref, Some st) \<Rightarrow>
               Some \<lparr>sys_Message = msg, sys_Component = cmp, sys_Code = cd, sys_Retryable = rt,
                     sys_InputRef = ref, sys_Stacktrace = st\<rparr>
           | _ \<Rightarrow> None))"

definition enc_TimeoutPayload :: "TimeoutPayload \<Rightarrow> json" where
  "enc_TimeoutPayload p =
     JObj ([(''scope'', JStr (to_Scope p)), (''after'', JInt (to_After p)),
            (''retryable'', JBool (to_Retryable p))]
       @ enc_ref_field (to_InputRef p)
       @ omit_if (to_Kind p = []) ''kind'' (JStr (to_Kind p))
       @ omit_if (to_Component p = []) ''component'' (JStr (to_Component p))
       @ omit_if (to_Code p = []) ''code'' (JStr (to_Code p))
       @ omit_if (to_Message p = []) ''message'' (JStr (to_Message p)))"

definition dec_TimeoutPayload :: "raw \<Rightarrow> TimeoutPayload option" where
  "dec_TimeoutPayload r =
     (case raw_key_map r of None \<Rightarrow> None
      | Some m \<Rightarrow>
          (case (dec_string (jfield ''scope'' m), dec_int64 (jfield ''after'' m),
                 dec_bool (jfield ''retryable'' m), dec_ptr dec_InputReference (jfield ''input_ref'' m),
                 dec_string (jfield ''kind'' m), dec_string (jfield ''component'' m),
                 dec_string (jfield ''code'' m), dec_string (jfield ''message'' m)) of
             (Some sc, Some af, Some rt, Some ref, Some kd, Some cmp, Some cd, Some msg) \<Rightarrow>
               Some \<lparr>to_Scope = sc, to_After = af, to_Retryable = rt, to_InputRef = ref, to_Kind = kd,
                     to_Component = cmp, to_Code = cd, to_Message = msg\<rparr>
           | _ \<Rightarrow> None))"

section \<open>Reading back a payload\<close>

definition ref_ok :: "InputReference option \<Rightarrow> bool" where
  "ref_ok r \<longleftrightarrow> (case r of None \<Rightarrow> True | Some x \<Rightarrow> int64 (ref_Ordinal x))"

lemma payload_keys_lower [simp]:
  "lower_key ''message''" "lower_key ''level''" "lower_key ''attrs''" "lower_key ''input_ref''"
  "lower_key ''stacktrace''" "lower_key ''component''" "lower_key ''code''" "lower_key ''retryable''"
  "lower_key ''scope''" "lower_key ''after''" "lower_key ''kind''" "lower_key ''ordinal''"
  "lower_key ''hash''"
  by (simp_all add: lower_key_def fold_char_def)

lemma lower_keys_enc_ref_field [simp]: "lower_keys (enc_ref_field r)"
  by (simp add: enc_ref_field_def split: option.split)

lemma dec_enc_InputReference:
  "int64 (ref_Ordinal r) \<Longrightarrow> dec_InputReference (Some (enc_InputReference r)) = Some r"
  by (cases "ref_Hash r = []")
    (simp_all add: dec_InputReference_def enc_InputReference_def key_map_def jfield_lower omit_if_def
      codec_simps)

lemma dec_strings_enc_strings:
  "dec_strings None = Some []" "dec_strings (Some (enc_strings xs)) = Some xs"
  by (simp_all add: dec_strings_def enc_strings_def dec_slice_def dec_items_map codec_simps)

lemma dec_ref_field:
  "ref_ok r \<Longrightarrow> dec_ptr dec_InputReference (map_option enc_InputReference r) = Some r"
proof (cases r)
  case (Some x)
  moreover assume "ref_ok r"
  moreover obtain m where "enc_InputReference x = JObj m" by (simp add: enc_InputReference_def)
  ultimately show ?thesis
    using dec_enc_InputReference [of x] by (simp add: ref_ok_def dec_ptr_def)
qed (simp add: dec_ptr_def)

lemma dec_attrs_simps:
  "dec_attrs None = Some []" "gsorted m \<Longrightarrow> dec_attrs (Some (JObj m)) = Some m"
  by (simp_all add: dec_attrs_def key_map_def gunion_Nil_gsorted)

lemma gget_enc_ref_field_append:
  "gget (enc_ref_field r @ m) k =
     (if k = ''input_ref'' \<and> r \<noteq> None then map_option enc_InputReference r else gget m k)"
  by (cases r) (simp_all add: enc_ref_field_def)

lemmas payload_decoding = raw_key_map_def key_map_def jfield_lower gget_omit_if_append gget_omit_if
  gget_enc_ref_field_append dec_strings_enc_strings dec_ref_field dec_attrs_simps

lemma dec_enc_AppErrorPayload:
  "ref_ok (app_InputRef p) \<Longrightarrow> gsorted (app_Attrs p) \<Longrightarrow>
   dec_AppErrorPayload (Json (enc_AppErrorPayload p)) = Some p"
  by (simp add: dec_AppErrorPayload_def enc_AppErrorPayload_def payload_decoding codec_simps
      del: map_of_append)

lemma dec_enc_SystemErrorPayload:
  "ref_ok (sys_InputRef p) \<Longrightarrow> dec_SystemErrorPayload (Json (enc_SystemErrorPayload p)) = Some p"
  by (simp add: dec_SystemErrorPayload_def enc_SystemErrorPayload_def payload_decoding codec_simps
      del: map_of_append)

lemma dec_enc_TimeoutPayload:
  "ref_ok (to_InputRef p) \<Longrightarrow> int64 (to_After p) \<Longrightarrow>
   dec_TimeoutPayload (Json (enc_TimeoutPayload p)) = Some p"
  by (simp add: dec_TimeoutPayload_def enc_TimeoutPayload_def payload_decoding codec_simps
      del: map_of_append)

section \<open>The failed-job envelope\<close>

definition jobFailedAttrKey :: string where "jobFailedAttrKey = ''_jobdb_job_failed''"
definition jobFailedKindAttrKey :: string where "jobFailedKindAttrKey = ''_jobdb_job_failed_kind''"
definition jobFailedCodeAttrKey :: string where "jobFailedCodeAttrKey = ''_jobdb_job_failed_code''"
definition jobFailedComponentAttrKey :: string where
  "jobFailedComponentAttrKey = ''_jobdb_job_failed_component''"
definition jobFailedRetryableAttrKey :: string where
  "jobFailedRetryableAttrKey = ''_jobdb_job_failed_retryable''"
definition jobFailedScopeAttrKey :: string where "jobFailedScopeAttrKey = ''_jobdb_job_failed_scope''"
definition jobFailedAfterAttrKey :: string where "jobFailedAfterAttrKey = ''_jobdb_job_failed_after''"

lemmas attr_key_defs = jobFailedAttrKey_def jobFailedKindAttrKey_def jobFailedCodeAttrKey_def
  jobFailedComponentAttrKey_def jobFailedRetryableAttrKey_def jobFailedScopeAttrKey_def
  jobFailedAfterAttrKey_def

definition reserved_attr :: "string \<Rightarrow> bool" where
  "reserved_attr k \<longleftrightarrow>
     k \<in> {jobFailedAttrKey, jobFailedKindAttrKey, jobFailedCodeAttrKey, jobFailedComponentAttrKey,
          jobFailedRetryableAttrKey, jobFailedScopeAttrKey, jobFailedAfterAttrKey}"

definition attrString :: "json gomap \<Rightarrow> string \<Rightarrow> string" where
  "attrString attrs key = (case gget attrs key of Some (JStr s) \<Rightarrow> s | _ \<Rightarrow> [])"

definition attrBool :: "json gomap \<Rightarrow> string \<Rightarrow> bool" where
  "attrBool attrs key = (case gget attrs key of Some (JBool b) \<Rightarrow> b | _ \<Rightarrow> False)"

definition jobFailedMarked :: "json gomap \<Rightarrow> bool" where
  "jobFailedMarked attrs = (case gget attrs jobFailedAttrKey of Some (JBool b) \<Rightarrow> b | _ \<Rightarrow> False)"

definition stripJobFailedAttrs :: "json gomap \<Rightarrow> json gomap" where
  "stripJobFailedAttrs attrs = gfilter (\<lambda>k. \<not> reserved_attr k) attrs"

definition TaskErrorKindApp :: string where "TaskErrorKindApp = ''APP''"
definition TaskErrorKindSystem :: string where "TaskErrorKindSystem = ''SYSTEM''"
definition TaskErrorKindTimeout :: string where "TaskErrorKindTimeout = ''TIMEOUT''"

lemmas kind_defs = TaskErrorKindApp_def TaskErrorKindSystem_def TaskErrorKindTimeout_def

text \<open>Returns the message, the level, and the attributes that Go's map argument holds afterwards.\<close>

definition encodeJobFailedCause ::
  "(duration \<Rightarrow> string) \<Rightarrow> go_error \<Rightarrow> json gomap \<Rightarrow> string \<times> string \<times> json gomap" where
  "encodeJobFailedCause fmt_dur cause attrs =
     (case errors_as_timeout cause of
        Some p \<Rightarrow>
          (let a = gput jobFailedKindAttrKey (JStr TaskErrorKindTimeout) attrs;
               a = gput jobFailedComponentAttrKey (JStr (to_Component p)) a;
               a = gput jobFailedCodeAttrKey (JStr (to_Code p)) a;
               a = gput jobFailedRetryableAttrKey (JBool (to_Retryable p)) a;
               a = gput jobFailedScopeAttrKey (JStr (to_Scope p)) a;
               a = (if to_After p \<noteq> 0 then gput jobFailedAfterAttrKey (JStr (fmt_dur (to_After p))) a else a)
           in (to_Message p, ''error'', a))
      | None \<Rightarrow>
     (case errors_as_system cause of
        Some p \<Rightarrow>
          (let a = gput jobFailedKindAttrKey (JStr TaskErrorKindSystem) attrs;
               a = gput jobFailedComponentAttrKey (JStr (sys_Component p)) a;
               a = gput jobFailedCodeAttrKey (JStr (sys_Code p)) a;
               a = gput jobFailedRetryableAttrKey (JBool (sys_Retryable p)) a
           in (sys_Message p, ''error'', a))
      | None \<Rightarrow>
     (case errors_as_app cause of
        Some p \<Rightarrow>
          (let a = gput jobFailedKindAttrKey (JStr TaskErrorKindApp) attrs
           in (app_Message p, app_Level p, gunion a (app_Attrs p)))
      | None \<Rightarrow> (error_message cause, ''error'', attrs))))"

definition trimJobFailedPrefix :: "string \<Rightarrow> string" where
  "trimJobFailedPrefix message =
     (let p = sentinel_message ErrJobFailed @ '': ''
      in if prefix p message then drop (length p) message else message)"

text \<open>\<open>None\<close> is the \<^verbatim>\<open>false\<close> of the last result: not a failed job. The payload is returned before
  it is marshalled.\<close>

definition encodeJobFailedError ::
  "(duration \<Rightarrow> string) \<Rightarrow> go_error \<Rightarrow> InputReference option \<Rightarrow> AppErrorPayload option" where
  "encodeJobFailedError fmt_dur err inputRef =
     (if \<not> errors_is err ErrJobFailed then None
      else
        let attrs = [(jobFailedAttrKey, JBool True)];
            (message, level, attrs) =
              (case errors_as_job_failed err of
                 Some (Some cause) \<Rightarrow> encodeJobFailedCause fmt_dur cause attrs
               | _ \<Rightarrow> (trimJobFailedPrefix (error_message err), ''error'', attrs))
        in Some \<lparr>app_Message = message, app_Level = level, app_Attrs = attrs,
                 app_InputRef = inputRef, app_Stacktrace = []\<rparr>)"

definition decodeJobFailedAppError ::
  "(string \<Rightarrow> duration option) \<Rightarrow> AppErrorPayload \<Rightarrow> go_error option" where
  "decodeJobFailedAppError parse_dur payload =
     (let attrs = app_Attrs payload in
      if \<not> jobFailedMarked attrs then None
      else if attrString attrs jobFailedKindAttrKey = TaskErrorKindTimeout then
        (let raw = attrString attrs jobFailedAfterAttrKey;
             after = (if raw \<noteq> [] then (case parse_dur raw of Some d \<Rightarrow> d | None \<Rightarrow> 0) else 0)
         in Some (JobFailed (Some (TimeoutError
              \<lparr>to_Scope = attrString attrs jobFailedScopeAttrKey, to_After = after,
               to_Retryable = attrBool attrs jobFailedRetryableAttrKey,
               to_InputRef = app_InputRef payload, to_Kind = [],
               to_Component = attrString attrs jobFailedComponentAttrKey,
               to_Code = attrString attrs jobFailedCodeAttrKey,
               to_Message = app_Message payload\<rparr>))))
      else if attrString attrs jobFailedKindAttrKey = TaskErrorKindSystem then
        Some (JobFailed (Some (SystemError
          \<lparr>sys_Message = app_Message payload,
           sys_Component = attrString attrs jobFailedComponentAttrKey,
           sys_Code = attrString attrs jobFailedCodeAttrKey,
           sys_Retryable = attrBool attrs jobFailedRetryableAttrKey,
           sys_InputRef = app_InputRef payload, sys_Stacktrace = app_Stacktrace payload\<rparr>)))
      else
        Some (JobFailed (Some (AppError
          \<lparr>app_Message = app_Message payload, app_Level = app_Level payload,
           app_Attrs = stripJobFailedAttrs attrs, app_InputRef = app_InputRef payload,
           app_Stacktrace = app_Stacktrace payload\<rparr>))))"

section \<open>Error payloads of chapters\<close>

definition payloadKindApp :: string where "payloadKindApp = ''App''"
definition payloadKindAppError :: string where "payloadKindAppError = ''AppError''"
definition payloadKindSystemError :: string where "payloadKindSystemError = ''SystemError''"
definition payloadKindTimeout :: string where "payloadKindTimeout = ''Timeout''"

lemmas payload_kind_defs = payloadKindApp_def payloadKindAppError_def payloadKindSystemError_def
  payloadKindTimeout_def

definition errorPayloadFromError ::
  "(duration \<Rightarrow> string) \<Rightarrow> go_error \<Rightarrow> InputReference option \<Rightarrow> raw \<times> string" where
  "errorPayloadFromError fmt_dur err inputRef =
     (case encodeJobFailedError fmt_dur err inputRef of
        Some payload \<Rightarrow> (Json (enc_AppErrorPayload payload), payloadKindAppError)
      | None \<Rightarrow>
     (case errors_as_timeout err of
        Some p \<Rightarrow> (Json (enc_TimeoutPayload (p\<lparr>to_InputRef := inputRef\<rparr>)), payloadKindTimeout)
      | None \<Rightarrow>
     (case errors_as_system err of
        Some p \<Rightarrow> (Json (enc_SystemErrorPayload (p\<lparr>sys_InputRef := inputRef\<rparr>)), payloadKindSystemError)
      | None \<Rightarrow>
     (case errors_as_app err of
        Some p \<Rightarrow> (Json (enc_AppErrorPayload (p\<lparr>app_InputRef := inputRef\<rparr>)), payloadKindAppError)
      | None \<Rightarrow>
          (Json (enc_AppErrorPayload
             \<lparr>app_Message = error_message err, app_Level = ''error'', app_Attrs = [],
              app_InputRef = inputRef, app_Stacktrace = []\<rparr>), payloadKindAppError)))))"

text \<open>The error half of \<^verbatim>\<open>envelopeToTaskData\<close> (the data half is a copy of the payload).\<close>

definition envelopeError :: "(string \<Rightarrow> duration option) \<Rightarrow> string \<Rightarrow> raw \<Rightarrow> go_error option" where
  "envelopeError parse_dur kind payload =
     (if kind = payloadKindApp then None
      else if kind = payloadKindTimeout then
        (case dec_TimeoutPayload payload of
           None \<Rightarrow> Some (Errorf ''json: cannot unmarshal payload'')
         | Some p \<Rightarrow> Some (TimeoutError p))
      else if kind = payloadKindAppError then
        (case dec_AppErrorPayload payload of
           None \<Rightarrow> Some (Errorf ''json: cannot unmarshal payload'')
         | Some p \<Rightarrow>
             (case decodeJobFailedAppError parse_dur p of
                Some e \<Rightarrow> Some e | None \<Rightarrow> Some (AppError p)))
      else if kind = payloadKindSystemError then
        (case dec_SystemErrorPayload payload of
           None \<Rightarrow> Some (Errorf ''json: cannot unmarshal payload'')
         | Some p \<Rightarrow> Some (SystemError p))
      else Some (Errorf ''unsupported payload kind''))"

section \<open>What is stored of an error\<close>

definition stored_cause :: "InputReference option \<Rightarrow> go_error \<Rightarrow> go_error" where
  "stored_cause ref cause =
     (case errors_as_timeout cause of
        Some p \<Rightarrow> TimeoutError (p\<lparr>to_InputRef := ref, to_Kind := []\<rparr>)
      | None \<Rightarrow>
     (case errors_as_system cause of
        Some p \<Rightarrow> SystemError (p\<lparr>sys_InputRef := ref, sys_Stacktrace := []\<rparr>)
      | None \<Rightarrow>
     (case errors_as_app cause of
        Some p \<Rightarrow> AppError (p\<lparr>app_InputRef := ref, app_Stacktrace := []\<rparr>)
      | None \<Rightarrow> AppError \<lparr>app_Message = error_message cause, app_Level = ''error'', app_Attrs = [],
                        app_InputRef = ref, app_Stacktrace = []\<rparr>)))"

definition stored_error :: "InputReference option \<Rightarrow> go_error \<Rightarrow> go_error" where
  "stored_error ref err =
     (if errors_is err ErrJobFailed then
        JobFailed (Some (case errors_as_job_failed err of
            Some (Some cause) \<Rightarrow> stored_cause ref cause
          | _ \<Rightarrow> AppError \<lparr>app_Message = trimJobFailedPrefix (error_message err), app_Level = ''error'',
                    app_Attrs = [], app_InputRef = ref, app_Stacktrace = []\<rparr>))
      else
     (case errors_as_timeout err of
        Some p \<Rightarrow> TimeoutError (p\<lparr>to_InputRef := ref\<rparr>)
      | None \<Rightarrow>
     (case errors_as_system err of
        Some p \<Rightarrow> SystemError (p\<lparr>sys_InputRef := ref\<rparr>)
      | None \<Rightarrow>
     (case errors_as_app err of
        Some p \<Rightarrow> AppError (p\<lparr>app_InputRef := ref\<rparr>)
      | None \<Rightarrow> AppError \<lparr>app_Message = error_message err, app_Level = ''error'', app_Attrs = [],
                        app_InputRef = ref, app_Stacktrace = []\<rparr>))))"

text \<open>Errors whose durations fit and whose attributes leave the envelope's keys alone.\<close>

definition clean_error :: "go_error \<Rightarrow> bool" where
  "clean_error e \<longleftrightarrow>
     (\<forall>x \<in> set (error_chain e).
        case x of TimeoutError p \<Rightarrow> int64 (to_After p)
        | AppError p \<Rightarrow> gsorted (app_Attrs p) \<and> list_all (\<lambda>(k, v). \<not> reserved_attr k) (app_Attrs p)
        | _ \<Rightarrow> True)"

definition duration_text :: "(duration \<Rightarrow> string) \<Rightarrow> (string \<Rightarrow> duration option) \<Rightarrow> bool" where
  "duration_text fmt_dur parse_dur \<longleftrightarrow>
     (\<forall>d. int64 d \<longrightarrow> fmt_dur d \<noteq> [] \<and> parse_dur (fmt_dur d) = Some d)"

lemma first_some_in: "first_some f xs = Some y \<Longrightarrow> \<exists>x \<in> set xs. f x = Some y"
  by (induction xs) (auto split: option.splits)

lemma as_self_iff [simp]:
  "as_timeout_self x = Some t \<longleftrightarrow> x = TimeoutError t"
  "as_system_self x = Some s \<longleftrightarrow> x = SystemError s"
  "as_app_self x = Some a \<longleftrightarrow> x = AppError a"
  "as_job_failed_self x = Some c \<longleftrightarrow> x = JobFailed c"
  by (cases x; auto)+

lemma clean_timeout: "clean_error e \<Longrightarrow> errors_as_timeout e = Some p \<Longrightarrow> int64 (to_After p)"
proof -
  assume c: "clean_error e" and a: "errors_as_timeout e = Some p"
  from a obtain x where x: "x \<in> set (error_chain e)" "x = TimeoutError p"
    unfolding errors_as_timeout_def by (fastforce dest: first_some_in)
  with c show ?thesis unfolding clean_error_def by fastforce
qed

lemma clean_app:
  assumes "clean_error e" "errors_as_app e = Some p"
  shows "gsorted (app_Attrs p) \<and> list_all (\<lambda>(k, v). \<not> reserved_attr k) (app_Attrs p)"
proof -
  from assms(2) obtain x where x: "x \<in> set (error_chain e)" "x = AppError p"
    unfolding errors_as_app_def by (fastforce dest: first_some_in)
  with assms(1) show ?thesis unfolding clean_error_def by fastforce
qed

lemma error_chain_self: "\<exists>xs. error_chain e = e # xs"
  by (induction e rule: error_chain.induct) auto

lemma clean_job_failed_cause:
  "clean_error e \<Longrightarrow> errors_as_job_failed e = Some (Some c) \<Longrightarrow> clean_error c"
proof (induction e rule: error_chain.induct)
  case (1 m e)
  then show ?case by (auto simp: errors_as_job_failed_def clean_error_def)
next
  case (3 e)
  then show ?case by (auto simp: errors_as_job_failed_def clean_error_def)
qed (auto simp: errors_as_job_failed_def)

lemma unreserved_gget: "list_all (\<lambda>(k, v). \<not> reserved_attr k) m \<Longrightarrow> reserved_attr k \<Longrightarrow> gget m k = None"
  by (induction m) auto

lemma stripJobFailedAttrs_id:
  "list_all (\<lambda>(k, v). \<not> reserved_attr k) m \<Longrightarrow> stripJobFailedAttrs m = m"
  unfolding stripJobFailedAttrs_def gfilter_def
  by (rule filter_True) (auto simp: list_all_iff)

lemma reserved_attr_keys [simp]:
  "reserved_attr jobFailedAttrKey" "reserved_attr jobFailedKindAttrKey"
  "reserved_attr jobFailedCodeAttrKey" "reserved_attr jobFailedComponentAttrKey"
  "reserved_attr jobFailedRetryableAttrKey" "reserved_attr jobFailedScopeAttrKey"
  "reserved_attr jobFailedAfterAttrKey"
  by (simp_all add: reserved_attr_def)

lemma gsorted_single [simp]: "gsorted [(k, v)]"
  by (simp add: gsorted_def)

lemma attr_keys_distinct [simp]:
  "jobFailedAttrKey \<noteq> jobFailedKindAttrKey" "jobFailedAttrKey \<noteq> jobFailedCodeAttrKey"
  "jobFailedAttrKey \<noteq> jobFailedComponentAttrKey" "jobFailedAttrKey \<noteq> jobFailedRetryableAttrKey"
  "jobFailedAttrKey \<noteq> jobFailedScopeAttrKey" "jobFailedAttrKey \<noteq> jobFailedAfterAttrKey"
  "jobFailedKindAttrKey \<noteq> jobFailedCodeAttrKey" "jobFailedKindAttrKey \<noteq> jobFailedComponentAttrKey"
  "jobFailedKindAttrKey \<noteq> jobFailedRetryableAttrKey" "jobFailedKindAttrKey \<noteq> jobFailedScopeAttrKey"
  "jobFailedKindAttrKey \<noteq> jobFailedAfterAttrKey" "jobFailedCodeAttrKey \<noteq> jobFailedComponentAttrKey"
  "jobFailedCodeAttrKey \<noteq> jobFailedRetryableAttrKey" "jobFailedCodeAttrKey \<noteq> jobFailedScopeAttrKey"
  "jobFailedCodeAttrKey \<noteq> jobFailedAfterAttrKey"
  "jobFailedComponentAttrKey \<noteq> jobFailedRetryableAttrKey"
  "jobFailedComponentAttrKey \<noteq> jobFailedScopeAttrKey"
  "jobFailedComponentAttrKey \<noteq> jobFailedAfterAttrKey"
  "jobFailedRetryableAttrKey \<noteq> jobFailedScopeAttrKey"
  "jobFailedRetryableAttrKey \<noteq> jobFailedAfterAttrKey"
  "jobFailedScopeAttrKey \<noteq> jobFailedAfterAttrKey"
  by (simp_all add: attr_key_defs)

lemmas attr_key_neqs = attr_keys_distinct attr_keys_distinct [symmetric]

text \<open>The attributes that the encoder hands to the decoder, for each kind of cause.\<close>

lemma decode_encoded_cause:
  assumes "clean_error cause" "duration_text fmt_dur parse_dur"
    and "encodeJobFailedCause fmt_dur cause [(jobFailedAttrKey, JBool True)] = (m, l, a)"
  shows "gsorted a \<and> decodeJobFailedAppError parse_dur
           \<lparr>app_Message = m, app_Level = l, app_Attrs = a, app_InputRef = ref, app_Stacktrace = []\<rparr>
         = Some (JobFailed (Some (stored_cause ref cause)))"
proof (cases "errors_as_timeout cause")
  case (Some p)
  with assms clean_timeout [OF assms(1) Some] show ?thesis
    by (auto simp: encodeJobFailedCause_def stored_cause_def decodeJobFailedAppError_def
        jobFailedMarked_def attrString_def attrBool_def attr_key_neqs duration_text_def Let_def
        split: if_splits)
next
  case nt: None
  show ?thesis
  proof (cases "errors_as_system cause")
    case (Some p)
    with assms nt show ?thesis
      by (auto simp: encodeJobFailedCause_def stored_cause_def decodeJobFailedAppError_def
          jobFailedMarked_def attrString_def attrBool_def attr_key_neqs kind_defs Let_def)
  next
    case ns: None
    show ?thesis
    proof (cases "errors_as_app cause")
      case (Some p)
      let ?a = "gput jobFailedKindAttrKey (JStr TaskErrorKindApp) [(jobFailedAttrKey, JBool True)]"
      have p: "gsorted (app_Attrs p)" "list_all (\<lambda>(k, v). \<not> reserved_attr k) (app_Attrs p)"
        using clean_app [OF assms(1) Some] by auto
      have a: "m = app_Message p" "l = app_Level p" "a = gunion ?a (app_Attrs p)"
        using assms(3) nt ns Some by (simp_all add: encodeJobFailedCause_def Let_def)
      have k: "gget a jobFailedAttrKey = Some (JBool True)"
        "gget a jobFailedKindAttrKey = Some (JStr TaskErrorKindApp)"
        using p by (simp_all add: a(3) gget_gunion unreserved_gget attr_key_neqs)
      have "stripJobFailedAttrs a = app_Attrs p"
      proof (rule gomap_eqI)
        show "gget (stripJobFailedAttrs a) k = gget (app_Attrs p) k" for k
          using p unreserved_gget [OF p(2), of k]
          by (auto simp: stripJobFailedAttrs_def a(3) gget_gunion split: option.split)
      qed (use p in \<open>simp_all add: a(3) stripJobFailedAttrs_def\<close>)
      with k p show ?thesis
        using nt ns Some
        by (simp add: decodeJobFailedAppError_def stored_cause_def jobFailedMarked_def attrString_def
            kind_defs a Let_def)
    next
      case None
      with assms nt ns show ?thesis
        by (auto simp: encodeJobFailedCause_def stored_cause_def decodeJobFailedAppError_def
            jobFailedMarked_def attrString_def attr_key_neqs kind_defs stripJobFailedAttrs_def
            gfilter_def Let_def)
    qed
  qed
qed

lemma unreserved_not_marked: "list_all (\<lambda>(k, v). \<not> reserved_attr k) m \<Longrightarrow> \<not> jobFailedMarked m"
  by (simp add: jobFailedMarked_def unreserved_gget)

lemma unmarked_not_decoded: "\<not> jobFailedMarked (app_Attrs p) \<Longrightarrow> decodeJobFailedAppError parse_dur p = None"
  by (simp add: decodeJobFailedAppError_def)

lemma trimmed_decoded:
  "decodeJobFailedAppError parse_dur
     \<lparr>app_Message = m, app_Level = l, app_Attrs = [(jobFailedAttrKey, JBool True)], app_InputRef = ref,
      app_Stacktrace = []\<rparr>
   = Some (JobFailed (Some (AppError \<lparr>app_Message = m, app_Level = l, app_Attrs = [],
       app_InputRef = ref, app_Stacktrace = []\<rparr>)))"
  by (simp add: decodeJobFailedAppError_def jobFailedMarked_def attrString_def kind_defs
      stripJobFailedAttrs_def gfilter_def attr_key_neqs Let_def)

lemma decode_encoded_job_failed:
  assumes "clean_error e" "duration_text fmt_dur parse_dur"
    and "encodeJobFailedError fmt_dur e ref = Some p"
  shows "gsorted (app_Attrs p) \<and> app_InputRef p = ref
    \<and> decodeJobFailedAppError parse_dur p = Some (stored_error ref e)"
proof (cases "\<exists>c. errors_as_job_failed e = Some (Some c)")
  case True
  then obtain c where c: "errors_as_job_failed e = Some (Some c)" by blast
  obtain m l a where mla: "encodeJobFailedCause fmt_dur c [(jobFailedAttrKey, JBool True)] = (m, l, a)"
    by (cases "encodeJobFailedCause fmt_dur c [(jobFailedAttrKey, JBool True)]") auto
  have "clean_error c" using assms(1) c by (rule clean_job_failed_cause)
  from decode_encoded_cause [OF this assms(2) mla, of ref] show ?thesis
    using assms(3) c mla by (auto simp: encodeJobFailedError_def stored_error_def split: if_splits)
next
  case False
  then have "errors_as_job_failed e = None \<or> errors_as_job_failed e = Some None"
    by (cases "errors_as_job_failed e") auto
  then show ?thesis
    using assms(3) by (auto simp: encodeJobFailedError_def stored_error_def trimmed_decoded
        split: if_splits)
qed

lemma dec_enc_clean_app:
  assumes "clean_error e" "errors_as_app e = Some p" "ref_ok ref"
  shows "envelopeError parse_dur payloadKindAppError (Json (enc_AppErrorPayload (p\<lparr>app_InputRef := ref\<rparr>)))
    = Some (AppError (p\<lparr>app_InputRef := ref\<rparr>))"
  using clean_app [OF assms(1,2)] assms(3)
  by (simp add: envelopeError_def payload_kind_defs dec_enc_AppErrorPayload unmarked_not_decoded
      unreserved_not_marked)



lemma as_through_job_failed:
  "errors_as_job_failed e = Some (Some c) \<Longrightarrow>
   errors_as_timeout e = errors_as_timeout c \<and> errors_as_system e = errors_as_system c
   \<and> errors_as_app e = errors_as_app c"
  by (induction e rule: error_chain.induct) (auto simp: errors_as_defs)

lemma no_cause_no_payload:
  "errors_is e ErrJobFailed \<Longrightarrow> (\<nexists>c. errors_as_job_failed e = Some (Some c)) \<Longrightarrow>
   errors_as_timeout e = None \<and> errors_as_system e = None"
  by (induction e rule: error_chain.induct) (auto simp: errors_as_defs errors_is_def)

lemma as_stored_cause:
  "map_option to_Retryable (errors_as_timeout (stored_cause ref c))
     = map_option to_Retryable (errors_as_timeout c)"
  "errors_as_timeout c = None \<Longrightarrow> IsSystemError (stored_cause ref c) = IsSystemError c"
  "stored_cause ref (stored_cause ref c) = stored_cause ref c"
  by (auto simp: stored_cause_def errors_as_defs IsSystemError_def split: option.splits)

lemma errors_as_JobFailed:
  "errors_is (JobFailed c) ErrJobFailed" "errors_as_job_failed (JobFailed c) = Some c"
  "errors_as_timeout (JobFailed (Some x)) = errors_as_timeout x"
  "errors_as_system (JobFailed (Some x)) = errors_as_system x"
  by (cases c; simp add: errors_is_def errors_as_defs)+


end
