(* ===== verification/Failure_Policy.thy ===== *)
theory Failure_Policy
  imports Prelude
begin

text \<open>
  The failure history of a schedule: \<^verbatim>\<open>AppendScheduleFailureBit\<close> and
  \<^verbatim>\<open>ScheduleFailurePolicyViolated\<close> of \<^verbatim>\<open>pkg/jobdb/schedule.go\<close>. The code keeps the history as
  a string of \<^verbatim>\<open>'0'\<close> and \<^verbatim>\<open>'1'\<close> that travels in the metadata of every occurrence; the abstract
  history is the list of outcomes, and the lemmas show that the string operations implement it.
\<close>

record ScheduleFailurePolicy =
  MinSuccessPercent :: int
  WindowSize :: int
  MaxSequentialFailures :: int

section \<open>The operations\<close>

text \<open>\<^verbatim>\<open>bits[len(bits)-windowSize:]\<close> for \<open>0 < windowSize < len(bits)\<close>.\<close>

definition AppendScheduleFailureBit :: "string \<Rightarrow> bool \<Rightarrow> int \<Rightarrow> string" where
  "AppendScheduleFailureBit bits success windowSize =
     (let bits = (if list_ex (\<lambda>ch. ch \<noteq> CHR ''0'' \<and> ch \<noteq> CHR ''1'') bits then [] else bits);
          bits = bits @ (if success then ''1'' else ''0'')
      in if 0 < windowSize \<and> windowSize < int (length bits)
         then drop (length bits - nat windowSize) bits else bits)"

text \<open>The loop that counts trailing failures: \<open>n\<close> is the loop index plus one.\<close>

fun trailing_loop :: "string \<Rightarrow> nat \<Rightarrow> int \<Rightarrow> int" where
  "trailing_loop bits 0 count = count"
| "trailing_loop bits (Suc i) count =
     (if bits ! i \<noteq> CHR ''0'' then count else trailing_loop bits i (count + 1))"

text \<open>The loop that counts successes and outcomes.\<close>

fun percent_loop :: "string \<Rightarrow> int \<Rightarrow> int \<Rightarrow> int \<times> int" where
  "percent_loop [] successes tot = (successes, tot)"
| "percent_loop (ch # cs) successes tot =
     (if ch = CHR ''1'' then percent_loop cs (successes + 1) (tot + 1)
      else if ch = CHR ''0'' then percent_loop cs successes (tot + 1)
      else percent_loop cs successes tot)"

definition ScheduleFailurePolicyViolated :: "string \<Rightarrow> ScheduleFailurePolicy \<Rightarrow> bool" where
  "ScheduleFailurePolicyViolated bits policy =
     (if bits = [] then False
      else if 0 < MaxSequentialFailures policy
              \<and> MaxSequentialFailures policy \<le> trailing_loop bits (length bits) 0 then True
      else if 0 < MinSuccessPercent policy then
        (let (successes, tot) = percent_loop bits 0 0
         in 0 < tot \<and> successes * 100 < MinSuccessPercent policy * tot)
      else False)"

section \<open>The abstract history\<close>

definition bit_of :: "bool \<Rightarrow> char" where
  "bit_of b = (if b then CHR ''1'' else CHR ''0'')"

definition bits_of :: "bool list \<Rightarrow> string" where
  "bits_of os = map bit_of os"

definition last_n :: "int \<Rightarrow> 'a list \<Rightarrow> 'a list" where
  "last_n w xs = (if 0 < w then drop (length xs - nat w) xs else xs)"

definition history_violates :: "ScheduleFailurePolicy \<Rightarrow> bool list \<Rightarrow> bool" where
  "history_violates p os \<longleftrightarrow>
     os \<noteq> [] \<and>
     (0 < MaxSequentialFailures p \<and> MaxSequentialFailures p \<le> int (length (takeWhile Not (rev os)))
      \<or> 0 < MinSuccessPercent p
        \<and> int (length (filter id os)) * 100 < MinSuccessPercent p * int (length os))"

lemma bits_of_Nil [simp]: "bits_of [] = []"
  by (simp add: bits_of_def)

lemma length_bits_of [simp]: "length (bits_of os) = length os"
  by (simp add: bits_of_def)

lemma bits_of_valid: "\<not> list_ex (\<lambda>ch. ch \<noteq> CHR ''0'' \<and> ch \<noteq> CHR ''1'') (bits_of os)"
  by (auto simp: bits_of_def bit_of_def list_ex_iff)

lemma length_last_n: "0 < w \<Longrightarrow> int (length (last_n w xs)) \<le> w"
  by (simp add: last_n_def)

lemma last_n_snoc: "last_n w (last_n w xs @ [x]) = last_n w (xs @ [x])"
proof (cases "0 < w \<and> nat w < length xs")
  case True
  then have "Suc (length xs) - (length xs - nat w + nat w) + (length xs - nat w) = Suc (length xs) - nat w"
    by arith
  with True show ?thesis by (simp add: last_n_def Suc_diff_le)
qed (auto simp: last_n_def)

lemma append_last_n:
  "AppendScheduleFailureBit (bits_of os) b w = bits_of (last_n w (os @ [b]))"
  using bits_of_valid [of os]
  by (simp add: AppendScheduleFailureBit_def Let_def last_n_def bits_of_def bit_of_def drop_map)

lemma trailing_loop_eq:
  "n \<le> length os \<Longrightarrow>
   trailing_loop (bits_of os) n c = c + int (length (takeWhile Not (rev (take n os))))"
proof (induction n arbitrary: c)
  case 0
  then show ?case by simp
next
  case (Suc n)
  then have "take (Suc n) os = take n os @ [os ! n]" by (simp add: take_Suc_conv_app_nth)
  with Suc show ?case by (auto simp: bits_of_def bit_of_def)
qed

lemma percent_loop_eq:
  "percent_loop (bits_of os) s t = (s + int (length (filter id os)), t + int (length os))"
  by (induction os arbitrary: s t) (auto simp: bits_of_def bit_of_def)

lemma violated_bits_of: "ScheduleFailurePolicyViolated (bits_of os) p = history_violates p os"
  by (auto simp: ScheduleFailurePolicyViolated_def history_violates_def trailing_loop_eq percent_loop_eq
      bits_of_def [of os, symmetric] split: if_splits) (simp add: bits_of_def)+

lemma fold_append_last_n:
  "fold (\<lambda>b bits. AppendScheduleFailureBit bits b w) os [] = bits_of (last_n w os)"
proof (induction os rule: rev_induct)
  case Nil
  then show ?case by (simp add: last_n_def)
next
  case (snoc x xs)
  then show ?case by (simp add: append_last_n last_n_snoc)
qed

section \<open>Properties\<close>

text \<open>C6: Recording outcomes one by one, starting from no history, leaves exactly the last window of
  outcomes (all of them when no window is set), and the window bounds the stored string.\<close>

theorem failure_bits_are_last_window:
  "fold (\<lambda>b bits. AppendScheduleFailureBit bits b w) os [] = bits_of (last_n w os)
   \<and> (w \<le> 0 \<or> int (length (fold (\<lambda>b bits. AppendScheduleFailureBit bits b w) os [])) \<le> w)"
  using length_last_n [of w os] by (cases "0 < w") (simp_all add: fold_append_last_n)

text \<open>C7: The policy check on a recorded history is the policy on outcomes: it blocks the next run when
  the run of failures at the end reaches the limit, or when the percentage of successes is below the
  minimum; an empty history never blocks.\<close>

theorem failure_policy_decides_history:
  "ScheduleFailurePolicyViolated (fold (\<lambda>b bits. AppendScheduleFailureBit bits b w) os []) p
   = history_violates p (last_n w os)"
  by (simp add: fold_append_last_n violated_bits_of)

end
