(* ===== verification/Calendar.thy ===== *)
theory Calendar
  imports Go_Strings
begin

text \<open>
  What the sources use of Go's \<^verbatim>\<open>time\<close> package for civil time: the year, month, day, weekday, clock
  fields of an instant, and \<^verbatim>\<open>Format\<close> with the layout \<^verbatim>\<open>20060102T150405\<close>. Instants are nanoseconds
  since 0001-01-01 00:00 UTC (a Monday). The date is computed as \<^verbatim>\<open>time.absDate\<close> does it, by cycles of
  400, 100, 4 and 1 years; the lemmas show that the fields determine the instant.
\<close>

definition ns_per_second :: int where "ns_per_second = 1000000000"
definition ns_per_day :: int where "ns_per_day = 86400 * 1000000000"

definition day_number :: "go_time \<Rightarrow> int" where "day_number t = t div ns_per_day"
definition second_of_day :: "go_time \<Rightarrow> int" where "second_of_day t = t mod ns_per_day div ns_per_second"

definition time_Nanosecond :: "go_time \<Rightarrow> int" where "time_Nanosecond t = t mod ns_per_second"
definition time_Second :: "go_time \<Rightarrow> int" where "time_Second t = second_of_day t mod 60"
definition time_Minute :: "go_time \<Rightarrow> int" where "time_Minute t = second_of_day t div 60 mod 60"
definition time_Hour :: "go_time \<Rightarrow> int" where "time_Hour t = second_of_day t div 3600"
definition time_Weekday :: "go_time \<Rightarrow> int" where "time_Weekday t = (day_number t + 1) mod 7"

text \<open>The year and the day of the year (from 0) of a day number.\<close>

definition year_yday :: "int \<Rightarrow> int \<times> int" where
  "year_yday d =
     (let n400 = d div 146097; d1 = d mod 146097;
          n100 = min 3 (d1 div 36524); d2 = d1 - 36524 * n100;
          n4 = d2 div 1461; d3 = d2 - 1461 * n4;
          n1 = min 3 (d3 div 365); yday = d3 - 365 * n1
      in (1 + 400 * n400 + 100 * n100 + 4 * n4 + n1, yday))"

definition is_leap :: "int \<Rightarrow> bool" where
  "is_leap y \<longleftrightarrow> y mod 4 = 0 \<and> (y mod 100 \<noteq> 0 \<or> y mod 400 = 0)"

definition month_lengths :: "bool \<Rightarrow> int list" where
  "month_lengths leap = [31, if leap then 29 else 28, 31, 30, 31, 30, 31, 31, 30, 31, 30, 31]"

text \<open>The month (from \<open>m\<close>) and the day of the month (from 1) of a day offset.\<close>

fun month_day :: "int list \<Rightarrow> int \<Rightarrow> int \<Rightarrow> int \<times> int" where
  "month_day [] m d = (m, d + 1)"
| "month_day (l # ls) m d = (if d < l \<or> ls = [] then (m, d + 1) else month_day ls (m + 1) (d - l))"

definition time_Date :: "go_time \<Rightarrow> int \<times> int \<times> int" where
  "time_Date t =
     (let (y, yday) = year_yday (day_number t); (m, d) = month_day (month_lengths (is_leap y)) 1 yday
      in (y, m, d))"

definition time_Year :: "go_time \<Rightarrow> int" where "time_Year t = fst (time_Date t)"
definition time_Month :: "go_time \<Rightarrow> int" where "time_Month t = fst (snd (time_Date t))"
definition time_Day :: "go_time \<Rightarrow> int" where "time_Day t = snd (snd (time_Date t))"

section \<open>The date determines the day\<close>

definition days_before_year :: "int \<Rightarrow> int" where
  "days_before_year y = 365 * (y - 1) + (y - 1) div 4 - (y - 1) div 100 + (y - 1) div 400"

lemma div_bounds: "0 < k \<Longrightarrow> k * (x div k) \<le> x \<and> x < k * (x div k) + k" for k x :: int
  using pos_mod_bound [of k x] pos_mod_sign [of k x] by (simp add: minus_mult_div_eq_mod [symmetric])

lemma year_yday_parts:
  assumes "year_yday d = (y, yday)"
  obtains n400 n100 n4 n1 where
    "y = 1 + 400 * n400 + 100 * n100 + 4 * n4 + n1"
    "d = 146097 * n400 + 36524 * n100 + 1461 * n4 + 365 * n1 + yday"
    "0 \<le> n100" "n100 \<le> 3" "0 \<le> n4" "n4 \<le> 24" "0 \<le> n1" "n1 \<le> 3" "0 \<le> yday" "yday \<le> 365"
proof -
  obtain n400 where n400: "n400 = d div 146097" by simp
  obtain d1 where d1: "d1 = d mod 146097" by simp
  obtain q1 where q1: "q1 = d1 div 36524" by simp
  obtain n100 where n100: "n100 = min 3 q1" by simp
  obtain d2 where d2: "d2 = d1 - 36524 * n100" by simp
  obtain n4 where n4: "n4 = d2 div 1461" by simp
  obtain d3 where d3: "d3 = d2 - 1461 * n4" by simp
  obtain q3 where q3: "q3 = d3 div 365" by simp
  obtain n1 where n1: "n1 = min 3 q3" by simp
  have e: "y = 1 + 400 * n400 + 100 * n100 + 4 * n4 + n1" "yday = d3 - 365 * n1"
    using assms by (simp_all only: year_yday_def Let_def n400 d1 q1 n100 d2 n4 d3 q3 n1 prod.inject)
  have a: "d = 146097 * n400 + d1" "0 \<le> d1" "d1 < 146097" by (simp_all only: n400 d1, simp_all)
  have "36524 * q1 \<le> d1 \<and> d1 < 36524 * q1 + 36524" using div_bounds [of 36524 d1] q1 by simp
  then have b: "0 \<le> d2" "d2 \<le> 36524" "0 \<le> n100" "n100 \<le> 3"
    unfolding d2 n100 min_def using a by (simp_all split: if_split)
  have "1461 * n4 \<le> d2 \<and> d2 < 1461 * n4 + 1461" using div_bounds [of 1461 d2] n4 by simp
  then have c: "0 \<le> d3" "d3 < 1461" "0 \<le> n4" "n4 \<le> 24" using b d3 by simp_all
  have "365 * q3 \<le> d3 \<and> d3 < 365 * q3 + 365" using div_bounds [of 365 d3] q3 by simp
  then have f: "0 \<le> n1" "n1 \<le> 3" "0 \<le> yday" "yday \<le> 365"
    unfolding e(2) n1 min_def using c by (simp_all split: if_split)
  have "d = 146097 * n400 + 36524 * n100 + 1461 * n4 + 365 * n1 + yday"
    using a(1) d2 d3 e(2) by linarith
  with e(1) b c f show thesis by (intro that)
qed

lemma year_yday_correct:
  assumes "year_yday d = (y, yday)"
  shows "d = days_before_year y + yday" "0 \<le> yday" "yday \<le> 365"
proof -
  from assms obtain a b c e where
    h: "y = 1 + 400 * a + 100 * b + 4 * c + e"
    "d = 146097 * a + 36524 * b + 1461 * c + 365 * e + yday"
    "0 \<le> b" "b \<le> 3" "0 \<le> c" "c \<le> 24" "0 \<le> e" "e \<le> 3" "0 \<le> yday" "yday \<le> 365"
    by (rule year_yday_parts)
  have "(y - 1) div 4 = 100 * a + 25 * b + c"
    using h by (intro int_div_pos_eq [where r = e]) simp_all
  moreover have "(y - 1) div 100 = 4 * a + b"
    using h by (intro int_div_pos_eq [where r = "4 * c + e"]) simp_all
  moreover have "(y - 1) div 400 = a"
    using h by (intro int_div_pos_eq [where r = "100 * b + 4 * c + e"]) simp_all
  ultimately show "d = days_before_year y + yday" using h by (simp add: days_before_year_def)
  show "0 \<le> yday" "yday \<le> 365" using h by simp_all
qed

lemma month_day_correct:
  assumes "month_day ls m d = (m', d')" "0 \<le> d" "d \<le> sum_list ls" "ls \<noteq> []"
    "list_all (\<lambda>l. 0 \<le> l \<and> l \<le> 31) ls"
  shows "m \<le> m' \<and> m' < m + int (length ls) \<and> 1 \<le> d' \<and> d' \<le> 32
    \<and> d + 1 = sum_list (take (nat (m' - m)) ls) + d'"
  using assms
proof (induction ls m d arbitrary: m' d' rule: month_day.induct)
  case (2 l ls m d)
  show ?case
  proof (cases "d < l \<or> ls = []")
    case False
    with 2 have "m + 1 \<le> m' \<and> m' < m + 1 + int (length ls) \<and> 1 \<le> d' \<and> d' \<le> 32
      \<and> d - l + 1 = sum_list (take (nat (m' - (m + 1))) ls) + d'"
      by simp
    moreover from this have "nat (m' - m) = Suc (nat (m' - (m + 1)))" by (simp add: Suc_nat_eq_nat_zadd1)
    ultimately show ?thesis by simp
  qed (use 2 in auto)
qed simp

definition valid_date :: "int \<times> int \<times> int \<Rightarrow> bool" where
  "valid_date x = (case x of (y, m, d) \<Rightarrow> 1 \<le> m \<and> m \<le> 12 \<and> 1 \<le> d \<and> d \<le> 32)"

definition day_of_date :: "int \<times> int \<times> int \<Rightarrow> int" where
  "day_of_date x = (case x of (y, m, d) \<Rightarrow>
     days_before_year y + sum_list (take (nat (m - 1)) (month_lengths (is_leap y))) + d - 1)"

lemma time_Date_correct: "valid_date (time_Date t) \<and> day_of_date (time_Date t) = day_number t"
proof -
  obtain y yd where y: "year_yday (day_number t) = (y, yd)" by (cases "year_yday (day_number t)")
  obtain m d where m: "month_day (month_lengths (is_leap y)) 1 yd = (m, d)"
    by (cases "month_day (month_lengths (is_leap y)) 1 yd")
  note c = year_yday_correct [OF y]
  have "1 \<le> m \<and> m < 1 + int (length (month_lengths (is_leap y))) \<and> 1 \<le> d \<and> d \<le> 32
    \<and> yd + 1 = sum_list (take (nat (m - 1)) (month_lengths (is_leap y))) + d"
    by (rule month_day_correct [OF m]) (use c in \<open>simp_all add: month_lengths_def\<close>)
  with c y m show ?thesis
    by (simp add: time_Date_def valid_date_def day_of_date_def month_lengths_def)
qed

lemma clock_bounds:
  "0 \<le> time_Minute t" "time_Minute t < 60" "0 \<le> time_Hour t" "time_Hour t < 24"
  "0 \<le> time_Second t" "time_Second t < 60" "0 \<le> time_Nanosecond t" "time_Nanosecond t < 1000000000"
  "0 \<le> time_Weekday t" "time_Weekday t < 7"
proof -
  have "0 \<le> t mod ns_per_day" "t mod ns_per_day < ns_per_day" by (simp_all add: ns_per_day_def)
  then have s: "0 \<le> second_of_day t" "second_of_day t < 86400"
    using div_bounds [of ns_per_second "t mod ns_per_day"]
    by (simp_all add: second_of_day_def ns_per_second_def ns_per_day_def pos_imp_zdiv_nonneg_iff)
  then have "0 \<le> second_of_day t div 3600" "second_of_day t div 3600 < 24"
    using div_bounds [of 3600 "second_of_day t"] by (simp_all add: pos_imp_zdiv_nonneg_iff)
  then show "0 \<le> time_Hour t" "time_Hour t < 24" by (simp_all add: time_Hour_def)
qed (simp_all add: time_Minute_def time_Second_def time_Nanosecond_def time_Weekday_def ns_per_second_def)

text \<open>An instant is determined by its fields.\<close>

lemma time_of_fields:
  "t = day_of_date (time_Date t) * ns_per_day
     + (time_Hour t * 3600 + time_Minute t * 60 + time_Second t) * ns_per_second + time_Nanosecond t"
proof -
  define s where "s = second_of_day t"
  have "s = s div 3600 * 3600 + s div 60 mod 60 * 60 + s mod 60"
  proof -
    have "s div 3600 = s div 60 div 60" using zdiv_zmult2_eq [of 60 s 60] by simp
    then show ?thesis using div_mult_mod_eq [of s 60] div_mult_mod_eq [of "s div 60" 60] by linarith
  qed
  then have s: "s = time_Hour t * 3600 + time_Minute t * 60 + time_Second t"
    by (simp add: time_Hour_def time_Minute_def time_Second_def s_def)
  have "t mod ns_per_day mod ns_per_second = t mod ns_per_second"
    by (simp add: mod_mod_cancel ns_per_day_def ns_per_second_def)
  then have "t mod ns_per_day = s * ns_per_second + time_Nanosecond t"
    using div_mult_mod_eq [of "t mod ns_per_day" ns_per_second]
    by (simp add: s_def second_of_day_def time_Nanosecond_def)
  then have "t = day_number t * ns_per_day + (s * ns_per_second + time_Nanosecond t)"
    using div_mult_mod_eq [of t ns_per_day] by (simp add: day_number_def)
  then show ?thesis using time_Date_correct [of t] s by simp
qed

section \<open>Formatting\<close>

text \<open>\<^verbatim>\<open>%0wd\<close> of a natural number: padded to at least \<open>w\<close> digits; and of an integer.\<close>

definition pad_min :: "nat \<Rightarrow> nat \<Rightarrow> string" where
  "pad_min w n = (if n < 10 ^ w then pad_digits w n else nat_digits n)"

definition pad_int :: "nat \<Rightarrow> int \<Rightarrow> string" where
  "pad_int w i = (if i < 0 then CHR ''-'' # pad_min w (nat (- i)) else pad_min w (nat i))"

lemma pad_min_value: "digits_value 0 (pad_min w n) = Some n"
  by (simp add: pad_min_def digits_value_pad_digits digits_value_nat_digits)

lemma pad_min_digits: "c \<in> set (pad_min w n) \<Longrightarrow> is_digit c"
  by (auto simp: pad_min_def pad_digits_are_digits nat_digits_are_digits split: if_splits)

lemma pad_min_inject: "pad_min w m = pad_min w n \<longleftrightarrow> m = n"
  using pad_min_value by (metis option.inject)

lemma pad_min_not_minus: "pad_min w n \<noteq> CHR ''-'' # xs"
proof
  assume "pad_min w n = CHR ''-'' # xs"
  then have "is_digit CHR ''-''" using pad_min_digits [of "CHR ''-''" w n] by simp
  then show False by (simp add: is_digit_def char_digit_def)
qed

lemma pad_int_inject: "pad_int w i = pad_int w j \<longleftrightarrow> i = j"
proof (cases "i < 0"; cases "j < 0")
  assume "i < 0" "\<not> j < 0"
  then show ?thesis using pad_min_not_minus [of w "nat j", symmetric] by (auto simp: pad_int_def)
next
  assume "\<not> i < 0" "j < 0"
  then show ?thesis using pad_min_not_minus [of w "nat i"] by (auto simp: pad_int_def)
qed (auto simp: pad_int_def pad_min_inject)

text \<open>\<^verbatim>\<open>t.Format("20060102T150405")\<close>\<close>

definition format_stamp :: "go_time \<Rightarrow> string" where
  "format_stamp t =
     pad_int 4 (time_Year t) @ pad_digits 2 (nat (time_Month t)) @ pad_digits 2 (nat (time_Day t)) @
     ''T'' @ pad_digits 2 (nat (time_Hour t)) @ pad_digits 2 (nat (time_Minute t)) @
     pad_digits 2 (nat (time_Second t))"

lemma append_pieces:
  fixes a a' :: string
  assumes "a @ b @ c @ u @ d @ e @ f @ g @ z = a' @ b' @ c' @ u @ d' @ e' @ f' @ g' @ z"
    "length b = length b'" "length c = length c'" "length d = length d'" "length e = length e'"
    "length f = length f'" "length g = length g'"
  shows "a = a'" "b = b'" "c = c'" "d = d'" "e = e'" "f = f'" "g = g'"
  using assms by simp_all

lemma format_stamp_nanos_inject:
  assumes "format_stamp s @ pad_digits 9 (nat (time_Nanosecond s)) @ z
         = format_stamp t @ pad_digits 9 (nat (time_Nanosecond t)) @ z"
  shows "s = t"
proof -
  have e: "pad_int 4 (time_Year s) = pad_int 4 (time_Year t)"
    "pad_digits 2 (nat (time_Month s)) = pad_digits 2 (nat (time_Month t))"
    "pad_digits 2 (nat (time_Day s)) = pad_digits 2 (nat (time_Day t))"
    "pad_digits 2 (nat (time_Hour s)) = pad_digits 2 (nat (time_Hour t))"
    "pad_digits 2 (nat (time_Minute s)) = pad_digits 2 (nat (time_Minute t))"
    "pad_digits 2 (nat (time_Second s)) = pad_digits 2 (nat (time_Second t))"
    "pad_digits 9 (nat (time_Nanosecond s)) = pad_digits 9 (nat (time_Nanosecond t))"
    using append_pieces [OF assms [unfolded format_stamp_def append_assoc]] by simp_all
  have v: "valid_date (time_Date t)" "valid_date (time_Date s)" using time_Date_correct by blast+
  then have m: "0 \<le> time_Month t" "time_Month t < 100" "0 \<le> time_Month s" "time_Month s < 100"
    "0 \<le> time_Day t" "time_Day t < 100" "0 \<le> time_Day s" "time_Day s < 100"
    by (auto simp: valid_date_def time_Month_def time_Day_def split: prod.splits)
  have "time_Year s = time_Year t" using e(1) by (simp add: pad_int_inject)
  moreover have "time_Month s = time_Month t" "time_Day s = time_Day t"
    using e(2,3) m by (simp_all add: pad_digits_inject)
  ultimately have d: "time_Date s = time_Date t"
    by (simp add: time_Year_def time_Month_def time_Day_def prod_eq_iff)
  have "time_Hour s = time_Hour t" "time_Minute s = time_Minute t" "time_Second s = time_Second t"
    "time_Nanosecond s = time_Nanosecond t"
    using e(4-7) clock_bounds [of s] clock_bounds [of t] by (simp_all add: pad_digits_inject)
  with d show ?thesis using time_of_fields [of s] time_of_fields [of t] by simp
qed

end
