(* ===== verification/Cron.thy ===== *)
theory Cron
  imports Calendar Job_Types
begin

text \<open>
  Schedule triggers, \<^verbatim>\<open>pkg/jobdb/schedule_trigger.go\<close>: parsing of cron expressions and the next fire
  time of a trigger. The time zone database is the argument \<open>load_location\<close>: a zone is its offset
  from UTC, in nanoseconds, at each instant. A Go \<^verbatim>\<open>map[int]bool\<close> that is only filled and tested is an
  \<^typ>\<open>int set\<close>. The marking loop of \<^verbatim>\<open>parseCronField\<close> adds the step with the wrap-around of
  \<^verbatim>\<open>int\<close>, and runs on fuel; \<open>cron_marks_returns\<close> shows that the fuel is enough for every
  range and step that the callers pass.
\<close>

datatype ScheduleTriggerKind = TriggerCron | TriggerInterval | TriggerOther string

record ScheduleTrigger =
  trg_Kind :: ScheduleTriggerKind
  trg_Expression :: string
  trg_Timezone :: string
  trg_StartAt :: "go_time option"
  trg_EndAt :: "go_time option"
  trg_Interval :: duration

type_synonym zone = "go_time \<Rightarrow> int"
type_synonym zone_db = "string \<Rightarrow> zone option"

definition UTC :: zone where "UTC t = 0"

section \<open>Cron expressions\<close>

record cronSpec =
  minutes :: "int set"
  hours :: "int set"
  days :: "int set"
  months :: "int set"
  weekdays :: "int set"

fun cron_marks :: "nat \<Rightarrow> bool \<Rightarrow> int \<Rightarrow> int \<Rightarrow> int \<Rightarrow> int set \<Rightarrow> int set option" where
  "cron_marks fuel sundayAlias step stop v out =
     (if v \<le> stop then
        case fuel of
          0 \<Rightarrow> None
        | Suc n \<Rightarrow>
            cron_marks n sundayAlias step stop (wrap64 (v + step))
              (insert (if sundayAlias \<and> v = 7 then 0 else v) out)
      else Some out)"

declare cron_marks.simps [simp del]

definition cronRange :: "string \<Rightarrow> int \<Rightarrow> int \<Rightarrow> (int \<times> int) res" where
  "cronRange part lo hi =
     (if part = ''*'' then Inr (lo, hi)
      else if CHR ''-'' \<in> set part then
        (case split_char CHR ''-'' part of
           [p0, p1] \<Rightarrow>
             (case atoi p0 of
                None \<Rightarrow> Inl (Errorf ''invalid range start'')
              | Some start \<Rightarrow>
                  (case atoi p1 of
                     None \<Rightarrow> Inl (Errorf ''invalid range end'')
                   | Some stop \<Rightarrow>
                       if stop < start then Inl (Errorf ''range start greater than end'')
                       else if start < lo \<or> hi < stop then Inl (Errorf ''range out of bounds'')
                       else Inr (start, stop)))
         | _ \<Rightarrow> Inl (Errorf ''invalid range''))
      else
        (case atoi part of
           None \<Rightarrow> Inl (Errorf ''invalid value'')
         | Some value \<Rightarrow>
             if value < lo \<or> hi < value then Inl (Errorf ''value out of bounds'')
             else Inr (value, value)))"

text \<open>The part before the step, and the step.\<close>

definition cron_step :: "string \<Rightarrow> (string \<times> int) res" where
  "cron_step part =
     (if CHR ''/'' \<in> set part then
        (case split_char CHR ''/'' part of
           [p0, p1] \<Rightarrow>
             (case atoi p1 of
                None \<Rightarrow> Inl (Errorf ''invalid step'')
              | Some parsed \<Rightarrow> if parsed \<le> 0 then Inl (Errorf ''invalid step'') else Inr (p0, parsed))
         | _ \<Rightarrow> Inl (Errorf ''invalid step''))
      else Inr (part, 1))"

definition cron_fuel :: nat where "cron_fuel = 256"

definition cron_segment :: "string \<Rightarrow> int \<Rightarrow> int \<Rightarrow> bool \<Rightarrow> int set \<Rightarrow> int set res" where
  "cron_segment segment lo hi sundayAlias out =
     (let part = trim_space segment in
      if part = [] then Inl (Errorf ''empty segment'')
      else
        (case cron_step part of
           Inl e \<Rightarrow> Inl e
         | Inr (part, step) \<Rightarrow>
             (case cronRange part lo hi of
                Inl e \<Rightarrow> Inl e
              | Inr (start, stop) \<Rightarrow>
                  (case cron_marks cron_fuel sundayAlias step stop start out of
                     None \<Rightarrow> Inl (Errorf ''out of fuel'')
                   | Some out \<Rightarrow> Inr out))))"

fun cron_segments :: "string list \<Rightarrow> int \<Rightarrow> int \<Rightarrow> bool \<Rightarrow> int set \<Rightarrow> int set res" where
  "cron_segments [] lo hi sundayAlias out = Inr out"
| "cron_segments (p # ps) lo hi sundayAlias out =
     (case cron_segment p lo hi sundayAlias out of
        Inl e \<Rightarrow> Inl e
      | Inr out \<Rightarrow> cron_segments ps lo hi sundayAlias out)"

definition parseCronField :: "string \<Rightarrow> int \<Rightarrow> int \<Rightarrow> bool \<Rightarrow> int set res" where
  "parseCronField field lo hi sundayAlias =
     (case cron_segments (split_char CHR '','' field) lo hi sundayAlias {} of
        Inl e \<Rightarrow> Inl e
      | Inr out \<Rightarrow> if out = {} then Inl (Errorf ''empty field'') else Inr out)"

definition parseCronSpec :: "string \<Rightarrow> cronSpec res" where
  "parseCronSpec expr =
     (case Go_Strings.fields expr of
        [f0, f1, f2, f3, f4] \<Rightarrow>
          (case parseCronField f0 0 59 False of
             Inl e \<Rightarrow> Inl (Wrap (''cron minute: '' @ error_message e) e)
           | Inr mi \<Rightarrow>
               (case parseCronField f1 0 23 False of
                  Inl e \<Rightarrow> Inl (Wrap (''cron hour: '' @ error_message e) e)
                | Inr ho \<Rightarrow>
                    (case parseCronField f2 1 31 False of
                       Inl e \<Rightarrow> Inl (Wrap (''cron day: '' @ error_message e) e)
                     | Inr da \<Rightarrow>
                         (case parseCronField f3 1 12 False of
                            Inl e \<Rightarrow> Inl (Wrap (''cron month: '' @ error_message e) e)
                          | Inr mo \<Rightarrow>
                              (case parseCronField f4 0 7 True of
                                 Inl e \<Rightarrow> Inl (Wrap (''cron weekday: '' @ error_message e) e)
                               | Inr wd \<Rightarrow>
                                   Inr \<lparr>minutes = mi, hours = ho, days = da, months = mo, weekdays = wd\<rparr>)))))
      | _ \<Rightarrow> Inl (Errorf ''cron expression must have five fields''))"

definition matches :: "zone \<Rightarrow> cronSpec \<Rightarrow> go_time \<Rightarrow> bool" where
  "matches loc s t =
     (let w = t + loc t in
      time_Minute w \<in> minutes s \<and> time_Hour w \<in> hours s \<and> time_Day w \<in> days s \<and>
      time_Month w \<in> months s \<and> time_Weekday w \<in> weekdays s)"

section \<open>Fire times\<close>

definition cron_window :: int where "cron_window = 366 * 24 * 60 * 5"

text \<open>The search over minutes; \<open>stop\<close> is the zero time when the trigger has no end.\<close>

function cron_search :: "zone \<Rightarrow> cronSpec \<Rightarrow> go_time \<Rightarrow> int \<Rightarrow> go_time \<Rightarrow> go_time option res" where
  "cron_search loc spec stop i cursor =
     (if i < cron_window then
        (if stop \<noteq> 0 \<and> stop < cursor then Inr None
         else if matches loc spec cursor then Inr (Some cursor)
         else cron_search loc spec stop (i + 1) (cursor + minute))
      else Inl (Errorf ''no cron fire time found within search window''))"
  by pat_completeness auto
termination by (relation "measure (\<lambda>(_, _, _, i, _). nat (cron_window - i))") auto

declare cron_search.simps [simp del]

definition cron_location :: "zone_db \<Rightarrow> string \<Rightarrow> zone res" where
  "cron_location load_location tz =
     (if trim_space tz \<noteq> [] then
        (case load_location tz of
           None \<Rightarrow> Inl (Wrap ''load schedule timezone'' (Errorf ''unknown time zone''))
         | Some loaded \<Rightarrow> Inr loaded)
      else Inr UTC)"

definition cron_cursor :: "ScheduleTrigger \<Rightarrow> go_time \<Rightarrow> go_time" where
  "cron_cursor trigger after =
     (let cursor = truncate_time minute after + minute in
      case trg_StartAt trigger of
        None \<Rightarrow> cursor
      | Some s \<Rightarrow> if cursor < s then truncate_time minute s else cursor)"

definition NextScheduleFire :: "zone_db \<Rightarrow> ScheduleTrigger \<Rightarrow> go_time \<Rightarrow> go_time option res" where
  "NextScheduleFire load_location trigger after =
     (case trg_Kind trigger of
        TriggerInterval \<Rightarrow>
          if trg_Interval trigger \<le> 0 then Inl (Errorf ''interval trigger requires a positive interval'')
          else
            (let next = after + trg_Interval trigger;
                 next = (case trg_StartAt trigger of None \<Rightarrow> next | Some s \<Rightarrow> if next < s then s else next)
             in case trg_EndAt trigger of
                  None \<Rightarrow> Inr (Some next)
                | Some e \<Rightarrow> if e < next then Inr None else Inr (Some next))
      | TriggerCron \<Rightarrow>
          (case parseCronSpec (trg_Expression trigger) of
             Inl e \<Rightarrow> Inl e
           | Inr spec \<Rightarrow>
               (case cron_location load_location (trg_Timezone trigger) of
                  Inl e \<Rightarrow> Inl e
                | Inr loc \<Rightarrow>
                    cron_search loc spec (case trg_EndAt trigger of None \<Rightarrow> 0 | Some e \<Rightarrow> e) 0
                      (cron_cursor trigger after)))
      | TriggerOther k \<Rightarrow> Inl (Errorf ''unsupported trigger kind''))"

definition InitialScheduleFire :: "zone_db \<Rightarrow> ScheduleTrigger \<Rightarrow> go_time \<Rightarrow> go_time option res" where
  "InitialScheduleFire load_location trigger now =
     (case trg_Kind trigger of
        TriggerInterval \<Rightarrow>
          (let next = (case trg_StartAt trigger of None \<Rightarrow> now | Some s \<Rightarrow> if now < s then s else now)
           in case trg_EndAt trigger of
                None \<Rightarrow> Inr (Some next)
              | Some e \<Rightarrow> if e < next then Inr None else Inr (Some next))
      | TriggerCron \<Rightarrow>
          (let after = (case trg_StartAt trigger of
                          None \<Rightarrow> now - nanosecond
                        | Some s \<Rightarrow> if now < s then s - minute else now - nanosecond)
           in NextScheduleFire load_location trigger after)
      | TriggerOther k \<Rightarrow> Inl (Errorf ''unsupported trigger kind''))"

section \<open>Marks\<close>

text \<open>The marks that a segment means: \<open>start\<close>, \<open>start + step\<close>, ... up to \<open>stop\<close>.\<close>

definition step_marks :: "int \<Rightarrow> int \<Rightarrow> int \<Rightarrow> int set" where
  "step_marks step start stop = {v. start \<le> v \<and> v \<le> stop \<and> step dvd (v - start)}"

lemma step_marks_empty: "stop < start \<Longrightarrow> step_marks step start stop = {}"
  by (auto simp: step_marks_def)

lemma step_marks_unfold:
  assumes "0 < step" "start \<le> stop"
  shows "step_marks step start stop = insert start (step_marks step (start + step) stop)"
proof -
  have "start + step \<le> v" if "start \<le> v" "step dvd v - start" "v \<noteq> start" for v
    using that zdvd_imp_le [of step "v - start"] by simp
  moreover have "step dvd v - start \<longleftrightarrow> step dvd v - (start + step)" for v
    using dvd_add_left_iff [of step step "v - (start + step)"] by (simp add: algebra_simps)
  ultimately show ?thesis using assms by (auto simp: step_marks_def)
qed

definition sunday :: "bool \<Rightarrow> int \<Rightarrow> int" where
  "sunday sun v = (if sun \<and> v = 7 then 0 else v)"

lemma cron_marks_eq:
  assumes "0 < step" "int64 v" "int64 (stop + step)" "nat (stop + 1 - v) \<le> fuel"
  shows "cron_marks fuel sun step stop v out = Some (sunday sun ` step_marks step v stop \<union> out)"
  using assms(2,4)
proof (induction fuel arbitrary: v out)
  case 0
  then show ?case by (simp add: cron_marks.simps step_marks_empty)
next
  case (Suc n)
  show ?case
  proof (cases "v \<le> stop")
    case True
    then have i: "int64 (v + step)" using assms(1,3) Suc.prems(1) by (simp add: int64_def)
    have "cron_marks n sun step stop (v + step) (insert (sunday sun v) out)
        = Some (sunday sun ` step_marks step (v + step) stop \<union> insert (sunday sun v) out)"
      using Suc.IH [OF i] Suc.prems(2) assms(1) by simp
    then show ?thesis
      using True assms(1) i
      by (simp add: cron_marks.simps [of "Suc n"] step_marks_unfold [of step v] sunday_def [symmetric])
  next
    case False
    then show ?thesis by (simp add: cron_marks.simps step_marks_empty)
  qed
qed

text \<open>With a step near the largest \<^verbatim>\<open>int\<close> the loop wraps around, but ends nevertheless.\<close>

lemma cron_marks_wraps:
  assumes "step = 2 ^ 63 - j" "1 \<le> j" "j \<le> 60" "0 \<le> v" "v \<le> stop" "stop < 60" "nat (2 * v + 4) \<le> fuel"
  shows "\<exists>r. cron_marks fuel sun step stop v out = Some r"
  using assms(4,5,7)
proof (induction "nat v" arbitrary: v fuel out rule: less_induct)
  case less
  obtain f where f: "fuel = Suc (Suc (Suc f))" "nat (2 * v + 1) \<le> f"
    using less.prems by (intro that [of "fuel - 3"]) auto
  show ?case
  proof (cases "v < j")
    case True
    then have "wrap64 (v + step) = v + step" "stop < v + step"
      using assms less.prems by (simp_all add: int64_def)
    then show ?thesis using less.prems f by (simp add: cron_marks.simps)
  next
    case False
    have w1: "wrap64 (v + step) = v - j - 2 ^ 63"
      using False assms less.prems by (simp add: wrap64_def)
    have w2: "wrap64 (v - j - 2 ^ 63 + step) = v - 2 * j"
      using False assms less.prems by (simp add: wrap64_def)
    have e: "cron_marks fuel sun step stop v out
      = cron_marks (Suc f) sun step stop (v - 2 * j)
          (insert (v - j - 2 ^ 63) (insert (if sun \<and> v = 7 then 0 else v) out))"
      using less.prems assms f(1) w1 w2
      by (simp add: cron_marks.simps [of "Suc (Suc (Suc f))"] cron_marks.simps [of "Suc (Suc f)"]
          sunday_def)
    show ?thesis
    proof (cases "0 \<le> v - 2 * j")
      case True
      have "\<exists>r. cron_marks (Suc f) sun step stop (v - 2 * j)
          (insert (v - j - 2 ^ 63) (insert (if sun \<and> v = 7 then 0 else v) out)) = Some r"
        by (rule less.hyps) (use True f less.prems assms in simp_all)
      then show ?thesis unfolding e .
    next
      case neg: False
      have "wrap64 (v - 2 * j + step) = v - 2 * j + step" "stop < v - 2 * j + step"
        using assms neg False less.prems by (simp_all add: int64_def)
      then show ?thesis
        unfolding e using less.prems assms f(2) by (cases f) (simp_all add: cron_marks.simps)
    qed
  qed
qed

lemma cron_marks_total:
  assumes "0 < step" "int64 step" "0 \<le> v" "v \<le> stop" "stop < 60"
  shows "\<exists>r. cron_marks cron_fuel sun step stop v out = Some r"
proof (cases "int64 (stop + step)")
  case True
  then show ?thesis
    using cron_marks_eq [of step v stop cron_fuel sun out] assms
    by (simp add: int64_def cron_fuel_def)
next
  case False
  then show ?thesis
    using cron_marks_wraps [of step "2 ^ 63 - step" v stop cron_fuel sun out] assms
    by (simp add: int64_def cron_fuel_def)
qed

lemma cronRange_bounds:
  "cronRange part lo hi = Inr (start, stop) \<Longrightarrow> lo \<le> hi \<Longrightarrow> lo \<le> start \<and> start \<le> stop \<and> stop \<le> hi"
  by (auto simp: cronRange_def split: if_splits list.splits option.splits)

lemma cron_step_positive: "cron_step part = Inr (p, step) \<Longrightarrow> 0 < step \<and> int64 step"
  by (auto simp: cron_step_def int64_def dest!: atoi_int64 split: if_splits list.splits option.splits)

text \<open>A field never runs out of fuel.\<close>

lemma cronRange_fuel: "cronRange part lo hi \<noteq> Inl (Errorf ''out of fuel'')"
  by (simp add: cronRange_def split: list.split option.split)

lemma cron_step_fuel: "cron_step part \<noteq> Inl (Errorf ''out of fuel'')"
  by (simp add: cron_step_def split: list.split option.split)

lemma cron_segment_fuel:
  assumes "0 \<le> lo" "lo \<le> hi" "hi < 60"
  shows "cron_segment p lo hi sun out \<noteq> Inl (Errorf ''out of fuel'')"
proof (cases "cron_step (trim_space p)")
  case Inl
  then show ?thesis using cron_step_fuel [of "trim_space p"] by (simp add: cron_segment_def Let_def)
next
  case (Inr x)
  then obtain part step where x: "cron_step (trim_space p) = Inr (part, step)" by (cases x) simp
  show ?thesis
  proof (cases "cronRange part lo hi")
    case Inl
    then show ?thesis using x cronRange_fuel [of part lo hi] by (simp add: cron_segment_def Let_def)
  next
    case (Inr y)
    then obtain start stop where y: "cronRange part lo hi = Inr (start, stop)" by (cases y) simp
    have "\<exists>r. cron_marks cron_fuel sun step stop start out = Some r"
      using cron_marks_total cron_step_positive [OF x] cronRange_bounds [OF y] assms by simp
    with x y show ?thesis by (auto simp: cron_segment_def Let_def)
  qed
qed

lemma parseCronField_fuel:
  assumes "0 \<le> lo" "lo \<le> hi" "hi < 60"
  shows "parseCronField field lo hi sun \<noteq> Inl (Errorf ''out of fuel'')"
proof -
  have "cron_segments ps lo hi sun out \<noteq> Inl (Errorf ''out of fuel'')" for ps out
    using cron_segment_fuel [OF assms] by (induction ps arbitrary: out) (auto split: sum.splits)
  then show ?thesis by (auto simp: parseCronField_def split: sum.splits if_splits)
qed

text \<open>Reading a number that \<^verbatim>\<open>%d\<close> wrote.\<close>

lemma itoa_chars: "0 \<le> i \<Longrightarrow> c \<in> set (itoa i) \<Longrightarrow> is_digit c"
  by (simp add: itoa_nonneg nat_digits_are_digits)

lemma not_digits [simp]: "\<not> is_digit CHR ''-''" "\<not> is_digit CHR ''/''" "\<not> is_digit CHR '',''"
  by (simp_all add: is_digit_def char_digit_def)

lemma digit_not_space: "is_digit c \<Longrightarrow> \<not> go_space c"
  by (auto simp: is_digit_def char_digit_def go_space_def Let_def)

lemma itoa_not_Nil [simp]: "0 \<le> i \<Longrightarrow> itoa i \<noteq> []"
  by (simp add: itoa_nonneg)

lemma itoa_free:
  "0 \<le> i \<Longrightarrow> CHR ''-'' \<notin> set (itoa i)" "0 \<le> i \<Longrightarrow> CHR ''/'' \<notin> set (itoa i)"
  "0 \<le> i \<Longrightarrow> CHR '','' \<notin> set (itoa i)"
  using itoa_chars not_digits by blast+

lemma trim_space_itoa: "0 \<le> a \<Longrightarrow> 0 \<le> b \<Longrightarrow> trim_space (itoa a @ xs @ itoa b) = itoa a @ xs @ itoa b"
  by (rule trim_space_id) (simp_all add: itoa_chars digit_not_space)

lemma cronRange_numbers:
  assumes "0 \<le> lo" "lo \<le> a" "a \<le> b" "b \<le> hi" "hi < 60"
  shows "cronRange (itoa a @ ''-'' @ itoa b) lo hi = Inr (a, b)"
proof -
  have "int64 a" "int64 b" using assms by (simp_all add: int64_def)
  moreover have "itoa a @ ''-'' @ itoa b \<noteq> ''*''"
    using assms by (cases "itoa a") (auto simp: itoa_nonneg)
  ultimately show ?thesis
    using assms by (simp add: cronRange_def split_char_append split_char_single itoa_free atoi_itoa)
qed

section \<open>Search\<close>

lemma minute_pos [simp]: "0 < minute"
  by (simp add: minute_def)

lemma next_minute: "minute dvd c \<Longrightarrow> minute dvd t \<Longrightarrow> c \<le> t \<Longrightarrow> t = c \<or> c + minute \<le> t"
  using zdvd_imp_le [of minute "t - c"] by (cases "t = c") simp_all

lemma cron_search_Some:
  assumes "cron_search loc spec stop i cursor = Inr (Some next)" "minute dvd cursor"
  shows "matches loc spec next \<and> minute dvd next \<and> cursor \<le> next \<and> (stop = 0 \<or> next \<le> stop)
    \<and> (\<forall>t. cursor \<le> t \<and> t < next \<and> minute dvd t \<longrightarrow> \<not> matches loc spec t)"
  using assms
proof (induction loc spec stop i cursor rule: cron_search.induct)
  case (1 loc spec stop i cursor)
  show ?case
  proof (cases "matches loc spec cursor")
    case True
    with "1.prems" show ?thesis by (auto simp: cron_search.simps [of _ _ _ i] split: if_splits)
  next
    case False
    then have i: "i < cron_window" "\<not> (stop \<noteq> 0 \<and> stop < cursor)"
      "cron_search loc spec stop (i + 1) (cursor + minute) = Inr (Some next)"
      using "1.prems" by (auto simp: cron_search.simps [of _ _ _ i] split: if_splits)
    with 1 False have h: "matches loc spec next \<and> minute dvd next \<and> cursor + minute \<le> next
      \<and> (stop = 0 \<or> next \<le> stop)
      \<and> (\<forall>t. cursor + minute \<le> t \<and> t < next \<and> minute dvd t \<longrightarrow> \<not> matches loc spec t)"
      by simp
    have n: "\<not> matches loc spec t" if t: "cursor \<le> t" "t < next" "minute dvd t" for t
      using next_minute [OF "1.prems"(2) t(3,1)] h t False by auto
    have "cursor \<le> next" using h minute_pos by linarith
    with h n show ?thesis by blast
  qed
qed

lemma cron_search_None:
  assumes "cron_search loc spec stop i cursor = Inr None" "minute dvd cursor"
  shows "stop \<noteq> 0 \<and> (\<forall>t. cursor \<le> t \<and> t \<le> stop \<and> minute dvd t \<longrightarrow> \<not> matches loc spec t)"
  using assms
proof (induction loc spec stop i cursor rule: cron_search.induct)
  case (1 loc spec stop i cursor)
  show ?case
  proof (cases "stop \<noteq> 0 \<and> stop < cursor")
    case False
    then have i: "i < cron_window" "\<not> matches loc spec cursor"
      "cron_search loc spec stop (i + 1) (cursor + minute) = Inr None"
      using "1.prems" by (auto simp: cron_search.simps [of _ _ _ i] split: if_splits)
    with 1 False have h: "stop \<noteq> 0 \<and> (\<forall>t. cursor + minute \<le> t \<and> t \<le> stop \<and> minute dvd t
      \<longrightarrow> \<not> matches loc spec t)"
      by simp
    have n: "\<not> matches loc spec t" if t: "cursor \<le> t" "t \<le> stop" "minute dvd t" for t
      using next_minute [OF "1.prems"(2) t(3,1)] h t i(2) by auto
    with h show ?thesis by blast
  qed auto
qed

text \<open>The cursor is the first minute after \<open>after\<close>, or the minute that contains the start.\<close>

lemma cron_cursor_aligned: "minute dvd cron_cursor trigger after"
  by (auto simp: cron_cursor_def Let_def truncate_time_dvd split: option.split)

lemma truncate_time_greatest: "0 < d \<Longrightarrow> d dvd t \<Longrightarrow> t \<le> s \<Longrightarrow> t \<le> truncate_time d s"
  using truncate_time_mono [of d t s] by (simp add: truncate_time_def)

lemma cron_cursor_after: "after < cron_cursor trigger after"
proof -
  let ?c = "truncate_time minute after + minute"
  have a: "after < ?c" by (simp add: truncate_time_gt)
  have "?c \<le> truncate_time minute s" if "?c < s" for s
    using that by (intro truncate_time_greatest) (simp_all add: truncate_time_dvd)
  with a show ?thesis by (force simp: cron_cursor_def Let_def split: option.split)
qed

lemma cron_cursor_start: "trg_StartAt trigger = Some s \<Longrightarrow> truncate_time minute s \<le> cron_cursor trigger after"
  using truncate_time_le [of minute s] by (auto simp: cron_cursor_def Let_def)

lemma cron_cursor_least:
  assumes "minute dvd t" "after < t" "\<And>s. trg_StartAt trigger = Some s \<Longrightarrow> s \<le> t"
  shows "cron_cursor trigger after \<le> t"
proof -
  have "truncate_time minute after < t"
    using truncate_time_le [of minute after] assms(2) by simp
  then have m: "truncate_time minute after + minute \<le> t"
    using next_minute [OF truncate_time_dvd [of minute after] assms(1)] by simp
  show ?thesis
  proof (cases "trg_StartAt trigger")
    case (Some s)
    then have "truncate_time minute s \<le> t"
      using assms(3) truncate_time_le [of minute s] by fastforce
    with Some m show ?thesis by (simp add: cron_cursor_def Let_def)
  qed (use m in \<open>simp add: cron_cursor_def Let_def\<close>)
qed

section \<open>Properties\<close>

text \<open>C8: A range with a step parses to exactly the values it denotes, and a star to the whole range,
  for every range the cron fields use and every step that does not overflow; Sunday may be written 7.\<close>

theorem parseCronField_range:
  assumes "0 \<le> lo" "lo \<le> a" "a \<le> b" "b \<le> hi" "hi < 60" "0 < s" "s < 2 ^ 62"
  shows "parseCronField (itoa a @ ''-'' @ itoa b @ ''/'' @ itoa s) lo hi sun = Inr (sunday sun ` step_marks s a b)
    \<and> parseCronField ''*'' lo hi sun = Inr (sunday sun ` {lo..hi})"
proof
  let ?f = "itoa a @ ''-'' @ itoa b @ ''/'' @ itoa s"
  have i: "int64 s" "int64 a" "int64 lo" "int64 (b + s)" "int64 (hi + 1)" using assms by (simp_all add: int64_def)
  have "split_char CHR '','' ?f = [?f]"
    using assms itoa_free by (intro split_char_single) auto
  moreover have "trim_space ?f = ?f"
    using assms trim_space_itoa [of a s "''-'' @ itoa b @ ''/''"] by simp
  moreover have "cron_step ?f = Inr (itoa a @ ''-'' @ itoa b, s)"
    using assms i itoa_free split_char_append [of "CHR ''/''" "itoa a @ ''-'' @ itoa b" "itoa s"]
    by (simp add: cron_step_def split_char_single atoi_itoa)
  moreover have "cron_marks cron_fuel sun s b a {} = Some (sunday sun ` step_marks s a b)"
    using cron_marks_eq [of s a b cron_fuel sun "{}"] i assms by (simp add: cron_fuel_def)
  moreover have "a \<in> step_marks s a b" using assms by (simp add: step_marks_def)
  ultimately show "parseCronField ?f lo hi sun = Inr (sunday sun ` step_marks s a b)"
    using cronRange_numbers [of lo a b hi] assms
    by (auto simp: parseCronField_def cron_segment_def Let_def)
  have "cron_marks cron_fuel sun 1 hi lo {} = Some (sunday sun ` step_marks 1 lo hi)"
    using cron_marks_eq [of 1 lo hi cron_fuel sun "{}"] i assms by (simp add: cron_fuel_def)
  moreover have "step_marks 1 lo hi = {lo..hi}" by (auto simp: step_marks_def)
  moreover have "split_char CHR '','' ''*'' = [''*'']" "trim_space ''*'' = ''*''"
    by (simp_all add: split_char_def trim_space_def go_space_def)
  ultimately show "parseCronField ''*'' lo hi sun = Inr (sunday sun ` {lo..hi})"
    using assms by (simp add: parseCronField_def cron_segment_def cron_step_def cronRange_def Let_def)
qed

theorem parseCronField_range_witness:
  "parseCronField (itoa 0 @ ''-'' @ itoa 59 @ ''/'' @ itoa 15) 0 59 False = Inr {0, 15, 30, 45}"
proof -
  have "sunday False ` step_marks 15 0 59 = {0, 15, 30, 45}"
    by (auto simp: step_marks_def sunday_def image_iff dvd_def)
  then show ?thesis using parseCronField_range [of 0 0 59 59 15 False] by simp
qed

text \<open>C9: A cron trigger's next fire time satisfies the expression in the schedule's time zone, lies on
  a whole minute strictly after the given time, does not pass the end, is at most the fraction of a
  minute before the start, and no earlier minute that is after the given time and not before the start
  satisfies the expression.\<close>

theorem cron_next_fire:
  assumes "trg_Kind trigger = TriggerCron"
    and "NextScheduleFire load_location trigger after = Inr (Some next)"
  shows "\<exists>spec loc. parseCronSpec (trg_Expression trigger) = Inr spec
    \<and> cron_location load_location (trg_Timezone trigger) = Inr loc
    \<and> matches loc spec next \<and> minute dvd next \<and> after < next
    \<and> (\<forall>e. trg_EndAt trigger = Some e \<longrightarrow> e = 0 \<or> next \<le> e)
    \<and> (\<forall>s. trg_StartAt trigger = Some s \<longrightarrow> truncate_time minute s \<le> next)
    \<and> (\<forall>t. after < t \<and> t < next \<and> minute dvd t \<and> (\<forall>s. trg_StartAt trigger = Some s \<longrightarrow> s \<le> t)
          \<longrightarrow> \<not> matches loc spec t)"
proof -
  let ?stop = "case trg_EndAt trigger of None \<Rightarrow> 0 | Some e \<Rightarrow> e"
  from assms obtain spec loc where p: "parseCronSpec (trg_Expression trigger) = Inr spec"
    "cron_location load_location (trg_Timezone trigger) = Inr loc"
    "cron_search loc spec ?stop 0 (cron_cursor trigger after) = Inr (Some next)"
    by (auto simp: NextScheduleFire_def split: sum.splits)
  note s = cron_search_Some [OF p(3) cron_cursor_aligned]
  have a: "after < next" using s cron_cursor_after [of after trigger] by linarith
  have b: "truncate_time minute x \<le> next" if "trg_StartAt trigger = Some x" for x
    using s cron_cursor_start [OF that, of after] by linarith
  have c: "\<not> matches loc spec t"
    if "after < t" "t < next" "minute dvd t" "\<And>s. trg_StartAt trigger = Some s \<Longrightarrow> s \<le> t" for t
    using s that cron_cursor_least [of t after trigger] by blast
  show ?thesis
    using p(1,2) s a b c by (intro exI [of _ spec] exI [of _ loc]) (simp split: option.splits)
qed

theorem cron_next_fire_witness:
  "\<exists>next. NextScheduleFire (\<lambda>_. None) \<lparr>trg_Kind = TriggerCron, trg_Expression = ''* * * * *'',
       trg_Timezone = [], trg_StartAt = None, trg_EndAt = None, trg_Interval = 0\<rparr> 0 = Inr (Some next)
     \<and> minute dvd next \<and> 0 < next"
proof -
  let ?t = "\<lparr>trg_Kind = TriggerCron, trg_Expression = ''* * * * *'', trg_Timezone = [],
    trg_StartAt = None, trg_EndAt = None, trg_Interval = 0\<rparr>"
  have n: "NextScheduleFire (\<lambda>_. None) ?t 0 = Inr (Some 60000000000)"
    by code_simp
  from cron_next_fire [OF _ n] have "minute dvd 60000000000 \<and> (0::int) < 60000000000" by auto
  with n show ?thesis by blast
qed



end
