(* ===== verification/Chapter_Codec.thy ===== *)
theory Chapter_Codec
  imports Job_Failed
begin

text \<open>
  Chapters and their wire form: \<^verbatim>\<open>pkg/jobdb/chapter.go\<close> and
  \<^verbatim>\<open>pkg/internal/runtimecodec/chapter.go\<close>. A nil body or outcome is \<^term>\<open>None\<close>; a pointer to a
  body variant behaves as the variant. \<^verbatim>\<open>ChapterMetadata\<close> is a typed JSON value per key, \<^term>\<open>None\<close>
  for nil fields. The clone functions copy and are the identity here.
\<close>

section \<open>Data\<close>

datatype ChapterOutcome =
    ApplicationOutput raw
  | AppErrorOutcome AppErrorPayload
  | SystemErrorOutcome SystemErrorPayload
  | TimeoutOutcome TimeoutPayload

datatype ChapterBody =
    JobStart raw
  | JobAttemptOutcome "ChapterOutcome option"
  | TaskAttemptOutcome "ChapterOutcome option"
  | RestartExtra raw

text \<open>\<open>MTime\<close> is a string that holds a formatted time.\<close>

datatype ChapterMetadataValue =
    MNull
  | MBool bool
  | MInt int
  | MDouble rat
  | MString string
  | MTime go_time
  | MList "ChapterMetadataValue list"
  | MMap "(string \<times> ChapterMetadataValue) list"

type_synonym ChapterMetadata = "ChapterMetadataValue gomap option"

record StoredArtifact =
  sa_Name :: string
  sa_Digest :: string
  sa_Size :: int

record Chapter =
  ch_Ordinal :: int
  ch_TaskType :: string
  ch_Body :: "ChapterBody option"
  ch_InputHash :: string
  ch_CreatedAt :: go_time
  ch_Metadata :: ChapterMetadata
  ch_Artifacts :: "StoredArtifact list"

definition CloneChapter :: "Chapter \<Rightarrow> Chapter" where
  "CloneChapter c = c"

lemma CloneChapter_id [simp]: "CloneChapter c = c"
  by (simp add: CloneChapter_def)

section \<open>Bodies\<close>

definition ChapterTypeJobStart :: string where "ChapterTypeJobStart = ''JobStart''"
definition ChapterTypeJobAttemptOutcome :: string where
  "ChapterTypeJobAttemptOutcome = ''JobAttemptOutcome''"
definition ChapterTypeTaskAttemptOutcome :: string where
  "ChapterTypeTaskAttemptOutcome = ''TaskAttemptOutcome''"
definition ChapterTypeRestartExtra :: string where "ChapterTypeRestartExtra = ''RestartExtra''"

lemmas chapter_type_defs = ChapterTypeJobStart_def ChapterTypeJobAttemptOutcome_def
  ChapterTypeTaskAttemptOutcome_def ChapterTypeRestartExtra_def

fun ChapterOutcomeToWire :: "ChapterOutcome option \<Rightarrow> (string \<times> raw) res" where
  "ChapterOutcomeToWire (Some (ApplicationOutput d)) = Inr (payloadKindApp, clone_json d)"
| "ChapterOutcomeToWire (Some (AppErrorOutcome p)) = Inr (payloadKindAppError, Json (enc_AppErrorPayload p))"
| "ChapterOutcomeToWire (Some (SystemErrorOutcome p)) =
     Inr (payloadKindSystemError, Json (enc_SystemErrorPayload p))"
| "ChapterOutcomeToWire (Some (TimeoutOutcome p)) = Inr (payloadKindTimeout, Json (enc_TimeoutPayload p))"
| "ChapterOutcomeToWire None = Inl (Errorf ''unsupported task outcome type'')"

fun ChapterBodyToWire :: "ChapterBody option \<Rightarrow> (string \<times> string \<times> raw) res" where
  "ChapterBodyToWire (Some (JobStart d)) = Inr (ChapterTypeJobStart, payloadKindApp, clone_json d)"
| "ChapterBodyToWire (Some (JobAttemptOutcome o1)) =
     (case ChapterOutcomeToWire o1 of
        Inl e \<Rightarrow> Inl e | Inr (k, d) \<Rightarrow> Inr (ChapterTypeJobAttemptOutcome, k, d))"
| "ChapterBodyToWire (Some (TaskAttemptOutcome o1)) =
     (case ChapterOutcomeToWire o1 of
        Inl e \<Rightarrow> Inl e | Inr (k, d) \<Rightarrow> Inr (ChapterTypeTaskAttemptOutcome, k, d))"
| "ChapterBodyToWire (Some (RestartExtra d)) = Inr (ChapterTypeRestartExtra, payloadKindApp, clone_json d)"
| "ChapterBodyToWire None = Inl (Errorf ''unsupported chapter body type'')"

definition unmarshal_error :: go_error where
  "unmarshal_error = Errorf ''json: cannot unmarshal''"

definition ChapterOutcomeFromWire :: "string \<Rightarrow> raw \<Rightarrow> ChapterOutcome res" where
  "ChapterOutcomeFromWire payloadKind d =
     (if payloadKind = payloadKindApp then Inr (ApplicationOutput (clone_json d))
      else if payloadKind = payloadKindAppError then
        (case dec_AppErrorPayload d of None \<Rightarrow> Inl unmarshal_error | Some p \<Rightarrow> Inr (AppErrorOutcome p))
      else if payloadKind = payloadKindSystemError then
        (case dec_SystemErrorPayload d of
           None \<Rightarrow> Inl unmarshal_error | Some p \<Rightarrow> Inr (SystemErrorOutcome p))
      else if payloadKind = payloadKindTimeout then
        (case dec_TimeoutPayload d of None \<Rightarrow> Inl unmarshal_error | Some p \<Rightarrow> Inr (TimeoutOutcome p))
      else Inl (Errorf ''unsupported task outcome payload kind''))"

definition ChapterBodyFromWire :: "string \<Rightarrow> string \<Rightarrow> raw \<Rightarrow> ChapterBody res" where
  "ChapterBodyFromWire chapterType payloadKind d =
     (if chapterType = ChapterTypeJobStart then
        (if payloadKind \<noteq> payloadKindApp then Inl (Errorf (chapterType @ '' chapters require App payloads''))
         else Inr (JobStart (clone_json d)))
      else if chapterType = ChapterTypeJobAttemptOutcome then
        (case ChapterOutcomeFromWire payloadKind d of
           Inl e \<Rightarrow> Inl e | Inr o1 \<Rightarrow> Inr (JobAttemptOutcome (Some o1)))
      else if chapterType = ChapterTypeTaskAttemptOutcome then
        (case ChapterOutcomeFromWire payloadKind d of
           Inl e \<Rightarrow> Inl e | Inr o1 \<Rightarrow> Inr (TaskAttemptOutcome (Some o1)))
      else if chapterType = ChapterTypeRestartExtra then
        (if payloadKind \<noteq> payloadKindApp then Inl (Errorf (chapterType @ '' chapters require App payloads''))
         else Inr (RestartExtra (clone_json d)))
      else Inl (Errorf ''unsupported chapter type''))"

definition ChapterType :: "Chapter \<Rightarrow> string res" where
  "ChapterType c = (case ChapterBodyToWire (ch_Body c) of Inl e \<Rightarrow> Inl e | Inr (t, k, d) \<Rightarrow> Inr t)"

definition ChapterPayload :: "Chapter \<Rightarrow> (string \<times> raw) res" where
  "ChapterPayload c = (case ChapterBodyToWire (ch_Body c) of Inl e \<Rightarrow> Inl e | Inr (t, k, d) \<Rightarrow> Inr (k, d))"

definition ChapterIs :: "Chapter \<Rightarrow> string \<Rightarrow> bool" where
  "ChapterIs c want = (case ChapterType c of Inl e \<Rightarrow> False | Inr got \<Rightarrow> got = want)"

lemma ChapterOutcomeToWire_Inl: "ChapterOutcomeToWire o1 = Inl e \<Longrightarrow> o1 = None"
  by (cases o1 rule: ChapterOutcomeToWire.cases) auto

lemma ChapterOutcomeToWire_Inr: "ChapterOutcomeToWire o1 = Inr x \<Longrightarrow> \<exists>y. o1 = Some y"
  by (cases o1) auto

lemma ChapterIs_JobAttemptOutcome:
  "ChapterIs c ChapterTypeJobAttemptOutcome \<longleftrightarrow> (\<exists>o1. ch_Body c = Some (JobAttemptOutcome (Some o1)))"
proof (cases "ch_Body c")
  case (Some b)
  then show ?thesis
    by (cases b) (auto simp: ChapterIs_def ChapterType_def chapter_type_defs dest: ChapterOutcomeToWire_Inl
        ChapterOutcomeToWire_Inr split: sum.splits)
qed (simp add: ChapterIs_def ChapterType_def)

text \<open>A body whose numbers fit reads back as itself.\<close>

fun wire_outcome :: "ChapterOutcome \<Rightarrow> bool" where
  "wire_outcome (ApplicationOutput _) = True"
| "wire_outcome (AppErrorOutcome p) = (ref_ok (app_InputRef p) \<and> gsorted (app_Attrs p))"
| "wire_outcome (SystemErrorOutcome p) = ref_ok (sys_InputRef p)"
| "wire_outcome (TimeoutOutcome p) = (ref_ok (to_InputRef p) \<and> int64 (to_After p))"

fun wire_body :: "ChapterBody \<Rightarrow> bool" where
  "wire_body (JobAttemptOutcome (Some o1)) = wire_outcome o1"
| "wire_body (TaskAttemptOutcome (Some o1)) = wire_outcome o1"
| "wire_body (JobStart _) = True"
| "wire_body (RestartExtra _) = True"
| "wire_body _ = False"

lemma outcome_wire_roundtrip:
  "wire_outcome o1 \<Longrightarrow> \<exists>k d. ChapterOutcomeToWire (Some o1) = Inr (k, d) \<and> ChapterOutcomeFromWire k d = Inr o1"
  by (cases o1) (simp_all add: ChapterOutcomeFromWire_def payload_kind_defs dec_enc_AppErrorPayload
      dec_enc_SystemErrorPayload dec_enc_TimeoutPayload)

section \<open>Metadata\<close>

definition gomap_of :: "(string \<times> 'a) list \<Rightarrow> 'a gomap" where
  "gomap_of m = gunion [] m"

lemma gsorted_gomap_of [simp]: "gsorted (gomap_of m)"
  by (simp add: gomap_of_def)

lemma gomap_of_id [simp]: "gsorted m \<Longrightarrow> gomap_of m = m"
  by (simp add: gomap_of_def gunion_Nil_gsorted)

definition chapterMetadataNumber :: "int \<Rightarrow> ChapterMetadataValue" where
  "chapterMetadataNumber i = (if int64 i then MInt i else MDouble (of_int i))"

fun chapterMetadataValueFromAny :: "json \<Rightarrow> ChapterMetadataValue" where
  "chapterMetadataValueFromAny JNull = MNull"
| "chapterMetadataValueFromAny (JBool b) = MBool b"
| "chapterMetadataValueFromAny (JInt i) = chapterMetadataNumber i"
| "chapterMetadataValueFromAny (JDec r) = MDouble r"
| "chapterMetadataValueFromAny (JStr s) = MString s"
| "chapterMetadataValueFromAny (JTime t) = MTime t"
| "chapterMetadataValueFromAny (JArr js) = MList (map chapterMetadataValueFromAny js)"
| "chapterMetadataValueFromAny (JObj m) =
     MMap (gomap_of (map (\<lambda>(k, v). (k, chapterMetadataValueFromAny v)) m))"

fun chapterMetadataValueToAny :: "ChapterMetadataValue \<Rightarrow> json" where
  "chapterMetadataValueToAny MNull = JNull"
| "chapterMetadataValueToAny (MBool b) = JBool b"
| "chapterMetadataValueToAny (MInt i) = JInt i"
| "chapterMetadataValueToAny (MDouble r) = enc_float r"
| "chapterMetadataValueToAny (MString s) = JStr s"
| "chapterMetadataValueToAny (MTime t) = JTime t"
| "chapterMetadataValueToAny (MList vs) = JArr (map chapterMetadataValueToAny vs)"
| "chapterMetadataValueToAny (MMap m) = JObj (map (\<lambda>(k, v). (k, chapterMetadataValueToAny v)) m)"

definition ChapterMetadataFromJSON :: "raw \<Rightarrow> ChapterMetadata res" where
  "ChapterMetadataFromJSON r =
     (if raw_len0 r then Inr None
      else
        (case r of
           Text _ \<Rightarrow> Inl (Errorf ''metadata must be valid JSON'')
         | Json JNull \<Rightarrow> Inr None
         | Json (JObj m) \<Rightarrow>
             Inr (Some (gomap_of (map (\<lambda>(k, v). (k, chapterMetadataValueFromAny v)) m)))
         | Json _ \<Rightarrow> Inl (Errorf ''metadata must be a JSON object'')))"

definition ChapterMetadataToJSON :: "ChapterMetadata \<Rightarrow> raw res" where
  "ChapterMetadataToJSON md =
     (case md of None \<Rightarrow> Inr (Text [])
      | Some m \<Rightarrow> Inr (Json (JObj (map (\<lambda>(k, v). (k, chapterMetadataValueToAny v)) m))))"

text \<open>Values that survive: integers in range, doubles that are not whole numbers, sorted maps.\<close>

fun stable_value :: "ChapterMetadataValue \<Rightarrow> bool" where
  "stable_value (MInt i) = int64 i"
| "stable_value (MDouble r) = (r \<noteq> of_int \<lfloor>r\<rfloor>)"
| "stable_value (MList vs) = list_all stable_value vs"
| "stable_value (MMap m) = (gsorted m \<and> list_all (\<lambda>(k, v). stable_value v) m)"
| "stable_value _ = True"

lemma gsorted_map_values [simp]: "gsorted (map (\<lambda>(k, v). (k, f v)) m) = gsorted m"
proof -
  have e: "map fst (map (\<lambda>(k, v). (k, f v)) m) = map fst m" by (induction m) auto
  show ?thesis unfolding gsorted_def e ..
qed

lemma metadata_value_stable:
  "stable_value v \<Longrightarrow> chapterMetadataValueFromAny (chapterMetadataValueToAny v) = v"
proof (induction v rule: stable_value.induct)
  case (2 r)
  then show ?case by (simp add: enc_float_def)
next
  case (3 vs)
  then show ?case by (auto simp: list_all_iff intro!: map_idI)
next
  case (4 m)
  have e: "map ((\<lambda>(k, v). (k, chapterMetadataValueFromAny v)) \<circ> (\<lambda>(k, v). (k, chapterMetadataValueToAny v))) m = m"
    by (rule map_idI) (use 4 in \<open>force simp: list_all_iff\<close>)
  from "4.prems" show ?case by (simp add: e)
qed (simp_all add: chapterMetadataNumber_def)

section \<open>Run policies in chapter metadata\<close>

definition int32 :: "int \<Rightarrow> bool" where
  "int32 x \<longleftrightarrow> - (2 ^ 31) \<le> x \<and> x < 2 ^ 31"

definition dec_int32 :: "json option \<Rightarrow> int option" where
  "dec_int32 v = (case dec_int64 v of None \<Rightarrow> None | Some i \<Rightarrow> if int32 i then Some i else None)"

definition enc_RetryPolicy :: "RetryPolicy \<Rightarrow> json" where
  "enc_RetryPolicy p =
     JObj [(''InitialInterval'', JInt (InitialInterval p)),
           (''BackoffCoefficient'', enc_float (BackoffCoefficient p)),
           (''MaximumInterval'', JInt (MaximumInterval p)),
           (''MaximumAttempts'', JInt (MaximumAttempts p)),
           (''NonRetryableErrorTypes'', enc_slice JStr (NonRetryableErrorTypes p))]"

definition enc_RunPolicy :: "RunPolicy \<Rightarrow> json" where
  "enc_RunPolicy p =
     JObj [(''Retry'', enc_RetryPolicy (Retry p)),
           (''InvocationTimeout'', enc_ptr JInt (InvocationTimeout p)),
           (''TotalTimeout'', enc_ptr JInt (TotalTimeout p))]"

definition dec_RetryPolicy :: "json option \<Rightarrow> RetryPolicy option" where
  "dec_RetryPolicy v =
     (case v of None \<Rightarrow> Some zero_RetryPolicy
      | Some j \<Rightarrow>
          (case key_map j of None \<Rightarrow> None
           | Some m \<Rightarrow>
               (case (dec_int64 (jfield ''InitialInterval'' m), dec_float (jfield ''BackoffCoefficient'' m),
                      dec_int64 (jfield ''MaximumInterval'' m), dec_int32 (jfield ''MaximumAttempts'' m),
                      dec_slice dec_string (jfield ''NonRetryableErrorTypes'' m)) of
                  (Some ii, Some bc, Some mi, Some ma, Some ts) \<Rightarrow>
                    Some \<lparr>InitialInterval = ii, BackoffCoefficient = bc, MaximumInterval = mi,
                      MaximumAttempts = ma, NonRetryableErrorTypes = ts\<rparr>
                | _ \<Rightarrow> None)))"

definition dec_RunPolicy :: "json option \<Rightarrow> RunPolicy option" where
  "dec_RunPolicy v =
     (case v of None \<Rightarrow> Some zero_RunPolicy
      | Some j \<Rightarrow>
          (case key_map j of None \<Rightarrow> None
           | Some m \<Rightarrow>
               (case (dec_RetryPolicy (jfield ''Retry'' m), dec_ptr dec_int64 (jfield ''InvocationTimeout'' m),
                      dec_ptr dec_int64 (jfield ''TotalTimeout'' m)) of
                  (Some r, Some it, Some tt) \<Rightarrow>
                    Some \<lparr>Retry = r, InvocationTimeout = it, TotalTimeout = tt\<rparr>
                | _ \<Rightarrow> None)))"

definition wire_policy :: "RunPolicy \<Rightarrow> bool" where
  "wire_policy p \<longleftrightarrow>
     int64 (InitialInterval (Retry p)) \<and> int64 (MaximumInterval (Retry p)) \<and>
     int32 (MaximumAttempts (Retry p)) \<and>
     (\<forall>d. InvocationTimeout p = Some d \<longrightarrow> int64 d) \<and> (\<forall>d. TotalTimeout p = Some d \<longrightarrow> int64 d)"

lemma gget_fold_gput:
  "gsorted dst \<Longrightarrow> distinct (map fst m) \<Longrightarrow>
   gget (gunion dst m) k = (case map_of m k of Some v \<Rightarrow> Some v | None \<Rightarrow> gget dst k)"
proof (induction m arbitrary: dst)
  case Nil
  then show ?case by (simp add: gunion_def)
next
  case (Cons a m)
  obtain k' v' where a: "a = (k', v')" by (cases a)
  have "gunion dst (a # m) = gunion (gput k' v' dst) m" by (simp add: gunion_def a)
  moreover have "map_of m k' = None" using Cons.prems(2) by (simp add: a map_of_eq_None_iff)
  ultimately show ?case using Cons by (auto simp: a split: option.splits)
qed

lemma gget_gomap_of: "distinct (map fst m) \<Longrightarrow> gget (gomap_of m) k = map_of m k"
  by (simp add: gomap_of_def gget_fold_gput split: option.split)

lemma map_of_map_values: "map_of (map (\<lambda>(k, v). (k, f v)) m) k = map_option f (map_of m k)"
  by (induction m) auto

lemma distinct_map_values: "distinct (map fst (map (\<lambda>(k, v). (k, f v)) m)) = distinct (map fst m)"
  by (induction m) force+

lemma gget_gomap_of_map:
  assumes "distinct (map fst m)"
  shows "gget (gomap_of (map (\<lambda>(k, v). (k, f v)) m)) k = map_option f (map_of m k)"
proof -
  have d: "distinct (map fst (map (\<lambda>(k, v). (k, f v)) m))" using assms unfolding distinct_map_values .
  show ?thesis unfolding gget_gomap_of [OF d] by (rule map_of_map_values)
qed

text \<open>A document that was stored as typed metadata, or inside it.\<close>

abbreviation stored_json :: "json \<Rightarrow> json" where
  "stored_json j \<equiv> chapterMetadataValueToAny (chapterMetadataValueFromAny j)"

lemma stored_json_simps:
  "stored_json JNull = JNull"
  "stored_json (JBool b) = JBool b"
  "stored_json (JStr s) = JStr s"
  "stored_json (JTime t) = JTime t"
  "stored_json (JArr js) = JArr (map stored_json js)"
  by (simp_all add: o_def)

lemma stored_json_JInt: "stored_json (JInt i) = JInt i"
proof -
  have "\<lfloor>of_int i :: rat\<rfloor> = i" by simp
  then show ?thesis by (simp add: chapterMetadataNumber_def enc_float_def)
qed

lemma stored_json_enc_float: "stored_json (enc_float r) = enc_float r"
proof (cases "r = of_int \<lfloor>r\<rfloor>")
  case True
  then have "enc_float r = JInt \<lfloor>r\<rfloor>" by (simp add: enc_float_def)
  then show ?thesis by (simp add: stored_json_JInt del: chapterMetadataValueFromAny.simps)
qed (simp add: enc_float_def)

lemma key_map_stored_json:
  assumes "distinct (map fst m)"
  shows "\<exists>m'. stored_json (JObj m) = JObj m' \<and> (\<forall>k. gget m' k = map_option stored_json (map_of m k))"
  using assms by (simp add: gget_gomap_of_map map_of_map_values option.map_comp o_def)

lemma jfield_stored:
  "\<forall>k. gget m' k = map_option stored_json (map_of m k) \<Longrightarrow> map_of m k = Some v \<Longrightarrow>
   jfield k m' = Some (stored_json v)"
  by (simp add: jfield_exact)

lemmas stored_leaf = stored_json_simps stored_json_JInt stored_json_enc_float

lemma dec_stored_RetryPolicy:
  assumes "int64 (InitialInterval p)" "int64 (MaximumInterval p)" "int32 (MaximumAttempts p)"
  shows "dec_RetryPolicy (Some (stored_json (enc_RetryPolicy p))) = Some p"
proof -
  have ts: "stored_json (enc_slice JStr v) = enc_slice JStr v" for v
    by (cases v) (simp_all add: enc_slice_def o_def)
  have ts2: "dec_slice dec_string (Some (enc_slice JStr v)) = Some v" for v
    by (rule dec_slice_enc_slice) (simp add: dec_string_def)
  have ma: "int64 (MaximumAttempts p)" using assms(3) by (simp add: int32_def int64_def)
  obtain m' where m: "stored_json (enc_RetryPolicy p) = JObj m'"
    "\<forall>k. gget m' k = map_option stored_json (map_of
       [(''InitialInterval'', JInt (InitialInterval p)),
        (''BackoffCoefficient'', enc_float (BackoffCoefficient p)),
        (''MaximumInterval'', JInt (MaximumInterval p)),
        (''MaximumAttempts'', JInt (MaximumAttempts p)),
        (''NonRetryableErrorTypes'', enc_slice JStr (NonRetryableErrorTypes p))] k)"
    using key_map_stored_json [of "[(''InitialInterval'', JInt (InitialInterval p)),
        (''BackoffCoefficient'', enc_float (BackoffCoefficient p)),
        (''MaximumInterval'', JInt (MaximumInterval p)),
        (''MaximumAttempts'', JInt (MaximumAttempts p)),
        (''NonRetryableErrorTypes'', enc_slice JStr (NonRetryableErrorTypes p))]"]
    unfolding enc_RetryPolicy_def by (auto simp del: chapterMetadataValueFromAny.simps chapterMetadataValueToAny.simps)
  note f = jfield_stored [OF m(2)]
  show ?thesis
    by (simp add: dec_RetryPolicy_def m(1) key_map_def f stored_json_JInt stored_json_enc_float ts ts2
        dec_int32_def dec_int64_simps dec_float_enc_float assms ma
        del: chapterMetadataValueFromAny.simps chapterMetadataValueToAny.simps)
qed

lemma stored_field:
  assumes "distinct (map fst m)" "map_of m k = Some v"
  shows "\<exists>m'. stored_json (JObj m) = JObj m' \<and> jfield k m' = Some (stored_json v)"
  using key_map_stored_json [OF assms(1)] jfield_stored assms(2) by blast

lemma dec_stored_RunPolicy: "wire_policy p \<Longrightarrow> dec_RunPolicy (Some (stored_json (enc_RunPolicy p))) = Some p"
proof -
  assume w: "wire_policy p"
  let ?m = "[(''Retry'', enc_RetryPolicy (Retry p)), (''InvocationTimeout'', enc_ptr JInt (InvocationTimeout p)),
             (''TotalTimeout'', enc_ptr JInt (TotalTimeout p))]"
  have d: "distinct (map fst ?m)" by simp
  obtain m' where m: "stored_json (JObj ?m) = JObj m'" "\<forall>k. gget m' k = map_option stored_json (map_of ?m k)"
    using key_map_stored_json [OF d] by blast
  have r: "dec_RetryPolicy (Some (stored_json (enc_RetryPolicy (Retry p)))) = Some (Retry p)"
    using w by (intro dec_stored_RetryPolicy) (simp_all add: wire_policy_def)
  have st: "stored_json (enc_ptr JInt v) = enc_ptr JInt v" for v
    by (cases v) (simp_all add: enc_ptr_def stored_json_JInt del: chapterMetadataValueFromAny.simps(3))
  have t: "dec_ptr dec_int64 (Some (enc_ptr JInt v)) = Some v" if "\<And>x. v = Some x \<Longrightarrow> int64 x" for v
    using that by (intro dec_ptr_enc_ptr) (simp add: dec_int64_def)
  have t2: "dec_ptr dec_int64 (Some (enc_ptr JInt (InvocationTimeout p))) = Some (InvocationTimeout p)"
    "dec_ptr dec_int64 (Some (enc_ptr JInt (TotalTimeout p))) = Some (TotalTimeout p)"
    using w by (intro t; simp add: wire_policy_def)+
  note f = jfield_stored [OF m(2)]
  show ?thesis
    unfolding enc_RunPolicy_def m(1) dec_RunPolicy_def
    by (simp add: key_map_def f r st t2 del: chapterMetadataValueFromAny.simps chapterMetadataValueToAny.simps)
qed

text \<open>Prerequisites: a struct without tags.\<close>

definition enc_JobPrerequisite :: "JobPrerequisite \<Rightarrow> json" where
  "enc_JobPrerequisite p = JObj [(''JobID'', JStr (pre_JobID p)), (''Condition'', JStr (pre_Condition p))]"

definition dec_JobPrerequisite :: "json option \<Rightarrow> JobPrerequisite option" where
  "dec_JobPrerequisite v =
     (case v of None \<Rightarrow> Some \<lparr>pre_JobID = [], pre_Condition = []\<rparr>
      | Some j \<Rightarrow>
          (case key_map j of None \<Rightarrow> None
           | Some m \<Rightarrow>
               (case (dec_string (jfield ''JobID'' m), dec_string (jfield ''Condition'' m)) of
                  (Some i, Some c) \<Rightarrow> Some \<lparr>pre_JobID = i, pre_Condition = c\<rparr>
                | _ \<Rightarrow> None)))"

lemma dec_stored_JobPrerequisite: "dec_JobPrerequisite (Some (stored_json (enc_JobPrerequisite p))) = Some p"
proof -
  let ?m = "[(''JobID'', JStr (pre_JobID p)), (''Condition'', JStr (pre_Condition p))]"
  have d: "distinct (map fst ?m)" by simp
  obtain m' where m: "stored_json (JObj ?m) = JObj m'" "\<forall>k. gget m' k = map_option stored_json (map_of ?m k)"
    using key_map_stored_json [OF d] by blast
  note f = jfield_stored [OF m(2)]
  show ?thesis
    unfolding enc_JobPrerequisite_def m(1) dec_JobPrerequisite_def
    by (simp add: key_map_def f dec_string_def)
qed

lemma dec_stored_prereqs:
  "dec_slice dec_JobPrerequisite (Some (stored_json (enc_slice enc_JobPrerequisite ps))) = Some ps"
proof (cases ps)
  case (Some xs)
  have "dec_items dec_JobPrerequisite (map (\<lambda>p. stored_json (enc_JobPrerequisite p)) xs) = Some xs"
    by (rule dec_items_map) (rule dec_stored_JobPrerequisite)
  then show ?thesis by (simp add: Some enc_slice_def dec_slice_def o_def)
qed (simp add: enc_slice_def dec_slice_def)

section \<open>Properties\<close>



text \<open>C12: Chapter metadata survives being written as JSON and read again, provided its integers are in
  range and its doubles are not whole numbers (a whole double comes back as an integer).\<close>

theorem chapter_metadata_roundtrip:
  assumes "md = Some m" "stable_value (MMap m)"
  shows "\<exists>r. ChapterMetadataToJSON md = Inr r \<and> ChapterMetadataFromJSON r = Inr md
    \<and> chapterMetadataValueFromAny (chapterMetadataValueToAny (MDouble 2)) = MInt 2"
proof -
  have "chapterMetadataValueFromAny (chapterMetadataValueToAny (MMap m)) = MMap m"
    by (rule metadata_value_stable [OF assms(2)])
  then show ?thesis
    by (simp add: ChapterMetadataToJSON_def ChapterMetadataFromJSON_def assms(1) enc_float_def
        chapterMetadataNumber_def int64_def)
qed

theorem chapter_metadata_roundtrip_witness:
  "\<exists>r. ChapterMetadataToJSON (Some [(''attempt'', MInt 1)]) = Inr r
     \<and> ChapterMetadataFromJSON r = Inr (Some [(''attempt'', MInt 1)])"
  using chapter_metadata_roundtrip [OF refl, of "[(''attempt'', MInt 1)]"]
  by (auto simp: int64_def gsorted_Cons)

end
