(* ===== verification/Ops.thy ===== *)
theory Ops
  imports Cron
begin

text \<open>
  Stateful operations that may fail, and the outside world. An operation takes the state and returns
  the state with a result; an error keeps the changes made before it, as in the code. The combinator
  \<open>bind_op\<close> is the \<^verbatim>\<open>if err != nil { return err }\<close> chain; \<open>keeps I m\<close> says that an
  operation preserves an invariant, on its error paths too.

  The record \<open>Env\<close> collects what the runtime uses of code outside the repository: the clock (one
  reading per operation), the ids that \<^verbatim>\<open>ksuid.New\<close> draws (the \<open>k\<close>-th call gives
  \<open>ksuid k\<close>), SHA-256, the time zones, the text of durations and the JSON-schema compiler and
  validator.
\<close>

type_synonym ('s, 'a) op = "'s \<Rightarrow> 's \<times> 'a res"

definition ret_op :: "'a \<Rightarrow> ('s, 'a) op" where "ret_op x s = (s, Inr x)"
definition fail_op :: "go_error \<Rightarrow> ('s, 'a) op" where "fail_op e s = (s, Inl e)"
definition lift_op :: "'a res \<Rightarrow> ('s, 'a) op" where "lift_op r s = (s, r)"
definition get_op :: "('s \<Rightarrow> 'a) \<Rightarrow> ('s, 'a) op" where "get_op f s = (s, Inr (f s))"
definition read_op :: "('s \<Rightarrow> 'a res) \<Rightarrow> ('s, 'a) op" where "read_op f s = (s, f s)"
definition put_op :: "('s \<Rightarrow> 's) \<Rightarrow> ('s, unit) op" where "put_op f s = (f s, Inr ())"

definition bind_op :: "('s, 'a) op \<Rightarrow> ('a \<Rightarrow> ('s, 'b) op) \<Rightarrow> ('s, 'b) op" where
  "bind_op m f s = (case m s of (s', Inl e) \<Rightarrow> (s', Inl e) | (s', Inr x) \<Rightarrow> f x s')"

definition guard_op :: "bool \<Rightarrow> go_error \<Rightarrow> ('s, unit) op" where
  "guard_op b e s = (s, if b then Inr () else Inl e)"

lemmas op_defs = ret_op_def fail_op_def lift_op_def get_op_def read_op_def put_op_def bind_op_def guard_op_def

lemma bind_op_ret [simp]: "bind_op (ret_op x) f = f x"
  by (simp add: bind_op_def ret_op_def fun_eq_iff)

lemma bind_op_Inr:
  "bind_op m f s = (s', Inr y) \<longleftrightarrow> (\<exists>s1 x. m s = (s1, Inr x) \<and> f x s1 = (s', Inr y))"
  by (auto simp: bind_op_def split: prod.splits sum.splits)

lemma bind_op_Inl:
  "bind_op m f s = (s', Inl e) \<longleftrightarrow>
   m s = (s', Inl e) \<or> (\<exists>s1 x. m s = (s1, Inr x) \<and> f x s1 = (s', Inl e))"
  by (auto simp: bind_op_def split: prod.splits sum.splits)

lemma op_results:
  "ret_op x s = (s', r) \<longleftrightarrow> s' = s \<and> r = Inr x"
  "fail_op e s = (s', r') \<longleftrightarrow> s' = s \<and> r' = Inl e"
  "lift_op q s = (s', r) \<longleftrightarrow> s' = s \<and> r = q"
  "get_op g s = (s', r) \<longleftrightarrow> s' = s \<and> r = Inr (g s)"
  "read_op h s = (s', r) \<longleftrightarrow> s' = s \<and> r = h s"
  "put_op u s = (s', v) \<longleftrightarrow> s' = u s \<and> v = Inr ()"
  "guard_op b e s = (s', v) \<longleftrightarrow> s' = s \<and> v = (if b then Inr () else Inl e)"
  by (auto simp: op_defs)

text \<open>Running the first step of a chain.\<close>

lemma op_steps:
  "bind_op (lift_op q) f s = (case q of Inl e \<Rightarrow> (s, Inl e) | Inr x \<Rightarrow> f x s)"
  "bind_op (get_op g) f s = f (g s) s"
  "bind_op (read_op h) f s = (case h s of Inl e \<Rightarrow> (s, Inl e) | Inr x \<Rightarrow> f x s)"
  "bind_op (put_op u) f' s = f' () (u s)"
  "bind_op (guard_op b e) f' s = (if b then f' () s else (s, Inl e))"
  "bind_op (fail_op e) f s = (s, Inl e)"
  by (simp_all add: op_defs split: sum.splits)

lemma bind_op_assoc: "bind_op (bind_op m f) g = bind_op m (\<lambda>x. bind_op (f x) g)"
  by (auto simp: fun_eq_iff bind_op_def split: prod.splits sum.splits)

section \<open>Invariants\<close>

definition keeps :: "('s \<Rightarrow> bool) \<Rightarrow> ('s, 'a) op \<Rightarrow> bool" where
  "keeps I m \<longleftrightarrow> (\<forall>s. I s \<longrightarrow> I (fst (m s)))"

lemma keepsI: "(\<And>s. I s \<Longrightarrow> I (fst (m s))) \<Longrightarrow> keeps I m"
  by (simp add: keeps_def)

lemma keepsD: "keeps I m \<Longrightarrow> I s \<Longrightarrow> m s = (s', r) \<Longrightarrow> I s'"
  by (metis keeps_def fst_conv)

lemma keeps_reads [engine_inv]:
  "keeps I (ret_op x)" "keeps I (fail_op e)" "keeps I (lift_op r)" "keeps I (get_op f)"
  "keeps I (read_op g)" "keeps I (guard_op b e)"
  by (simp_all add: keeps_def op_defs)

lemma keeps_bind [engine_inv]: "keeps I m \<Longrightarrow> (\<And>x. keeps I (f x)) \<Longrightarrow> keeps I (bind_op m f)"
  by (fastforce simp: keeps_def bind_op_def split: prod.splits sum.splits)

text \<open>A step whose result the rest may rely on.\<close>

lemma keeps_bind_post:
  assumes "keeps I m" "\<And>s s' x. I s \<Longrightarrow> m s = (s', Inr x) \<Longrightarrow> P x" "\<And>x. P x \<Longrightarrow> keeps I (f x)"
  shows "keeps I (bind_op m f)"
proof (rule keepsI)
  fix s assume s: "I s"
  show "I (fst (bind_op m f s))"
  proof (cases "m s")
    case (Pair s' r)
    with assms s keepsD [OF assms(1) s Pair] show ?thesis
      by (cases r) (auto simp: bind_op_def keeps_def)
  qed
qed

lemma keeps_put [engine_inv]: "(\<And>s. I s \<Longrightarrow> I (u s)) \<Longrightarrow> keeps I (put_op u)"
  by (simp add: keeps_def op_defs)

lemma keeps_if [engine_inv]: "(b \<Longrightarrow> keeps I m) \<Longrightarrow> (\<not> b \<Longrightarrow> keeps I n) \<Longrightarrow> keeps I (if b then m else n)"
  by simp

lemma keeps_option [engine_inv]:
  "keeps I n \<Longrightarrow> (\<And>x. keeps I (f x)) \<Longrightarrow> keeps I (case v of None \<Rightarrow> n | Some x \<Rightarrow> f x)"
  by (cases v) simp_all

lemma keeps_sum [engine_inv]:
  "(\<And>x. keeps I (f x)) \<Longrightarrow> (\<And>x. keeps I (g x)) \<Longrightarrow> keeps I (case v of Inl x \<Rightarrow> f x | Inr x \<Rightarrow> g x)"
  by (cases v) simp_all

lemma keeps_prod [engine_inv]: "(\<And>x y. keeps I (f x y)) \<Longrightarrow> keeps I (case v of (x, y) \<Rightarrow> f x y)"
  by (cases v) simp_all

text \<open>A continuation that needs the state it reads: the invariant of that state is available.\<close>

lemma keeps_dep: "(\<And>s. I s \<Longrightarrow> I (fst (f s s))) \<Longrightarrow> keeps I (\<lambda>s. f s s)"
  by (simp add: keeps_def)

section \<open>The outside world\<close>

record Env =
  now :: go_time
  ksuid :: "nat \<Rightarrow> string"
  idGenerator :: "nat \<Rightarrow> string \<Rightarrow> JobKey res"
  zones :: zone_db
  Sha256 :: "string \<Rightarrow> string"
  JsonSha256 :: "json \<Rightarrow> string"
  InputSha256 :: "raw \<Rightarrow> string list \<Rightarrow> string"
  fmt_duration :: "duration \<Rightarrow> string"
  parse_duration :: "string \<Rightarrow> duration option"
  compiles :: "json \<Rightarrow> bool"
  conforms :: "json \<Rightarrow> json \<Rightarrow> bool"

text \<open>Distinct calls of \<^verbatim>\<open>ksuid.New\<close> give distinct, non-empty ids.\<close>

definition fresh_ids :: "Env \<Rightarrow> bool" where
  "fresh_ids env \<longleftrightarrow> inj (ksuid env) \<and> (\<forall>k. ksuid env k \<noteq> [])"

end
