(* ===== verification/Job_Schema.thy ===== *)
theory Job_Schema
  imports Chapter_Codec Ops
begin

text \<open>
  Job schemas: \<^verbatim>\<open>pkg/jobdb/schema.go\<close> and \<^verbatim>\<open>pkg/jobdb/internal/jobschema\<close>. Schemas are named by
  the hash of their canonical document. Compiling a fragment and validating a document against it is
  the third-party JSON-schema package (\<open>compiles\<close>, \<open>conforms\<close> of the environment). The process-wide
  cache of compiled schemas, keyed by hash only, is part of the state that the validation takes and
  returns. \<open>registry\<close> is \<^verbatim>\<open>GetJobSchema\<close> of the runtime on the current state.
\<close>

section \<open>Keys and hashes\<close>

record JobSchemaSelector =
  sel_Hash :: string
  sel_Schema :: raw

datatype JobSchemaKey = JobSchemaKey (sk_TenantId: string) (sk_SchemaHash: string)

datatype JobSchemaState = SchemaActive | SchemaArchived

record JobSchemaInfo =
  si_TenantId :: string
  si_SchemaHash :: string
  si_Schema :: raw
  si_State :: JobSchemaState
  si_CreatedAt :: go_time
  si_ArchivedAt :: "go_time option"

definition hex_char :: "char \<Rightarrow> bool" where
  "hex_char c = (let n = of_char c :: nat in 48 \<le> n \<and> n \<le> 57 \<or> 97 \<le> n \<and> n \<le> 102)"

text \<open>\<^verbatim>\<open>^sha256:[0-9a-f]{64}$\<close>\<close>

definition schemaHashPattern :: "string \<Rightarrow> bool" where
  "schemaHashPattern s \<longleftrightarrow> take 7 s = ''sha256:'' \<and> length s = 71 \<and> list_all hex_char (drop 7 s)"

definition ValidateJobSchemaHash :: "string \<Rightarrow> unit res" where
  "ValidateJobSchemaHash h =
     (if schemaHashPattern h then Inr () else Inl (Errorf ''schemaHash must match the pattern''))"

definition JobSchemaKey_Validate :: "JobSchemaKey \<Rightarrow> unit res" where
  "JobSchemaKey_Validate k =
     (if trim_space (sk_TenantId k) = [] then Inl (Errorf ''tenantId is required'')
      else ValidateJobSchemaHash (sk_SchemaHash k))"

definition CanonicalJobSchema :: "raw \<Rightarrow> json res" where
  "CanonicalJobSchema schema =
     (if raw_blank schema then Inl (Errorf ''schema is required'')
      else
        (case schema of
           Text _ \<Rightarrow> Inl (Errorf ''schema must be valid JSON'')
         | Json (JObj m) \<Rightarrow> Inr (jnormalize (JObj m))
         | Json _ \<Rightarrow> Inl (Errorf ''schema must be a JSON object'')))"

definition JobSchemaHash :: "Env \<Rightarrow> raw \<Rightarrow> (string \<times> json) res" where
  "JobSchemaHash env schema =
     (case CanonicalJobSchema schema of
        Inl e \<Rightarrow> Inl e
      | Inr canonical \<Rightarrow> Inr (''sha256:'' @ JsonSha256 env canonical, canonical))"

text \<open>The hash, the inline schema and whether there is one.\<close>

definition ResolveJobSchemaSelector :: "Env \<Rightarrow> JobSchemaSelector option \<Rightarrow> (string \<times> json option) res" where
  "ResolveJobSchemaSelector env selector =
     (case selector of
        None \<Rightarrow> Inr ([], None)
      | Some sel \<Rightarrow>
          (let hash = trim_space (sel_Hash sel) in
           if hash \<noteq> [] \<and> \<not> schemaHashPattern hash then Inl (Errorf ''schemaHash must match the pattern'')
           else if raw_blank (sel_Schema sel) then Inr (hash, None)
           else
             (case JobSchemaHash env (sel_Schema sel) of
                Inl e \<Rightarrow> Inl e
              | Inr (computed, canonical) \<Rightarrow>
                  if hash \<noteq> [] \<and> computed \<noteq> hash
                  then Inl (Errorf ''schema hash does not match inline schema hash'')
                  else Inr (computed, Some canonical))))"

section \<open>Schema documents\<close>

record ParsedJobSchema =
  ChapterShape :: json
  FirstChapterShape :: "json option"
  LastChapterShape :: "json option"

definition known_schema_fields :: "string list" where
  "known_schema_fields =
     [''$schema'', ''description'', ''chapterShape'', ''firstChapterShape'', ''lastChapterShape'']"

definition validateOptionalString :: "string \<Rightarrow> json option \<Rightarrow> unit res" where
  "validateOptionalString name v =
     (case v of
        None \<Rightarrow> Inr () | Some JNull \<Rightarrow> Inr () | Some (JStr _) \<Rightarrow> Inr () | Some (JTime _) \<Rightarrow> Inr ()
      | _ \<Rightarrow> Inl (Errorf (name @ '' must be a string'')))"

fun validateShapeValue :: "string \<Rightarrow> json \<Rightarrow> unit res" where
  "validateShapeValue name (JObj _) = Inr ()"
| "validateShapeValue name (JBool _) = Inr ()"
| "validateShapeValue name _ = Inl (Errorf (name @ '' must be a JSON Schema object or boolean''))"

definition optional_shape :: "string \<Rightarrow> json option \<Rightarrow> unit res" where
  "optional_shape name v = (case v of None \<Rightarrow> Inr () | Some j \<Rightarrow> validateShapeValue name j)"

definition ParseJobSchemaDocument :: "raw \<Rightarrow> ParsedJobSchema res" where
  "ParseJobSchemaDocument r =
     (if raw_blank r then Inl (Errorf ''schema is required'')
      else
        (case r of
           Json (JObj m) \<Rightarrow>
             if \<not> list_all (\<lambda>(k, v). k \<in> set known_schema_fields) m then Inl (Errorf ''unknown schema field'')
             else
               (case validateOptionalString ''$schema'' (gget (gomap_of m) ''$schema'') of
                  Inl e \<Rightarrow> Inl e
                | Inr _ \<Rightarrow>
               (case validateOptionalString ''description'' (gget (gomap_of m) ''description'') of
                  Inl e \<Rightarrow> Inl e
                | Inr _ \<Rightarrow>
               (case gget (gomap_of m) ''chapterShape'' of
                  None \<Rightarrow> Inl (Errorf ''chapterShape is required'')
                | Some shape \<Rightarrow>
               (case validateShapeValue ''chapterShape'' shape of
                  Inl e \<Rightarrow> Inl e
                | Inr _ \<Rightarrow>
               (case optional_shape ''firstChapterShape'' (gget (gomap_of m) ''firstChapterShape'') of
                  Inl e \<Rightarrow> Inl e
                | Inr _ \<Rightarrow>
               (case optional_shape ''lastChapterShape'' (gget (gomap_of m) ''lastChapterShape'') of
                  Inl e \<Rightarrow> Inl e
                | Inr _ \<Rightarrow>
                  Inr \<lparr>ChapterShape = shape,
                       FirstChapterShape = gget (gomap_of m) ''firstChapterShape'',
                       LastChapterShape = gget (gomap_of m) ''lastChapterShape''\<rparr>))))))
         | _ \<Rightarrow> Inl (Errorf ''schema must be a JSON object'')))"

text \<open>A compiled schema is the parsed one, once every fragment compiles.\<close>

definition compileSchemaFragment :: "Env \<Rightarrow> string \<Rightarrow> json \<Rightarrow> unit res" where
  "compileSchemaFragment env role j =
     (if compiles env j then Inr () else Inl (Errorf (''compile '' @ role @ '' schema'')))"

definition compileJobSchema :: "Env \<Rightarrow> raw \<Rightarrow> ParsedJobSchema res" where
  "compileJobSchema env r =
     (case ParseJobSchemaDocument r of
        Inl e \<Rightarrow> Inl e
      | Inr p \<Rightarrow>
     (case compileSchemaFragment env ''chapter'' (ChapterShape p) of
        Inl e \<Rightarrow> Inl e
      | Inr _ \<Rightarrow>
     (case (case FirstChapterShape p of None \<Rightarrow> Inr () | Some j \<Rightarrow> compileSchemaFragment env ''first'' j) of
        Inl e \<Rightarrow> Inl e
      | Inr _ \<Rightarrow>
     (case (case LastChapterShape p of None \<Rightarrow> Inr () | Some j \<Rightarrow> compileSchemaFragment env ''last'' j) of
        Inl e \<Rightarrow> Inl e
      | Inr _ \<Rightarrow> Inr p))))"

definition ValidateSchemaDocument :: "Env \<Rightarrow> raw \<Rightarrow> unit res" where
  "ValidateSchemaDocument env r =
     (case compileJobSchema env r of
        Inl e \<Rightarrow> Inl (Wrap (''job schema validation failed: invalid schema: '' @ error_message e)
                       (Sentinel ErrJobSchemaValidation))
      | Inr _ \<Rightarrow> Inr ())"

datatype ChapterRole = ChapterRoleDefault | ChapterRoleFirst | ChapterRoleLast

fun role_validator :: "ParsedJobSchema \<Rightarrow> ChapterRole \<Rightarrow> json" where
  "role_validator s ChapterRoleFirst = (case FirstChapterShape s of Some j \<Rightarrow> j | None \<Rightarrow> ChapterShape s)"
| "role_validator s ChapterRoleLast = (case LastChapterShape s of Some j \<Rightarrow> j | None \<Rightarrow> ChapterShape s)"
| "role_validator s ChapterRoleDefault = ChapterShape s"

section \<open>The document of a chapter\<close>

text \<open>Entries with an empty or absent value are left out of the document.\<close>

definition setString :: "string \<Rightarrow> string \<Rightarrow> json gomap" where
  "setString name value = omit_if (value = []) name (JStr value)"

definition set_opt :: "string \<Rightarrow> ('a \<Rightarrow> json) \<Rightarrow> 'a option \<Rightarrow> json gomap" where
  "set_opt name f v = (case v of None \<Rightarrow> [] | Some x \<Rightarrow> [(name, f x)])"

definition document :: "json gomap \<Rightarrow> json" where
  "document m = JObj (gomap_of m)"

definition inputReferenceDocument :: "InputReference \<Rightarrow> json" where
  "inputReferenceDocument r = document ([(''ordinal'', JInt (ref_Ordinal r))] @ setString ''hash'' (ref_Hash r))"

definition stacktraceDocument :: "string list \<Rightarrow> json gomap" where
  "stacktraceDocument st = omit_if (st = []) ''stacktrace'' (JArr (map JStr st))"

definition appErrorDocument :: "AppErrorPayload \<Rightarrow> json" where
  "appErrorDocument p =
     document ([(''message'', JStr (app_Message p))] @ setString ''level'' (app_Level p) @
       omit_if (app_Attrs p = []) ''attrs'' (JObj (app_Attrs p)) @
       set_opt ''inputRef'' inputReferenceDocument (app_InputRef p) @
       stacktraceDocument (app_Stacktrace p))"

definition systemErrorDocument :: "SystemErrorPayload \<Rightarrow> json" where
  "systemErrorDocument p =
     document ([(''message'', JStr (sys_Message p))] @ setString ''component'' (sys_Component p) @
       setString ''code'' (sys_Code p) @ omit_if (\<not> sys_Retryable p) ''retryable'' (JBool (sys_Retryable p)) @
       set_opt ''inputRef'' inputReferenceDocument (sys_InputRef p) @
       stacktraceDocument (sys_Stacktrace p))"

definition timeoutDocument :: "Env \<Rightarrow> TimeoutPayload \<Rightarrow> json" where
  "timeoutDocument env p =
     document ([(''after'', JStr (fmt_duration env (to_After p))), (''retryable'', JBool (to_Retryable p)),
        (''scope'', JStr (to_Scope p))] @ setString ''component'' (to_Component p) @
       setString ''code'' (to_Code p) @ setString ''kind'' (to_Kind p) @ setString ''message'' (to_Message p) @
       set_opt ''inputRef'' inputReferenceDocument (to_InputRef p))"

definition jsonValue :: "raw \<Rightarrow> json res" where
  "jsonValue r =
     (if raw_blank r then Inr JNull
      else (case r of Text _ \<Rightarrow> Inl unmarshal_error | Json j \<Rightarrow> Inr j))"

fun outcomeDocument :: "Env \<Rightarrow> ChapterOutcome option \<Rightarrow> json res" where
  "outcomeDocument env (Some (ApplicationOutput d)) =
     (case jsonValue d of
        Inl e \<Rightarrow> Inl e
      | Inr j \<Rightarrow> Inr (document [(''kind'', JStr ''success''), (''output'', j)]))"
| "outcomeDocument env (Some (AppErrorOutcome p)) =
     Inr (document [(''kind'', JStr ''appError''), (''error'', appErrorDocument p)])"
| "outcomeDocument env (Some (SystemErrorOutcome p)) =
     Inr (document [(''kind'', JStr ''systemError''), (''error'', systemErrorDocument p)])"
| "outcomeDocument env (Some (TimeoutOutcome p)) =
     Inr (document [(''kind'', JStr ''timeout''), (''timeout'', timeoutDocument env p)])"
| "outcomeDocument env None = Inl (Errorf ''unsupported task outcome type'')"

fun chapterBodyDocument :: "Env \<Rightarrow> ChapterBody option \<Rightarrow> json res" where
  "chapterBodyDocument env (Some (JobStart d)) =
     (case jsonValue d of
        Inl e \<Rightarrow> Inl e
      | Inr j \<Rightarrow> Inr (document [(''kind'', JStr ''jobStart''), (''input'', j)]))"
| "chapterBodyDocument env (Some (JobAttemptOutcome o1)) =
     (case outcomeDocument env o1 of
        Inl e \<Rightarrow> Inl e
      | Inr j \<Rightarrow> Inr (document [(''kind'', JStr ''jobAttemptOutcome''), (''outcome'', j)]))"
| "chapterBodyDocument env (Some (TaskAttemptOutcome o1)) =
     (case outcomeDocument env o1 of
        Inl e \<Rightarrow> Inl e
      | Inr j \<Rightarrow> Inr (document [(''kind'', JStr ''taskAttemptOutcome''), (''outcome'', j)]))"
| "chapterBodyDocument env (Some (RestartExtra d)) =
     (case jsonValue d of
        Inl e \<Rightarrow> Inl e
      | Inr j \<Rightarrow> Inr (document [(''kind'', JStr ''restartExtra''), (''output'', j)]))"
| "chapterBodyDocument env None = Inl (Errorf ''unsupported chapter body type'')"

definition storedArtifactsDocument :: "StoredArtifact list \<Rightarrow> json" where
  "storedArtifactsDocument as =
     JArr (map (\<lambda>a. document [(''digest'', JStr (sa_Digest a)), (''name'', JStr (sa_Name a)),
                              (''size'', JInt (sa_Size a))]) as)"

definition retryPolicyIsZero :: "RetryPolicy \<Rightarrow> bool" where
  "retryPolicyIsZero p \<longleftrightarrow>
     InitialInterval p = 0 \<and> BackoffCoefficient p = 0 \<and> MaximumInterval p = 0 \<and> MaximumAttempts p = 0 \<and>
     (NonRetryableErrorTypes p = None \<or> NonRetryableErrorTypes p = Some [])"

definition runPolicyDocument :: "Env \<Rightarrow> RunPolicy \<Rightarrow> json" where
  "runPolicyDocument env p =
     (let r = Retry p; dur = (\<lambda>d. JStr (fmt_duration env d)) in
      document
        (set_opt ''invocationTimeout'' dur (InvocationTimeout p) @
         set_opt ''totalTimeout'' dur (TotalTimeout p) @
         omit_if (retryPolicyIsZero r) ''retry''
           (document
              (omit_if (InitialInterval r = 0) ''initialInterval'' (dur (InitialInterval r)) @
               omit_if (BackoffCoefficient r = 0) ''backoffCoefficient'' (enc_float (BackoffCoefficient r)) @
               omit_if (MaximumInterval r = 0) ''maximumInterval'' (dur (MaximumInterval r)) @
               omit_if (MaximumAttempts r = 0) ''maximumAttempts'' (JInt (MaximumAttempts r)) @
               (case NonRetryableErrorTypes r of
                  Some (t # ts) \<Rightarrow> [(''nonRetryableErrorTypes'', JArr (map JStr (t # ts)))]
                | _ \<Rightarrow> [])))))"

definition prerequisitesDocument :: "JobPrerequisite list \<Rightarrow> json" where
  "prerequisitesDocument ps =
     JArr (map (\<lambda>p. document [(''condition'', JStr (pre_Condition p)), (''jobId'', JStr (pre_JobID p))]) ps)"

text \<open>The fields of \<^verbatim>\<open>runtimecodec.ChapterMeta\<close> that a chapter document shows.\<close>

record ChapterMeta =
  cm_Ordinal :: int
  cm_TaskType :: string
  cm_WorkerID :: string
  cm_CreatedAt :: go_time
  cm_StartedAt :: "go_time option"
  cm_FinishedAt :: "go_time option"
  cm_InputHash :: string
  cm_Metadata :: "json option"
  cm_Input :: "json option"
  cm_Attempt :: int
  cm_MaxAttempts :: int
  cm_NextAttemptAt :: "go_time option"
  cm_BackoffMillis :: int
  cm_Retryable :: "bool option"
  cm_InputRef :: "InputReference option"
  cm_RunPolicy :: "RunPolicy option"
  cm_Prerequisites :: "JobPrerequisite list"

definition dec_ref :: "json option \<Rightarrow> InputReference option option" where
  "dec_ref = dec_ptr dec_InputReference"

definition dec_prereqs :: "json option \<Rightarrow> JobPrerequisite list option" where
  "dec_prereqs v =
     (case dec_slice dec_JobPrerequisite v of None \<Rightarrow> None | Some None \<Rightarrow> Some [] | Some (Some ps) \<Rightarrow> Some ps)"

definition or_default :: "'a \<Rightarrow> 'a \<Rightarrow> 'a \<Rightarrow> 'a" where
  "or_default zero d x = (if x = zero then d else x)"

definition plain_meta :: "Chapter \<Rightarrow> ChapterMeta" where
  "plain_meta c = \<lparr>cm_Ordinal = ch_Ordinal c, cm_TaskType = ch_TaskType c, cm_WorkerID = [],
     cm_CreatedAt = ch_CreatedAt c, cm_StartedAt = None, cm_FinishedAt = None,
     cm_InputHash = ch_InputHash c, cm_Metadata = None, cm_Input = None, cm_Attempt = 0,
     cm_MaxAttempts = 0, cm_NextAttemptAt = None, cm_BackoffMillis = 0, cm_Retryable = None,
     cm_InputRef = None, cm_RunPolicy = None, cm_Prerequisites = []\<rparr>"

definition merge_meta :: "Chapter \<Rightarrow> json gomap \<Rightarrow> ChapterMeta option" where
  "merge_meta c m =
     (case (dec_int64 (jfield ''version'' m), dec_int64 (jfield ''ordinal'' m), dec_string (jfield ''task_type'' m),
            dec_string (jfield ''worker_id'' m), dec_time (jfield ''created_at'' m)) of
        (Some ver, Some ord, Some tt, Some wid, Some ca) \<Rightarrow>
     (case (dec_ptr dec_time (jfield ''started_at'' m), dec_ptr dec_time (jfield ''finished_at'' m),
            dec_string (jfield ''input_hash'' m), dec_int64 (jfield ''attempt'' m),
            dec_int64 (jfield ''max_attempts'' m)) of
        (Some sa, Some fa, Some ih, Some att, Some mx) \<Rightarrow>
     (case (dec_ptr dec_time (jfield ''next_attempt_at'' m), dec_int64 (jfield ''backoff_ms'' m),
            dec_ptr dec_bool (jfield ''retryable'' m), dec_ref (jfield ''input_ref'' m)) of
        (Some na, Some bm, Some re, Some ir) \<Rightarrow>
     (case (dec_ptr dec_RunPolicy (jfield ''run_policy'' m), dec_prereqs (jfield ''prereqs'' m)) of
        (Some rp, Some ps) \<Rightarrow>
          Some \<lparr>cm_Ordinal = or_default 0 (ch_Ordinal c) ord, cm_TaskType = or_default [] (ch_TaskType c) tt,
            cm_WorkerID = wid, cm_CreatedAt = or_default 0 (ch_CreatedAt c) ca, cm_StartedAt = sa,
            cm_FinishedAt = fa, cm_InputHash = or_default [] (ch_InputHash c) ih,
            cm_Metadata = jfield ''metadata'' m, cm_Input = jfield ''input'' m, cm_Attempt = att,
            cm_MaxAttempts = mx, cm_NextAttemptAt = na, cm_BackoffMillis = bm, cm_Retryable = re,
            cm_InputRef = ir, cm_RunPolicy = rp, cm_Prerequisites = ps\<rparr>
      | _ \<Rightarrow> None) | _ \<Rightarrow> None) | _ \<Rightarrow> None) | _ \<Rightarrow> None)"

definition chapterMetaFromChapter :: "Chapter \<Rightarrow> ChapterMeta res" where
  "chapterMetaFromChapter c =
     (case ChapterMetadataToJSON (ch_Metadata c) of
        Inl e \<Rightarrow> Inl e
      | Inr r \<Rightarrow>
          if raw_len0 r then Inr (plain_meta c)
          else
            (case raw_key_map r of
               None \<Rightarrow> Inl unmarshal_error
             | Some m \<Rightarrow> (case merge_meta c m of None \<Rightarrow> Inl unmarshal_error | Some x \<Rightarrow> Inr x)))"

definition ChapterDocument :: "Env \<Rightarrow> Chapter \<Rightarrow> json res" where
  "ChapterDocument env c =
     (case chapterBodyDocument env (ch_Body c) of
        Inl e \<Rightarrow> Inl e
      | Inr body \<Rightarrow>
          (case chapterMetaFromChapter c of
             Inl e \<Rightarrow> Inl e
           | Inr meta \<Rightarrow>
               Inr (document
                 ([(''artifacts'', storedArtifactsDocument (ch_Artifacts c)), (''body'', body),
                   (''createdAt'', JTime (cm_CreatedAt meta)), (''ordinal'', JInt (cm_Ordinal meta))] @
                  setString ''inputHash'' (cm_InputHash meta) @ setString ''taskType'' (cm_TaskType meta) @
                  setString ''workerId'' (cm_WorkerID meta) @
                  set_opt ''startedAt'' JTime (cm_StartedAt meta) @
                  set_opt ''finishedAt'' JTime (cm_FinishedAt meta) @
                  omit_if (cm_Attempt meta = 0) ''attempt'' (JInt (cm_Attempt meta)) @
                  omit_if (cm_MaxAttempts meta = 0) ''maxAttempts'' (JInt (cm_MaxAttempts meta)) @
                  set_opt ''nextAttemptAt'' JTime (cm_NextAttemptAt meta) @
                  omit_if (cm_BackoffMillis meta = 0) ''backoffMillis'' (JInt (cm_BackoffMillis meta)) @
                  set_opt ''retryable'' JBool (cm_Retryable meta) @
                  set_opt ''inputRef'' inputReferenceDocument (cm_InputRef meta) @
                  set_opt ''metadata'' id (cm_Metadata meta) @
                  set_opt ''input'' id (cm_Input meta) @
                  set_opt ''runPolicy'' (runPolicyDocument env) (cm_RunPolicy meta) @
                  omit_if (cm_Prerequisites meta = []) ''prerequisites''
                    (prerequisitesDocument (cm_Prerequisites meta))))))"

section \<open>Validation\<close>

type_synonym schema_cache = "string \<rightharpoonup> ParsedJobSchema"

definition cached_schema ::
  "Env \<Rightarrow> (JobSchemaKey \<Rightarrow> JobSchemaInfo res) \<Rightarrow> JobSchemaKey \<Rightarrow> (schema_cache, ParsedJobSchema) op" where
  "cached_schema env registry key =
     bind_op (get_op (\<lambda>c. c (sk_SchemaHash key))) (\<lambda>hit.
       case hit of
         Some s \<Rightarrow> ret_op s
       | None \<Rightarrow>
           bind_op (lift_op (registry key)) (\<lambda>info.
           bind_op (lift_op (compileJobSchema env (si_Schema info))) (\<lambda>compiled.
           bind_op (put_op (\<lambda>c. c(sk_SchemaHash key \<mapsto> compiled))) (\<lambda>_.
             ret_op compiled))))"

definition Prime ::
  "Env \<Rightarrow> (JobSchemaKey \<Rightarrow> JobSchemaInfo res) \<Rightarrow> JobSchemaKey \<Rightarrow> (schema_cache, unit) op" where
  "Prime env registry key =
     (if sk_SchemaHash key = [] then ret_op ()
      else
        bind_op (lift_op (JobSchemaKey_Validate key)) (\<lambda>_.
        bind_op (cached_schema env registry key) (\<lambda>_. ret_op ())))"

definition ValidateChapter ::
  "Env \<Rightarrow> (JobSchemaKey \<Rightarrow> JobSchemaInfo res) \<Rightarrow> JobSchemaKey \<Rightarrow> ChapterRole \<Rightarrow> Chapter
   \<Rightarrow> (schema_cache, unit) op" where
  "ValidateChapter env registry key role chapter =
     (if sk_SchemaHash key = [] then ret_op ()
      else
        bind_op (lift_op (JobSchemaKey_Validate key)) (\<lambda>_.
        bind_op (cached_schema env registry key) (\<lambda>schema.
        bind_op (lift_op (ChapterDocument env chapter)) (\<lambda>doc.
          if conforms env (role_validator schema role) doc then ret_op ()
          else fail_op (Wrap ''job schema validation failed: schema rejected chapter''
                 (Sentinel ErrJobSchemaValidation))))))"

text \<open>The cache is transparent as long as it holds what the registry would compile to.\<close>

definition cache_ok :: "Env \<Rightarrow> (JobSchemaKey \<Rightarrow> JobSchemaInfo res) \<Rightarrow> schema_cache \<Rightarrow> bool" where
  "cache_ok env registry c \<longleftrightarrow>
     (\<forall>h s. c h = Some s \<longrightarrow> (\<forall>t info. registry (JobSchemaKey t h) = Inr info \<longrightarrow>
        compileJobSchema env (si_Schema info) = Inr s))"

lemma cached_schema_Inr:
  assumes "cached_schema env registry key c = (c', Inr s)" "registry key = Inr info" "cache_ok env registry c"
  shows "compileJobSchema env (si_Schema info) = Inr s"
  using assms
  by (cases key; cases "c (sk_SchemaHash key)")
    (auto simp: cached_schema_def bind_op_Inr op_results cache_ok_def split: sum.splits)

end
