(* ===== verification/Schedule_Types.thy ===== *)
theory Schedule_Types
  imports Chapter_Codec Ops Failure_Policy
begin

text \<open>
  Task data, schedules and job metadata: \<^verbatim>\<open>pkg/jobdb/artifact.go\<close> as far as the runtime reads it,
  \<^verbatim>\<open>pkg/jobdb/schedule.go\<close>, and \<^verbatim>\<open>pkg/jobdb/internal/jobmetadata\<close>. An artifact is its name, its
  declared size, what reading it returns and the digest it carries without being read; \<^verbatim>\<open>TaskData\<close> is what its two methods return. A nil
  \<^verbatim>\<open>TaskData\<close> is \<^term>\<open>None\<close>.
\<close>

section \<open>Task data\<close>

record Artifact =
  art_Name :: string
  art_Size :: int
  art_Content :: "string res"
  art_Digest :: "string option"

definition NewArtifactFromBytes :: "string \<Rightarrow> string \<Rightarrow> Artifact" where
  "NewArtifactFromBytes name bytes =
     \<lparr>art_Name = name, art_Size = int (length bytes), art_Content = Inr bytes, art_Digest = None\<rparr>"

definition Artifact_Sha256 :: "Env \<Rightarrow> Artifact \<Rightarrow> string res" where
  "Artifact_Sha256 env a =
     (case art_Digest a of
        Some h \<Rightarrow> Inr h
      | None \<Rightarrow> (case art_Content a of Inl e \<Rightarrow> Inl e | Inr b \<Rightarrow> Inr (Sha256 env b)))"

record TaskData =
  td_GetData :: "raw res"
  td_GetArtifacts :: "Artifact list res"
  td_Kind :: "string option"

definition SimpleTaskData :: "raw \<Rightarrow> Artifact list \<Rightarrow> TaskData" where
  "SimpleTaskData d as = \<lparr>td_GetData = Inr d, td_GetArtifacts = Inr as, td_Kind = None\<rparr>"

definition EnvelopedTaskData :: "raw \<Rightarrow> Artifact list \<Rightarrow> string \<Rightarrow> TaskData" where
  "EnvelopedTaskData d as kind = \<lparr>td_GetData = Inr d, td_GetArtifacts = Inr as, td_Kind = Some kind\<rparr>"

section \<open>Schedules\<close>

datatype ScheduleKey = ScheduleKey (sch_TenantId: string) (sch_ScheduleId: string)

definition schedule_id_char :: "char \<Rightarrow> bool" where
  "schedule_id_char c =
     (let n = of_char c :: nat in
      65 \<le> n \<and> n \<le> 90 \<or> 97 \<le> n \<and> n \<le> 122 \<or> 48 \<le> n \<and> n \<le> 57 \<or> c = CHR ''_'' \<or> c = CHR ''-'')"

definition scheduleIDPattern :: "string \<Rightarrow> bool" where
  "scheduleIDPattern s \<longleftrightarrow> s \<noteq> [] \<and> list_all schedule_id_char s"

definition ScheduleKey_Validate :: "ScheduleKey \<Rightarrow> unit res" where
  "ScheduleKey_Validate k =
     (if sch_TenantId k = [] then Inl (Errorf ''tenantId is required'')
      else if \<not> scheduleIDPattern (sch_ScheduleId k) then Inl (Errorf ''scheduleId must match [A-Za-z0-9_-]+'')
      else Inr ())"

datatype ScheduleState = ScheduleActive | SchedulePaused | ScheduleArchived | ScheduleFailurePaused

datatype ScheduleOverlapPolicy = OverlapDefault | OverlapSerial | OverlapOther string

record ScheduleTarget =
  tgt_JobType :: string
  tgt_Data :: "TaskData option"
  tgt_RunPolicy :: RunPolicy
  tgt_Metadata :: raw

record UpsertScheduleRequest =
  us_TenantId :: string
  us_ScheduleId :: string
  us_Trigger :: ScheduleTrigger
  us_Target :: ScheduleTarget
  us_OverlapPolicy :: ScheduleOverlapPolicy
  us_FailurePolicy :: ScheduleFailurePolicy
  us_Paused :: bool
  us_ExpectedGeneration :: "int option"
  us_RequestTime :: go_time

record ScheduleMutationRequest =
  sm_ScheduleKey :: ScheduleKey
  sm_ExpectedGeneration :: "int option"
  sm_RequestTime :: go_time

record TriggerScheduleRequest =
  ts_ScheduleKey :: ScheduleKey
  ts_RequestID :: string
  ts_RequestTime :: go_time

record ScheduleInfo =
  sc_ScheduleKey :: ScheduleKey
  sc_State :: ScheduleState
  sc_EffectiveState :: ScheduleState
  sc_Generation :: int
  sc_SpecHash :: string
  sc_Trigger :: ScheduleTrigger
  sc_Target :: ScheduleTarget
  sc_OverlapPolicy :: ScheduleOverlapPolicy
  sc_FailurePolicy :: ScheduleFailurePolicy
  sc_NextFireAt :: "go_time option"
  sc_NextJobKey :: "JobKey option"
  sc_CreatedAt :: go_time
  sc_UpdatedAt :: go_time

definition NormalizeScheduleOverlapPolicy :: "ScheduleOverlapPolicy \<Rightarrow> ScheduleOverlapPolicy" where
  "NormalizeScheduleOverlapPolicy p = (if p = OverlapDefault then OverlapSerial else p)"

definition ValidateApplicationMetadata :: "raw \<Rightarrow> unit res" where
  "ValidateApplicationMetadata r =
     (if raw_blank r then Inr ()
      else
        (case raw_key_map r of
           None \<Rightarrow> Inl (Wrap ''metadata must be a JSON object'' unmarshal_error)
         | Some _ \<Rightarrow> Inr ()))"

definition ValidateScheduleRequest :: "UpsertScheduleRequest \<Rightarrow> unit res" where
  "ValidateScheduleRequest req =
     (case ScheduleKey_Validate (ScheduleKey (us_TenantId req) (us_ScheduleId req)) of
        Inl e \<Rightarrow> Inl e
      | Inr _ \<Rightarrow>
      if tgt_JobType (us_Target req) = [] then Inl (Errorf ''target jobType is required'')
      else if tgt_Data (us_Target req) = None then Inl (Errorf ''target data is required'')
      else
     (case ValidateApplicationMetadata (tgt_Metadata (us_Target req)) of
        Inl e \<Rightarrow> Inl e
      | Inr _ \<Rightarrow>
      if NormalizeScheduleOverlapPolicy (us_OverlapPolicy req) \<noteq> OverlapSerial
      then Inl (Errorf ''unsupported overlap policy'')
      else
     (case (case trg_Kind (us_Trigger req) of
              TriggerCron \<Rightarrow>
                if trim_space (trg_Expression (us_Trigger req)) = []
                then Inl (Errorf ''cron expression is required'') else Inr ()
            | TriggerInterval \<Rightarrow>
                if trg_Interval (us_Trigger req) \<le> 0
                then Inl (Errorf ''interval trigger requires a positive interval'') else Inr ()
            | TriggerOther k \<Rightarrow> Inl (Errorf ''unsupported trigger kind'')) of
        Inl e \<Rightarrow> Inl e
      | Inr _ \<Rightarrow>
      if WindowSize (us_FailurePolicy req) < 0 \<or> MinSuccessPercent (us_FailurePolicy req) < 0
         \<or> 100 < MinSuccessPercent (us_FailurePolicy req) \<or> MaxSequentialFailures (us_FailurePolicy req) < 0
      then Inl (Errorf ''invalid failure policy'')
      else Inr ())))"

section \<open>The hash of a schedule's specification\<close>

definition NormalizeJSON :: "raw \<Rightarrow> raw" where
  "NormalizeJSON r = (if raw_blank r then Text [] else case r of Text s \<Rightarrow> Text s | Json j \<Rightarrow> Json (jnormalize j))"

record scheduleHashArtifact =
  sha_Name :: string
  sha_Digest :: string
  sha_Size :: int

definition artifact_lt :: "scheduleHashArtifact \<Rightarrow> scheduleHashArtifact \<Rightarrow> bool" where
  "artifact_lt a b =
     (if sha_Name a = sha_Name b then
        (if sha_Digest a = sha_Digest b then sha_Size a < sha_Size b else sha_Digest a < sha_Digest b)
      else sha_Name a < sha_Name b)"

fun hash_artifacts :: "Env \<Rightarrow> Artifact list \<Rightarrow> scheduleHashArtifact list res" where
  "hash_artifacts env [] = Inr []"
| "hash_artifacts env (a # as) =
     (case Artifact_Sha256 env a of
        Inl e \<Rightarrow> Inl e
      | Inr digest \<Rightarrow>
          (case hash_artifacts env as of
             Inl e \<Rightarrow> Inl e
           | Inr out \<Rightarrow>
               Inr (\<lparr>sha_Name = art_Name a, sha_Digest = digest, sha_Size = art_Size a\<rparr> # out)))"

definition scheduleArtifactsForHash :: "Env \<Rightarrow> TaskData \<Rightarrow> scheduleHashArtifact list res" where
  "scheduleArtifactsForHash env d =
     (case td_GetArtifacts d of
        Inl e \<Rightarrow> Inl e
      | Inr as \<Rightarrow>
          (case hash_artifacts env as of
             Inl e \<Rightarrow> Inl e | Inr out \<Rightarrow> Inr (sort_slice artifact_lt out)))"

fun trigger_kind_text :: "ScheduleTriggerKind \<Rightarrow> string" where
  "trigger_kind_text TriggerCron = ''cron''"
| "trigger_kind_text TriggerInterval = ''interval''"
| "trigger_kind_text (TriggerOther k) = k"

fun overlap_text :: "ScheduleOverlapPolicy \<Rightarrow> string" where
  "overlap_text OverlapDefault = []"
| "overlap_text OverlapSerial = ''serial''"
| "overlap_text (OverlapOther p) = p"

definition enc_ScheduleTrigger :: "ScheduleTrigger \<Rightarrow> json" where
  "enc_ScheduleTrigger t =
     JObj ([(''kind'', JStr (trigger_kind_text (trg_Kind t)))] @
       omit_if (trg_Expression t = []) ''expression'' (JStr (trg_Expression t)) @
       omit_if (trg_Timezone t = []) ''timezone'' (JStr (trg_Timezone t)) @
       (case trg_StartAt t of None \<Rightarrow> [] | Some s \<Rightarrow> [(''startAt'', JTime s)]) @
       (case trg_EndAt t of None \<Rightarrow> [] | Some e \<Rightarrow> [(''endAt'', JTime e)]) @
       omit_if (trg_Interval t = 0) ''interval'' (JInt (trg_Interval t)))"

definition enc_ScheduleFailurePolicy :: "ScheduleFailurePolicy \<Rightarrow> json" where
  "enc_ScheduleFailurePolicy p =
     JObj (omit_if (MinSuccessPercent p = 0) ''minSuccessPercent'' (JInt (MinSuccessPercent p)) @
       omit_if (WindowSize p = 0) ''windowSize'' (JInt (WindowSize p)) @
       omit_if (MaxSequentialFailures p = 0) ''maxSequentialFailures'' (JInt (MaxSequentialFailures p)))"

definition enc_hash_artifact :: "scheduleHashArtifact \<Rightarrow> json" where
  "enc_hash_artifact a =
     JObj ([(''name'', JStr (sha_Name a))] @ omit_if (sha_Digest a = []) ''sha256'' (JStr (sha_Digest a)) @
       omit_if (sha_Size a = 0) ''size'' (JInt (sha_Size a)))"

text \<open>Marshalling a \<^verbatim>\<open>json.RawMessage\<close> field with \<^verbatim>\<open>omitempty\<close>: an invalid text is an error.\<close>

definition raw_field :: "string \<Rightarrow> raw \<Rightarrow> json gomap res" where
  "raw_field k r =
     (if raw_len0 r then Inr []
      else case r of Text _ \<Rightarrow> Inl (Errorf ''json: error calling MarshalJSON'') | Json j \<Rightarrow> Inr [(k, j)])"

definition spec_data :: "Env \<Rightarrow> ScheduleTarget \<Rightarrow> (raw \<times> scheduleHashArtifact list) res" where
  "spec_data env target =
     (case tgt_Data target of
        None \<Rightarrow> Inr (Text [], [])
      | Some d \<Rightarrow>
          (case td_GetData d of
             Inl e \<Rightarrow> Inl e
           | Inr r \<Rightarrow>
               (case scheduleArtifactsForHash env d of Inl e \<Rightarrow> Inl e | Inr as \<Rightarrow> Inr (r, as))))"

definition ScheduleSpecHash ::
  "Env \<Rightarrow> ScheduleTrigger \<Rightarrow> ScheduleTarget \<Rightarrow> ScheduleOverlapPolicy \<Rightarrow> ScheduleFailurePolicy \<Rightarrow> string res" where
  "ScheduleSpecHash env trigger target overlap failure =
     (case spec_data env target of
        Inl e \<Rightarrow> Inl e
      | Inr (rawData, artifacts) \<Rightarrow>
     (case raw_field ''data'' rawData of
        Inl e \<Rightarrow> Inl e
      | Inr dataField \<Rightarrow>
     (case raw_field ''metadata'' (NormalizeJSON (tgt_Metadata target)) of
        Inl e \<Rightarrow> Inl e
      | Inr metaField \<Rightarrow>
          Inr (''sha256:'' @ JsonSha256 env (JObj
            [(''trigger'', enc_ScheduleTrigger trigger),
             (''target'', JObj ([(''jobType'', JStr (tgt_JobType target))] @ dataField @
                omit_if (artifacts = []) ''artifacts'' (JArr (map enc_hash_artifact artifacts)) @
                [(''runPolicy'', enc_RunPolicy (tgt_RunPolicy target))] @ metaField)),
             (''overlapPolicy'', JStr (overlap_text (NormalizeScheduleOverlapPolicy overlap))),
             (''failurePolicy'', enc_ScheduleFailurePolicy failure)])))))"

section \<open>Occurrence ids\<close>

definition ScheduleRunID :: "go_time \<Rightarrow> string" where
  "ScheduleRunID t = format_stamp t @ pad_digits 9 (nat (time_Nanosecond t)) @ ''Z''"

definition ScheduleRunJobID :: "string \<Rightarrow> int \<Rightarrow> go_time \<Rightarrow> string" where
  "ScheduleRunJobID scheduleID generation scheduledAt =
     ''jobdbsched_'' @ scheduleID @ ''_g'' @ itoa generation @ ''_run_'' @ ScheduleRunID scheduledAt"

definition ScheduleManualJobID :: "Env \<Rightarrow> string \<Rightarrow> string \<Rightarrow> string" where
  "ScheduleManualJobID env scheduleID requestID =
     (let requestID = (if requestID = [] then ScheduleRunID (now env) else requestID)
      in ''jobdbsched_'' @ scheduleID @ ''_manual_'' @ requestID)"

section \<open>Job metadata\<close>

record ScheduleFailureHistory =
  fh_Bits :: string
  fh_WindowSize :: int

record ScheduleOccurrenceMetadata =
  occ_ScheduleId :: string
  occ_Kind :: string
  occ_Generation :: int
  occ_SpecHash :: string
  occ_ScheduledAt :: go_time
  occ_RunId :: string
  occ_Manual :: bool
  occ_BackfillId :: string
  occ_PreviousJobId :: string
  occ_FailureHistory :: ScheduleFailureHistory

record RuntimeJobMetadata =
  rm_Schedule :: "ScheduleOccurrenceMetadata option"
  rm_SchemaHash :: string
  rm_ParentJobID :: string

record JobMetadataEnvelope =
  env_App :: raw
  env_Internal :: "RuntimeJobMetadata option"

definition ScheduleMetadataKind :: string where "ScheduleMetadataKind = ''schedule_tick''"

definition enc_FailureHistory :: "ScheduleFailureHistory \<Rightarrow> json" where
  "enc_FailureHistory h =
     JObj (omit_if (fh_Bits h = []) ''bits'' (JStr (fh_Bits h)) @
       omit_if (fh_WindowSize h = 0) ''windowSize'' (JInt (fh_WindowSize h)))"

definition dec_FailureHistory :: "json option \<Rightarrow> ScheduleFailureHistory option" where
  "dec_FailureHistory v =
     (case v of None \<Rightarrow> Some \<lparr>fh_Bits = [], fh_WindowSize = 0\<rparr>
      | Some j \<Rightarrow>
          (case key_map j of None \<Rightarrow> None
           | Some m \<Rightarrow>
               (case (dec_string (jfield ''bits'' m), dec_int64 (jfield ''windowSize'' m)) of
                  (Some b, Some w) \<Rightarrow> Some \<lparr>fh_Bits = b, fh_WindowSize = w\<rparr>
                | _ \<Rightarrow> None)))"

definition enc_Occurrence :: "ScheduleOccurrenceMetadata \<Rightarrow> json" where
  "enc_Occurrence o1 =
     JObj ([(''scheduleId'', JStr (occ_ScheduleId o1)), (''kind'', JStr (occ_Kind o1)),
            (''generation'', JInt (occ_Generation o1)), (''specHash'', JStr (occ_SpecHash o1)),
            (''scheduledAt'', JTime (occ_ScheduledAt o1)), (''runId'', JStr (occ_RunId o1)),
            (''manual'', JBool (occ_Manual o1))] @
       omit_if (occ_BackfillId o1 = []) ''backfillId'' (JStr (occ_BackfillId o1)) @
       omit_if (occ_PreviousJobId o1 = []) ''previousJobId'' (JStr (occ_PreviousJobId o1)) @
       [(''failureHistory'', enc_FailureHistory (occ_FailureHistory o1))])"

definition dec_Occurrence :: "json option \<Rightarrow> ScheduleOccurrenceMetadata option" where
  "dec_Occurrence v =
     (case (case v of None \<Rightarrow> Some [] | Some j \<Rightarrow> key_map j) of
        None \<Rightarrow> None
      | Some m \<Rightarrow>
     (case (dec_string (jfield ''scheduleId'' m), dec_string (jfield ''kind'' m),
            dec_int64 (jfield ''generation'' m), dec_string (jfield ''specHash'' m),
            dec_time (jfield ''scheduledAt'' m)) of
        (Some si, Some k, Some g, Some sh, Some sa) \<Rightarrow>
     (case (dec_string (jfield ''runId'' m), dec_bool (jfield ''manual'' m), dec_string (jfield ''backfillId'' m),
            dec_string (jfield ''previousJobId'' m), dec_FailureHistory (jfield ''failureHistory'' m)) of
        (Some ri, Some ma, Some bi, Some pj, Some fh) \<Rightarrow>
          Some \<lparr>occ_ScheduleId = si, occ_Kind = k, occ_Generation = g, occ_SpecHash = sh,
            occ_ScheduledAt = sa, occ_RunId = ri, occ_Manual = ma, occ_BackfillId = bi,
            occ_PreviousJobId = pj, occ_FailureHistory = fh\<rparr>
      | _ \<Rightarrow> None) | _ \<Rightarrow> None))"

definition enc_RuntimeJobMetadata :: "RuntimeJobMetadata \<Rightarrow> json" where
  "enc_RuntimeJobMetadata r =
     JObj ((case rm_Schedule r of None \<Rightarrow> [] | Some o1 \<Rightarrow> [(''schedule'', enc_Occurrence o1)]) @
       omit_if (rm_SchemaHash r = []) ''schemaHash'' (JStr (rm_SchemaHash r)) @
       omit_if (rm_ParentJobID r = []) ''parentJobId'' (JStr (rm_ParentJobID r)))"

definition dec_RuntimeJobMetadata :: "json option \<Rightarrow> RuntimeJobMetadata option" where
  "dec_RuntimeJobMetadata v =
     (case (case v of None \<Rightarrow> Some [] | Some j \<Rightarrow> key_map j) of
        None \<Rightarrow> None
      | Some m \<Rightarrow>
     (case (dec_ptr dec_Occurrence (jfield ''schedule'' m), dec_string (jfield ''schemaHash'' m),
            dec_string (jfield ''parentJobId'' m)) of
        (Some s, Some h, Some p) \<Rightarrow> Some \<lparr>rm_Schedule = s, rm_SchemaHash = h, rm_ParentJobID = p\<rparr>
      | _ \<Rightarrow> None))"

definition runtimeJobMetadataEmpty :: "RuntimeJobMetadata \<Rightarrow> bool" where
  "runtimeJobMetadataEmpty r \<longleftrightarrow>
     rm_Schedule r = None \<and> trim_space (rm_SchemaHash r) = [] \<and> trim_space (rm_ParentJobID r) = []"

definition BuildJobMetadataEnvelope :: "raw \<Rightarrow> RuntimeJobMetadata \<Rightarrow> raw res" where
  "BuildJobMetadataEnvelope appMetadata internal =
     (case ValidateApplicationMetadata appMetadata of
        Inl e \<Rightarrow> Inl e
      | Inr _ \<Rightarrow>
          (let app = NormalizeJSON appMetadata;
               internalPtr = (if runtimeJobMetadataEmpty internal then None else Some internal)
           in if raw_len0 app \<and> internalPtr = None then Inr (Text [])
              else
                (case raw_field ''app'' app of
                   Inl e \<Rightarrow> Inl e
                 | Inr appField \<Rightarrow>
                     Inr (Json (JObj (appField @
                       (case internalPtr of None \<Rightarrow> []
                        | Some r \<Rightarrow> [(''internal'', enc_RuntimeJobMetadata r)])))))))"

definition MergeScheduleOccurrenceMetadata :: "raw \<Rightarrow> ScheduleOccurrenceMetadata \<Rightarrow> bool \<Rightarrow> raw res" where
  "MergeScheduleOccurrenceMetadata appMetadata occurrence manual =
     (let o1 = occurrence\<lparr>occ_Kind := ScheduleMetadataKind,
                 occ_RunId := ScheduleRunID (occ_ScheduledAt occurrence), occ_Manual := manual\<rparr>
      in BuildJobMetadataEnvelope appMetadata
           \<lparr>rm_Schedule = Some o1, rm_SchemaHash = [], rm_ParentJobID = []\<rparr>)"

definition storedInternalMetadataKnown :: "json \<Rightarrow> bool" where
  "storedInternalMetadataKnown j =
     (case key_map j of
        None \<Rightarrow> False
      | Some m \<Rightarrow> gget m ''schedule'' \<noteq> None \<or> gget m ''schemaHash'' \<noteq> None \<or> gget m ''parentJobId'' \<noteq> None)"

definition dec_envelope :: "json gomap \<Rightarrow> JobMetadataEnvelope option" where
  "dec_envelope m =
     (case dec_ptr dec_RuntimeJobMetadata (jfield ''internal'' m) of
        None \<Rightarrow> None
      | Some i \<Rightarrow>
          Some \<lparr>env_App = (case jfield ''app'' m of None \<Rightarrow> Text [] | Some j \<Rightarrow> Json j), env_Internal = i\<rparr>)"

definition envelope_app :: "raw \<Rightarrow> json gomap \<Rightarrow> raw" where
  "envelope_app r m =
     (case dec_envelope m of
        None \<Rightarrow> r
      | Some e \<Rightarrow> if raw_blank (env_App e) \<or> env_App e = Json JNull then Text [] else env_App e)"

definition AppMetadataFromStoredMetadata :: "raw \<Rightarrow> raw" where
  "AppMetadataFromStoredMetadata r =
     (if raw_blank r then Text []
      else
        (case raw_key_map r of
           None \<Rightarrow> r
         | Some m \<Rightarrow>
             if gget m ''app'' \<noteq> None then envelope_app r m
             else
               (case gget m ''internal'' of
                  None \<Rightarrow> r
                | Some i \<Rightarrow> if storedInternalMetadataKnown i then envelope_app r m else r)))"

definition StripRuntimeMetadata :: "raw \<Rightarrow> raw" where
  "StripRuntimeMetadata r = AppMetadataFromStoredMetadata r"

text \<open>The internal object, when there is one; an error when the metadata is not an object.\<close>

definition internal_metadata :: "raw \<Rightarrow> RuntimeJobMetadata option res" where
  "internal_metadata r =
     (if raw_blank r then Inr None
      else
        (case raw_key_map r of
           None \<Rightarrow> Inl (Wrap ''metadata must be a JSON object'' unmarshal_error)
         | Some obj \<Rightarrow>
             (case gget obj ''internal'' of
                None \<Rightarrow> Inr None
              | Some j \<Rightarrow>
                  (case dec_RuntimeJobMetadata (Some j) of
                     None \<Rightarrow> Inl (Wrap ''internal metadata must be a JSON object'' unmarshal_error)
                   | Some x \<Rightarrow> Inr (Some x)))))"

text \<open>The empty id is the \<^verbatim>\<open>false\<close> of the second result.\<close>

definition ExtractParentJobID :: "raw \<Rightarrow> string res" where
  "ExtractParentJobID r =
     (case internal_metadata r of
        Inl e \<Rightarrow> Inl e
      | Inr None \<Rightarrow> Inr []
      | Inr (Some x) \<Rightarrow> Inr (trim_space (rm_ParentJobID x)))"

definition ExtractScheduleOccurrenceMetadata :: "raw \<Rightarrow> ScheduleOccurrenceMetadata option res" where
  "ExtractScheduleOccurrenceMetadata r =
     (case internal_metadata r of
        Inl e \<Rightarrow> Inl e
      | Inr None \<Rightarrow> Inr None
      | Inr (Some x) \<Rightarrow>
          (case rm_Schedule x of
             None \<Rightarrow> Inr None
           | Some o1 \<Rightarrow>
               if occ_ScheduleId o1 = [] \<or> occ_Generation o1 \<le> 0 \<or> occ_SpecHash o1 = []
                  \<or> occ_ScheduledAt o1 = 0
               then Inl (Errorf ''schedule metadata missing required fields'')
               else if occ_Kind o1 \<noteq> [] \<and> occ_Kind o1 \<noteq> ScheduleMetadataKind
               then Inl (Errorf ''schedule metadata kind is invalid'')
               else
                 Inr (Some (o1\<lparr>occ_Kind := ScheduleMetadataKind,
                   occ_RunId := (if occ_RunId o1 = [] then ScheduleRunID (occ_ScheduledAt o1)
                                 else occ_RunId o1)\<rparr>))))"

text \<open>\<^verbatim>\<open>pkg/jobdb/internal/jobmetadata\<close>\<close>

fun first_hash :: "string list \<Rightarrow> json gomap \<Rightarrow> string" where
  "first_hash [] m = []"
| "first_hash (k # ks) m =
     (case gget m k of
        None \<Rightarrow> first_hash ks m
      | Some j \<Rightarrow>
          (case dec_string (Some j) of
             None \<Rightarrow> first_hash ks m
           | Some h \<Rightarrow> if trim_space h \<noteq> [] then trim_space h else first_hash ks m))"

definition schemaHashFromObject :: "json gomap \<Rightarrow> string" where
  "schemaHashFromObject = first_hash [''jobdb_schema_hash'', ''schema_hash'', ''schemaHash'']"

definition sub_hash :: "string \<Rightarrow> json gomap \<Rightarrow> string" where
  "sub_hash k obj =
     (case gget obj k of
        None \<Rightarrow> []
      | Some j \<Rightarrow> (case key_map j of None \<Rightarrow> [] | Some m \<Rightarrow> schemaHashFromObject m))"

definition SchemaHashFromStoredMetadata :: "raw \<Rightarrow> string" where
  "SchemaHashFromStoredMetadata r =
     (if raw_blank r then []
      else
        (case raw_key_map r of
           None \<Rightarrow> []
         | Some obj \<Rightarrow>
             if schemaHashFromObject obj \<noteq> [] then schemaHashFromObject obj
             else if sub_hash ''app'' obj \<noteq> [] then sub_hash ''app'' obj
             else sub_hash ''internal'' obj))"

section \<open>Reading metadata that was built\<close>

text \<open>A decoder sees in a built object exactly what was put there.\<close>

lemma key_map_JObj [simp]: "key_map (JObj m) = Some m"
  by (simp add: key_map_def)

definition wire_occurrence :: "ScheduleOccurrenceMetadata \<Rightarrow> bool" where
  "wire_occurrence o1 \<longleftrightarrow> int64 (occ_Generation o1) \<and> int64 (fh_WindowSize (occ_FailureHistory o1))"

lemma dec_enc_FailureHistory:
  "int64 (fh_WindowSize h) \<Longrightarrow> dec_FailureHistory (Some (enc_FailureHistory h)) = Some h"
  by (cases "fh_Bits h = []"; cases "fh_WindowSize h = 0")
    (simp_all add: dec_FailureHistory_def enc_FailureHistory_def omit_if_def jfield_def fold_char_def
      dec_string_def dec_int64_def)

lemma dec_enc_Occurrence:
  assumes "wire_occurrence o1"
  shows "dec_Occurrence (Some (enc_Occurrence o1)) = Some o1"
proof -
  have h: "dec_FailureHistory (Some (enc_FailureHistory (occ_FailureHistory o1))) = Some (occ_FailureHistory o1)"
    using assms by (intro dec_enc_FailureHistory) (simp add: wire_occurrence_def)
  have g: "dec_int64 (Some (JInt (occ_Generation o1))) = Some (occ_Generation o1)"
    using assms by (simp add: wire_occurrence_def dec_int64_def)
  obtain m where m: "enc_Occurrence o1 = JObj m" "key_map (enc_Occurrence o1) = Some m"
    by (simp add: enc_Occurrence_def)
  have f: "jfield ''scheduleId'' m = Some (JStr (occ_ScheduleId o1))" "jfield ''kind'' m = Some (JStr (occ_Kind o1))"
    "jfield ''generation'' m = Some (JInt (occ_Generation o1))"
    "jfield ''specHash'' m = Some (JStr (occ_SpecHash o1))"
    "jfield ''scheduledAt'' m = Some (JTime (occ_ScheduledAt o1))"
    "jfield ''runId'' m = Some (JStr (occ_RunId o1))" "jfield ''manual'' m = Some (JBool (occ_Manual o1))"
    "jfield ''failureHistory'' m = Some (enc_FailureHistory (occ_FailureHistory o1))"
    using m(1) by (auto simp: enc_Occurrence_def omit_if_def intro!: jfield_exact)
  have o1: "dec_string (jfield ''backfillId'' m) = Some (occ_BackfillId o1)"
    "dec_string (jfield ''previousJobId'' m) = Some (occ_PreviousJobId o1)"
    using m(1) by (auto simp: enc_Occurrence_def omit_if_def jfield_def fold_char_def dec_string_def)
  show ?thesis
    by (simp add: dec_Occurrence_def m(2) f o1 h g dec_string_simps dec_bool_simps dec_time_simps)
qed

definition wire_runtime :: "RuntimeJobMetadata \<Rightarrow> bool" where
  "wire_runtime r \<longleftrightarrow> (\<forall>o1. rm_Schedule r = Some o1 \<longrightarrow> wire_occurrence o1)"

lemma dec_enc_RuntimeJobMetadata:
  assumes "wire_runtime r"
  shows "dec_RuntimeJobMetadata (Some (enc_RuntimeJobMetadata r)) = Some r"
proof -
  have o1: "dec_ptr dec_Occurrence (Some (enc_Occurrence x)) = Some (Some x)" if "rm_Schedule r = Some x" for x
    using that assms dec_enc_Occurrence [of x] by (simp add: dec_ptr_def wire_runtime_def enc_Occurrence_def)
  show ?thesis
    by (cases "rm_Schedule r"; cases "rm_SchemaHash r = []"; cases "rm_ParentJobID r = []")
      (simp_all add: dec_RuntimeJobMetadata_def enc_RuntimeJobMetadata_def omit_if_def jfield_def fold_char_def
        dec_string_def dec_ptr_None o1)
qed

lemma raw_key_map_Json [simp]: "raw_key_map (Json (JObj m)) = Some m"
  by (simp add: raw_key_map_def)

text \<open>What the envelope builder returns: nothing, or an object with at most two keys.\<close>

lemma BuildJobMetadataEnvelope_cases:
  assumes "BuildJobMetadataEnvelope a r = Inr e"
  obtains
    (empty) "e = Text []" "NormalizeJSON a = Text []" "runtimeJobMetadataEmpty r"
  | (app) j where "e = Json (JObj [(''app'', j)])" "NormalizeJSON a = Json j" "runtimeJobMetadataEmpty r"
  | (internal) "e = Json (JObj [(''internal'', enc_RuntimeJobMetadata r)])" "NormalizeJSON a = Text []"
      "\<not> runtimeJobMetadataEmpty r"
  | (both) j where "e = Json (JObj [(''app'', j), (''internal'', enc_RuntimeJobMetadata r)])"
      "NormalizeJSON a = Json j" "\<not> runtimeJobMetadataEmpty r"
proof (cases "NormalizeJSON a")
  case (Text s)
  then show thesis
    using assms empty internal
    by (cases s) (auto simp: BuildJobMetadataEnvelope_def Let_def raw_field_def split: sum.splits if_splits)
next
  case (Json j)
  then show thesis
    using assms app both
    by (auto simp: BuildJobMetadataEnvelope_def Let_def raw_field_def split: sum.splits if_splits)
qed

lemma internal_metadata_built:
  assumes "BuildJobMetadataEnvelope a r = Inr e" "wire_runtime r"
  shows "internal_metadata e = Inr (if runtimeJobMetadataEmpty r then None else Some r)"
  using assms(1)
proof (cases rule: BuildJobMetadataEnvelope_cases)
  case internal
  then show ?thesis by (simp add: internal_metadata_def dec_enc_RuntimeJobMetadata [OF assms(2)])
next
  case both
  then show ?thesis by (simp add: internal_metadata_def dec_enc_RuntimeJobMetadata [OF assms(2)])
qed (simp_all add: internal_metadata_def)

lemma envelope_app_built:
  assumes "wire_runtime r" "m = [(''app'', j)] \<or> m = [(''app'', j), (''internal'', enc_RuntimeJobMetadata r)]"
  shows "envelope_app e m = (if j = JNull then Text [] else Json j)"
proof -
  have i: "dec_ptr dec_RuntimeJobMetadata (jfield ''internal'' m) \<noteq> None"
    using assms(2)
  proof
    assume "m = [(''app'', j)]"
    then show ?thesis by (simp add: jfield_def fold_char_def dec_ptr_None)
  next
    assume "m = [(''app'', j), (''internal'', enc_RuntimeJobMetadata r)]"
    then have "jfield ''internal'' m = Some (enc_RuntimeJobMetadata r)" by (simp add: jfield_exact)
    then show ?thesis
      using dec_enc_RuntimeJobMetadata [OF assms(1)]
      by (simp add: dec_ptr_def enc_RuntimeJobMetadata_def)
  qed
  have "jfield ''app'' m = Some j" using assms(2) by (auto intro: jfield_exact)
  with i show ?thesis by (auto simp: envelope_app_def dec_envelope_def)
qed

lemma empty_runtime: "runtimeJobMetadataEmpty r \<Longrightarrow> rm_Schedule r = None"
  by (simp add: runtimeJobMetadataEmpty_def)

lemma storedInternalMetadataKnown_enc:
  "\<not> runtimeJobMetadataEmpty r \<Longrightarrow> storedInternalMetadataKnown (enc_RuntimeJobMetadata r)"
  by (auto simp: storedInternalMetadataKnown_def enc_RuntimeJobMetadata_def runtimeJobMetadataEmpty_def
      omit_if_def split: option.splits)

lemma AppMetadata_built:
  assumes "BuildJobMetadataEnvelope a r = Inr e" "wire_runtime r"
  shows "AppMetadataFromStoredMetadata e = (if NormalizeJSON a = Json JNull then Text [] else NormalizeJSON a)"
  using assms(1)
proof (cases rule: BuildJobMetadataEnvelope_cases)
  case (app j)
  then show ?thesis
    using envelope_app_built [OF assms(2), of "[(''app'', j)]" j]
    by (simp add: AppMetadataFromStoredMetadata_def)
next
  case internal
  let ?m = "[(''internal'', enc_RuntimeJobMetadata r)]"
  have "jfield ''internal'' ?m = Some (enc_RuntimeJobMetadata r)" by (simp add: jfield_exact)
  moreover have "dec_ptr dec_RuntimeJobMetadata (Some (enc_RuntimeJobMetadata r)) = Some (Some r)"
    using dec_enc_RuntimeJobMetadata [OF assms(2)] by (simp add: dec_ptr_def enc_RuntimeJobMetadata_def)
  moreover have "jfield ''app'' ?m = None" by (simp add: jfield_def fold_char_def)
  ultimately show ?thesis
    using internal storedInternalMetadataKnown_enc
    by (simp add: AppMetadataFromStoredMetadata_def envelope_app_def dec_envelope_def)
next
  case (both j)
  then show ?thesis
    using envelope_app_built [OF assms(2), of "[(''app'', j), (''internal'', enc_RuntimeJobMetadata r)]" j]
    by (simp add: AppMetadataFromStoredMetadata_def)
qed (simp add: AppMetadataFromStoredMetadata_def)

definition app_hash :: "raw \<Rightarrow> string" where
  "app_hash a =
     (case NormalizeJSON a of Text _ \<Rightarrow> []
      | Json j \<Rightarrow> (case key_map j of None \<Rightarrow> [] | Some m \<Rightarrow> schemaHashFromObject m))"

lemma schemaHash_enc: "schemaHashFromObject (case enc_RuntimeJobMetadata r of JObj m \<Rightarrow> m | _ \<Rightarrow> []) = trim_space (rm_SchemaHash r)"
  by (cases "rm_Schedule r"; cases "rm_SchemaHash r = []"; cases "rm_ParentJobID r = []")
    (simp_all add: enc_RuntimeJobMetadata_def schemaHashFromObject_def omit_if_def dec_string_def)

lemma SchemaHash_built:
  assumes "BuildJobMetadataEnvelope a r = Inr e"
  shows "SchemaHashFromStoredMetadata e = (if app_hash a \<noteq> [] then app_hash a else trim_space (rm_SchemaHash r))"
proof -
  have k: "key_map (enc_RuntimeJobMetadata r) = Some (case enc_RuntimeJobMetadata r of JObj m \<Rightarrow> m | _ \<Rightarrow> [])"
    by (simp add: enc_RuntimeJobMetadata_def)
  have s: "sub_hash ''internal'' m = trim_space (rm_SchemaHash r)"
    if "gget m ''internal'' = Some (enc_RuntimeJobMetadata r)" for m
    using that by (simp add: sub_hash_def k schemaHash_enc)
  show ?thesis using assms
  proof (cases rule: BuildJobMetadataEnvelope_cases)
    case empty
    then show ?thesis by (simp add: SchemaHashFromStoredMetadata_def app_hash_def runtimeJobMetadataEmpty_def)
  next
    case (app j)
    then show ?thesis
      by (simp add: SchemaHashFromStoredMetadata_def app_hash_def runtimeJobMetadataEmpty_def
          schemaHashFromObject_def sub_hash_def)
  next
    case internal
    then show ?thesis
      using s [of "[(''internal'', enc_RuntimeJobMetadata r)]"]
      by (simp add: SchemaHashFromStoredMetadata_def app_hash_def sub_hash_def [of "''app''"]
          schemaHashFromObject_def)
  next
    case (both j)
    then show ?thesis
      using s [of "[(''app'', j), (''internal'', enc_RuntimeJobMetadata r)]"]
      by (simp add: SchemaHashFromStoredMetadata_def app_hash_def sub_hash_def [of "''app''"]
          schemaHashFromObject_def)
  qed
qed

section \<open>Occurrence ids determine the occurrence\<close>

lemma split_last_char:
  "xs @ c # ys = xs' @ c # ys' \<Longrightarrow> c \<notin> set ys \<Longrightarrow> c \<notin> set ys' \<Longrightarrow> xs = xs' \<and> ys = ys'"
proof -
  assume e: "xs @ c # ys = xs' @ c # ys'" and n: "c \<notin> set ys" "c \<notin> set ys'"
  have "takeWhile (\<lambda>x. x \<noteq> c) (rev (xs @ c # ys)) = rev ys"
    using n(1) by (simp add: takeWhile_append)
  moreover have "takeWhile (\<lambda>x. x \<noteq> c) (rev (xs' @ c # ys')) = rev ys'"
    using n(2) by (simp add: takeWhile_append)
  ultimately have "ys = ys'" using e by simp
  with e show "xs = xs' \<and> ys = ys'" by simp
qed

lemma underscore_not_digit [simp]: "\<not> is_digit CHR ''_''"
  by (simp add: is_digit_def char_digit_def)

lemma ScheduleRunID_no_underscore: "CHR ''_'' \<notin> set (ScheduleRunID t)"
proof -
  have "CHR ''_'' \<notin> set (pad_int w i)" for w i
    by (auto simp: pad_int_def dest: pad_min_digits)
  then show ?thesis
    by (auto simp: ScheduleRunID_def format_stamp_def dest: pad_digits_are_digits)
qed

lemma ScheduleRunID_inject: "ScheduleRunID s = ScheduleRunID t \<longleftrightarrow> s = t"
  using format_stamp_nanos_inject [of s "''Z''" t] by (auto simp: ScheduleRunID_def)

lemma itoa_inject: "itoa i = itoa j \<longleftrightarrow> i = j"
proof -
  have h: "nat_digits m \<noteq> CHR ''-'' # xs" for m xs
    using nat_digits_are_digits [of "CHR ''-''" m] not_digits by auto
  show ?thesis
    using h [of "nat i"] h [of "nat j", symmetric] by (auto simp: itoa_def eq_nat_nat_iff)
qed

lemma itoa_no_underscore: "CHR ''_'' \<notin> set (itoa i)"
  by (auto simp: itoa_def dest: nat_digits_are_digits)

lemma ScheduleRunJobID_inject:
  "ScheduleRunJobID i g t = ScheduleRunJobID i' g' t' \<longleftrightarrow> i = i' \<and> g = g' \<and> t = t'"
proof
  assume e: "ScheduleRunJobID i g t = ScheduleRunJobID i' g' t'"
  have "(i @ ''_g'' @ itoa g @ ''_run'') @ CHR ''_'' # ScheduleRunID t
      = (i' @ ''_g'' @ itoa g' @ ''_run'') @ CHR ''_'' # ScheduleRunID t'"
    using e by (simp add: ScheduleRunJobID_def)
  from split_last_char [OF this ScheduleRunID_no_underscore ScheduleRunID_no_underscore]
  have p: "(i @ CHR ''_'' # CHR ''g'' # itoa g) @ ''_run'' = (i' @ CHR ''_'' # CHR ''g'' # itoa g') @ ''_run''"
    and t: "t = t'"
    by (simp_all add: ScheduleRunID_inject)
  from p have "i @ CHR ''_'' # CHR ''g'' # itoa g = i' @ CHR ''_'' # CHR ''g'' # itoa g'"
    unfolding append_same_eq .
  then have "i = i' \<and> CHR ''g'' # itoa g = CHR ''g'' # itoa g'"
    by (rule split_last_char) (simp_all add: itoa_no_underscore)
  with t show "i = i' \<and> g = g' \<and> t = t'" by (simp add: itoa_inject)
qed simp

section \<open>Properties\<close>

text \<open>C13: What the envelope builder stores is read back: the runtime's part exactly, the application's
  metadata in normal form (null counts as none), and as schema hash the one the runtime recorded, unless
  the application's own metadata carries a schema hash, which then takes precedence.\<close>

theorem stored_metadata_readable:
  assumes "BuildJobMetadataEnvelope app r = Inr e" "wire_runtime r"
  shows "internal_metadata e = Inr (if runtimeJobMetadataEmpty r then None else Some r)
    \<and> AppMetadataFromStoredMetadata e = (if NormalizeJSON app = Json JNull then Text [] else NormalizeJSON app)
    \<and> SchemaHashFromStoredMetadata e = (if app_hash app \<noteq> [] then app_hash app else trim_space (rm_SchemaHash r))
    \<and> ExtractParentJobID e = Inr (trim_space (rm_ParentJobID r))"
  using internal_metadata_built [OF assms] AppMetadata_built [OF assms] SchemaHash_built [OF assms(1)]
  by (auto simp: ExtractParentJobID_def runtimeJobMetadataEmpty_def)

theorem stored_metadata_readable_witness:
  "\<exists>e. BuildJobMetadataEnvelope (Json (JObj [(''schemaHash'', JStr ''b'')]))
        \<lparr>rm_Schedule = None, rm_SchemaHash = ''a'', rm_ParentJobID = ''p''\<rparr> = Inr e
     \<and> SchemaHashFromStoredMetadata e = ''b'' \<and> ExtractParentJobID e = Inr ''p''"
proof -
  let ?a = "Json (JObj [(''schemaHash'', JStr ''b'')])"
  let ?r = "\<lparr>rm_Schedule = None, rm_SchemaHash = ''a'', rm_ParentJobID = ''p''\<rparr>"
  have a: "app_hash ?a = ''b''" "trim_space ''p'' = ''p''" by code_simp+
  let ?e = "Json (JObj [(''app'', JObj [(''schemaHash'', JStr ''b'')]),
     (''internal'', JObj [(''schemaHash'', JStr ''a''), (''parentJobId'', JStr ''p'')])])"
  have b: "BuildJobMetadataEnvelope ?a ?r = Inr ?e" by code_simp
  have w: "wire_runtime ?r" by (simp add: wire_runtime_def)
  from stored_metadata_readable [OF b w] a b show ?thesis by auto
qed


text \<open>C15: The schedule occurrence recorded in a job's metadata is read back, with its kind, run id and
  manual flag as the code sets them.\<close>

theorem occurrence_metadata_roundtrip:
  assumes "MergeScheduleOccurrenceMetadata app o1 manual = Inr e" "wire_occurrence o1"
    and "occ_ScheduleId o1 \<noteq> []" "0 < occ_Generation o1" "occ_SpecHash o1 \<noteq> []" "occ_ScheduledAt o1 \<noteq> 0"
  shows "ExtractScheduleOccurrenceMetadata e =
    Inr (Some (o1\<lparr>occ_Kind := ScheduleMetadataKind, occ_RunId := ScheduleRunID (occ_ScheduledAt o1),
                 occ_Manual := manual\<rparr>))"
proof -
  let ?o = "o1\<lparr>occ_Kind := ScheduleMetadataKind, occ_RunId := ScheduleRunID (occ_ScheduledAt o1),
                 occ_Manual := manual\<rparr>"
  let ?r = "\<lparr>rm_Schedule = Some ?o, rm_SchemaHash = [], rm_ParentJobID = []\<rparr>"
  have b: "BuildJobMetadataEnvelope app ?r = Inr e"
    using assms(1) by (simp add: MergeScheduleOccurrenceMetadata_def Let_def)
  have w: "wire_runtime ?r" using assms(2) by (simp add: wire_runtime_def wire_occurrence_def)
  have "ScheduleRunID (occ_ScheduledAt o1) \<noteq> []" by (simp add: ScheduleRunID_def)
  then show ?thesis
    using internal_metadata_built [OF b w] assms(3-6)
    by (simp add: ExtractScheduleOccurrenceMetadata_def runtimeJobMetadataEmpty_def)
qed

theorem occurrence_metadata_roundtrip_witness:
  "\<exists>e o2. MergeScheduleOccurrenceMetadata (Text [])
      \<lparr>occ_ScheduleId = ''s'', occ_Kind = [], occ_Generation = 1, occ_SpecHash = ''h'', occ_ScheduledAt = 5,
       occ_RunId = [], occ_Manual = False, occ_BackfillId = [], occ_PreviousJobId = [],
       occ_FailureHistory = \<lparr>fh_Bits = [], fh_WindowSize = 0\<rparr>\<rparr> True = Inr e
    \<and> ExtractScheduleOccurrenceMetadata e = Inr (Some o2) \<and> occ_Manual o2"
proof -
  let ?o = "\<lparr>occ_ScheduleId = ''s'', occ_Kind = [], occ_Generation = 1, occ_SpecHash = ''h'', occ_ScheduledAt = 5,
       occ_RunId = [], occ_Manual = False, occ_BackfillId = [], occ_PreviousJobId = [],
       occ_FailureHistory = \<lparr>fh_Bits = [], fh_WindowSize = 0\<rparr>\<rparr>"
  obtain e where b: "MergeScheduleOccurrenceMetadata (Text []) ?o True = Inr e"
    by (simp add: MergeScheduleOccurrenceMetadata_def BuildJobMetadataEnvelope_def NormalizeJSON_def
        ValidateApplicationMetadata_def runtimeJobMetadataEmpty_def raw_field_def Let_def)
  from occurrence_metadata_roundtrip [OF b] b show ?thesis by (auto simp: wire_occurrence_def int64_def)
qed

end
