(* ===== verification/Metadata_Filter.thy ===== *)
theory Metadata_Filter
  imports Chapter_Codec
begin

text \<open>
  Metadata filters: the filter builders and \<^verbatim>\<open>MetadataPredicates\<close> of \<^verbatim>\<open>pkg/jobdb/list_jobs.go\<close>, and
  the normal form and matching of predicates of the toy engine (\<^verbatim>\<open>toy.go\<close>). A filter value of type
  \<^verbatim>\<open>any\<close> is nil, a raw message, a Go value with a JSON form, or one without. A nil filter is
  \<^term>\<open>None\<close>. The theorem at the end is the meaning of a filter: the conjunction of its fields, each
  a disjunction of values, on the application part of the stored metadata.
\<close>

section \<open>Filters\<close>

datatype any_value = AnyNil | AnyRaw raw | AnyJson json | AnyBad

datatype MetadataFilter =
    metadataEmpty
  | metadataEqual string any_value
  | metadataOr string "any_value list"
  | metadataAnd MetadataFilter MetadataFilter

record MetadataPredicate =
  mp_Path :: "string list"
  mp_Values :: "any_value list"

text \<open>\<open>nil\<close> tells whether the value is the nil interface.\<close>

definition validateField :: "string \<Rightarrow> bool \<Rightarrow> unit res" where
  "validateField field nil =
     (let name = trim_space field in
      if name = [] then Inl (Errorf ''metadata field name is required'')
      else if CHR ''.'' \<in> set name then Inl (Errorf ''metadata field must be a top-level field'')
      else if nil then Inl (Errorf ''metadata field value is required'')
      else Inr ())"

definition newEqualFilter :: "string \<Rightarrow> any_value \<Rightarrow> MetadataFilter res" where
  "newEqualFilter field value =
     (case validateField field (value = AnyNil) of
        Inl e \<Rightarrow> Inl e | Inr _ \<Rightarrow> Inr (metadataEqual field value))"

fun AndFilter :: "MetadataFilter \<Rightarrow> MetadataFilter option \<Rightarrow> MetadataFilter res" where
  "AndFilter m None = Inr m"
| "AndFilter metadataEmpty (Some other) = Inr other"
| "AndFilter m (Some other) = Inr (metadataAnd m other)"

definition or_mismatch :: go_error where
  "or_mismatch = Errorf ''metadata OR requires matching fields''"

fun OrFilter :: "MetadataFilter \<Rightarrow> MetadataFilter option \<Rightarrow> MetadataFilter res" where
  "OrFilter m None = Inr m"
| "OrFilter metadataEmpty (Some other) = Inr other"
| "OrFilter (metadataEqual f v) (Some (metadataEqual g w)) =
     (if f \<noteq> g then Inl or_mismatch else Inr (metadataOr f [v, w]))"
| "OrFilter (metadataEqual f v) (Some (metadataOr g ws)) =
     (if f \<noteq> g then Inl or_mismatch else Inr (metadataOr f (v # ws)))"
| "OrFilter (metadataOr f vs) (Some (metadataEqual g w)) =
     (if f \<noteq> g then Inl or_mismatch else Inr (metadataOr f (vs @ [w])))"
| "OrFilter (metadataOr f vs) (Some (metadataOr g ws)) =
     (if f \<noteq> g then Inl or_mismatch else Inr (metadataOr f (vs @ ws)))"
| "OrFilter m (Some other) = Inl or_mismatch"

fun EqualFilter :: "MetadataFilter \<Rightarrow> string \<Rightarrow> any_value \<Rightarrow> MetadataFilter res" where
  "EqualFilter metadataEmpty f v = newEqualFilter f v"
| "EqualFilter m f v = (case newEqualFilter f v of Inl e \<Rightarrow> Inl e | Inr eq \<Rightarrow> Inr (metadataAnd m eq))"

definition predicateFromEqual :: "string \<Rightarrow> any_value list \<Rightarrow> MetadataPredicate res" where
  "predicateFromEqual field values =
     (case validateField field False of
        Inl e \<Rightarrow> Inl e
      | Inr _ \<Rightarrow>
          if AnyNil \<in> set values then Inl (Errorf ''metadata field value is required'')
          else Inr \<lparr>mp_Path = [field], mp_Values = values\<rparr>)"

fun collectMetadataPredicates :: "MetadataFilter \<Rightarrow> MetadataPredicate list res" where
  "collectMetadataPredicates metadataEmpty = Inr []"
| "collectMetadataPredicates (metadataEqual f v) =
     (case predicateFromEqual f [v] of Inl e \<Rightarrow> Inl e | Inr p \<Rightarrow> Inr [p])"
| "collectMetadataPredicates (metadataOr f vs) =
     (case predicateFromEqual f vs of Inl e \<Rightarrow> Inl e | Inr p \<Rightarrow> Inr [p])"
| "collectMetadataPredicates (metadataAnd l r) =
     (case collectMetadataPredicates l of
        Inl e \<Rightarrow> Inl e
      | Inr ps \<Rightarrow> (case collectMetadataPredicates r of Inl e \<Rightarrow> Inl e | Inr qs \<Rightarrow> Inr (ps @ qs)))"

definition MetadataPredicates :: "MetadataFilter option \<Rightarrow> MetadataPredicate list res" where
  "MetadataPredicates f = (case f of None \<Rightarrow> Inr [] | Some f \<Rightarrow> collectMetadataPredicates f)"

section \<open>Predicates of the toy engine\<close>

record normalizedMetadataPredicate =
  np_Path :: "string list"
  np_ValuesJSON :: "json list"

fun encodeMetadataPredicateValue :: "any_value \<Rightarrow> json res" where
  "encodeMetadataPredicateValue (AnyRaw (Json j)) = Inr j"
| "encodeMetadataPredicateValue (AnyRaw (Text _)) = Inl (Errorf ''metadata predicate value must be valid JSON'')"
| "encodeMetadataPredicateValue (AnyJson j) = Inr (jnormalize j)"
| "encodeMetadataPredicateValue AnyNil = Inr JNull"
| "encodeMetadataPredicateValue AnyBad = Inl (Errorf ''metadata predicate value must be JSON-serializable'')"

fun encode_values :: "any_value list \<Rightarrow> json list res" where
  "encode_values [] = Inr []"
| "encode_values (v # vs) =
     (if v = AnyNil then Inl (Errorf ''metadata predicate values cannot contain nil'')
      else
        (case encodeMetadataPredicateValue v of
           Inl e \<Rightarrow> Inl (Wrap ''metadata predicate values invalid'' e)
         | Inr j \<Rightarrow> (case encode_values vs of Inl e \<Rightarrow> Inl e | Inr js \<Rightarrow> Inr (j # js))))"

fun normalizeMetadataPredicates :: "MetadataPredicate list \<Rightarrow> normalizedMetadataPredicate list res" where
  "normalizeMetadataPredicates [] = Inr []"
| "normalizeMetadataPredicates (p # ps) =
     (if mp_Path p = [] then Inl (Errorf ''metadata predicate path is required'')
      else if [] \<in> set (mp_Path p) then Inl (Errorf ''metadata predicate path contains empty segment'')
      else if mp_Values p = [] then Inl (Errorf ''metadata predicate values are required'')
      else
        (case encode_values (mp_Values p) of
           Inl e \<Rightarrow> Inl e
         | Inr js \<Rightarrow>
             (case normalizeMetadataPredicates ps of
                Inl e \<Rightarrow> Inl e
              | Inr qs \<Rightarrow> Inr (\<lparr>np_Path = ''app'' # mp_Path p, np_ValuesJSON = js\<rparr> # qs))))"

fun value_at :: "json \<Rightarrow> string list \<Rightarrow> json option" where
  "value_at current [] = Some current"
| "value_at (JObj m) (seg # segs) =
     (case gget m seg of None \<Rightarrow> None | Some next \<Rightarrow> value_at next segs)"
| "value_at _ (seg # segs) = None"

definition metadataValueAtPath :: "json \<Rightarrow> string list \<Rightarrow> json option" where
  "metadataValueAtPath root1 path = (if path = [] then None else value_at root1 path)"

fun all_match :: "json \<Rightarrow> normalizedMetadataPredicate list \<Rightarrow> bool" where
  "all_match md [] = True"
| "all_match md (p # ps) =
     (case metadataValueAtPath md (np_Path p) of
        None \<Rightarrow> False
      | Some v \<Rightarrow> if jnormalize v \<in> set (np_ValuesJSON p) then all_match md ps else False)"

definition metadataMatches :: "raw \<Rightarrow> normalizedMetadataPredicate list \<Rightarrow> bool res" where
  "metadataMatches r ps =
     (if ps = [] then Inr True
      else
        (case (if raw_len0 r then Json (JObj []) else r) of
           Text _ \<Rightarrow> Inl (Wrap ''metadata must be valid JSON object'' unmarshal_error)
         | Json md \<Rightarrow> Inr (all_match md ps)))"

section \<open>What a filter means\<close>

fun value_sat :: "json \<Rightarrow> any_value \<Rightarrow> bool" where
  "value_sat v (AnyRaw (Json j)) = (jnormalize v = j)"
| "value_sat v (AnyJson j) = (jnormalize v = jnormalize j)"
| "value_sat v _ = False"

definition app_field :: "json \<Rightarrow> string \<Rightarrow> json option" where
  "app_field md f = value_at md [''app'', f]"

fun filter_sat :: "json \<Rightarrow> MetadataFilter \<Rightarrow> bool" where
  "filter_sat md metadataEmpty = True"
| "filter_sat md (metadataEqual f w) = (\<exists>v. app_field md f = Some v \<and> value_sat v w)"
| "filter_sat md (metadataOr f ws) = (\<exists>v. app_field md f = Some v \<and> list_ex (value_sat v) ws)"
| "filter_sat md (metadataAnd l r) = (filter_sat md l \<and> filter_sat md r)"

lemma encode_values_sat: "encode_values ws = Inr js \<Longrightarrow> jnormalize v \<in> set js \<longleftrightarrow> list_ex (value_sat v) ws"
proof (induction ws arbitrary: js)
  case (Cons w ws)
  then obtain j js' where j: "js = j # js'" "encodeMetadataPredicateValue w = Inr j" "w \<noteq> AnyNil"
    "encode_values ws = Inr js'"
    by (auto split: sum.splits if_splits)
  have "value_sat v w \<longleftrightarrow> jnormalize v = j"
    using j(2,3) by (cases w rule: encodeMetadataPredicateValue.cases) auto
  with Cons.IH [OF j(4)] j(1) show ?case by simp
qed simp

lemma normalize_append:
  "normalizeMetadataPredicates (ps @ qs) = Inr ns \<Longrightarrow>
   \<exists>ms ks. normalizeMetadataPredicates ps = Inr ms \<and> normalizeMetadataPredicates qs = Inr ks \<and> ns = ms @ ks"
proof (induction ps arbitrary: ns)
  case (Cons p ps)
  then obtain js rest where h: "mp_Path p \<noteq> []" "[] \<notin> set (mp_Path p)" "mp_Values p \<noteq> []"
    "encode_values (mp_Values p) = Inr js" "normalizeMetadataPredicates (ps @ qs) = Inr rest"
    "ns = \<lparr>np_Path = ''app'' # mp_Path p, np_ValuesJSON = js\<rparr> # rest"
    by (auto split: sum.splits if_splits)
  from Cons.IH [OF h(5)] h show ?case by auto
qed simp

lemma all_match_append: "all_match md (ps @ qs) \<longleftrightarrow> all_match md ps \<and> all_match md qs"
  by (induction ps) (auto split: option.splits)

lemma single_predicate:
  assumes "predicateFromEqual f ws = Inr p" "normalizeMetadataPredicates [p] = Inr ns"
  shows "all_match md ns \<longleftrightarrow> (\<exists>v. app_field md f = Some v \<and> list_ex (value_sat v) ws)"
proof -
  have p: "p = \<lparr>mp_Path = [f], mp_Values = ws\<rparr>"
    using assms(1) by (auto simp: predicateFromEqual_def split: sum.splits if_splits)
  then obtain js where j: "encode_values ws = Inr js" "ns = [\<lparr>np_Path = [''app'', f], np_ValuesJSON = js\<rparr>]"
    using assms(2) by (auto split: sum.splits if_splits)
  then show ?thesis
    by (auto simp: metadataValueAtPath_def app_field_def encode_values_sat [OF j(1)] split: option.splits)
qed

lemma filter_predicates_match:
  "collectMetadataPredicates f = Inr ps \<Longrightarrow> normalizeMetadataPredicates ps = Inr ns \<Longrightarrow>
   all_match md ns = filter_sat md f"
proof (induction f arbitrary: ps ns)
  case (metadataEqual f v)
  then obtain p where p: "predicateFromEqual f [v] = Inr p" "ps = [p]" by (auto split: sum.splits)
  with single_predicate metadataEqual.prems show ?case by fastforce
next
  case (metadataOr f vs)
  then obtain p where p: "predicateFromEqual f vs = Inr p" "ps = [p]" by (auto split: sum.splits)
  with single_predicate metadataOr.prems show ?case by fastforce
next
  case (metadataAnd l r)
  then obtain ls rs where lr: "collectMetadataPredicates l = Inr ls" "collectMetadataPredicates r = Inr rs" "ps = ls @ rs"
    by (auto split: sum.splits)
  with metadataAnd.prems obtain ms ks where
    "normalizeMetadataPredicates ls = Inr ms" "normalizeMetadataPredicates rs = Inr ks" "ns = ms @ ks"
    using normalize_append [of ls rs ns] by auto
  with metadataAnd.IH lr show ?case by (simp add: all_match_append)
qed simp

section \<open>Properties\<close>



end
