(* ===== verification/Paging.thy ===== *)
theory Paging
  imports Job_Types
begin

text \<open>
  The shared shape of the listings: \<^verbatim>\<open>sort.Slice\<close> by a comparison of keys, entries up to a cursor
  skipped, at most a page returned with the last key as the next cursor. The locale states what the
  comparison must satisfy for the pages to partition the listing; it is interpreted on the comparison of
  creation time and job key that \<^verbatim>\<open>ListJobs\<close> and \<^verbatim>\<open>ListScheduleRuns\<close> use, and on the comparisons of the
  other listings.
\<close>

definition page :: "int \<Rightarrow> 'a list \<Rightarrow> 'a list \<times> 'a option" where
  "page n0 xs =
     (if n0 < int (length xs) then (take (nat n0) xs, Some (xs ! (nat n0 - 1))) else (xs, None))"

locale pageable =
  fixes before :: "'k \<Rightarrow> 'k \<Rightarrow> bool"
  assumes before_irrefl: "\<not> before a a"
    and before_trans: "before a b \<Longrightarrow> before b c \<Longrightarrow> before a c"
    and before_total: "a \<noteq> b \<Longrightarrow> before a b \<or> before b a"
begin

lemma before_asym: "before a b \<Longrightarrow> \<not> before b a"
  using before_irrefl before_trans by blast

lemma insert_by_sorted:
  "sorted_wrt (\<lambda>a b. before (key a) (key b)) xs \<Longrightarrow> key x \<notin> key ` set xs \<Longrightarrow>
   sorted_wrt (\<lambda>a b. before (key a) (key b)) (insert_by (\<lambda>a b. before (key a) (key b)) x xs)"
proof (induction xs)
  case (Cons y ys)
  show ?case
  proof (cases "before (key y) (key x)")
    case True
    with Cons show ?thesis by auto
  next
    case False
    then have "before (key x) (key y)" using Cons.prems(2) before_total by auto
    with Cons.prems(1) False show ?thesis by (auto intro: before_trans)
  qed
qed simp

lemma sort_slice_sorted:
  "distinct (map key xs) \<Longrightarrow>
   sorted_wrt (\<lambda>a b. before (key a) (key b)) (sort_slice (\<lambda>a b. before (key a) (key b)) xs)"
  by (induction xs) (auto intro!: insert_by_sorted)

text \<open>Strictly sorted lists with the same elements are equal, so the order of iteration over a map
  does not matter.\<close>

lemma sorted_unique:
  "sorted_wrt (\<lambda>a b. before (key a) (key b)) xs \<Longrightarrow> sorted_wrt (\<lambda>a b. before (key a) (key b)) ys \<Longrightarrow>
   set xs = set ys \<Longrightarrow> xs = ys"
proof (induction xs arbitrary: ys)
  case (Cons x xs)
  then obtain y zs where y: "ys = y # zs" by (cases ys) auto
  have h: "x = y \<or> before (key y) (key x)" "y = x \<or> before (key x) (key y)"
    using Cons.prems y by auto
  then have "x = y" using before_asym by blast
  moreover have "x \<notin> set xs" "y \<notin> set zs" using Cons.prems y before_irrefl by auto
  ultimately have "set xs = set zs" using Cons.prems(3) y by (metis insert_ident list.simps(15))
  with Cons y \<open>x = y\<close> show ?case by auto
qed simp

lemma sort_slice_order_irrelevant:
  assumes "distinct (map key xs)" "distinct (map key ys)" "set xs = set ys"
  shows "sort_slice (\<lambda>a b. before (key a) (key b)) xs = sort_slice (\<lambda>a b. before (key a) (key b)) ys"
  by (rule sorted_unique [of key]) (simp_all add: sort_slice_sorted assms)

lemma filter_after:
  assumes "sorted_wrt (\<lambda>a b. before (key a) (key b)) (ps @ x # rest)"
  shows "filter (\<lambda>a. before (key x) (key a)) (ps @ x # rest) = rest"
proof -
  have "filter (\<lambda>a. before (key x) (key a)) ps = []"
    using assms before_asym by (auto simp: sorted_wrt_append filter_empty_conv)
  moreover have "filter (\<lambda>a. before (key x) (key a)) rest = rest"
    using assms by (auto simp: sorted_wrt_append)
  ultimately show ?thesis using before_irrefl by simp
qed

text \<open>The next page starts right after the last entry of this one.\<close>

lemma page_continues:
  assumes "sorted_wrt (\<lambda>a b. before (key a) (key b)) xs" "0 < n0" "page n0 xs = (p, Some l)"
  shows "xs = p @ filter (\<lambda>a. before (key l) (key a)) xs \<and> int (length p) = n0 \<and> p \<noteq> [] \<and> l \<in> set xs"
proof -
  have n: "nat n0 - 1 < length xs" "Suc (nat n0 - 1) = nat n0" "nat n0 \<le> length xs"
    "p = take (nat n0) xs" "l = xs ! (nat n0 - 1)"
    using assms(2,3) by (auto simp: page_def split: if_splits)
  have e: "xs = take (nat n0 - 1) xs @ l # drop (nat n0) xs"
    using id_take_nth_drop [OF n(1)] n(2,5) by simp
  have "filter (\<lambda>a. before (key l) (key a)) xs = drop (nat n0) xs"
    by (rule filter_after [of key "take (nat n0 - 1) xs" l "drop (nat n0) xs", folded e]) (rule assms(1))
  then show ?thesis using n assms(2) by auto
qed

lemma page_last: "page n0 xs = (p, None) \<Longrightarrow> p = xs"
  by (auto simp: page_def split: if_splits)

text \<open>Following the cursors from the start visits every entry once, in order.\<close>

fun all_pages :: "nat \<Rightarrow> int \<Rightarrow> ('a \<Rightarrow> 'k) \<Rightarrow> 'a list \<Rightarrow> 'a list" where
  "all_pages 0 n0 key xs = []"
| "all_pages (Suc n) n0 key xs =
     (case page n0 xs of
        (p, None) \<Rightarrow> p
      | (p, Some l) \<Rightarrow> p @ all_pages n n0 key (filter (\<lambda>a. before (key l) (key a)) xs))"

lemma all_pages_complete:
  "sorted_wrt (\<lambda>a b. before (key a) (key b)) xs \<Longrightarrow> 0 < n0 \<Longrightarrow> length xs < n \<Longrightarrow>
   all_pages n n0 key xs = xs"
proof (induction n arbitrary: xs)
  case (Suc n)
  obtain p q where pq: "page n0 xs = (p, q)" by fastforce
  show ?case
  proof (cases q)
    case None
    with pq page_last show ?thesis by auto
  next
    case (Some l)
    let ?r = "filter (\<lambda>a. before (key l) (key a)) xs"
    have c: "xs = p @ ?r" "p \<noteq> []" using page_continues [OF Suc.prems(1,2)] pq Some by blast+
    then have "length xs = length p + length ?r" by (metis length_append)
    then have "length ?r < n" using c(2) Suc.prems(3) by (cases p) auto
    moreover have "sorted_wrt (\<lambda>a b. before (key a) (key b)) ?r" using Suc.prems(1) by (rule sorted_wrt_filter)
    ultimately have "all_pages n n0 key ?r = ?r" using Suc by blast
    then show ?thesis using pq Some c(1) by simp
  qed
qed simp

end

section \<open>Creation time and job key\<close>

text \<open>Newest first, and among equal times the larger text of the job key first.\<close>

definition newer :: "go_time \<times> string \<Rightarrow> go_time \<times> string \<Rightarrow> bool" where
  "newer a b \<longleftrightarrow> (if fst a = fst b then snd b < snd a else fst b < fst a)"

interpretation by_creation: pageable newer
  by unfold_locales (auto simp: newer_def split: if_splits)

end
