(* ===== verification/Toy_State.thy ===== *)
theory Toy_State
  imports Job_Schema Schedule_Types Metadata_Filter Paging
begin

text \<open>
  The state of the toy runtime (\<^verbatim>\<open>pkg/jobdb/runtime/toy/internal/toyimpl\<close>) and the helpers of
  \<^verbatim>\<open>runtime.go\<close> and \<^verbatim>\<open>toy.go\<close> that its operations share. A job has a record (its scheduling state), a
  log of chapters and stored artifacts, each in a map of the engine, as in the code. The two fields that
  the code does not have are the number of ids drawn from \<^verbatim>\<open>ksuid.New\<close> and the process-wide cache of
  compiled schemas. A mutex protects each operation, so an operation is one step; where the code takes a
  mutex that it already holds, and so never returns, the model returns \<^term>\<open>None\<close>. A Go panic on a nil
  \<^verbatim>\<open>TaskData\<close> is the error \<open>nil_task_data\<close>; contexts are not cancelled.
\<close>

section \<open>State\<close>

record toyChapter =
  tc_TaskType :: string
  tc_CreatedAt :: go_time
  tc_Input :: "TaskData option"
  tc_Output :: "TaskData option"
  tc_Attempt :: int
  tc_Err :: "go_error option"

record jobRecord =
  jr_status :: JobStatus
  jr_result :: "TaskData option"
  jr_err :: "go_error option"
  jr_cancelled :: bool
  jr_jobType :: string
  jr_createdAt :: go_time
  jr_archived :: "go_time option"
  jr_payload :: raw
  jr_metadata :: raw
  jr_completionDetail :: raw
  jr_capability :: string
  jr_step :: int
  jr_waitFor :: "string list"
  jr_availableAt :: go_time
  jr_leased :: bool
  jr_leaseID :: string
  jr_chapters :: "int \<rightharpoonup> toyChapter"

record ToyEngine =
  jobRecords :: "JobKey \<rightharpoonup> jobRecord"
  schemas :: "JobSchemaKey \<rightharpoonup> JobSchemaInfo"
  schedules :: "ScheduleKey \<rightharpoonup> ScheduleInfo"
  runtimeChapters :: "JobKey \<rightharpoonup> (int \<rightharpoonup> Chapter)"
  runtimeArtifacts :: "JobKey \<times> int \<times> string \<rightharpoonup> string"
  ksuid_calls :: nat
  validators :: schema_cache

definition NewToyEngine :: ToyEngine where
  "NewToyEngine = \<lparr>jobRecords = Map.empty, schemas = Map.empty, schedules = Map.empty,
     runtimeChapters = Map.empty, runtimeArtifacts = Map.empty, ksuid_calls = 0,
     validators = Map.empty\<rparr>"

type_synonym 'a toy_op = "(ToyEngine, 'a) op"

definition set_record :: "JobKey \<Rightarrow> jobRecord \<Rightarrow> ToyEngine \<Rightarrow> ToyEngine" where
  "set_record k r s = s\<lparr>jobRecords := (jobRecords s)(k \<mapsto> r)\<rparr>"

text \<open>A change of one record in place; nothing when the job is not there.\<close>

definition update_record :: "JobKey \<Rightarrow> (jobRecord \<Rightarrow> jobRecord) \<Rightarrow> ToyEngine \<Rightarrow> ToyEngine" where
  "update_record k f s = s\<lparr>jobRecords := map_update k f (jobRecords s)\<rparr>"

text \<open>\<^verbatim>\<open>ksuid.New().String()\<close>\<close>

definition draw_ksuid :: "Env \<Rightarrow> string toy_op" where
  "draw_ksuid env s = (s\<lparr>ksuid_calls := Suc (ksuid_calls s)\<rparr>, Inr (ksuid env (ksuid_calls s)))"

text \<open>The job id generator; the default one is a ksuid.\<close>

definition default_idGenerator :: "(nat \<Rightarrow> string) \<Rightarrow> nat \<Rightarrow> string \<Rightarrow> JobKey res" where
  "default_idGenerator ids k tenantId = Inr (JobKey tenantId (ids k))"

definition generate_job_key :: "Env \<Rightarrow> string \<Rightarrow> JobKey toy_op" where
  "generate_job_key env tenantId s =
     (s\<lparr>ksuid_calls := Suc (ksuid_calls s)\<rparr>, idGenerator env (ksuid_calls s) tenantId)"

definition getJobRecord :: "JobKey \<Rightarrow> jobRecord toy_op" where
  "getJobRecord k =
     read_op (\<lambda>s. case jobRecords s k of None \<Rightarrow> Inl (Sentinel ErrJobNotFound) | Some r \<Rightarrow> Inr r)"

section \<open>Schemas\<close>

definition GetJobSchema :: "ToyEngine \<Rightarrow> JobSchemaKey \<Rightarrow> JobSchemaInfo res" where
  "GetJobSchema s key =
     (case JobSchemaKey_Validate key of
        Inl e \<Rightarrow> Inl e
      | Inr _ \<Rightarrow>
          (case schemas s key of None \<Rightarrow> Inl (Sentinel ErrJobSchemaNotFound) | Some info \<Rightarrow> Inr info))"

definition RegisterJobSchema :: "Env \<Rightarrow> string \<Rightarrow> raw \<Rightarrow> JobSchemaInfo toy_op" where
  "RegisterJobSchema env tenantId schema =
     bind_op (guard_op (tenantId \<noteq> []) (Errorf ''tenantId is required'')) (\<lambda>_.
     bind_op (lift_op (JobSchemaHash env schema)) (\<lambda>(hash, canonical).
     bind_op (lift_op (ValidateSchemaDocument env (Json canonical))) (\<lambda>_.
     bind_op (get_op (\<lambda>s. schemas s (JobSchemaKey tenantId hash))) (\<lambda>existing.
       case existing of
         Some info \<Rightarrow>
           if si_Schema info \<noteq> Json canonical then fail_op (Sentinel ErrConflict) else ret_op info
       | None \<Rightarrow>
           (let info = \<lparr>si_TenantId = tenantId, si_SchemaHash = hash, si_Schema = Json canonical,
                        si_State = SchemaActive, si_CreatedAt = now env, si_ArchivedAt = None\<rparr>
            in bind_op (put_op (\<lambda>s. s\<lparr>schemas := (schemas s)(JobSchemaKey tenantId hash \<mapsto> info)\<rparr>)) (\<lambda>_.
                 ret_op info))))))"

definition ArchiveJobSchema :: "Env \<Rightarrow> JobSchemaKey \<Rightarrow> JobSchemaInfo toy_op" where
  "ArchiveJobSchema env key =
     bind_op (read_op (\<lambda>s. GetJobSchema s key)) (\<lambda>info.
       (let info = (if si_ArchivedAt info = None then info\<lparr>si_ArchivedAt := Some (now env)\<rparr> else info);
            info = info\<lparr>si_State := SchemaArchived\<rparr>
        in bind_op (put_op (\<lambda>s. s\<lparr>schemas := (schemas s)(key \<mapsto> info)\<rparr>)) (\<lambda>_. ret_op info)))"

datatype JobSchemaListState = SchemaListActive | SchemaListArchived | SchemaListAll | SchemaListOther string

fun schemaListStateMatches :: "JobSchemaState \<Rightarrow> JobSchemaListState \<Rightarrow> bool" where
  "schemaListStateMatches st SchemaListAll = True"
| "schemaListStateMatches st SchemaListArchived = (st = SchemaArchived)"
| "schemaListStateMatches st _ = (st = SchemaActive)"

definition schema_newer :: "go_time \<times> string \<Rightarrow> go_time \<times> string \<Rightarrow> bool" where
  "schema_newer a b \<longleftrightarrow> (if fst a = fst b then snd a < snd b else fst b < fst a)"

text \<open>\<open>order\<close> is the order in which the code ranges over the map.\<close>

definition ListJobSchemas ::
  "JobSchemaKey list \<Rightarrow> ToyEngine \<Rightarrow> string \<Rightarrow> JobSchemaListState \<Rightarrow> JobSchemaInfo list res" where
  "ListJobSchemas order s tenantId st =
     (if tenantId = [] then Inl (Errorf ''tenantId is required'')
      else if (case st of SchemaListOther q \<Rightarrow> q \<noteq> [] | _ \<Rightarrow> False) then Inl (Errorf ''unknown schema state'')
      else
        Inr (sort_slice (\<lambda>a b. schema_newer (si_CreatedAt a, si_SchemaHash a) (si_CreatedAt b, si_SchemaHash b))
          (filter (\<lambda>i. schemaListStateMatches (si_State i) st)
            (List.map_filter (schemas s) (filter (\<lambda>k. sk_TenantId k = tenantId) order)))))"

interpretation by_schema: pageable schema_newer
  by unfold_locales (auto simp: schema_newer_def split: if_splits)

definition ResolveActiveForNewJob :: "Env \<Rightarrow> string \<Rightarrow> JobSchemaSelector option \<Rightarrow> string toy_op" where
  "ResolveActiveForNewJob env tenantID selector =
     bind_op (lift_op (ResolveJobSchemaSelector env selector)) (\<lambda>(hash, inline).
       if hash = [] then ret_op []
       else
         bind_op (case inline of
                    Some schema \<Rightarrow> RegisterJobSchema env tenantID (Json schema)
                  | None \<Rightarrow> read_op (\<lambda>s. GetJobSchema s (JobSchemaKey tenantID hash))) (\<lambda>info.
           if si_State info = SchemaArchived then fail_op (Sentinel ErrJobSchemaArchived)
           else ret_op (si_SchemaHash info)))"

text \<open>The schema package on the engine: the registry is the engine, the cache one of its fields.\<close>

definition with_cache :: "(ToyEngine \<Rightarrow> (schema_cache, 'a) op) \<Rightarrow> 'a toy_op" where
  "with_cache m s = (case m s (validators s) of (c, r) \<Rightarrow> (s\<lparr>validators := c\<rparr>, r))"

definition PrimeSchema :: "Env \<Rightarrow> JobSchemaKey \<Rightarrow> unit toy_op" where
  "PrimeSchema env key = with_cache (\<lambda>s. Prime env (GetJobSchema s) key)"

definition validate_chapter :: "Env \<Rightarrow> JobSchemaKey \<Rightarrow> ChapterRole \<Rightarrow> Chapter \<Rightarrow> unit toy_op" where
  "validate_chapter env key role c = with_cache (\<lambda>s. ValidateChapter env (GetJobSchema s) key role c)"

end
