(* ===== verification/Toy_Chapters.thy ===== *)
theory Toy_Chapters
  imports Toy_State
begin

text \<open>
  Chapters in the toy runtime (\<^verbatim>\<open>runtime.go\<close>): the worker payload and the chapter metadata it writes
  and reads back, task data and artifacts, reading chapters, and the append-only store. An artifact of a
  chapter is opened lazily in the code; here it holds what opening it returned when it was made.
\<close>

section \<open>Worker payload and chapter metadata\<close>

record workerTaskWait =
  tw_InputStep :: int
  tw_OutputStep :: int
  tw_Next :: string
  tw_InputHash :: string

record workerJobPayload =
  wp_RunPolicy :: RunPolicy
  wp_TaskWait :: "workerTaskWait option"

definition enc_workerTaskWait :: "workerTaskWait \<Rightarrow> json" where
  "enc_workerTaskWait w =
     JObj ([(''in'', JInt (tw_InputStep w)), (''out'', JInt (tw_OutputStep w)), (''next'', JStr (tw_Next w))] @
       omit_if (tw_InputHash w = []) ''input_hash'' (JStr (tw_InputHash w)))"

definition dec_workerTaskWait :: "json option \<Rightarrow> workerTaskWait option" where
  "dec_workerTaskWait v =
     (case (case v of None \<Rightarrow> Some [] | Some j \<Rightarrow> key_map j) of
        None \<Rightarrow> None
      | Some m \<Rightarrow>
          (case (dec_int64 (jfield ''in'' m), dec_int64 (jfield ''out'' m), dec_string (jfield ''next'' m),
                 dec_string (jfield ''input_hash'' m)) of
             (Some i, Some o1, Some n, Some h) \<Rightarrow>
               Some \<lparr>tw_InputStep = i, tw_OutputStep = o1, tw_Next = n, tw_InputHash = h\<rparr>
           | _ \<Rightarrow> None))"

definition enc_workerJobPayload :: "workerJobPayload \<Rightarrow> json" where
  "enc_workerJobPayload p =
     JObj ([(''run_policy'', enc_RunPolicy (wp_RunPolicy p))] @
       (case wp_TaskWait p of None \<Rightarrow> [] | Some w \<Rightarrow> [(''task_wait'', enc_workerTaskWait w)]))"

definition dec_workerJobPayload :: "raw \<Rightarrow> workerJobPayload option" where
  "dec_workerJobPayload r =
     (case raw_key_map r of
        None \<Rightarrow> None
      | Some m \<Rightarrow>
          (case (dec_RunPolicy (jfield ''run_policy'' m), dec_ptr dec_workerTaskWait (jfield ''task_wait'' m)) of
             (Some rp, Some w) \<Rightarrow> Some \<lparr>wp_RunPolicy = rp, wp_TaskWait = w\<rparr>
           | _ \<Rightarrow> None))"

definition extractWorkerTaskWait :: "raw \<Rightarrow> workerTaskWait option res" where
  "extractWorkerTaskWait payload =
     (if raw_len0 payload then Inr None
      else
        (case dec_workerJobPayload payload of
           None \<Rightarrow> Inl unmarshal_error | Some p \<Rightarrow> Inr (wp_TaskWait p)))"

definition mustMarshalWorkerPayload :: "workerJobPayload \<Rightarrow> raw" where
  "mustMarshalWorkerPayload p = Json (enc_workerJobPayload p)"

definition marshalChapterMetadata :: "json gomap \<Rightarrow> ChapterMetadata res" where
  "marshalChapterMetadata m = ChapterMetadataFromJSON (Json (JObj m))"

definition chapter_metadata_fields :: "Env \<Rightarrow> int \<Rightarrow> string \<Rightarrow> string \<Rightarrow> RunPolicy \<Rightarrow> json gomap" where
  "chapter_metadata_fields env ordinal taskType inputHash rp =
     [(''version'', JInt 1), (''ordinal'', JInt ordinal), (''task_type'', JStr taskType),
      (''created_at'', JTime (now env)), (''input_hash'', JStr inputHash), (''attempt'', JInt 1),
      (''run_policy'', enc_RunPolicy rp)]"

text \<open>A field of the metadata, decoded as the struct field of that name; \<open>d\<close> when there is no
  metadata.\<close>

definition metadata_field :: "ChapterMetadata \<Rightarrow> string \<Rightarrow> 'a \<Rightarrow> (json option \<Rightarrow> 'a option) \<Rightarrow> 'a res" where
  "metadata_field md k d dec =
     (case ChapterMetadataToJSON md of
        Inl e \<Rightarrow> Inl e
      | Inr r \<Rightarrow>
          if raw_len0 r then Inr d
          else
            (case raw_key_map r of
               None \<Rightarrow> Inl unmarshal_error
             | Some m \<Rightarrow> (case dec (jfield k m) of None \<Rightarrow> Inl unmarshal_error | Some x \<Rightarrow> Inr x)))"

definition extractRunPolicyFromMetadata :: "ChapterMetadata \<Rightarrow> RunPolicy res" where
  "extractRunPolicyFromMetadata md = metadata_field md ''run_policy'' zero_RunPolicy dec_RunPolicy"

text \<open>\<^verbatim>\<open>append(nil, prereqs...)\<close>: the empty slice becomes nil.\<close>

definition extractPrerequisitesFromMetadata :: "ChapterMetadata \<Rightarrow> JobPrerequisite list option res" where
  "extractPrerequisitesFromMetadata md =
     (case metadata_field md ''prereqs'' None (dec_slice dec_JobPrerequisite) of
        Inl e \<Rightarrow> Inl e
      | Inr ps \<Rightarrow> Inr (if ps = Some [] then None else ps))"

definition extractAttemptFromMetadata :: "ChapterMetadata \<Rightarrow> int res" where
  "extractAttemptFromMetadata md =
     (case metadata_field md ''attempt'' 1 dec_int64 of
        Inl e \<Rightarrow> Inl e | Inr a \<Rightarrow> Inr (if a = 0 then 1 else a))"

lemma metadata_field_stored:
  assumes "marshalChapterMetadata m = Inr md" "distinct (map fst m)" "map_of m k = Some v"
  shows "metadata_field md k d dec = (case dec (Some (stored_json v)) of None \<Rightarrow> Inl unmarshal_error | Some x \<Rightarrow> Inr x)"
proof -
  obtain m' where m: "stored_json (JObj m) = JObj m'" "jfield k m' = Some (stored_json v)"
    using stored_field [OF assms(2,3)] by blast
  have md: "md = Some (gomap_of (map (\<lambda>(k, v). (k, chapterMetadataValueFromAny v)) m))"
    using assms(1) by (simp add: marshalChapterMetadata_def ChapterMetadataFromJSON_def)
  have "ChapterMetadataToJSON md = Inr (Json (JObj m'))"
    using m(1) by (simp add: md ChapterMetadataToJSON_def)
  with m(2) show ?thesis by (simp add: metadata_field_def)
qed

lemma marshalChapterMetadata_Inr: "\<exists>md. marshalChapterMetadata m = Inr md"
  by (simp add: marshalChapterMetadata_def ChapterMetadataFromJSON_def)

text \<open>\<^verbatim>\<open>extractTaskType\<close>: the part after the last colon.\<close>

definition extractTaskType :: "string \<Rightarrow> string" where
  "extractTaskType capability = rev (takeWhile (\<lambda>c. c \<noteq> CHR '':'') (rev capability))"

section \<open>Task data and artifacts\<close>

definition nil_task_data :: go_error where
  "nil_task_data = Errorf ''panic: nil TaskData''"

fun materializeArtifacts :: "Artifact list \<Rightarrow> Artifact list res" where
  "materializeArtifacts [] = Inr []"
| "materializeArtifacts (a # as) =
     (case art_Content a of
        Inl e \<Rightarrow> Inl e
      | Inr bytes \<Rightarrow>
          (case materializeArtifacts as of
             Inl e \<Rightarrow> Inl e | Inr out \<Rightarrow> Inr (NewArtifactFromBytes (art_Name a) bytes # out)))"

definition store_artifact :: "JobKey \<Rightarrow> int \<Rightarrow> string \<Rightarrow> string \<Rightarrow> ToyEngine \<Rightarrow> ToyEngine" where
  "store_artifact k ordinal name bytes s =
     s\<lparr>runtimeArtifacts := (runtimeArtifacts s)((k, ordinal, name) \<mapsto> bytes)\<rparr>"

fun store_materialized :: "Env \<Rightarrow> JobKey \<Rightarrow> int \<Rightarrow> Artifact list \<Rightarrow> StoredArtifact list toy_op" where
  "store_materialized env k ordinal [] = ret_op []"
| "store_materialized env k ordinal (a # as) =
     bind_op (lift_op (art_Content a)) (\<lambda>bytes.
     bind_op (lift_op (Artifact_Sha256 env a)) (\<lambda>digest.
     bind_op (put_op (store_artifact k ordinal (art_Name a) bytes)) (\<lambda>_.
     bind_op (store_materialized env k ordinal as) (\<lambda>out.
       ret_op (\<lparr>sa_Name = art_Name a, sa_Digest = digest, sa_Size = art_Size a\<rparr> # out)))))"

definition materializeTaskData ::
  "Env \<Rightarrow> JobKey \<Rightarrow> int \<Rightarrow> TaskData option \<Rightarrow> (TaskData option \<times> StoredArtifact list) toy_op" where
  "materializeTaskData env jobKey ordinal d =
     (case d of
        None \<Rightarrow> ret_op (None, [])
      | Some td \<Rightarrow>
          bind_op (lift_op (td_GetData td)) (\<lambda>r.
          bind_op (lift_op (td_GetArtifacts td)) (\<lambda>as.
          bind_op (lift_op (materializeArtifacts as)) (\<lambda>mat.
          bind_op (store_materialized env jobKey ordinal mat) (\<lambda>stored.
            ret_op (Some (SimpleTaskData r mat), stored))))))"

fun artifact_parts :: "Env \<Rightarrow> Artifact list \<Rightarrow> string list res" where
  "artifact_parts env [] = Inr []"
| "artifact_parts env (a # as) =
     (case Artifact_Sha256 env a of
        Inl e \<Rightarrow> Inl e
      | Inr h \<Rightarrow>
          (case artifact_parts env as of Inl e \<Rightarrow> Inl e | Inr ps \<Rightarrow> Inr ((art_Name a @ ''|'' @ h) # ps)))"

definition jobdbInputHash :: "Env \<Rightarrow> TaskData option \<Rightarrow> string res" where
  "jobdbInputHash env d =
     (case d of
        None \<Rightarrow> Inr []
      | Some td \<Rightarrow>
          (case td_GetData td of
             Inl e \<Rightarrow> Inl e
           | Inr r \<Rightarrow>
               (case td_GetArtifacts td of
                  Inl e \<Rightarrow> Inl e
                | Inr as \<Rightarrow>
                    (case artifact_parts env as of
                       Inl e \<Rightarrow> Inl e | Inr ps \<Rightarrow> Inr (InputSha256 env r (sort ps))))))"

definition task_payload :: "TaskData option \<Rightarrow> raw res" where
  "task_payload d = (case d of None \<Rightarrow> Inl nil_task_data | Some td \<Rightarrow> td_GetData td)"

definition OpenStoredArtifact :: "ToyEngine \<Rightarrow> JobKey \<Rightarrow> int \<Rightarrow> string \<Rightarrow> string res" where
  "OpenStoredArtifact s k ordinal name =
     (case runtimeArtifacts s (k, ordinal, name) of
        None \<Rightarrow> Inl (Errorf ''artifact not found'') | Some bytes \<Rightarrow> Inr bytes)"

definition decodeToyJobFailedAppError :: "Env \<Rightarrow> AppErrorPayload \<Rightarrow> go_error option" where
  "decodeToyJobFailedAppError env p = decodeJobFailedAppError (parse_duration env) p"

text \<open>The data and the error that a chapter stands for; both may be present.\<close>

definition taskDataFromChapter :: "Env \<Rightarrow> ToyEngine \<Rightarrow> JobKey \<Rightarrow> Chapter \<Rightarrow> TaskData option \<times> go_error option" where
  "taskDataFromChapter env s jobKey c =
     (let artifacts = map (\<lambda>a. \<lparr>art_Name = sa_Name a, art_Size = sa_Size a,
                        art_Content = OpenStoredArtifact s jobKey (ch_Ordinal c) (sa_Name a),
                        art_Digest = None\<rparr>) (ch_Artifacts c)
      in case ChapterPayload c of
           Inl e \<Rightarrow> (None, Some e)
         | Inr (kind, d) \<Rightarrow>
             (let td = EnvelopedTaskData d artifacts kind in
              if kind = payloadKindApp then (Some td, None)
              else if kind = payloadKindTimeout then
                (case dec_TimeoutPayload d of
                   None \<Rightarrow> (None, Some unmarshal_error) | Some p \<Rightarrow> (Some td, Some (TimeoutError p)))
              else if kind = payloadKindAppError then
                (case dec_AppErrorPayload d of
                   None \<Rightarrow> (None, Some unmarshal_error)
                 | Some p \<Rightarrow>
                     (case decodeToyJobFailedAppError env p of
                        Some e \<Rightarrow> (Some td, Some e) | None \<Rightarrow> (Some td, Some (AppError p))))
              else if kind = payloadKindSystemError then
                (case dec_SystemErrorPayload d of
                   None \<Rightarrow> (None, Some unmarshal_error) | Some p \<Rightarrow> (Some td, Some (SystemError p)))
              else (Some td, None)))"

section \<open>Reading chapters\<close>

definition GetChapter :: "ToyEngine \<Rightarrow> JobKey \<Rightarrow> int \<Rightarrow> Chapter res" where
  "GetChapter s k ordinal =
     (case runtimeChapters s k of
        None \<Rightarrow> Inl (Sentinel ErrChapterNotFound)
      | Some chapters \<Rightarrow>
          (case chapters ordinal of
             None \<Rightarrow> Inl (Sentinel ErrChapterNotFound) | Some c \<Rightarrow> Inr (CloneChapter c)))"

text \<open>\<open>ordinals\<close> are the keys of the job's chapter map, in the order of iteration.\<close>

definition ListChapters :: "int list \<Rightarrow> ToyEngine \<Rightarrow> JobKey \<Rightarrow> int \<Rightarrow> int option \<Rightarrow> Chapter list res" where
  "ListChapters ordinals s k startOrdinal endOrdinal =
     (if startOrdinal < 0 then Inl (Errorf ''start ordinal must be >= 0'')
      else
        (case runtimeChapters s k of
           None \<Rightarrow> Inl (Sentinel ErrJobNotFound)
         | Some chapters \<Rightarrow>
             Inr (List.map_filter chapters
               (takeWhile (\<lambda>ordinal. case endOrdinal of None \<Rightarrow> True | Some e \<Rightarrow> ordinal \<le> e)
                 (filter (\<lambda>ordinal. startOrdinal \<le> ordinal) (sort_slice (<) ordinals))))))"

section \<open>The store\<close>

definition put_chapter_state :: "JobKey \<Rightarrow> int \<Rightarrow> Chapter \<Rightarrow> ToyEngine \<Rightarrow> ToyEngine" where
  "put_chapter_state k ordinal c s =
     s\<lparr>runtimeChapters := map_update k (\<lambda>chapters. chapters(ordinal \<mapsto> CloneChapter c)) (runtimeChapters s)\<rparr>"

text \<open>What the record keeps of a stored chapter.\<close>

definition record_chapter :: "Env \<Rightarrow> ToyEngine \<Rightarrow> JobKey \<Rightarrow> int \<Rightarrow> Chapter \<Rightarrow> string \<Rightarrow> string \<times> raw \<Rightarrow> jobRecord \<Rightarrow> jobRecord" where
  "record_chapter env s k ordinal c chapterType payload rec =
     (let (td, err) = taskDataFromChapter env s k c;
          attempt = (case extractAttemptFromMetadata (ch_Metadata c) of Inl e \<Rightarrow> 0 | Inr a \<Rightarrow> a)
      in if chapterType \<noteq> ChapterTypeJobAttemptOutcome
         then rec\<lparr>jr_chapters := (jr_chapters rec)(ordinal \<mapsto>
                \<lparr>tc_TaskType = ch_TaskType c, tc_CreatedAt = ch_CreatedAt c, tc_Input = td, tc_Output = td,
                 tc_Attempt = attempt, tc_Err = err\<rparr>)\<rparr>
         else rec\<lparr>jr_result := (if td = None then Some (EnvelopedTaskData (snd payload) [] (fst payload)) else td),
                  jr_err := err\<rparr>)"

definition storeRuntimeChapter :: "Env \<Rightarrow> JobKey \<Rightarrow> int \<Rightarrow> Chapter \<Rightarrow> unit toy_op" where
  "storeRuntimeChapter env jobKey ordinal chapter =
     bind_op (lift_op (ChapterType chapter)) (\<lambda>chapterType.
     bind_op (lift_op (ChapterPayload chapter)) (\<lambda>payload.
     bind_op (get_op (\<lambda>s. runtimeChapters s jobKey)) (\<lambda>found.
       case found of
         None \<Rightarrow> fail_op (Sentinel ErrJobNotFound)
       | Some chapters \<Rightarrow>
           bind_op (guard_op (0 \<le> ordinal) (Errorf ''chapter ordinal must be >= 0'')) (\<lambda>_.
           bind_op (guard_op (ch_Ordinal chapter = ordinal)
             (Errorf ''chapter ordinal does not match target ordinal'')) (\<lambda>_.
           bind_op (guard_op (chapters ordinal = None) (conflict ''chapter ordinal already exists'')) (\<lambda>_.
           bind_op (guard_op (ordinal \<le> 0 \<or> chapters (ordinal - 1) \<noteq> None)
             (conflict ''chapter ordinal is not appendable'')) (\<lambda>_.
           bind_op (put_op (put_chapter_state jobKey ordinal chapter)) (\<lambda>_.
           bind_op (get_op (\<lambda>s. (s, jobRecords s jobKey))) (\<lambda>(s, record1).
             case record1 of
               None \<Rightarrow> ret_op ()
             | Some rec \<Rightarrow>
                 (case taskDataFromChapter env s jobKey chapter of
                    (td, err) \<Rightarrow>
                      if err \<noteq> None \<and> chapterType \<noteq> ChapterTypeJobAttemptOutcome \<and> td = None
                      then fail_op (the err)
                      else put_op (update_record jobKey
                             (record_chapter env s jobKey ordinal chapter chapterType payload))))))))))))"

record ArtifactUpload =
  up_Name :: string
  up_Open :: "string res option"

fun store_uploads :: "Env \<Rightarrow> JobKey \<Rightarrow> int \<Rightarrow> ArtifactUpload list \<Rightarrow> StoredArtifact list toy_op" where
  "store_uploads env k ordinal [] = ret_op []"
| "store_uploads env k ordinal (u # us) =
     (case up_Open u of
        None \<Rightarrow> fail_op (Errorf ''artifact missing opener'')
      | Some content \<Rightarrow>
          bind_op (lift_op content) (\<lambda>bytes.
          bind_op (put_op (store_artifact k ordinal (up_Name u) bytes)) (\<lambda>_.
          bind_op (store_uploads env k ordinal us) (\<lambda>out.
            ret_op (\<lparr>sa_Name = up_Name u, sa_Digest = Sha256 env bytes, sa_Size = int (length bytes)\<rparr> # out)))))"

fun artifacts_match :: "StoredArtifact list \<Rightarrow> StoredArtifact list \<Rightarrow> unit res" where
  "artifacts_match (e # es) (c # cs) =
     (if sa_Name e \<noteq> sa_Name c then Inl (Errorf ''chapter artifact name does not match uploaded artifact'')
      else if sa_Size e \<noteq> 0 \<and> sa_Size e \<noteq> sa_Size c
      then Inl (Errorf ''chapter artifact size does not match uploaded size'')
      else if sa_Digest e \<noteq> [] \<and> sa_Digest e \<noteq> sa_Digest c
      then Inl (Errorf ''chapter artifact digest does not match uploaded digest'')
      else artifacts_match es cs)"
| "artifacts_match _ _ = Inr ()"

definition validateStoredArtifactDescriptors :: "StoredArtifact list \<Rightarrow> StoredArtifact list \<Rightarrow> unit res" where
  "validateStoredArtifactDescriptors existing computed =
     (if existing = [] then Inr ()
      else if length existing \<noteq> length computed
      then Inl (Errorf ''chapter artifact metadata count does not match uploads'')
      else artifacts_match existing computed)"

definition prepareChapterWrite :: "Env \<Rightarrow> JobKey \<Rightarrow> int \<Rightarrow> Chapter \<Rightarrow> ArtifactUpload list \<Rightarrow> Chapter toy_op" where
  "prepareChapterWrite env jobKey ordinal chapter uploads =
     (if uploads = [] then
        (if ch_Artifacts chapter \<noteq> []
         then fail_op (Errorf ''put chapter with artifact descriptors but no artifact uploads'')
         else ret_op chapter)
      else
        bind_op (store_uploads env jobKey ordinal uploads) (\<lambda>stored.
        bind_op (lift_op (validateStoredArtifactDescriptors (ch_Artifacts chapter) stored)) (\<lambda>_.
          ret_op (chapter\<lparr>ch_Artifacts := stored\<rparr>))))"

section \<open>Writing under a lease\<close>

text \<open>\<^verbatim>\<open>leaseauth.Claims\<close>: what a validated remote lease token carries.\<close>

record Claims =
  cl_TenantID :: string
  cl_JobID :: string
  cl_LeaseID :: string
  cl_SchemaHash :: string
  cl_ExpiresAt :: go_time

definition Claims_Matches :: "Claims \<Rightarrow> JobKey \<Rightarrow> string \<Rightarrow> bool" where
  "Claims_Matches c jobKey leaseID \<longleftrightarrow>
     cl_TenantID c = TenantId jobKey \<and> cl_JobID c = JobId jobKey \<and> cl_LeaseID c = leaseID"

definition Authorize :: "Env \<Rightarrow> Claims option \<Rightarrow> JobKey \<Rightarrow> string \<Rightarrow> bool res" where
  "Authorize env claims jobKey leaseID =
     (case claims of
        None \<Rightarrow> Inr False
      | Some c \<Rightarrow>
          if \<not> Claims_Matches c jobKey leaseID then Inl (Sentinel ErrExecutionLeaseLost)
          else if cl_ExpiresAt c \<noteq> 0 \<and> cl_ExpiresAt c \<le> now env then Inl (Sentinel ErrExecutionLeaseLost)
          else Inr True)"

record PutChapterRequest =
  pc_LeaseID :: string
  pc_JobKey :: JobKey
  pc_Ordinal :: int
  pc_Chapter :: Chapter
  pc_Uploads :: "ArtifactUpload list"

definition PutChapter :: "Env \<Rightarrow> Claims option \<Rightarrow> PutChapterRequest \<Rightarrow> unit toy_op" where
  "PutChapter env claims req =
     bind_op (guard_op (pc_LeaseID req \<noteq> []) (Errorf ''lease id is required for PutChapter'')) (\<lambda>_.
     bind_op (guard_op (0 \<le> pc_Ordinal req) (Errorf ''chapter ordinal must be >= 0'')) (\<lambda>_.
     bind_op (guard_op (ch_Ordinal (pc_Chapter req) = pc_Ordinal req)
       (Errorf ''chapter ordinal does not match target ordinal'')) (\<lambda>_.
     bind_op (getJobRecord (pc_JobKey req)) (\<lambda>rec.
     bind_op (lift_op (Authorize env claims (pc_JobKey req) (pc_LeaseID req))) (\<lambda>authorized.
     bind_op (guard_op (authorized \<or> jr_leaseID rec = pc_LeaseID req) (Sentinel ErrExecutionLeaseLost)) (\<lambda>_.
     bind_op (prepareChapterWrite env (pc_JobKey req) (pc_Ordinal req) (pc_Chapter req) (pc_Uploads req)) (\<lambda>chapter.
       (let schemaHash = (case claims of None \<Rightarrow> [] | Some c \<Rightarrow>
              if Claims_Matches c (pc_JobKey req) (pc_LeaseID req) then cl_SchemaHash c else []);
            schemaHash = (if schemaHash = [] then SchemaHashFromStoredMetadata (jr_metadata rec) else schemaHash)
        in bind_op (validate_chapter env (JobSchemaKey (TenantId (pc_JobKey req)) schemaHash)
                     ChapterRoleDefault chapter) (\<lambda>_.
             storeRuntimeChapter env (pc_JobKey req) (pc_Ordinal req) chapter)))))))))"

end
