(* ===== verification/Toy_Runtime.thy ===== *)
theory Toy_Runtime
  imports Toy_Chapters
begin

text \<open>
  The operations of the toy runtime on jobs and leases (\<^verbatim>\<open>runtime.go\<close>, \<^verbatim>\<open>lease_transport.go\<close>):
  submitting, restarting, cancelling, leasing, completing and rescheduling jobs, and completing a task
  that a job waits for. Each is one definition, with the guards in the order of the code.
\<close>

section \<open>Submitting\<close>

record SubmitJob =
  sj_TenantId :: string
  sj_JobType :: string
  sj_JobID :: string
  sj_Data :: "TaskData option"
  sj_RunPolicy :: RunPolicy
  sj_Metadata :: raw
  sj_Schema :: "JobSchemaSelector option"
  sj_AvailableAt :: "go_time option"
  sj_Prerequisites :: "JobPrerequisite list option"

definition new_job_key :: "Env \<Rightarrow> string \<Rightarrow> string \<Rightarrow> JobKey toy_op" where
  "new_job_key env tenantId jobID =
     (if jobID \<noteq> [] then ret_op (JobKey tenantId jobID) else generate_job_key env tenantId)"

definition runtime_metadata :: "string \<Rightarrow> string \<Rightarrow> RuntimeJobMetadata" where
  "runtime_metadata schemaHash parentJobID =
     \<lparr>rm_Schedule = None, rm_SchemaHash = schemaHash, rm_ParentJobID = parentJobID\<rparr>"

text \<open>\<open>True\<close>: an equivalent job exists; an error: one that differs.\<close>

definition existingEquivalentJob ::
  "ToyEngine \<Rightarrow> JobKey \<Rightarrow> SubmitJob \<Rightarrow> string \<Rightarrow> string \<Rightarrow> string \<Rightarrow> bool res" where
  "existingEquivalentJob s jobKey job inputHash schemaHash parentJobID =
     (case jobRecords s jobKey of
        None \<Rightarrow> Inr False
      | Some rec \<Rightarrow>
     (case (case runtimeChapters s jobKey of None \<Rightarrow> None | Some chapters \<Rightarrow> chapters 0) of
        None \<Rightarrow> Inl (Mismatch ''job already exists without start chapter'')
      | Some start \<Rightarrow>
      if ch_TaskType start \<noteq> sj_JobType job then Inl (Mismatch ''job already exists with different job type'')
      else if ch_InputHash start \<noteq> inputHash then Inl (Mismatch ''job already exists with different input'')
      else
     (case BuildJobMetadataEnvelope (sj_Metadata job) (runtime_metadata schemaHash parentJobID) of
        Inl e \<Rightarrow> Inl e
      | Inr storedMetadata \<Rightarrow>
      if jr_metadata rec \<noteq> storedMetadata then Inl (Mismatch ''job already exists with different metadata'')
      else
     (case extractRunPolicyFromMetadata (ch_Metadata start) of
        Inl e \<Rightarrow> Inl e
      | Inr runPolicy \<Rightarrow>
      if runPolicy \<noteq> sj_RunPolicy job then Inl (Mismatch ''job already exists with different run policy'')
      else
     (case extractPrerequisitesFromMetadata (ch_Metadata start) of
        Inl e \<Rightarrow> Inl e
      | Inr prereqs \<Rightarrow>
      if prereqs \<noteq> sj_Prerequisites job
      then Inl (Mismatch ''job already exists with different prerequisites'')
      else Inr True)))))"

definition start_chapter :: "Env \<Rightarrow> string \<Rightarrow> string \<Rightarrow> ChapterMetadata \<Rightarrow> raw \<Rightarrow> StoredArtifact list \<Rightarrow> Chapter" where
  "start_chapter env jobType inputHash md payload stored =
     \<lparr>ch_Ordinal = 0, ch_TaskType = jobType, ch_Body = Some (JobStart payload), ch_InputHash = inputHash,
      ch_CreatedAt = now env, ch_Metadata = md, ch_Artifacts = stored\<rparr>"

definition new_record :: "Env \<Rightarrow> JobStatus \<Rightarrow> string \<Rightarrow> raw \<Rightarrow> RunPolicy \<Rightarrow> go_time \<Rightarrow> string list
  \<Rightarrow> (int \<rightharpoonup> toyChapter) \<Rightarrow> jobRecord" where
  "new_record env st jobType md rp availableAt waitFor chapters =
     \<lparr>jr_status = st, jr_result = None, jr_err = None, jr_cancelled = False, jr_jobType = jobType,
      jr_createdAt = now env, jr_archived = None,
      jr_payload = mustMarshalWorkerPayload \<lparr>wp_RunPolicy = rp, wp_TaskWait = None\<rparr>,
      jr_metadata = md, jr_completionDetail = Text [], jr_capability = jobType, jr_step = 0,
      jr_waitFor = waitFor, jr_availableAt = availableAt, jr_leased = False, jr_leaseID = [],
      jr_chapters = chapters\<rparr>"

definition start_toyChapter :: "Env \<Rightarrow> string \<Rightarrow> TaskData option \<Rightarrow> toyChapter" where
  "start_toyChapter env jobType d =
     \<lparr>tc_TaskType = jobType, tc_CreatedAt = now env, tc_Input = d, tc_Output = d, tc_Attempt = 1,
      tc_Err = None\<rparr>"

text \<open>\<^verbatim>\<open>chapters[jobKey][0] = start\<close>, making the inner map when it is missing.\<close>

definition put_start :: "JobKey \<Rightarrow> Chapter \<Rightarrow> ToyEngine \<Rightarrow> ToyEngine" where
  "put_start k c s =
     s\<lparr>runtimeChapters := (runtimeChapters s)(k \<mapsto>
         (case runtimeChapters s k of None \<Rightarrow> Map.empty | Some chapters \<Rightarrow> chapters)(0 \<mapsto> c))\<rparr>"

definition insert_job :: "JobKey \<Rightarrow> jobRecord \<Rightarrow> Chapter \<Rightarrow> ToyEngine \<Rightarrow> ToyEngine" where
  "insert_job k rec c s = put_start k c (set_record k rec s)"

definition create_job :: "Env \<Rightarrow> JobKey \<Rightarrow> SubmitJob \<Rightarrow> string \<Rightarrow> raw \<Rightarrow> JobKey toy_op" where
  "create_job env jobKey job schemaHash storedMetadata =
     bind_op (materializeTaskData env jobKey 0 (sj_Data job)) (\<lambda>(jobData, storedArtifacts).
     bind_op (lift_op (jobdbInputHash env jobData)) (\<lambda>inputHash.
     bind_op (lift_op (marshalChapterMetadata
       (chapter_metadata_fields env 0 (sj_JobType job) inputHash (sj_RunPolicy job) @
        [(''prereqs'', enc_slice enc_JobPrerequisite (sj_Prerequisites job))]))) (\<lambda>md.
     bind_op (lift_op (task_payload jobData)) (\<lambda>payload.
       (let stored = start_chapter env (sj_JobType job) inputHash md (clone_json payload) storedArtifacts in
        bind_op (validate_chapter env (JobSchemaKey (TenantId jobKey) schemaHash) ChapterRoleFirst stored) (\<lambda>_.
          (let availableAt = (case sj_AvailableAt job of None \<Rightarrow> now env | Some t \<Rightarrow> t);
               status = (if now env < availableAt then AwaitingFuture else Ready);
               rec = new_record env status (sj_JobType job) (clone_json storedMetadata) (sj_RunPolicy job)
                 availableAt [] [0 \<mapsto> start_toyChapter env (sj_JobType job) jobData]
           in bind_op (put_op (insert_job jobKey rec stored)) (\<lambda>_. ret_op jobKey))))))))"

definition submitJobWithParent :: "Env \<Rightarrow> SubmitJob \<Rightarrow> string \<Rightarrow> JobKey toy_op" where
  "submitJobWithParent env job parentJobID =
     bind_op (new_job_key env (sj_TenantId job) (sj_JobID job)) (\<lambda>jobKey.
     bind_op (lift_op (JobKey_Validate jobKey)) (\<lambda>_.
     bind_op (lift_op (ValidateApplicationMetadata (sj_Metadata job))) (\<lambda>_.
     bind_op (ResolveActiveForNewJob env (sj_TenantId job) (sj_Schema job)) (\<lambda>schemaHash.
     bind_op (lift_op (BuildJobMetadataEnvelope (sj_Metadata job)
       (runtime_metadata schemaHash parentJobID))) (\<lambda>storedMetadata.
       if sj_JobID job \<noteq> [] then
         bind_op (lift_op (jobdbInputHash env (sj_Data job))) (\<lambda>inputHash.
         bind_op (read_op (\<lambda>s. existingEquivalentJob s jobKey job inputHash schemaHash parentJobID)) (\<lambda>found.
           if found then ret_op jobKey
           else create_job env jobKey job schemaHash storedMetadata))
       else create_job env jobKey job schemaHash storedMetadata)))))"

definition submit_job :: "Env \<Rightarrow> SubmitJob \<Rightarrow> JobKey toy_op" where
  "submit_job env job = submitJobWithParent env job []"

section \<open>Restarting\<close>

record SubmitRestartJob =
  sr_PriorJobKey :: JobKey
  sr_LastStepToKeep :: int
  sr_JobID :: string
  sr_ExtraTaskOutput :: "TaskData option"
  sr_Schema :: "JobSchemaSelector option"

definition restrict_chapters :: "int \<Rightarrow> (int \<rightharpoonup> Chapter) \<Rightarrow> (int \<rightharpoonup> Chapter)" where
  "restrict_chapters last1 chapters = (\<lambda>ordinal. if ordinal \<le> last1 then chapters ordinal else None)"

text \<open>The kept chapters in ascending order (the code ranges over the map).\<close>

definition kept_chapters :: "int \<Rightarrow> (int \<rightharpoonup> Chapter) \<Rightarrow> Chapter list" where
  "kept_chapters last1 chapters = List.map_filter chapters [0..last1]"

fun validate_all :: "Env \<Rightarrow> JobSchemaKey \<Rightarrow> Chapter list \<Rightarrow> unit toy_op" where
  "validate_all env key [] = ret_op ()"
| "validate_all env key (c # cs) =
     bind_op (validate_chapter env key (if ch_Ordinal c = 0 then ChapterRoleFirst else ChapterRoleDefault) c)
       (\<lambda>_. validate_all env key cs)"

fun restart_mismatch :: "(int \<rightharpoonup> Chapter) \<Rightarrow> (int \<rightharpoonup> Chapter) \<Rightarrow> int list \<Rightarrow> go_error option" where
  "restart_mismatch expected existing [] = None"
| "restart_mismatch expected existing (ordinal # os) =
     (case expected ordinal of
        None \<Rightarrow> Some (Mismatch ''job is missing expected restart chapter'')
      | Some want \<Rightarrow>
          (case existing ordinal of
             None \<Rightarrow> Some (Mismatch ''job already exists with different restart history'')
           | Some got \<Rightarrow>
               if CloneChapter got \<noteq> CloneChapter want
               then Some (Mismatch ''job already exists with different restart history'')
               else restart_mismatch expected existing os))"

definition existingEquivalentRestartJob ::
  "ToyEngine \<Rightarrow> JobKey \<Rightarrow> SubmitRestartJob \<Rightarrow> (int \<rightharpoonup> Chapter) \<Rightarrow> raw \<Rightarrow> bool res" where
  "existingEquivalentRestartJob s jobKey job expected expectedMetadata =
     (case jobRecords s jobKey of
        None \<Rightarrow> Inr False
      | Some rec \<Rightarrow>
      if jr_metadata rec \<noteq> expectedMetadata then Inl (Mismatch ''job already exists with different metadata'')
      else
     (case runtimeChapters s jobKey of
        None \<Rightarrow> Inl (Mismatch ''job already exists without runtime chapters'')
      | Some existing \<Rightarrow>
     (case restart_mismatch expected existing [0..sr_LastStepToKeep job] of
        Some e \<Rightarrow> Inl e
      | None \<Rightarrow>
     (case existing (sr_LastStepToKeep job + 1) of
        Some next \<Rightarrow>
          if ChapterIs next ChapterTypeRestartExtra \<and> sr_ExtraTaskOutput job = None
          then Inl (Mismatch ''job already exists with restart extra output that was not requested'')
          else Inr True
      | None \<Rightarrow> Inr True))))"

text \<open>The record's view of the kept chapters; the first chapter that cannot be decoded is an error, even
  one that decodes to an error.\<close>

fun restart_views :: "Env \<Rightarrow> ToyEngine \<Rightarrow> JobKey \<Rightarrow> Chapter list \<Rightarrow> (int \<rightharpoonup> toyChapter) res" where
  "restart_views env s jobKey [] = Inr Map.empty"
| "restart_views env s jobKey (c # cs) =
     (case taskDataFromChapter env s jobKey c of
        (td, Some e) \<Rightarrow> Inl e
      | (td, None) \<Rightarrow>
          (case restart_views env s jobKey cs of
             Inl e \<Rightarrow> Inl e
           | Inr views \<Rightarrow>
               Inr (views(ch_Ordinal c \<mapsto>
                 \<lparr>tc_TaskType = ch_TaskType c, tc_CreatedAt = ch_CreatedAt c, tc_Input = td,
                  tc_Output = td, tc_Attempt = 1, tc_Err = None\<rparr>))))"

definition create_restart :: "Env \<Rightarrow> JobKey \<Rightarrow> SubmitRestartJob \<Rightarrow> (int \<rightharpoonup> Chapter) \<Rightarrow> Chapter \<Rightarrow> raw \<Rightarrow> JobKey toy_op" where
  "create_restart env jobKey job target chap0 storedMetadata =
     bind_op (lift_op (extractRunPolicyFromMetadata (ch_Metadata chap0))) (\<lambda>rp.
     bind_op (read_op (\<lambda>s. restart_views env s jobKey (kept_chapters (sr_LastStepToKeep job) target))) (\<lambda>views.
       (let rec = new_record env Ready (ch_TaskType chap0) (clone_json storedMetadata) rp (now env) [] views
        in bind_op (put_op (\<lambda>s. (set_record jobKey rec s)\<lparr>runtimeChapters :=
                 (runtimeChapters s)(jobKey \<mapsto> target)\<rparr>)) (\<lambda>_. ret_op jobKey))))"

text \<open>From the log of the prior job on.\<close>

definition restart_from ::
  "Env \<Rightarrow> JobKey \<Rightarrow> SubmitRestartJob \<Rightarrow> string \<Rightarrow> raw \<Rightarrow> (int \<rightharpoonup> Chapter) \<Rightarrow> JobKey toy_op" where
  "restart_from env jobKey job schemaHash storedMetadata source =
     (let last1 = sr_LastStepToKeep job in
       case source (last1 + 1) of
          None \<Rightarrow> fail_op (Errorf ''LastStepToKeep invalid: no chapter at the next ordinal'')
        | Some nextChapter \<Rightarrow>
     bind_op (lift_op (extractAttemptFromMetadata (ch_Metadata nextChapter))) (\<lambda>nextAttempt.
     bind_op (guard_op (nextAttempt \<le> 1) (Errorf ''LastStepToKeep cuts into retry chain'')) (\<lambda>_.
       (let target = restrict_chapters last1 source in
        case target 0 of
          None \<Rightarrow> fail_op (Sentinel ErrJobNotFound)
        | Some chap0 \<Rightarrow>
     bind_op (validate_all env (JobSchemaKey (TenantId jobKey) schemaHash) (kept_chapters last1 target)) (\<lambda>_.
       if sr_JobID job \<noteq> [] then
         bind_op (read_op (\<lambda>s. existingEquivalentRestartJob s jobKey job target storedMetadata)) (\<lambda>same.
           if same then ret_op jobKey
           else create_restart env jobKey job target chap0 storedMetadata)
       else create_restart env jobKey job target chap0 storedMetadata)))))"

definition submitRestartJobWithParent :: "Env \<Rightarrow> SubmitRestartJob \<Rightarrow> string \<Rightarrow> JobKey toy_op" where
  "submitRestartJobWithParent env job parentJobID =
     (let prior = sr_PriorJobKey job in
     bind_op (guard_op (0 \<le> sr_LastStepToKeep job) (Errorf ''LastStepToKeep must be >= 0 for restart'')) (\<lambda>_.
     bind_op (getJobRecord prior) (\<lambda>_.
     bind_op (new_job_key env (TenantId prior) (sr_JobID job)) (\<lambda>jobKey.
     bind_op (lift_op (JobKey_Validate jobKey)) (\<lambda>_.
     bind_op (ResolveActiveForNewJob env (TenantId prior) (sr_Schema job)) (\<lambda>schemaHash.
     bind_op (lift_op (BuildJobMetadataEnvelope (Text [])
       (runtime_metadata schemaHash parentJobID))) (\<lambda>storedMetadata.
     bind_op (PrimeSchema env (JobSchemaKey (TenantId jobKey) schemaHash)) (\<lambda>_.
     bind_op (get_op (\<lambda>s. runtimeChapters s prior)) (\<lambda>found.
       case found of
         None \<Rightarrow> fail_op (Sentinel ErrJobNotFound)
       | Some source \<Rightarrow> restart_from env jobKey job schemaHash storedMetadata source)))))))))"

definition submit_restart_job :: "Env \<Rightarrow> SubmitRestartJob \<Rightarrow> JobKey toy_op" where
  "submit_restart_job env job = submitRestartJobWithParent env job []"

section \<open>Cancelling\<close>

definition cancel_record :: "go_time \<Rightarrow> jobRecord \<Rightarrow> jobRecord" where
  "cancel_record t r =
     r\<lparr>jr_cancelled := True, jr_status := Cancelled, jr_err := Some (Sentinel ContextCanceled),
       jr_archived := Some t, jr_leased := False, jr_leaseID := []\<rparr>"

definition cancel_job :: "Env \<Rightarrow> JobKey \<Rightarrow> unit toy_op" where
  "cancel_job env jobKey =
     bind_op (getJobRecord jobKey) (\<lambda>_. put_op (update_record jobKey (cancel_record (now env))))"

end
