(* ===== verification/Toy_Lease.thy ===== *)
theory Toy_Lease
  imports Toy_Runtime
begin

text \<open>
  Leases of the toy runtime (\<^verbatim>\<open>runtime.go\<close>, \<^verbatim>\<open>lease_transport.go\<close>): when a job becomes ready, taking a
  lease, keeping it alive, completing and rescheduling a job under its lease, submitting jobs from a
  leased job, and completing a task that a job waits for. Polling is in \<^verbatim>\<open>Toy_Schedule\<close>, because it runs
  the schedule preflight.
\<close>

section \<open>Becoming ready\<close>

definition terminal :: "JobStatus \<Rightarrow> bool" where
  "terminal st \<longleftrightarrow> st = Completed \<or> st = Cancelled"

text \<open>
  The dependencies of a waiting job. The code locks the record of each; the lock of the job itself is
  held, so a job that waits for itself never returns (\<^term>\<open>None\<close>).
\<close>

fun deps_complete :: "ToyEngine \<Rightarrow> JobKey \<Rightarrow> string list \<Rightarrow> bool option" where
  "deps_complete s key [] = Some True"
| "deps_complete s key (jobID # ids) =
     (case jobRecords s (JobKey (TenantId key) jobID) of
        None \<Rightarrow> deps_complete s key ids
      | Some dep \<Rightarrow>
          if JobKey (TenantId key) jobID = key then None
          else if \<not> terminal (jr_status dep) then Some False
          else deps_complete s key ids)"

definition advance_future :: "go_time \<Rightarrow> jobRecord \<Rightarrow> jobRecord" where
  "advance_future t r =
     (if jr_status r = AwaitingFuture \<and> jr_availableAt r \<noteq> 0 \<and> jr_availableAt r \<le> t
      then r\<lparr>jr_status := Ready\<rparr> else r)"

definition advanceRecordState :: "ToyEngine \<Rightarrow> JobKey \<Rightarrow> go_time \<Rightarrow> jobRecord \<Rightarrow> jobRecord option" where
  "advanceRecordState s key t r =
     (let r = advance_future t r in
      if jr_status r = PendingJobs \<and> jr_waitFor r \<noteq> [] then
        (case deps_complete s key (jr_waitFor r) of
           None \<Rightarrow> None
         | Some all_done \<Rightarrow>
             if all_done
             then Some (r\<lparr>jr_status := (if jr_availableAt r \<noteq> 0 \<and> t < jr_availableAt r
                                       then AwaitingFuture else Ready),
                          jr_waitFor := []\<rparr>)
             else Some r)
      else Some r)"

section \<open>Taking a lease\<close>

record runtimeLease =
  ls_JobKey :: JobKey
  ls_LeaseID :: string
  ls_Capability :: string
  ls_Payload :: raw
  ls_ExpiresAt :: go_time
  ls_Duration :: duration
  ls_SchemaHash :: string

definition defaultToyRemoteLeaseDuration :: duration where
  "defaultToyRemoteLeaseDuration = 30 * second"

definition toyLeaseDurationOrDefault :: "duration \<Rightarrow> duration" where
  "toyLeaseDurationOrDefault d = (if d \<le> 0 then defaultToyRemoteLeaseDuration else d)"

definition lease_record :: "string \<Rightarrow> jobRecord \<Rightarrow> jobRecord" where
  "lease_record leaseID r = r\<lparr>jr_leased := True, jr_status := Active, jr_leaseID := leaseID\<rparr>"

definition make_lease :: "Env \<Rightarrow> JobKey \<Rightarrow> jobRecord \<Rightarrow> duration \<Rightarrow> string \<Rightarrow> runtimeLease" where
  "make_lease env k r d leaseID =
     \<lparr>ls_JobKey = k, ls_LeaseID = leaseID, ls_Capability = jr_capability r, ls_Payload = clone_json (jr_payload r),
      ls_ExpiresAt = now env + toyLeaseDurationOrDefault d, ls_Duration = toyLeaseDurationOrDefault d,
      ls_SchemaHash = SchemaHashFromStoredMetadata (jr_metadata r)\<rparr>"

definition take_lease :: "Env \<Rightarrow> JobKey \<Rightarrow> jobRecord \<Rightarrow> duration \<Rightarrow> runtimeLease toy_op" where
  "take_lease env k r d =
     bind_op (draw_ksuid env) (\<lambda>leaseID.
     bind_op (put_op (set_record k (lease_record leaseID r))) (\<lambda>_.
       ret_op (make_lease env k r d leaseID)))"

text \<open>The set of capabilities a worker asks for; empty names are dropped.\<close>

definition capSet :: "string list \<Rightarrow> string list" where
  "capSet capabilities = filter (\<lambda>c. c \<noteq> []) capabilities"

definition leasable :: "string list \<Rightarrow> jobRecord \<Rightarrow> bool" where
  "leasable caps r \<longleftrightarrow> \<not> jr_leased r \<and> jr_status r = Ready \<and> jr_capability r \<in> set caps"

text \<open>
  The loop of \<^verbatim>\<open>PollWork\<close> over the records, in the order \<open>order\<close> of the iteration over the map;
  \<open>n\<close> is the number of leases it may still take.
\<close>

fun poll_take :: "Env \<Rightarrow> string \<Rightarrow> string list \<Rightarrow> normalizedMetadataPredicate list \<Rightarrow> duration
  \<Rightarrow> JobKey list \<Rightarrow> int \<Rightarrow> ToyEngine \<Rightarrow> (ToyEngine \<times> runtimeLease list res) option" where
  "poll_take env tenantId caps preds d [] n s = Some (s, Inr [])"
| "poll_take env tenantId caps preds d (k # ks) n s =
     (case jobRecords s k of
        None \<Rightarrow> poll_take env tenantId caps preds d ks n s
      | Some r0 \<Rightarrow>
      if TenantId k \<noteq> tenantId then poll_take env tenantId caps preds d ks n s
      else
     (case advanceRecordState s k (now env) r0 of
        None \<Rightarrow> None
      | Some r \<Rightarrow>
     (let s1 = set_record k r s in
      if \<not> leasable caps r then poll_take env tenantId caps preds d ks n s1
      else
     (case (if preds = [] then Inr True else metadataMatches (jr_metadata r) preds) of
        Inl e \<Rightarrow> Some (s1, Inl e)
      | Inr matched \<Rightarrow>
      if \<not> matched then poll_take env tenantId caps preds d ks n s1
      else
     (case take_lease env k r d s1 of
        (s2, Inl e) \<Rightarrow> Some (s2, Inl e)
      | (s2, Inr lease) \<Rightarrow>
          if n \<le> 1 then Some (s2, Inr [lease])
          else
            (case poll_take env tenantId caps preds d ks (n - 1) s2 of
               Some (s3, Inr leases) \<Rightarrow> Some (s3, Inr (lease # leases))
             | other \<Rightarrow> other))))))"

section \<open>Keeping a lease alive\<close>

definition KeepAliveLeaseByIDWithExpiry :: "Env \<Rightarrow> JobKey \<Rightarrow> string \<Rightarrow> duration \<Rightarrow> go_time toy_op" where
  "KeepAliveLeaseByIDWithExpiry env jobKey leaseID d =
     bind_op (getJobRecord jobKey) (\<lambda>r.
     bind_op (guard_op (jr_leaseID r = leaseID) (Sentinel ErrExecutionLeaseLost)) (\<lambda>_.
       ret_op (now env + toyLeaseDurationOrDefault d)))"

definition KeepAliveLeaseByID :: "Env \<Rightarrow> JobKey \<Rightarrow> string \<Rightarrow> duration \<Rightarrow> unit toy_op" where
  "KeepAliveLeaseByID env jobKey leaseID d =
     bind_op (KeepAliveLeaseByIDWithExpiry env jobKey leaseID d) (\<lambda>_. ret_op ())"

definition SubmitJobWithLeaseByID :: "Env \<Rightarrow> JobKey \<Rightarrow> string \<Rightarrow> SubmitJob \<Rightarrow> JobKey toy_op" where
  "SubmitJobWithLeaseByID env parent leaseID job =
     bind_op (KeepAliveLeaseByIDWithExpiry env parent leaseID 0) (\<lambda>_.
       submitJobWithParent env (job\<lparr>sj_TenantId := TenantId parent\<rparr>) (JobId parent))"

definition SubmitRestartJobWithLeaseByID :: "Env \<Rightarrow> JobKey \<Rightarrow> string \<Rightarrow> SubmitRestartJob \<Rightarrow> JobKey toy_op" where
  "SubmitRestartJobWithLeaseByID env parent leaseID job =
     bind_op (KeepAliveLeaseByIDWithExpiry env parent leaseID 0) (\<lambda>_.
     bind_op (guard_op (TenantId (sr_PriorJobKey job) = [] \<or> TenantId (sr_PriorJobKey job) = TenantId parent)
       (Errorf ''prior job tenantId must match parent tenantId'')) (\<lambda>_.
       submitRestartJobWithParent env
         (job\<lparr>sr_PriorJobKey := JobKey (TenantId parent) (JobId (sr_PriorJobKey job))\<rparr>) (JobId parent)))"

section \<open>Completing a job\<close>

record CompleteExecutionRequest =
  ce_Status :: string
  ce_Detail :: raw
  ce_Chapter :: "Chapter option"
  ce_Uploads :: "ArtifactUpload list"

definition existingRuntimeChapter :: "ToyEngine \<Rightarrow> JobKey \<Rightarrow> int \<Rightarrow> Chapter option" where
  "existingRuntimeChapter s jobKey ordinal =
     (case runtimeChapters s jobKey of
        None \<Rightarrow> None | Some chapters \<Rightarrow> map_option CloneChapter (chapters ordinal))"

definition ensureCompletionChapter ::
  "Env \<Rightarrow> JobKey \<Rightarrow> string \<Rightarrow> Chapter \<Rightarrow> ArtifactUpload list \<Rightarrow> Chapter toy_op" where
  "ensureCompletionChapter env jobKey schemaHash final uploads =
     bind_op (guard_op (0 \<le> ch_Ordinal final) (Errorf ''chapter ordinal must be >= 0'')) (\<lambda>_.
     bind_op (get_op (\<lambda>s. existingRuntimeChapter s jobKey (ch_Ordinal final))) (\<lambda>found.
       case found of
         Some existing \<Rightarrow>
           bind_op (if uploads \<noteq> [] then prepareChapterWrite env jobKey (ch_Ordinal final) final uploads
                    else ret_op final) (\<lambda>candidate.
           bind_op (guard_op (CloneChapter existing = CloneChapter candidate)
             (conflict ''chapter ordinal already exists with different contents'')) (\<lambda>_.
             ret_op existing))
       | None \<Rightarrow>
           bind_op (prepareChapterWrite env jobKey (ch_Ordinal final) final uploads) (\<lambda>chapter.
           bind_op (validate_chapter env (JobSchemaKey (TenantId jobKey) schemaHash) ChapterRoleLast chapter) (\<lambda>_.
           bind_op (storeRuntimeChapter env jobKey (ch_Ordinal final) chapter) (\<lambda>_.
             ret_op chapter)))))"

definition complete_record :: "go_time \<Rightarrow> string \<Rightarrow> raw \<Rightarrow> jobRecord \<Rightarrow> jobRecord" where
  "complete_record t status detail r =
     (let r = r\<lparr>jr_leased := False, jr_leaseID := [], jr_archived := Some t, jr_completionDetail := detail\<rparr>
      in if status = ''cancelled''
         then r\<lparr>jr_status := Cancelled, jr_cancelled := True, jr_err := Some (Sentinel ErrJobCancelled)\<rparr>
         else r\<lparr>jr_status := Completed\<rparr>)"

definition completeLease :: "Env \<Rightarrow> JobKey \<Rightarrow> string \<Rightarrow> CompleteExecutionRequest \<Rightarrow> unit toy_op" where
  "completeLease env jobKey leaseID req =
     (case ce_Chapter req of
        None \<Rightarrow> fail_op (Errorf ''complete lease requires final chapter'')
      | Some final \<Rightarrow>
          bind_op (guard_op (ChapterIs final ChapterTypeJobAttemptOutcome)
            (Errorf ''complete lease chapter must be a job attempt outcome'')) (\<lambda>_.
          bind_op (getJobRecord jobKey) (\<lambda>r.
          bind_op (guard_op (jr_leaseID r = leaseID) (Sentinel ErrExecutionLeaseLost)) (\<lambda>_.
          bind_op (ensureCompletionChapter env jobKey (SchemaHashFromStoredMetadata (jr_metadata r)) final
            (ce_Uploads req)) (\<lambda>_.
          bind_op (getJobRecord jobKey) (\<lambda>r.
          bind_op (guard_op (jr_leaseID r = leaseID) (Sentinel ErrExecutionLeaseLost)) (\<lambda>_.
            put_op (update_record jobKey (complete_record (now env) (ce_Status req) (ce_Detail req))))))))))"

section \<open>Rescheduling a job\<close>

record RescheduleExecutionRequest =
  re_NextNeed :: string
  re_WaitUntil :: "go_time option"
  re_WaitForJobIDs :: "string list"
  re_Payload :: raw
  re_AlternateNeed :: string
  re_AlternateAfter :: "duration option"

text \<open>The input of the waiting task: what the chapter at its input step put out.\<close>

definition wait_input :: "(int \<rightharpoonup> toyChapter) \<Rightarrow> int \<Rightarrow> TaskData option" where
  "wait_input chapters inputStep =
     (case chapters inputStep of
        None \<Rightarrow> None
      | Some prev \<Rightarrow> if tc_Output prev \<noteq> None then tc_Output prev else tc_Input prev)"

definition reschedule_wait :: "Env \<Rightarrow> string \<Rightarrow> workerTaskWait \<Rightarrow> jobRecord \<Rightarrow> jobRecord" where
  "reschedule_wait env nextNeed w r =
     r\<lparr>jr_step := tw_OutputStep w,
       jr_chapters :=
         (if jr_chapters r (tw_OutputStep w) = None
          then (jr_chapters r)(tw_OutputStep w \<mapsto>
                 \<lparr>tc_TaskType = extractTaskType nextNeed, tc_CreatedAt = now env,
                  tc_Input = wait_input (jr_chapters r) (tw_InputStep w), tc_Output = None, tc_Attempt = 1,
                  tc_Err = None\<rparr>)
          else jr_chapters r)\<rparr>"

definition reschedule_status :: "Env \<Rightarrow> RescheduleExecutionRequest \<Rightarrow> jobRecord \<Rightarrow> jobRecord" where
  "reschedule_status env req r =
     (if re_WaitForJobIDs req \<noteq> [] then r\<lparr>jr_status := PendingJobs\<rparr>
      else
        (case re_WaitUntil req of
           Some t \<Rightarrow> if now env < t then r\<lparr>jr_status := AwaitingFuture, jr_availableAt := t\<rparr>
                    else r\<lparr>jr_status := Ready\<rparr>
         | None \<Rightarrow> r\<lparr>jr_status := Ready\<rparr>))"

definition reschedule_record :: "Env \<Rightarrow> RescheduleExecutionRequest \<Rightarrow> jobRecord \<Rightarrow> jobRecord" where
  "reschedule_record env req r =
     (let r = r\<lparr>jr_leased := False, jr_leaseID := [], jr_capability := re_NextNeed req,
                jr_payload := clone_json (re_Payload req), jr_waitFor := re_WaitForJobIDs req,
                jr_availableAt := 0, jr_step := 0\<rparr>;
          r = (case extractWorkerTaskWait (jr_payload r) of
                 Inr (Some w) \<Rightarrow> reschedule_wait env (re_NextNeed req) w r
               | _ \<Rightarrow> r)
      in reschedule_status env req r)"

definition rescheduleLease :: "Env \<Rightarrow> JobKey \<Rightarrow> string \<Rightarrow> RescheduleExecutionRequest \<Rightarrow> unit toy_op" where
  "rescheduleLease env jobKey leaseID req =
     bind_op (getJobRecord jobKey) (\<lambda>r.
     bind_op (guard_op (jr_leaseID r = leaseID) (Sentinel ErrExecutionLeaseLost)) (\<lambda>_.
       put_op (update_record jobKey (reschedule_record env req))))"

section \<open>Completing a task that a job waits for\<close>

record CompleteTaskIfWaitingRequest =
  ct_JobKey :: JobKey
  ct_Capability :: string
  ct_ResumeNeed :: string
  ct_InputOrdinal :: int
  ct_OutputOrdinal :: int
  ct_InputHash :: string
  ct_Data :: "TaskData option"

definition wait_matches :: "workerTaskWait \<Rightarrow> string \<Rightarrow> CompleteTaskIfWaitingRequest \<Rightarrow> unit res" where
  "wait_matches w capability req =
     (if ct_Capability req \<noteq> [] \<and> capability \<noteq> ct_Capability req
      then Inl (conflict ''waiting capability does not match requested capability'')
      else if ct_ResumeNeed req \<noteq> [] \<and> tw_Next w \<noteq> ct_ResumeNeed req
      then Inl (conflict ''resume need does not match requested resume need'')
      else if ct_InputOrdinal req \<noteq> 0 \<and> tw_InputStep w \<noteq> ct_InputOrdinal req
      then Inl (conflict ''waiting input ordinal does not match requested input ordinal'')
      else if tw_OutputStep w \<noteq> ct_OutputOrdinal req
      then Inl (conflict ''waiting output ordinal does not match requested output ordinal'')
      else if ct_InputHash req \<noteq> [] \<and> tw_InputHash w \<noteq> ct_InputHash req
      then Inl (conflict ''waiting input hash does not match requested input hash'')
      else Inr ())"

definition task_chapter :: "Env \<Rightarrow> workerTaskWait \<Rightarrow> string \<Rightarrow> ChapterMetadata \<Rightarrow> raw \<Rightarrow> StoredArtifact list \<Rightarrow> Chapter" where
  "task_chapter env w taskType md payload stored =
     \<lparr>ch_Ordinal = tw_OutputStep w, ch_TaskType = taskType,
      ch_Body = Some (TaskAttemptOutcome (Some (ApplicationOutput (clone_json payload)))),
      ch_InputHash = tw_InputHash w, ch_CreatedAt = now env, ch_Metadata = md, ch_Artifacts = stored\<rparr>"

definition resume_record :: "string \<Rightarrow> raw \<Rightarrow> int \<Rightarrow> jobRecord \<Rightarrow> jobRecord" where
  "resume_record need payload step r =
     r\<lparr>jr_capability := need, jr_payload := payload, jr_status := Ready, jr_leased := False,
       jr_leaseID := [], jr_step := step\<rparr>"

definition CompleteTaskIfWaiting :: "Env \<Rightarrow> CompleteTaskIfWaitingRequest \<Rightarrow> unit toy_op" where
  "CompleteTaskIfWaiting env req =
     bind_op (getJobRecord (ct_JobKey req)) (\<lambda>r.
     bind_op (lift_op (extractWorkerTaskWait (clone_json (jr_payload r)))) (\<lambda>wait.
       (let rp = (case dec_workerJobPayload (clone_json (jr_payload r)) of
                    None \<Rightarrow> zero_RunPolicy | Some p \<Rightarrow> wp_RunPolicy p);
            taskType = extractTaskType (jr_capability r)
        in case wait of
             None \<Rightarrow> fail_op (conflict ''job is not waiting on an external task'')
           | Some w \<Rightarrow>
     bind_op (lift_op (wait_matches w (jr_capability r) req)) (\<lambda>_.
     bind_op (materializeTaskData env (ct_JobKey req) (tw_OutputStep w) (ct_Data req)) (\<lambda>(td, stored).
     bind_op (lift_op (task_payload td)) (\<lambda>payload.
     bind_op (lift_op (marshalChapterMetadata
       (chapter_metadata_fields env (tw_OutputStep w) taskType (tw_InputHash w) rp))) (\<lambda>md.
     bind_op (guard_op (taskType \<noteq> [] \<and> taskType \<noteq> jr_capability r)
       (Errorf ''task type not found in capability'')) (\<lambda>_.
       (let chapter = task_chapter env w taskType md payload stored in
     bind_op (validate_chapter env (JobSchemaKey (TenantId (ct_JobKey req))
       (SchemaHashFromStoredMetadata (jr_metadata r))) ChapterRoleDefault chapter) (\<lambda>_.
     bind_op (storeRuntimeChapter env (ct_JobKey req) (tw_OutputStep w) chapter) (\<lambda>_.
     bind_op (getJobRecord (ct_JobKey req)) (\<lambda>_.
       put_op (update_record (ct_JobKey req)
         (resume_record (if ct_ResumeNeed req \<noteq> [] then ct_ResumeNeed req else tw_Next w)
           (mustMarshalWorkerPayload \<lparr>wp_RunPolicy = rp, wp_TaskWait = None\<rparr>) (tw_OutputStep w)))))))))))))))"

section \<open>Reading a job\<close>

record JobInfo =
  ji_Status :: JobStatus
  ji_SchemaHash :: string
  ji_Data :: "TaskData option \<times> go_error option"

definition GetJob :: "ToyEngine \<Rightarrow> JobKey \<Rightarrow> JobInfo res" where
  "GetJob s jobKey =
     (case jobRecords s jobKey of
        None \<Rightarrow> Inl (Sentinel ErrJobNotFound)
      | Some r \<Rightarrow>
          Inr \<lparr>ji_Status = jr_status r, ji_SchemaHash = SchemaHashFromStoredMetadata (jr_metadata r),
               ji_Data = (if terminal (jr_status r) then (jr_result r, jr_err r)
                          else (None, Some (Sentinel ErrJobNotComplete)))\<rparr>)"

text \<open>\<^verbatim>\<open>jobInfoTaskData.GetData\<close>: the data and the error it returns.\<close>

definition jobInfoTaskData_GetData :: "TaskData option \<times> go_error option \<Rightarrow> raw option \<times> go_error option" where
  "jobInfoTaskData_GetData d =
     (case d of
        (None, err) \<Rightarrow> (None, err)
      | (Some td, err) \<Rightarrow>
          (case td_GetData td of Inl e \<Rightarrow> (None, Some e) | Inr r \<Rightarrow> (Some r, err)))"

end
