(* ===== verification/Toy_Schedule.thy ===== *)
theory Toy_Schedule
  imports Toy_Lease
begin

text \<open>
  Schedules of the toy runtime (\<^verbatim>\<open>schedule.go\<close>, \<^verbatim>\<open>schedule_preflight.go\<close>) and the two ways of taking a
  lease, \<^verbatim>\<open>PollWork\<close> and \<^verbatim>\<open>GetJobLease\<close>, which run the preflight of a schedule occurrence before they
  hand out its lease. Generations are unbounded here (an int64 in the code).
\<close>

section \<open>Schedules\<close>

definition snapshotScheduleTarget :: "ScheduleTarget \<Rightarrow> ScheduleTarget res" where
  "snapshotScheduleTarget target =
     (case tgt_Data target of
        None \<Rightarrow> Inr (target\<lparr>tgt_Metadata := clone_json (tgt_Metadata target)\<rparr>)
      | Some d \<Rightarrow>
     (case td_GetData d of
        Inl e \<Rightarrow> Inl e
      | Inr r \<Rightarrow>
     (case td_GetArtifacts d of
        Inl e \<Rightarrow> Inl e
      | Inr source \<Rightarrow>
     (case materializeArtifacts source of
        Inl e \<Rightarrow> Inl e
      | Inr artifacts \<Rightarrow>
          Inr (target\<lparr>tgt_Data := Some (SimpleTaskData r artifacts),
                      tgt_Metadata := clone_json (tgt_Metadata target)\<rparr>)))))"

definition cloneScheduleTarget :: "ScheduleTarget \<Rightarrow> ScheduleTarget" where
  "cloneScheduleTarget target =
     (let target = target\<lparr>tgt_Metadata := clone_json (tgt_Metadata target)\<rparr>
      in if tgt_Data target = None then target
         else (case snapshotScheduleTarget target of Inr t \<Rightarrow> t | Inl _ \<Rightarrow> target))"

definition cloneScheduleInfo :: "ScheduleInfo \<Rightarrow> ScheduleInfo" where
  "cloneScheduleInfo info = info\<lparr>sc_Target := cloneScheduleTarget (sc_Target info)\<rparr>"

definition set_schedule :: "ScheduleKey \<Rightarrow> ScheduleInfo \<Rightarrow> ToyEngine \<Rightarrow> ToyEngine" where
  "set_schedule k info s = s\<lparr>schedules := (schedules s)(k \<mapsto> info)\<rparr>"

definition GetSchedule :: "ToyEngine \<Rightarrow> ScheduleKey \<Rightarrow> ScheduleInfo res" where
  "GetSchedule s key =
     (case schedules s key of
        None \<Rightarrow> Inl (Sentinel ErrJobNotFound) | Some info \<Rightarrow> Inr (cloneScheduleInfo info))"

definition request_time :: "Env \<Rightarrow> go_time \<Rightarrow> go_time" where
  "request_time env t = (if t = 0 then now env else t)"

section \<open>Submitting an occurrence\<close>

definition occurrence_status :: "Env \<Rightarrow> go_time \<Rightarrow> string list \<Rightarrow> JobStatus" where
  "occurrence_status env scheduledAt waitFor =
     (let status = (if waitFor \<noteq> [] then PendingJobs else Ready)
      in if now env < scheduledAt \<and> waitFor = [] then AwaitingFuture else status)"

definition occurrence_metadata ::
  "ScheduleInfo \<Rightarrow> go_time \<Rightarrow> string \<Rightarrow> string \<Rightarrow> ScheduleOccurrenceMetadata" where
  "occurrence_metadata info scheduledAt previousJobID failureBits =
     \<lparr>occ_ScheduleId = sch_ScheduleId (sc_ScheduleKey info), occ_Kind = [],
      occ_Generation = sc_Generation info, occ_SpecHash = sc_SpecHash info, occ_ScheduledAt = scheduledAt,
      occ_RunId = [], occ_Manual = False, occ_BackfillId = [], occ_PreviousJobId = previousJobID,
      occ_FailureHistory =
        \<lparr>fh_Bits = failureBits,
         fh_WindowSize = (if WindowSize (sc_FailurePolicy info) \<le> 0 then int (length failureBits)
                          else WindowSize (sc_FailurePolicy info))\<rparr>\<rparr>"

definition submitScheduledOccurrenceWithJobID ::
  "Env \<Rightarrow> ScheduleInfo \<Rightarrow> string \<Rightarrow> go_time \<Rightarrow> string \<Rightarrow> string \<Rightarrow> bool \<Rightarrow> JobKey toy_op" where
  "submitScheduledOccurrenceWithJobID env info jobID scheduledAt previousJobID failureBits manual =
     (let jobKey = JobKey (sch_TenantId (sc_ScheduleKey info)) jobID; target = sc_Target info in
     bind_op (lift_op (MergeScheduleOccurrenceMetadata (tgt_Metadata target)
       (occurrence_metadata info scheduledAt previousJobID failureBits) manual)) (\<lambda>schedulerMetadata.
     bind_op (materializeTaskData env jobKey 0 (tgt_Data target)) (\<lambda>(jobData, storedArtifacts).
     bind_op (lift_op (jobdbInputHash env jobData)) (\<lambda>inputHash.
     bind_op (lift_op (marshalChapterMetadata
       (chapter_metadata_fields env 0 (tgt_JobType target) inputHash (tgt_RunPolicy target)))) (\<lambda>md.
     bind_op (lift_op (task_payload jobData)) (\<lambda>payload.
       (let waitFor = (if previousJobID \<noteq> [] \<and> sc_OverlapPolicy info = OverlapSerial
                       then [previousJobID] else []);
            rec = new_record env (occurrence_status env scheduledAt waitFor) (tgt_JobType target)
              schedulerMetadata (tgt_RunPolicy target) scheduledAt waitFor
              [0 \<mapsto> start_toyChapter env (tgt_JobType target) jobData];
            start = start_chapter env (tgt_JobType target) inputHash md (clone_json payload) storedArtifacts
        in bind_op (get_op (\<lambda>s. jobRecords s jobKey)) (\<lambda>existing.
             if existing \<noteq> None then ret_op jobKey
             else bind_op (put_op (insert_job jobKey rec start)) (\<lambda>_. ret_op jobKey)))))))))"

definition submitScheduledOccurrence ::
  "Env \<Rightarrow> ScheduleInfo \<Rightarrow> go_time \<Rightarrow> string \<Rightarrow> string \<Rightarrow> bool \<Rightarrow> JobKey toy_op" where
  "submitScheduledOccurrence env info scheduledAt previousJobID failureBits manual =
     submitScheduledOccurrenceWithJobID env info
       (ScheduleRunJobID (sch_ScheduleId (sc_ScheduleKey info)) (sc_Generation info) scheduledAt)
       scheduledAt previousJobID failureBits manual"

section \<open>Changing schedules\<close>

definition next_job_key :: "ScheduleKey \<Rightarrow> ScheduleState \<Rightarrow> int \<Rightarrow> go_time option \<Rightarrow> JobKey option" where
  "next_job_key key state generation nextFireAt =
     (case nextFireAt of
        Some t \<Rightarrow>
          if state = ScheduleActive
          then Some (JobKey (sch_TenantId key) (ScheduleRunJobID (sch_ScheduleId key) generation t)) else None
      | None \<Rightarrow> None)"

text \<open>The guards on the schedule that is there, and the record an upsert stores.\<close>

definition upsert_allowed :: "ScheduleInfo option \<Rightarrow> int option \<Rightarrow> unit res" where
  "upsert_allowed existing expected =
     (if (case existing of Some e \<Rightarrow> sc_State e = ScheduleArchived | None \<Rightarrow> False)
      then Inl (conflict ''archived schedule cannot be updated'')
      else
        (case expected of
           None \<Rightarrow> Inr ()
         | Some g \<Rightarrow>
             if (case existing of Some e \<Rightarrow> sc_Generation e = g | None \<Rightarrow> False) then Inr ()
             else Inl (conflict ''schedule generation mismatch'')))"

definition upsert_info :: "UpsertScheduleRequest \<Rightarrow> go_time \<Rightarrow> ScheduleTarget \<Rightarrow> string \<Rightarrow> go_time option
  \<Rightarrow> ScheduleInfo option \<Rightarrow> ScheduleInfo" where
  "upsert_info req t target specHash nextFireAt existing =
     (let key = ScheduleKey (us_TenantId req) (us_ScheduleId req);
          state = (if us_Paused req then SchedulePaused else ScheduleActive);
          generation = (case existing of None \<Rightarrow> 1 | Some e \<Rightarrow> sc_Generation e + 1)
      in \<lparr>sc_ScheduleKey = key, sc_State = state, sc_EffectiveState = state, sc_Generation = generation,
          sc_SpecHash = specHash, sc_Trigger = us_Trigger req, sc_Target = cloneScheduleTarget target,
          sc_OverlapPolicy = NormalizeScheduleOverlapPolicy (us_OverlapPolicy req),
          sc_FailurePolicy = us_FailurePolicy req, sc_NextFireAt = nextFireAt,
          sc_NextJobKey = next_job_key key state generation nextFireAt,
          sc_CreatedAt = (case existing of None \<Rightarrow> t | Some e \<Rightarrow> sc_CreatedAt e), sc_UpdatedAt = t\<rparr>)"

definition UpsertSchedule :: "Env \<Rightarrow> UpsertScheduleRequest \<Rightarrow> ScheduleInfo toy_op" where
  "UpsertSchedule env req =
     (let t = request_time env (us_RequestTime req);
          key = ScheduleKey (us_TenantId req) (us_ScheduleId req) in
     bind_op (lift_op (ValidateScheduleRequest req)) (\<lambda>_.
     bind_op (lift_op (snapshotScheduleTarget (us_Target req))) (\<lambda>target.
     bind_op (lift_op (ScheduleSpecHash env (us_Trigger req) target (us_OverlapPolicy req)
       (us_FailurePolicy req))) (\<lambda>specHash.
     bind_op (lift_op (InitialScheduleFire (zones env) (us_Trigger req) t)) (\<lambda>nextFireAt.
     bind_op (get_op (\<lambda>s. schedules s key)) (\<lambda>existing.
     bind_op (lift_op (upsert_allowed existing (us_ExpectedGeneration req))) (\<lambda>_.
       (let info = upsert_info req t target specHash nextFireAt existing in
     bind_op (put_op (set_schedule key info)) (\<lambda>_.
       case nextFireAt of
         Some fire \<Rightarrow>
           if sc_State info = ScheduleActive
           then bind_op (submitScheduledOccurrence env info fire [] [] False) (\<lambda>_. ret_op info)
           else ret_op info
       | None \<Rightarrow> ret_op info)))))))))"

definition mutate_info :: "ScheduleKey \<Rightarrow> ScheduleState \<Rightarrow> go_time \<Rightarrow> go_time option \<Rightarrow> ScheduleInfo \<Rightarrow> ScheduleInfo" where
  "mutate_info key state t next info =
     (let generation = sc_Generation info + 1
      in info\<lparr>sc_State := state, sc_EffectiveState := state, sc_Generation := generation, sc_UpdatedAt := t,
              sc_NextFireAt := (if state = ScheduleActive then next else None),
              sc_NextJobKey := next_job_key key state generation next\<rparr>)"

definition mutateScheduleState ::
  "Env \<Rightarrow> ScheduleMutationRequest \<Rightarrow> ScheduleState \<Rightarrow> bool \<Rightarrow> ScheduleInfo toy_op" where
  "mutateScheduleState env req state submitFirst =
     (let t = request_time env (sm_RequestTime req); key = sm_ScheduleKey req in
     bind_op (get_op (\<lambda>s. schedules s key)) (\<lambda>found.
       case found of
         None \<Rightarrow> fail_op (Sentinel ErrJobNotFound)
       | Some info0 \<Rightarrow>
     bind_op (guard_op (case sm_ExpectedGeneration req of None \<Rightarrow> True | Some g \<Rightarrow> sc_Generation info0 = g)
       (conflict ''schedule generation mismatch'')) (\<lambda>_.
     bind_op (guard_op (\<not> (sc_State info0 = ScheduleArchived \<and> state \<noteq> ScheduleArchived))
       (conflict ''archived schedule cannot change state'')) (\<lambda>_.
     bind_op (lift_op (InitialScheduleFire (zones env) (sc_Trigger info0) t)) (\<lambda>next.
       (let info = mutate_info key state t next info0 in
     bind_op (put_op (set_schedule key info)) (\<lambda>_.
       (let info = cloneScheduleInfo info in
        case sc_NextFireAt info of
          Some fire \<Rightarrow>
            if submitFirst \<and> sc_State info = ScheduleActive
            then bind_op (submitScheduledOccurrence env info fire [] [] False) (\<lambda>_. ret_op info)
            else ret_op info
        | None \<Rightarrow> ret_op info))))))))"

definition PauseSchedule :: "Env \<Rightarrow> ScheduleMutationRequest \<Rightarrow> ScheduleInfo toy_op" where
  "PauseSchedule env req = mutateScheduleState env req SchedulePaused False"

definition ResumeSchedule :: "Env \<Rightarrow> ScheduleMutationRequest \<Rightarrow> ScheduleInfo toy_op" where
  "ResumeSchedule env req = mutateScheduleState env req ScheduleActive True"

definition ArchiveSchedule :: "Env \<Rightarrow> ScheduleMutationRequest \<Rightarrow> ScheduleInfo toy_op" where
  "ArchiveSchedule env req = mutateScheduleState env req ScheduleArchived False"

definition TriggerSchedule :: "Env \<Rightarrow> TriggerScheduleRequest \<Rightarrow> JobKey toy_op" where
  "TriggerSchedule env req =
     bind_op (read_op (\<lambda>s. GetSchedule s (ts_ScheduleKey req))) (\<lambda>info.
     bind_op (guard_op (sc_State info \<noteq> ScheduleArchived) (conflict ''archived schedule cannot be triggered''))
       (\<lambda>_.
       submitScheduledOccurrenceWithJobID env info
         (ScheduleManualJobID env (sch_ScheduleId (sc_ScheduleKey info)) (ts_RequestID req))
         (request_time env (ts_RequestTime req)) [] [] True))"

record ListSchedulesRequest =
  lsr_TenantId :: string
  lsr_ScheduleIds :: "string list"
  lsr_States :: "ScheduleState list"
  lsr_TargetJobTypes :: "string list"

definition schedule_listed :: "ListSchedulesRequest \<Rightarrow> ScheduleKey \<Rightarrow> ScheduleInfo \<Rightarrow> bool" where
  "schedule_listed req key info \<longleftrightarrow>
     (lsr_TenantId req = [] \<or> sch_TenantId key = lsr_TenantId req) \<and>
     (lsr_ScheduleIds req = [] \<or> sch_ScheduleId (sc_ScheduleKey info) \<in> set (lsr_ScheduleIds req)) \<and>
     (lsr_States req = [] \<or> sc_State info \<in> set (lsr_States req)) \<and>
     (lsr_TargetJobTypes req = [] \<or> tgt_JobType (sc_Target info) \<in> set (lsr_TargetJobTypes req))"

definition schedule_sort_key :: "ScheduleInfo \<Rightarrow> go_time \<times> string" where
  "schedule_sort_key i = (sc_UpdatedAt i, sch_ScheduleId (sc_ScheduleKey i))"

definition ListSchedules :: "ScheduleKey list \<Rightarrow> ToyEngine \<Rightarrow> ListSchedulesRequest \<Rightarrow> ScheduleInfo list" where
  "ListSchedules order s req =
     sort_slice (\<lambda>a b. newer (schedule_sort_key a) (schedule_sort_key b))
       (List.map_filter (\<lambda>k.
          case schedules s k of
            None \<Rightarrow> None
          | Some info \<Rightarrow> if schedule_listed req k info then Some (cloneScheduleInfo info) else None) order)"

section \<open>Preflight of an occurrence\<close>

record scheduleCancelDetail =
  cd_ReasonCode :: string
  cd_Message :: string
  cd_ScheduleId :: string
  cd_ExpectedGeneration :: int
  cd_ActualGeneration :: int
  cd_ExpectedSpecHash :: string
  cd_ActualSpecHash :: string
  cd_ScheduledAt :: go_time

definition cancellationForOccurrence ::
  "ScheduleOccurrenceMetadata \<Rightarrow> string \<Rightarrow> string \<Rightarrow> int \<Rightarrow> string \<Rightarrow> scheduleCancelDetail" where
  "cancellationForOccurrence o1 reason message actualGeneration actualSpecHash =
     \<lparr>cd_ReasonCode = reason, cd_Message = message, cd_ScheduleId = occ_ScheduleId o1,
      cd_ExpectedGeneration = occ_Generation o1, cd_ActualGeneration = actualGeneration,
      cd_ExpectedSpecHash = occ_SpecHash o1, cd_ActualSpecHash = actualSpecHash,
      cd_ScheduledAt = occ_ScheduledAt o1\<rparr>"

definition enc_scheduleCancelDetail :: "scheduleCancelDetail \<Rightarrow> json" where
  "enc_scheduleCancelDetail d =
     JObj ([(''kind'', JStr ''schedule_preflight_outcome''), (''status'', JStr ''cancelled''),
            (''reasonCode'', JStr (cd_ReasonCode d))] @
       omit_if (cd_Message d = []) ''message'' (JStr (cd_Message d)) @
       omit_if (cd_ScheduleId d = []) ''scheduleId'' (JStr (cd_ScheduleId d)) @
       omit_if (cd_ExpectedGeneration d = 0) ''expectedGeneration'' (JInt (cd_ExpectedGeneration d)) @
       omit_if (cd_ActualGeneration d = 0) ''actualGeneration'' (JInt (cd_ActualGeneration d)) @
       omit_if (cd_ExpectedSpecHash d = []) ''expectedSpecHash'' (JStr (cd_ExpectedSpecHash d)) @
       omit_if (cd_ActualSpecHash d = []) ''actualSpecHash'' (JStr (cd_ActualSpecHash d)) @
       [(''scheduledAt'', JTime (cd_ScheduledAt d))])"

definition schedulePreflightCancelChapter :: "Env \<Rightarrow> string \<Rightarrow> scheduleCancelDetail \<Rightarrow> Chapter" where
  "schedulePreflightCancelChapter env taskType detail =
     \<lparr>ch_Ordinal = 1, ch_TaskType = taskType,
      ch_Body = Some (JobAttemptOutcome (Some (SystemErrorOutcome
        \<lparr>sys_Message = cd_Message detail, sys_Component = ''jobdb.schedule_preflight'',
         sys_Code = cd_ReasonCode detail, sys_Retryable = False, sys_InputRef = None,
         sys_Stacktrace = []\<rparr>))),
      ch_InputHash = [], ch_CreatedAt = now env, ch_Metadata = None, ch_Artifacts = []\<rparr>"

definition cancelScheduledLease :: "Env \<Rightarrow> runtimeLease \<Rightarrow> scheduleCancelDetail \<Rightarrow> bool toy_op" where
  "cancelScheduledLease env lease detail =
     bind_op (completeLease env (ls_JobKey lease) (ls_LeaseID lease)
       \<lparr>ce_Status = ''cancelled'', ce_Detail = Json (enc_scheduleCancelDetail detail),
        ce_Chapter = Some (schedulePreflightCancelChapter env (ls_Capability lease) detail),
        ce_Uploads = []\<rparr>) (\<lambda>_. ret_op False)"

definition previousJobSucceeded :: "ToyEngine \<Rightarrow> string \<Rightarrow> string \<Rightarrow> bool" where
  "previousJobSucceeded s tenantID jobID =
     (case jobRecords s (JobKey tenantID jobID) of
        None \<Rightarrow> False | Some r \<Rightarrow> jr_status r = Completed \<and> \<not> jr_cancelled r)"

text \<open>Why an occurrence must not start; \<^term>\<open>None\<close>: it may.\<close>

definition occurrence_blocked ::
  "ScheduleInfo res \<Rightarrow> ScheduleOccurrenceMetadata \<Rightarrow> scheduleCancelDetail option" where
  "occurrence_blocked found o1 =
     (case found of
        Inl _ \<Rightarrow>
          Some (cancellationForOccurrence o1 ''schedule_missing'' ''schedule missing before app start'' 0 [])
      | Inr info \<Rightarrow>
          (let stop = (\<lambda>reason message.
                 Some (cancellationForOccurrence o1 reason message (sc_Generation info) (sc_SpecHash info)))
           in if sc_State info = SchedulePaused
              then stop ''schedule_paused'' ''schedule paused before app start''
              else if sc_State info = ScheduleArchived
              then stop ''schedule_archived'' ''schedule archived before app start''
              else if sc_Generation info \<noteq> occ_Generation o1
              then stop ''schedule_generation_mismatch'' ''schedule generation changed before app start''
              else if sc_SpecHash info \<noteq> occ_SpecHash o1
              then stop ''schedule_spec_mismatch'' ''schedule spec changed before app start''
              else None))"

definition occurrence_bits :: "ToyEngine \<Rightarrow> string \<Rightarrow> ScheduleInfo \<Rightarrow> ScheduleOccurrenceMetadata \<Rightarrow> string" where
  "occurrence_bits s tenantID info o1 =
     (let windowSize = (if WindowSize (sc_FailurePolicy info) \<le> 0 then fh_WindowSize (occ_FailureHistory o1)
                        else WindowSize (sc_FailurePolicy info))
      in if occ_PreviousJobId o1 \<noteq> []
         then AppendScheduleFailureBit (fh_Bits (occ_FailureHistory o1))
                (previousJobSucceeded s tenantID (occ_PreviousJobId o1)) windowSize
         else fh_Bits (occ_FailureHistory o1))"

definition chapter_count :: "ToyEngine \<Rightarrow> JobKey \<Rightarrow> nat" where
  "chapter_count s k = (case runtimeChapters s k of None \<Rightarrow> 0 | Some chapters \<Rightarrow> card (dom chapters))"

declare chapter_count_def [code del]

text \<open>The result tells whether the lease may be handed out.\<close>

definition start_occurrence :: "Env \<Rightarrow> runtimeLease \<Rightarrow> ScheduleInfo \<Rightarrow> ScheduleOccurrenceMetadata \<Rightarrow> bool toy_op" where
  "start_occurrence env lease info o1 =
     (let key = ls_JobKey lease in
     bind_op (get_op (\<lambda>s. occurrence_bits s (TenantId key) info o1)) (\<lambda>failureBits.
       if ScheduleFailurePolicyViolated failureBits (sc_FailurePolicy info)
       then cancelScheduledLease env lease (cancellationForOccurrence o1 ''failure_policy''
              ''schedule failure policy blocked this occurrence'' (sc_Generation info) (sc_SpecHash info))
       else
         bind_op (lift_op (NextScheduleFire (zones env) (sc_Trigger info) (now env))) (\<lambda>nextFireAt.
           case nextFireAt of
             None \<Rightarrow> ret_op True
           | Some fire \<Rightarrow>
               bind_op (submitScheduledOccurrence env info fire (JobId key) failureBits False)
                 (\<lambda>_. ret_op True))))"

definition preflightScheduleLease :: "Env \<Rightarrow> runtimeLease \<Rightarrow> bool toy_op" where
  "preflightScheduleLease env lease =
     (let key = ls_JobKey lease in
     bind_op (getJobRecord key) (\<lambda>r.
     bind_op (get_op (\<lambda>s. chapter_count s key)) (\<lambda>chapterCount.
     bind_op (lift_op (ExtractScheduleOccurrenceMetadata (clone_json (jr_metadata r)))) (\<lambda>found.
       case found of
         None \<Rightarrow> ret_op True
       | Some o1 \<Rightarrow>
           if 1 < chapterCount then ret_op True
           else
             bind_op (get_op (\<lambda>s. GetSchedule s (ScheduleKey (TenantId key) (occ_ScheduleId o1)))) (\<lambda>sched.
               case occurrence_blocked sched o1 of
                 Some detail \<Rightarrow> cancelScheduledLease env lease detail
               | None \<Rightarrow>
                   (case sched of
                      Inl e \<Rightarrow> fail_op e
                    | Inr info \<Rightarrow> start_occurrence env lease info o1))))))"

fun preflight_all :: "Env \<Rightarrow> runtimeLease list \<Rightarrow> runtimeLease list toy_op" where
  "preflight_all env [] = ret_op []"
| "preflight_all env (lease # leases) =
     bind_op (preflightScheduleLease env lease) (\<lambda>ok.
     bind_op (preflight_all env leases) (\<lambda>rest. ret_op (if ok then lease # rest else rest)))"

section \<open>Polling\<close>

record PollWorkRequest =
  pw_TenantId :: string
  pw_Capabilities :: "string list"
  pw_Limit :: int
  pw_LeaseDuration :: duration
  pw_MetadataEquals :: "MetadataPredicate list"

definition poll_limit :: "PollWorkRequest \<Rightarrow> int" where
  "poll_limit req = (if pw_Limit req \<le> 0 then 1 else pw_Limit req)"

text \<open>\<open>order\<close>: the keys of the record map in the order of the iteration. \<^term>\<open>None\<close>: the call never
  returns.\<close>

definition PollWork ::
  "Env \<Rightarrow> JobKey list \<Rightarrow> PollWorkRequest \<Rightarrow> ToyEngine \<Rightarrow> (ToyEngine \<times> runtimeLease list res) option" where
  "PollWork env order req s =
     (if pw_LeaseDuration req < 0 then Some (s, Inl (Errorf ''lease duration must be >= 0''))
      else if pw_TenantId req = [] then Some (s, Inl (Errorf ''tenant_id is required for PollWork''))
      else
        (case normalizeMetadataPredicates (pw_MetadataEquals req) of
           Inl e \<Rightarrow> Some (s, Inl e)
         | Inr preds \<Rightarrow>
             (case poll_take env (pw_TenantId req) (capSet (pw_Capabilities req)) preds (pw_LeaseDuration req)
                     order (poll_limit req) s of
                None \<Rightarrow> None
              | Some (s1, Inl e) \<Rightarrow> Some (s1, Inl e)
              | Some (s1, Inr leases) \<Rightarrow> Some (preflight_all env leases s1))))"

record GetJobLeaseRequest =
  gl_JobKey :: JobKey
  gl_Capabilities :: "string list"
  gl_LeaseDuration :: duration

definition GetJobLease ::
  "Env \<Rightarrow> GetJobLeaseRequest \<Rightarrow> ToyEngine \<Rightarrow> (ToyEngine \<times> runtimeLease option res) option" where
  "GetJobLease env req s =
     (if gl_LeaseDuration req < 0 then Some (s, Inl (Errorf ''lease duration must be >= 0''))
      else if capSet (gl_Capabilities req) = [] then Some (s, Inl (Errorf ''at least one capability is required''))
      else
        (case jobRecords s (gl_JobKey req) of
           None \<Rightarrow> Some (s, Inr None)
         | Some r0 \<Rightarrow>
             (case advanceRecordState s (gl_JobKey req) (now env) r0 of
                None \<Rightarrow> None
              | Some r \<Rightarrow>
                  (let s1 = set_record (gl_JobKey req) r s in
                   if \<not> leasable (capSet (gl_Capabilities req)) r then Some (s1, Inr None)
                   else
                     Some (bind_op (take_lease env (gl_JobKey req) r (gl_LeaseDuration req)) (\<lambda>lease.
                           bind_op (preflightScheduleLease env lease) (\<lambda>ok.
                             ret_op (if ok then Some lease else None))) s1)))))"

end
