(* ===== verification/Toy_List.thy ===== *)
theory Toy_List
  imports Toy_Schedule
begin

text \<open>
  The listings of the toy runtime: \<^verbatim>\<open>ListJobs\<close> (\<^verbatim>\<open>toy.go\<close>) and \<^verbatim>\<open>ListScheduleRuns\<close>
  (\<^verbatim>\<open>schedule.go\<close>). A page token is the cursor that its text encodes (\<^verbatim>\<open>base64\<close> of a JSON object), or a
  text that does not decode. The theorem at the end follows the tokens from the first page to the last.
\<close>

section \<open>Requests and summaries\<close>

datatype JobStore = StoreActive | StoreArchived | StoreOther string

datatype JobStatusArg = StatusArg JobStatus | UnknownStatus string

datatype PageToken = NoToken | Cursor go_time JobKey | BadToken

record ListJobsRequest =
  lj_TenantIds :: "string list"
  lj_Statuses :: "JobStatusArg list"
  lj_Stores :: "JobStore list"
  lj_JobTypes :: "string list"
  lj_JobTasks :: "(string \<times> string) list"
  lj_JobKeys :: "JobKey list"
  lj_ParentJobIDs :: "string list"
  lj_RootOnly :: bool
  lj_MetadataFilter :: "MetadataFilter option"
  lj_CreatedAfter :: "go_time option"
  lj_CreatedBefore :: "go_time option"
  lj_PageSize :: int
  lj_PageToken :: PageToken

record JobSummary =
  js_JobKey :: JobKey
  js_Status :: JobStatus
  js_JobType :: string
  js_NextNeed :: string
  js_WaitFor :: "string list"
  js_AvailableAt :: go_time
  js_CancelRequested :: bool
  js_CreatedAt :: go_time
  js_ArchivedAt :: "go_time option"
  js_Payload :: raw
  js_Metadata :: raw
  js_SchemaHash :: string
  js_ParentJobID :: string
  js_TaskWait :: "workerTaskWait option"

definition list_page_size :: "int \<Rightarrow> int" where
  "list_page_size n = (if n \<le> 0 then 100 else if 200 < n then 200 else n)"

text \<open>Which stores the request covers (active, archived); an unknown status or store is an error.\<close>

fun status_scope :: "JobStatusArg list \<Rightarrow> (bool \<times> bool) res" where
  "status_scope [] = Inr (False, False)"
| "status_scope (UnknownStatus q # sts) = Inl (Errorf ''unknown status'')"
| "status_scope (StatusArg st # sts) =
     (case status_scope sts of
        Inl e \<Rightarrow> Inl e
      | Inr (act, arch) \<Rightarrow> if st = Completed then Inr (act, True) else Inr (True, arch))"

fun store_scope :: "JobStore list \<Rightarrow> (bool \<times> bool) res" where
  "store_scope [] = Inr (False, False)"
| "store_scope (StoreOther q # xs) = Inl (Errorf ''unknown store'')"
| "store_scope (StoreActive # xs) =
     (case store_scope xs of Inl e \<Rightarrow> Inl e | Inr (act, arch) \<Rightarrow> Inr (True, arch))"
| "store_scope (StoreArchived # xs) =
     (case store_scope xs of Inl e \<Rightarrow> Inl e | Inr (act, arch) \<Rightarrow> Inr (act, True))"

definition list_scope :: "ListJobsRequest \<Rightarrow> (bool \<times> bool) res" where
  "list_scope req =
     (if lj_Statuses req \<noteq> [] then status_scope (lj_Statuses req)
      else if lj_Stores req = [] then Inr (True, True)
      else store_scope (lj_Stores req))"

section \<open>Which jobs a request lists\<close>

definition job_store :: "JobStatus \<Rightarrow> JobStore" where
  "job_store st = (if st = Completed then StoreArchived else StoreActive)"

definition allowed :: "'a list \<Rightarrow> 'a \<Rightarrow> bool" where
  "allowed xs x \<longleftrightarrow> xs = [] \<or> x \<in> set xs"

fun task_filter_matches :: "string \<Rightarrow> (string \<times> string) list \<Rightarrow> bool" where
  "task_filter_matches capability [] = False"
| "task_filter_matches capability ((jobType, taskType) # ps) =
     (if jobType = [] \<or> taskType = [] then task_filter_matches capability ps
      else if capability = jobType @ '':'' @ taskType then True
      else task_filter_matches capability ps)"

definition jobTaskAllowed :: "(string \<times> string) list \<Rightarrow> string \<Rightarrow> bool" where
  "jobTaskAllowed tasks capability \<longleftrightarrow>
     tasks = [] \<or> capability \<noteq> [] \<and> task_filter_matches capability tasks"

definition job_listed ::
  "ListJobsRequest \<Rightarrow> bool \<times> bool \<Rightarrow> normalizedMetadataPredicate list \<Rightarrow> JobKey \<Rightarrow> jobRecord \<Rightarrow> bool res" where
  "job_listed req scope preds key r =
     (if \<not> allowed (lj_TenantIds req) (TenantId key) then Inr False
      else if jr_status r = Completed \<and> \<not> snd scope then Inr False
      else if jr_status r \<noteq> Completed \<and> \<not> fst scope then Inr False
      else if \<not> allowed (lj_Stores req) (job_store (jr_status r)) then Inr False
      else if \<not> allowed (lj_Statuses req) (StatusArg (jr_status r)) then Inr False
      else if \<not> allowed (lj_JobKeys req) key then Inr False
      else if \<not> allowed (lj_JobTypes req) (jr_jobType r) then Inr False
      else if \<not> jobTaskAllowed (lj_JobTasks req) (jr_capability r) then Inr False
      else
        (case ExtractParentJobID (jr_metadata r) of
           Inl e \<Rightarrow> Inl e
         | Inr parent \<Rightarrow>
             if lj_RootOnly req \<and> parent \<noteq> [] then Inr False
             else if \<not> allowed (lj_ParentJobIDs req) parent then Inr False
             else if (case lj_CreatedAfter req of None \<Rightarrow> False | Some t \<Rightarrow> jr_createdAt r < t) then Inr False
             else if (case lj_CreatedBefore req of None \<Rightarrow> False | Some t \<Rightarrow> t < jr_createdAt r) then Inr False
             else if preds = [] then Inr True
             else metadataMatches (jr_metadata r) preds))"

definition job_summary :: "JobKey \<Rightarrow> jobRecord \<Rightarrow> string \<Rightarrow> JobSummary" where
  "job_summary key r parent =
     \<lparr>js_JobKey = key, js_Status = jr_status r, js_JobType = jr_jobType r, js_NextNeed = jr_capability r,
      js_WaitFor = jr_waitFor r, js_AvailableAt = jr_createdAt r, js_CancelRequested = jr_cancelled r,
      js_CreatedAt = jr_createdAt r, js_ArchivedAt = jr_archived r, js_Payload = jr_payload r,
      js_Metadata = StripRuntimeMetadata (jr_metadata r),
      js_SchemaHash = SchemaHashFromStoredMetadata (jr_metadata r), js_ParentJobID = parent,
      js_TaskWait = (case extractWorkerTaskWait (jr_payload r) of Inl _ \<Rightarrow> None | Inr w \<Rightarrow> w)\<rparr>"

text \<open>The loop over the records, in the order of the iteration over the map.\<close>

fun collect_jobs ::
  "ListJobsRequest \<Rightarrow> bool \<times> bool \<Rightarrow> normalizedMetadataPredicate list \<Rightarrow> ToyEngine \<Rightarrow> JobKey list
   \<Rightarrow> JobSummary list res" where
  "collect_jobs req scope preds s [] = Inr []"
| "collect_jobs req scope preds s (k # ks) =
     (case jobRecords s k of
        None \<Rightarrow> collect_jobs req scope preds s ks
      | Some r \<Rightarrow>
          (case job_listed req scope preds k r of
             Inl e \<Rightarrow> Inl e
           | Inr False \<Rightarrow> collect_jobs req scope preds s ks
           | Inr True \<Rightarrow>
               (case collect_jobs req scope preds s ks of
                  Inl e \<Rightarrow> Inl e
                | Inr out \<Rightarrow>
                    Inr (job_summary k r
                      (case ExtractParentJobID (jr_metadata r) of Inl _ \<Rightarrow> [] | Inr p \<Rightarrow> p) # out))))"

definition summary_key :: "JobSummary \<Rightarrow> go_time \<times> string" where
  "summary_key j = (js_CreatedAt j, JobKey_String (js_JobKey j))"

definition sort_jobs :: "JobSummary list \<Rightarrow> JobSummary list" where
  "sort_jobs = sort_slice (\<lambda>a b. newer (summary_key a) (summary_key b))"

definition after_cursor :: "PageToken \<Rightarrow> JobSummary \<Rightarrow> bool" where
  "after_cursor tok j =
     (case tok of
        Cursor t k \<Rightarrow>
          \<not> t < js_CreatedAt j \<and> \<not> (js_CreatedAt j = t \<and> JobKey_String k \<le> JobKey_String (js_JobKey j))
      | _ \<Rightarrow> True)"

definition next_token :: "JobSummary option \<Rightarrow> PageToken" where
  "next_token l = (case l of None \<Rightarrow> NoToken | Some j \<Rightarrow> Cursor (js_CreatedAt j) (js_JobKey j))"

definition ListJobs :: "JobKey list \<Rightarrow> ToyEngine \<Rightarrow> ListJobsRequest \<Rightarrow> (JobSummary list \<times> PageToken) res" where
  "ListJobs order s req =
     (if lj_TenantIds req = [] then Inl (Errorf ''tenant_ids is required for ListJobs'')
      else if lj_RootOnly req \<and> lj_ParentJobIDs req \<noteq> []
      then Inl (Errorf ''RootOnly cannot be combined with ParentJobIDs'')
      else
     (case list_scope req of
        Inl e \<Rightarrow> Inl e
      | Inr scope \<Rightarrow>
      if \<not> fst scope \<and> \<not> snd scope then Inr ([], NoToken)
      else
     (case MetadataPredicates (lj_MetadataFilter req) of
        Inl e \<Rightarrow> Inl e
      | Inr rawPredicates \<Rightarrow>
     (case normalizeMetadataPredicates rawPredicates of
        Inl e \<Rightarrow> Inl e
      | Inr preds \<Rightarrow>
      if lj_PageToken req = BadToken then Inl (Errorf ''invalid page token'')
      else
     (case collect_jobs req scope preds s order of
        Inl e \<Rightarrow> Inl e
      | Inr records \<Rightarrow>
          (case page (list_page_size (lj_PageSize req))
                  (filter (after_cursor (lj_PageToken req)) (sort_jobs records)) of
             (jobs, last1) \<Rightarrow> Inr (jobs, next_token last1)))))))"

section \<open>The runs of a schedule\<close>

record ListScheduleRunsRequest =
  lr_ScheduleKey :: ScheduleKey
  lr_ScheduledAfter :: "go_time option"
  lr_ScheduledBefore :: "go_time option"
  lr_Statuses :: "JobStatus list"
  lr_PageSize :: int
  lr_PageToken :: PageToken

record ScheduleRunSummary =
  run_JobSummary :: JobSummary
  run_ScheduleId :: string
  run_ScheduledAt :: go_time
  run_ReasonCode :: string

definition scheduleReasonFromCompletionDetail :: "raw \<Rightarrow> string" where
  "scheduleReasonFromCompletionDetail detail =
     (if raw_len0 detail then []
      else
        (case raw_key_map detail of
           None \<Rightarrow> []
         | Some m \<Rightarrow> (case dec_string (jfield ''reasonCode'' m) of None \<Rightarrow> [] | Some c \<Rightarrow> c)))"

definition run_cursor :: "PageToken \<Rightarrow> JobKey \<Rightarrow> jobRecord \<Rightarrow> bool" where
  "run_cursor tok key r =
     (case tok of
        Cursor t k \<Rightarrow>
          \<not> t < jr_createdAt r \<and> \<not> (jr_createdAt r = t \<and> JobKey_String k \<le> JobKey_String key)
      | _ \<Rightarrow> True)"

definition run_listed :: "ListScheduleRunsRequest \<Rightarrow> JobKey \<Rightarrow> jobRecord \<Rightarrow> ScheduleOccurrenceMetadata \<Rightarrow> bool" where
  "run_listed req key r o1 \<longleftrightarrow>
     occ_ScheduleId o1 = sch_ScheduleId (lr_ScheduleKey req) \<and>
     (case lr_ScheduledAfter req of None \<Rightarrow> True | Some t \<Rightarrow> \<not> occ_ScheduledAt o1 < t) \<and>
     (case lr_ScheduledBefore req of None \<Rightarrow> True | Some t \<Rightarrow> \<not> t < occ_ScheduledAt o1) \<and>
     allowed (lr_Statuses req) (jr_status r) \<and> run_cursor (lr_PageToken req) key r"

text \<open>The summary of a run leaves the schema hash and the parent out and shows when it becomes
  available.\<close>

definition run_summary :: "ListScheduleRunsRequest \<Rightarrow> JobKey \<Rightarrow> jobRecord \<Rightarrow> ScheduleOccurrenceMetadata \<Rightarrow> ScheduleRunSummary" where
  "run_summary req key r o1 =
     \<lparr>run_JobSummary = (job_summary key r [])\<lparr>js_AvailableAt := jr_availableAt r, js_SchemaHash := []\<rparr>,
      run_ScheduleId = sch_ScheduleId (lr_ScheduleKey req), run_ScheduledAt = occ_ScheduledAt o1,
      run_ReasonCode = scheduleReasonFromCompletionDetail (jr_completionDetail r)\<rparr>"

fun collect_runs :: "ListScheduleRunsRequest \<Rightarrow> ToyEngine \<Rightarrow> JobKey list \<Rightarrow> ScheduleRunSummary list res" where
  "collect_runs req s [] = Inr []"
| "collect_runs req s (k # ks) =
     (case jobRecords s k of
        None \<Rightarrow> collect_runs req s ks
      | Some r \<Rightarrow>
      if TenantId k \<noteq> sch_TenantId (lr_ScheduleKey req) then collect_runs req s ks
      else
     (case ExtractScheduleOccurrenceMetadata (jr_metadata r) of
        Inl e \<Rightarrow> Inl e
      | Inr None \<Rightarrow> collect_runs req s ks
      | Inr (Some o1) \<Rightarrow>
          if \<not> run_listed req k r o1 then collect_runs req s ks
          else
            (case collect_runs req s ks of
               Inl e \<Rightarrow> Inl e | Inr out \<Rightarrow> Inr (run_summary req k r o1 # out))))"

definition run_key :: "ScheduleRunSummary \<Rightarrow> go_time \<times> string" where
  "run_key x = summary_key (run_JobSummary x)"

definition ListScheduleRuns ::
  "JobKey list \<Rightarrow> ToyEngine \<Rightarrow> ListScheduleRunsRequest \<Rightarrow> (ScheduleRunSummary list \<times> PageToken) res" where
  "ListScheduleRuns order s req =
     (case ScheduleKey_Validate (lr_ScheduleKey req) of
        Inl e \<Rightarrow> Inl e
      | Inr _ \<Rightarrow>
      if lr_PageToken req = BadToken then Inl (Errorf ''invalid page token'')
      else
     (case collect_runs req s order of
        Inl e \<Rightarrow> Inl e
      | Inr runs \<Rightarrow>
          (case page (list_page_size (lr_PageSize req))
                  (sort_slice (\<lambda>a b. newer (run_key a) (run_key b)) runs) of
             (out, last1) \<Rightarrow> Inr (out, next_token (map_option run_JobSummary last1)))))"

section \<open>Following the page tokens\<close>

text \<open>The job that a request selects: its filters, without the pages.\<close>

definition job_selected :: "ListJobsRequest \<Rightarrow> JobKey \<Rightarrow> jobRecord \<Rightarrow> bool" where
  "job_selected req k r \<longleftrightarrow>
     (case (list_scope req, MetadataPredicates (lj_MetadataFilter req)) of
        (Inr scope, Inr raw) \<Rightarrow>
          (case normalizeMetadataPredicates raw of
             Inr preds \<Rightarrow> job_listed req scope preds k r = Inr True
           | Inl _ \<Rightarrow> False)
      | _ \<Rightarrow> False)"

text \<open>A client that asks for the next page until there is none; at most \<open>n\<close> requests.\<close>

fun list_all_jobs :: "nat \<Rightarrow> JobKey list \<Rightarrow> ToyEngine \<Rightarrow> ListJobsRequest \<Rightarrow> JobSummary list res" where
  "list_all_jobs 0 order s req = Inr []"
| "list_all_jobs (Suc n) order s req =
     (case ListJobs order s req of
        Inl e \<Rightarrow> Inl e
      | Inr (jobs, NoToken) \<Rightarrow> Inr jobs
      | Inr (jobs, tok) \<Rightarrow>
          (case list_all_jobs n order s (req\<lparr>lj_PageToken := tok\<rparr>) of
             Inl e \<Rightarrow> Inl e | Inr rest \<Rightarrow> Inr (jobs @ rest)))"

definition listed_entry ::
  "ListJobsRequest \<Rightarrow> bool \<times> bool \<Rightarrow> normalizedMetadataPredicate list \<Rightarrow> ToyEngine \<Rightarrow> JobKey \<Rightarrow> JobSummary option" where
  "listed_entry req scope preds s k =
     (case jobRecords s k of
        None \<Rightarrow> None
      | Some r \<Rightarrow>
          if job_listed req scope preds k r = Inr True
          then Some (job_summary k r (case ExtractParentJobID (jr_metadata r) of Inl _ \<Rightarrow> [] | Inr p \<Rightarrow> p))
          else None)"

lemma listed_entry_key: "listed_entry req scope preds s k = Some j \<Longrightarrow> js_JobKey j = k"
  by (auto simp: listed_entry_def job_summary_def split: option.splits if_splits)

lemma collect_jobs_Inr:
  "collect_jobs req scope preds s ks = Inr out \<longleftrightarrow>
   (\<forall>k\<in>set ks. \<forall>r e. jobRecords s k = Some r \<longrightarrow> job_listed req scope preds k r \<noteq> Inl e) \<and>
   out = List.map_filter (listed_entry req scope preds s) ks"
proof (induction ks arbitrary: out)
  case (Cons k ks)
  show ?case
  proof (cases "jobRecords s k")
    case None
    with Cons show ?thesis by (simp add: listed_entry_def)
  next
    case (Some r)
    let ?L = "List.map_filter (listed_entry req scope preds s) ks"
    have ih: "(\<exists>e. collect_jobs req scope preds s ks = Inl e) \<or> collect_jobs req scope preds s ks = Inr ?L"
      "collect_jobs req scope preds s ks = Inr ?L \<longleftrightarrow>
       (\<forall>k\<in>set ks. \<forall>r e. jobRecords s k = Some r \<longrightarrow> job_listed req scope preds k r \<noteq> Inl e)"
      using Cons.IH [of ?L] by (cases "collect_jobs req scope preds s ks") (simp_all add: Cons.IH)
    show ?thesis
    proof (cases "job_listed req scope preds k r")
      case (Inr b)
      with ih show ?thesis by (cases b) (auto simp: Some listed_entry_def [of _ _ _ _ k] split: sum.splits)
    qed (simp add: Some)
  qed
qed auto

lemma collect_jobs_token [simp]:
  "collect_jobs (req\<lparr>lj_PageToken := t\<rparr>) scope preds s ks = collect_jobs req scope preds s ks"
proof (induction ks)
  case (Cons k ks)
  have "job_listed (req\<lparr>lj_PageToken := t\<rparr>) scope preds = job_listed req scope preds"
    by (simp add: fun_eq_iff job_listed_def cong: sum.case_cong option.case_cong if_cong)
  then show ?case by (simp only: collect_jobs.simps Cons.IH)
qed simp

text \<open>Job keys whose tenant has no slash are told apart by their text.\<close>

definition plain_tenants :: "ToyEngine \<Rightarrow> bool" where
  "plain_tenants s \<longleftrightarrow> (\<forall>k\<in>dom (jobRecords s). CHR ''/'' \<notin> set (TenantId k))"

lemma JobKey_String_eq:
  assumes "CHR ''/'' \<notin> set (TenantId a)" "CHR ''/'' \<notin> set (TenantId b)" "JobKey_String a = JobKey_String b"
  shows "a = b"
proof -
  have "TenantId a = TenantId b" using assms TenantId_of_String by metis
  then show ?thesis using assms(3) by (cases a; cases b) (simp add: JobKey_String_def)
qed

lemma distinct_map_filter:
  "distinct ks \<Longrightarrow> (\<And>k x. f k = Some x \<Longrightarrow> g x = k) \<Longrightarrow> distinct (map g (List.map_filter f ks))"
  by (induction ks) (auto simp: List.map_filter_def split: option.splits)

lemma length_map_filter_le: "length (List.map_filter f ks) \<le> length ks"
  by (simp add: List.map_filter_def)

lemma set_map_filter_eq: "set (List.map_filter f ks) = {x. \<exists>k\<in>set ks. f k = Some x}"
  by (induction ks) (auto split: option.splits)

lemma entries_distinct:
  assumes "distinct ks" "plain_tenants s"
  shows "distinct (map summary_key (List.map_filter (listed_entry req scope preds s) ks))" (is "distinct (map _ ?es)")
proof -
  have d: "distinct (map js_JobKey ?es)"
    using assms(1) listed_entry_key by (rule distinct_map_filter)
  have "inj_on summary_key (set ?es)"
  proof (rule inj_onI)
    fix a b assume ab: "a \<in> set ?es" "b \<in> set ?es" "summary_key a = summary_key b"
    have mem: "CHR ''/'' \<notin> set (TenantId (js_JobKey j))" if "j \<in> set ?es" for j
    proof -
      from that obtain k where k: "listed_entry req scope preds s k = Some j" by (auto simp: List.map_filter_def)
      then have "k \<in> dom (jobRecords s)" by (auto simp: listed_entry_def split: option.splits)
      with assms(2) listed_entry_key [OF k] show ?thesis by (simp add: plain_tenants_def)
    qed
    have "js_JobKey a = js_JobKey b"
      using ab mem JobKey_String_eq by (auto simp: summary_key_def)
    with d ab(1,2) show "a = b" by (auto simp: distinct_map dest: inj_onD)
  qed
  with d show ?thesis by (simp add: distinct_map)
qed

lemma after_cursor_next: "after_cursor (next_token (Some l)) j \<longleftrightarrow> newer (summary_key l) (summary_key j)"
  by (auto simp: after_cursor_def next_token_def newer_def summary_key_def)

text \<open>What a list request returns once its filters are known.\<close>

lemma ListJobs_page:
  assumes "lj_TenantIds req \<noteq> []" "\<not> (lj_RootOnly req \<and> lj_ParentJobIDs req \<noteq> [])"
    "list_scope req = Inr scope" "fst scope \<or> snd scope" "MetadataPredicates (lj_MetadataFilter req) = Inr raw"
    "normalizeMetadataPredicates raw = Inr preds" "collect_jobs req scope preds s order = Inr records"
    "tok \<noteq> BadToken"
  shows "ListJobs order s (req\<lparr>lj_PageToken := tok\<rparr>) =
    (case page (list_page_size (lj_PageSize req)) (filter (after_cursor tok) (sort_jobs records)) of
       (jobs, last1) \<Rightarrow> Inr (jobs, next_token last1))"
proof -
  have "list_scope (req\<lparr>lj_PageToken := tok\<rparr>) = list_scope req" by (simp add: list_scope_def)
  with assms show ?thesis unfolding ListJobs_def by auto
qed

lemma list_all_jobs_pages:
  assumes page: "\<And>tok. tok \<noteq> BadToken \<Longrightarrow> ListJobs order s (req\<lparr>lj_PageToken := tok\<rparr>) =
      (case page n0 (filter (after_cursor tok) xs) of (jobs, last1) \<Rightarrow> Inr (jobs, next_token last1))"
    and n0: "0 < n0"
    and sorted: "sorted_wrt (\<lambda>a b. newer (summary_key a) (summary_key b)) xs"
    and tok: "tok \<noteq> BadToken"
  shows "list_all_jobs n order s (req\<lparr>lj_PageToken := tok\<rparr>) =
    Inr (by_creation.all_pages n n0 summary_key (filter (after_cursor tok) xs))"
  using tok
proof (induction n arbitrary: tok)
  case (Suc n)
  let ?ys = "filter (after_cursor tok) xs"
  obtain p q where pq: "page n0 ?ys = (p, q)" by fastforce
  show ?case
  proof (cases q)
    case None
    then show ?thesis using page [OF Suc.prems] pq by (simp add: next_token_def)
  next
    case (Some l)
    have l: "l \<in> set ?ys"
      using by_creation.page_continues [of summary_key ?ys n0 p l] sorted sorted_wrt_filter n0 pq Some by blast
    have "filter (after_cursor (next_token (Some l))) xs = filter (\<lambda>a. newer (summary_key l) (summary_key a)) ?ys"
      using l unfolding filter_filter after_cursor_next
      by (intro filter_cong) (auto simp: after_cursor_def newer_def summary_key_def split: PageToken.splits if_splits)
    then show ?thesis
      using page [OF Suc.prems] Suc.IH [of "next_token (Some l)"] pq Some by (simp add: next_token_def)
  qed
qed simp

text \<open>A request whose first page is answered has filters that are known.\<close>

lemma ListJobs_answered:
  assumes "ListJobs order s req = Inr (jobs, tok)" "jobs \<noteq> [] \<or> (\<exists>sc. list_scope req = Inr sc \<and> (fst sc \<or> snd sc))"
  obtains scope raw preds records where "lj_TenantIds req \<noteq> []" "\<not> (lj_RootOnly req \<and> lj_ParentJobIDs req \<noteq> [])"
    "list_scope req = Inr scope" "fst scope \<or> snd scope" "MetadataPredicates (lj_MetadataFilter req) = Inr raw"
    "normalizeMetadataPredicates raw = Inr preds" "collect_jobs req scope preds s order = Inr records"
  using assms by (auto simp: ListJobs_def split: if_splits sum.splits prod.splits)

text \<open>C17: following the page tokens of a job listing returns every job that the request selects, each
  exactly once, newest first, whatever the page size and the order in which the map is visited. The
  tenants' names have no slash (otherwise two jobs can have the same text, and a page boundary
  between them drops one).\<close>
theorem list_jobs_pages_complete:
  assumes "distinct order" "set order = dom (jobRecords s)" "plain_tenants s" "lj_PageToken req = NoToken"
    and "ListJobs order s req = Inr (first, tok)" "length order < n"
  shows "\<exists>out. list_all_jobs n order s req = Inr out
    \<and> sorted_wrt (\<lambda>a b. newer (summary_key a) (summary_key b)) out
    \<and> distinct (map js_JobKey out)
    \<and> set (map js_JobKey out) = {k. \<exists>r. jobRecords s k = Some r \<and> job_selected req k r}"
proof -
  obtain sc where sc: "list_scope req = Inr sc" "lj_TenantIds req \<noteq> []"
    using assms(5) by (auto simp: ListJobs_def split: if_splits sum.splits)
  show ?thesis
  proof (cases "fst sc \<or> snd sc")
    case False
    then have "\<not> job_selected req k r" for k r
      by (auto simp: job_selected_def sc job_listed_def split: sum.splits)
    moreover have "list_all_jobs n order s req = Inr []"
      using False sc assms(4,5,6) by (cases n) (auto simp: ListJobs_def split: if_splits)
    ultimately show ?thesis by simp
  next
    case True
    obtain raw preds records where r: "\<not> (lj_RootOnly req \<and> lj_ParentJobIDs req \<noteq> [])"
      "MetadataPredicates (lj_MetadataFilter req) = Inr raw" "normalizeMetadataPredicates raw = Inr preds"
      "collect_jobs req sc preds s order = Inr records"
      using ListJobs_answered [OF assms(5)] sc True by (metis Inr_inject)
    let ?xs = "sort_jobs records" and ?n0 = "list_page_size (lj_PageSize req)"
    have rec: "records = List.map_filter (listed_entry req sc preds s) order"
      using r(4) by (simp add: collect_jobs_Inr)
    have d: "distinct (map summary_key records)" "distinct (map js_JobKey records)"
      using entries_distinct [OF assms(1,3)] distinct_map_filter [OF assms(1) listed_entry_key]
      by (auto simp: rec)
    have sorted: "sorted_wrt (\<lambda>a b. newer (summary_key a) (summary_key b)) ?xs"
      unfolding sort_jobs_def by (rule by_creation.sort_slice_sorted [OF d(1)])
    have n0: "0 < ?n0" by (simp add: list_page_size_def)
    have len: "length ?xs < n"
      using assms(6) length_map_filter_le [of "listed_entry req sc preds s" order]
      by (simp add: sort_jobs_def rec)
    have "list_all_jobs n order s (req\<lparr>lj_PageToken := NoToken\<rparr>) =
        Inr (by_creation.all_pages n ?n0 summary_key (filter (after_cursor NoToken) ?xs))"
      using ListJobs_page [OF sc(2) r(1) sc(1) True r(2,3,4)] n0 sorted
      by (intro list_all_jobs_pages) auto
    moreover have "req\<lparr>lj_PageToken := NoToken\<rparr> = req" using assms(4) by (cases req) simp
    moreover have "filter (after_cursor NoToken) ?xs = ?xs" by (simp add: after_cursor_def)
    ultimately have "list_all_jobs n order s req = Inr ?xs"
      using by_creation.all_pages_complete [OF sorted n0 len] by simp
    moreover have "distinct (map js_JobKey ?xs)"
      using d(2) unfolding sort_jobs_def distinct_map by simp
    moreover have "js_JobKey ` set ?xs = {k. \<exists>r. jobRecords s k = Some r \<and> job_selected req k r}"
    proof -
      have "js_JobKey ` set ?xs = {k\<in>set order. listed_entry req sc preds s k \<noteq> None}"
        unfolding sort_jobs_def rec set_sort_slice set_map_filter_eq
        by (auto simp: image_iff dest: listed_entry_key)
      also have "\<dots> = {k. \<exists>r. jobRecords s k = Some r \<and> job_selected req k r}"
        using assms(2) by (auto simp: listed_entry_def job_selected_def sc(1) r split: option.splits if_splits)
      finally show ?thesis .
    qed
    ultimately show ?thesis using sorted by auto
  qed
qed

definition sample_job :: "go_time \<Rightarrow> jobRecord" where
  "sample_job t =
     \<lparr>jr_status = Ready, jr_result = None, jr_err = None, jr_cancelled = False, jr_jobType = ''t'',
      jr_createdAt = t, jr_archived = None, jr_payload = Text [], jr_metadata = Text [],
      jr_completionDetail = Text [], jr_capability = ''t'', jr_step = 0, jr_waitFor = [], jr_availableAt = t,
      jr_leased = False, jr_leaseID = [], jr_chapters = Map.empty\<rparr>"

definition two_jobs :: ToyEngine where
  "two_jobs = NewToyEngine\<lparr>jobRecords :=
     [JobKey ''x'' ''a'' \<mapsto> sample_job 5, JobKey ''x'' ''b'' \<mapsto> sample_job 7]\<rparr>"

definition one_per_page :: ListJobsRequest where
  "one_per_page =
     \<lparr>lj_TenantIds = [''x''], lj_Statuses = [], lj_Stores = [], lj_JobTypes = [], lj_JobTasks = [],
      lj_JobKeys = [], lj_ParentJobIDs = [], lj_RootOnly = False, lj_MetadataFilter = None,
      lj_CreatedAfter = None, lj_CreatedBefore = None, lj_PageSize = 1, lj_PageToken = NoToken\<rparr>"

theorem list_jobs_pages_complete_witness:
  "\<exists>out. list_all_jobs 3 [JobKey ''x'' ''b'', JobKey ''x'' ''a''] two_jobs one_per_page = Inr out
     \<and> set (map js_JobKey out) = {JobKey ''x'' ''a'', JobKey ''x'' ''b''}"
proof -
  let ?o = "[JobKey ''x'' ''b'', JobKey ''x'' ''a'']"
  have sel: "job_selected one_per_page (JobKey ''x'' ''a'') (sample_job 5)"
    "job_selected one_per_page (JobKey ''x'' ''b'') (sample_job 7)"
    by code_simp+
  have "\<not> isl (ListJobs ?o two_jobs one_per_page)" by code_simp
  then obtain first tok where "ListJobs ?o two_jobs one_per_page = Inr (first, tok)"
    by (cases "ListJobs ?o two_jobs one_per_page") auto
  then obtain out where out: "list_all_jobs 3 ?o two_jobs one_per_page = Inr out"
    "set (map js_JobKey out) = {k. \<exists>r. jobRecords two_jobs k = Some r \<and> job_selected one_per_page k r}"
    using list_jobs_pages_complete [of ?o two_jobs one_per_page first tok 3]
    by (auto simp: two_jobs_def plain_tenants_def one_per_page_def)
  moreover have "{k. \<exists>r. jobRecords two_jobs k = Some r \<and> job_selected one_per_page k r} =
      {JobKey ''x'' ''a'', JobKey ''x'' ''b''}"
    using sel by (auto simp: two_jobs_def)
  ultimately show ?thesis by auto
qed

end
