(* ===== verification/Engine_Inv.thy ===== *)
theory Engine_Inv
  imports Toy_Schedule
begin

text \<open>
  Invariants of the toy engine. The locale \<open>calm_state\<close> is the contract of an invariant that artifact
  writes, schema registration, id draws and the validator cache do not break; \<open>engine_invariant\<close> adds
  the writes of the job store: a new job, a change of a record, a new lease, an appended chapter, a
  schedule change. Inside, every operation is shown once to preserve such an invariant, on its error paths
  too. The interpretations give the well-formedness of the engine, the fencing of released lease ids, the
  append-only log and the life cycle of a schedule.
\<close>

section \<open>The shape of records and logs\<close>

definition record_ok :: "jobRecord \<Rightarrow> bool" where
  "record_ok r \<longleftrightarrow>
     (jr_leased r \<longleftrightarrow> jr_status r = Active) \<and> (jr_leased r \<longleftrightarrow> jr_leaseID r \<noteq> []) \<and>
     (jr_status r = PendingJobs \<longrightarrow> jr_waitFor r \<noteq> []) \<and>
     (jr_status r = AwaitingFuture \<longrightarrow> jr_availableAt r \<noteq> 0) \<and>
     (terminal (jr_status r) \<longrightarrow> jr_archived r \<noteq> None) \<and>
     (jr_status r = Cancelled \<longrightarrow> jr_cancelled r)"

text \<open>The chapters are numbered from the start chapter on without a gap.\<close>

definition log_ok :: "(int \<rightharpoonup> Chapter) \<Rightarrow> bool" where
  "log_ok c \<longleftrightarrow>
     (\<exists>n\<ge>0. dom c = {0..n}) \<and> (\<forall>i ch. c i = Some ch \<longrightarrow> ch_Ordinal ch = i) \<and>
     (\<forall>ch. c 0 = Some ch \<longrightarrow> ChapterIs ch ChapterTypeJobStart)"

text \<open>Record changes other than taking a lease.\<close>

definition calm :: "jobRecord \<Rightarrow> jobRecord \<Rightarrow> bool" where
  "calm r r' \<longleftrightarrow>
     (jr_leaseID r' = jr_leaseID r \<or> jr_leaseID r' = []) \<and> (record_ok r \<longrightarrow> record_ok r')"

definition appendable :: "(int \<rightharpoonup> Chapter) \<Rightarrow> int \<Rightarrow> Chapter \<Rightarrow> bool" where
  "appendable c i ch \<longleftrightarrow>
     0 \<le> i \<and> ch_Ordinal ch = i \<and> c i = None \<and> (i \<le> 0 \<or> c (i - 1) \<noteq> None)"

definition schedule_write :: "ScheduleKey \<Rightarrow> ScheduleInfo option \<Rightarrow> ScheduleInfo \<Rightarrow> bool" where
  "schedule_write key old info \<longleftrightarrow>
     (case old of
        None \<Rightarrow> sc_ScheduleKey info = key \<and> sc_Generation info = 1
      | Some e \<Rightarrow>
          (sc_ScheduleKey info = key \<or> sc_ScheduleKey info = sc_ScheduleKey e) \<and>
          sc_Generation info = sc_Generation e + 1 \<and>
          (sc_State e = ScheduleArchived \<longrightarrow> sc_State info = ScheduleArchived))"

definition new_job :: "JobKey \<Rightarrow> jobRecord \<Rightarrow> (int \<rightharpoonup> Chapter) \<Rightarrow> ToyEngine \<Rightarrow> ToyEngine" where
  "new_job k r c s = s\<lparr>jobRecords := (jobRecords s)(k \<mapsto> r), runtimeChapters := (runtimeChapters s)(k \<mapsto> c)\<rparr>"

lemma log_ok_append:
  assumes "log_ok c" "appendable c i ch"
  shows "log_ok (c(i \<mapsto> CloneChapter ch))"
proof -
  obtain n where n: "0 \<le> n" "dom c = {0..n}" using assms(1) by (auto simp: log_ok_def)
  have d: "i \<notin> dom c" "0 \<le> i" "0 < i \<longrightarrow> i - 1 \<in> dom c"
    using assms(2) by (auto simp: appendable_def)
  then have i: "i = n + 1" using n by auto
  then have "dom (c(i \<mapsto> CloneChapter ch)) = {0..n + 1}" using n by auto
  then show ?thesis using assms i n
    unfolding log_ok_def appendable_def by (auto simp: CloneChapter_def intro!: exI [of _ "n + 1"])
qed

lemma log_ok_start:
  assumes "log_ok c" "ch_Ordinal ch = 0" "ChapterIs ch ChapterTypeJobStart"
  shows "log_ok (c(0 \<mapsto> ch))"
proof -
  obtain n where n: "0 \<le> n" "dom c = {0..n}" using assms(1) by (auto simp: log_ok_def)
  then have "dom (c(0 \<mapsto> ch)) = {0..n}" by auto
  then show ?thesis using assms n unfolding log_ok_def by auto
qed

lemma log_ok_single:
  "ch_Ordinal ch = 0 \<Longrightarrow> ChapterIs ch ChapterTypeJobStart \<Longrightarrow> log_ok [0 \<mapsto> ch]"
  unfolding log_ok_def by (auto intro!: exI [of _ 0] split: if_splits)

lemma log_ok_restrict:
  assumes "log_ok c" "0 \<le> last1"
  shows "log_ok (restrict_chapters last1 c)"
proof -
  obtain n where n: "0 \<le> n" "dom c = {0..n}" using assms(1) by (auto simp: log_ok_def)
  then have "dom (restrict_chapters last1 c) = {0..min n last1}"
    by (auto simp: restrict_chapters_def dom_def split: if_splits)
  then show ?thesis using assms n unfolding log_ok_def
    by (auto simp: restrict_chapters_def intro!: exI [of _ "min n last1"] split: if_splits)
qed

lemma start_chapter_start [simp]:
  "ch_Ordinal (start_chapter env jt h md p st) = 0" "ChapterIs (start_chapter env jt h md p st) ChapterTypeJobStart"
  by (simp_all add: start_chapter_def ChapterIs_def ChapterType_def)

section \<open>The changes of a record\<close>

lemma store_artifact_simps [simp]:
  "jobRecords (store_artifact k i nm b s) = jobRecords s"
  "runtimeChapters (store_artifact k i nm b s) = runtimeChapters s"
  "schedules (store_artifact k i nm b s) = schedules s"
  "ksuid_calls (store_artifact k i nm b s) = ksuid_calls s"
  by (simp_all add: store_artifact_def)

lemma calm_cancel: "calm r (cancel_record t r)"
  by (simp add: calm_def cancel_record_def record_ok_def terminal_def)

lemma calm_complete: "calm r (complete_record t st d r)"
  by (simp add: calm_def complete_record_def record_ok_def terminal_def Let_def)

lemma calm_resume: "calm r (resume_record n p i r)"
  by (simp add: calm_def resume_record_def record_ok_def terminal_def)

lemma calm_record_chapter: "calm r (record_chapter env s k i c ct p r)"
  by (cases "taskDataFromChapter env s k c") (auto simp: calm_def record_chapter_def record_ok_def Let_def)

lemma calm_reschedule:
  assumes "0 \<le> now env"
  shows "calm r (reschedule_record env req r)"
proof -
  define r1 where "r1 = r\<lparr>jr_leased := False, jr_leaseID := [], jr_capability := re_NextNeed req,
                jr_payload := clone_json (re_Payload req), jr_waitFor := re_WaitForJobIDs req,
                jr_availableAt := 0, jr_step := 0\<rparr>"
  define r2 where "r2 = (case extractWorkerTaskWait (jr_payload r1) of
                 Inr (Some w) \<Rightarrow> reschedule_wait env (re_NextNeed req) w r1
               | _ \<Rightarrow> r1)"
  have "\<not> jr_leased r2 \<and> jr_leaseID r2 = [] \<and> jr_waitFor r2 = re_WaitForJobIDs req"
    by (auto simp: r2_def r1_def reschedule_wait_def split: sum.splits option.splits)
  moreover have "reschedule_record env req r = reschedule_status env req r2"
    unfolding reschedule_record_def r2_def r1_def Let_def ..
  ultimately show ?thesis using assms
    by (auto simp: reschedule_status_def calm_def record_ok_def terminal_def split: option.splits)
qed

lemma calm_advance: "advanceRecordState s k t r = Some r' \<Longrightarrow> calm r r'"
  by (auto simp: advanceRecordState_def advance_future_def calm_def record_ok_def terminal_def Let_def
      split: if_splits option.splits)

lemma new_record_ok:
  "st = Ready \<or> st = AwaitingFuture \<and> at1 \<noteq> 0 \<or> st = PendingJobs \<and> w \<noteq> [] \<Longrightarrow> record_ok (new_record env st jt md rp at1 w cs)"
  by (auto simp: new_record_def record_ok_def terminal_def)

lemma new_record_leaseID [simp]: "jr_leaseID (new_record env st jt md rp at1 w cs) = []"
  by (simp add: new_record_def)

section \<open>Operations that may rely on more than they keep\<close>

definition leads :: "('s \<Rightarrow> bool) \<Rightarrow> ('s \<Rightarrow> bool) \<Rightarrow> ('s, 'a) op \<Rightarrow> bool" where
  "leads J I m \<longleftrightarrow> (\<forall>s. J s \<longrightarrow> I (fst (m s)))"

lemma leads_bind: "(\<And>s. J s \<Longrightarrow> I s) \<Longrightarrow> keeps J m \<Longrightarrow> (\<And>x. leads J I (f x)) \<Longrightarrow> leads J I (bind_op m f)"
  unfolding leads_def keeps_def bind_op_def by (fastforce split: prod.splits sum.splits)

lemma leads_put: "(\<And>s. J s \<Longrightarrow> I (u s)) \<Longrightarrow> keeps I m \<Longrightarrow> leads J I (bind_op (put_op u) (\<lambda>_. m))"
  by (simp add: leads_def op_steps keeps_def)

lemma leads_prod: "(\<And>a b. leads J I (f a b)) \<Longrightarrow> leads J I (case v of (a, b) \<Rightarrow> f a b)"
  by (cases v) simp

lemma existing_job_absent: "existingEquivalentJob s k job h sh p = Inr b \<Longrightarrow> b \<or> jobRecords s k = None"
  by (auto simp: existingEquivalentJob_def split: option.splits if_splits sum.splits)

lemma existing_restart_absent: "existingEquivalentRestartJob s k job ex md = Inr b \<Longrightarrow> b \<or> jobRecords s k = None"
  by (auto simp: existingEquivalentRestartJob_def split: option.splits if_splits)

section \<open>Invariants that the supporting writes keep\<close>

locale calm_state =
  fixes env :: Env and I :: "ToyEngine \<Rightarrow> bool"
  assumes artifact: "I s \<Longrightarrow> I (store_artifact k i nm b s)"
    and cache: "I s \<Longrightarrow> I (s\<lparr>validators := c\<rparr>)"
    and registry: "I s \<Longrightarrow> I (s\<lparr>schemas := m\<rparr>)"
    and draw: "I s \<Longrightarrow> I (s\<lparr>ksuid_calls := Suc (ksuid_calls s)\<rparr>)"
begin

lemma keeps_draw_ksuid: "keeps I (draw_ksuid env)"
  by (simp add: keeps_def draw_ksuid_def draw)

lemma keeps_generate: "keeps I (generate_job_key env t)"
  by (simp add: keeps_def generate_job_key_def draw)

lemma keeps_new_job_key: "keeps I (new_job_key env t j)"
  by (auto simp: new_job_key_def intro!: engine_inv keeps_generate)

lemma keeps_getJobRecord: "keeps I (getJobRecord k)"
  by (simp add: getJobRecord_def engine_inv)

lemma keeps_with_cache: "keeps I (with_cache m)"
  by (auto simp: keeps_def with_cache_def cache split: prod.splits)

lemma keeps_validate_chapter: "keeps I (validate_chapter env key role c)"
  unfolding validate_chapter_def by (rule keeps_with_cache)

lemma keeps_PrimeSchema: "keeps I (PrimeSchema env key)"
  unfolding PrimeSchema_def by (rule keeps_with_cache)

lemma keeps_validate_all: "keeps I (validate_all env key cs)"
  by (induction cs) (auto intro!: engine_inv keeps_validate_chapter)

lemma keeps_RegisterJobSchema: "keeps I (RegisterJobSchema env t sc)"
  unfolding RegisterJobSchema_def Let_def by (intro engine_inv registry)

lemma keeps_ArchiveJobSchema: "keeps I (ArchiveJobSchema env key)"
  unfolding ArchiveJobSchema_def Let_def by (intro engine_inv registry)

lemma keeps_ResolveActive: "keeps I (ResolveActiveForNewJob env t sel)"
  unfolding ResolveActiveForNewJob_def by (intro engine_inv keeps_RegisterJobSchema)

lemma keeps_store_materialized: "keeps I (store_materialized env k i as)"
  by (induction as) (auto intro!: engine_inv artifact)

lemma keeps_materialize: "keeps I (materializeTaskData env k i d)"
  unfolding materializeTaskData_def by (intro engine_inv keeps_store_materialized)

lemma keeps_store_uploads: "keeps I (store_uploads env k i us)"
  by (induction us) (auto intro!: engine_inv artifact split: option.splits)

lemma keeps_prepare: "keeps I (prepareChapterWrite env k i c us)"
  unfolding prepareChapterWrite_def by (intro engine_inv keeps_store_uploads)

lemmas calm_ops = keeps_draw_ksuid keeps_new_job_key keeps_getJobRecord keeps_validate_chapter
  keeps_PrimeSchema keeps_validate_all keeps_RegisterJobSchema keeps_ArchiveJobSchema keeps_ResolveActive
  keeps_materialize keeps_prepare

end

section \<open>Invariants of the job store\<close>

locale engine_invariant = calm_state +
  fixes own :: "JobKey \<Rightarrow> bool"
  assumes clock: "I s \<Longrightarrow> 0 \<le> now env"
    and logs: "I s \<Longrightarrow> runtimeChapters s k = Some c \<Longrightarrow> log_ok c"
    and generated: "I s \<Longrightarrow> idGenerator env (ksuid_calls s) t = Inr k \<Longrightarrow> own k"
    and create: "I s \<Longrightarrow> jobRecords s k = None \<or> own k \<Longrightarrow> record_ok r \<Longrightarrow> jr_leaseID r = [] \<Longrightarrow> log_ok c \<Longrightarrow>
      I (new_job k r c s)"
    and change: "I s \<Longrightarrow> jobRecords s k = Some r \<Longrightarrow> calm r r' \<Longrightarrow> I (set_record k r' s)"
    and lease: "I s \<Longrightarrow> jobRecords s k = Some r \<Longrightarrow> \<not> jr_leased r \<Longrightarrow> jr_status r = Ready \<Longrightarrow>
      I (set_record k (lease_record (ksuid env (ksuid_calls s)) r) (s\<lparr>ksuid_calls := Suc (ksuid_calls s)\<rparr>))"
    and append1: "I s \<Longrightarrow> runtimeChapters s k = Some c \<Longrightarrow> appendable c i ch \<Longrightarrow> I (put_chapter_state k i ch s)"
    and schedule: "I s \<Longrightarrow> schedule_write key (schedules s key) info \<Longrightarrow> I (set_schedule key info s)"

sublocale engine_invariant < absent: calm_state env "\<lambda>s. I s \<and> (jobRecords s k = None \<or> own k)" for k
  by unfold_locales (auto simp: artifact cache registry draw)

context engine_invariant
begin

lemma keeps_update:
  assumes "\<And>r. 0 \<le> now env \<Longrightarrow> calm r (f r)"
  shows "keeps I (put_op (update_record k f))"
proof (rule keeps_put)
  fix s assume s: "I s"
  show "I (update_record k f s)"
  proof (cases "jobRecords s k")
    case None
    then have "map_update k f (jobRecords s) = jobRecords s"
      by (auto simp: fun_eq_iff map_update_def split: option.splits)
    then show ?thesis using s by (simp add: update_record_def)
  next
    case (Some r)
    then have "update_record k f s = set_record k (f r) s"
      by (auto simp: update_record_def set_record_def map_update_def)
    then show ?thesis using change [OF s Some] assms clock [OF s] by simp
  qed
qed

lemma keeps_insert:
  "record_ok r \<Longrightarrow> jr_leaseID r = [] \<Longrightarrow> ch_Ordinal c = 0 \<Longrightarrow> ChapterIs c ChapterTypeJobStart \<Longrightarrow> I s \<Longrightarrow>
   jobRecords s k = None \<or> own k \<Longrightarrow> I (insert_job k r c s)"
proof -
  assume a: "record_ok r" "jr_leaseID r = []" "ch_Ordinal c = 0" "ChapterIs c ChapterTypeJobStart" "I s"
    "jobRecords s k = None \<or> own k"
  let ?c = "(case runtimeChapters s k of None \<Rightarrow> Map.empty | Some chapters \<Rightarrow> chapters)(0 \<mapsto> c)"
  have "log_ok ?c"
    using a logs [OF a(5)] log_ok_single log_ok_start by (auto split: option.splits)
  moreover have "insert_job k r c s = new_job k r ?c s"
    by (simp add: insert_job_def put_start_def set_record_def new_job_def)
  ultimately show ?thesis using create a by simp
qed

lemma keeps_store: "keeps I (storeRuntimeChapter env k i ch)"
proof (rule keepsI)
  fix s assume s: "I s"
  show "I (fst (storeRuntimeChapter env k i ch s))"
  proof (cases "\<exists>c. runtimeChapters s k = Some c \<and> appendable c i ch")
    case False
    then have "fst (storeRuntimeChapter env k i ch s) = s"
      by (auto simp: storeRuntimeChapter_def op_steps op_defs appendable_def split: sum.splits option.splits)
    then show ?thesis using s by simp
  next
    case True
    then obtain c where c: "runtimeChapters s k = Some c" "appendable c i ch" by blast
    have s1: "I (put_chapter_state k i ch s)" using append1 [OF s c] .
    moreover have "I (update_record k (record_chapter env s1 k i ch ct p) (put_chapter_state k i ch s))" for s1 ct p
      using keeps_update [of "record_chapter env s1 k i ch ct p" k] calm_record_chapter s1
      by (auto simp: keeps_def op_defs)
    ultimately show ?thesis using s c
      by (auto simp: storeRuntimeChapter_def op_steps op_defs appendable_def split: sum.splits option.splits prod.splits)
  qed
qed

lemma leads_create_job:
  "leads (\<lambda>s. I s \<and> (jobRecords s k = None \<or> own k)) I (create_job env k job h md)"
proof -
  have ins: "I s \<and> (jobRecords s k = None \<or> own k) \<Longrightarrow>
      I (insert_job k (new_record env (if now env < t then AwaitingFuture else Ready) jt m rp t w cs)
        (start_chapter env jt ih mm p st) s)" for s t jt m rp w cs ih mm p st
    using clock [of s] by (intro keeps_insert new_record_ok) auto
  show ?thesis unfolding create_job_def Let_def
    by (intro leads_bind leads_prod leads_put absent.calm_ops engine_inv ins) auto
qed

lemma keeps_submit: "keeps I (submitJobWithParent env job parent)"
  unfolding submitJobWithParent_def
proof (rule keeps_bind_post [where P = "\<lambda>k. sj_JobID job = [] \<longrightarrow> own k"])
  show "keeps I (new_job_key env (sj_TenantId job) (sj_JobID job))" by (rule calm_ops)
  show "sj_JobID job = [] \<longrightarrow> own k"
    if "I s" "new_job_key env (sj_TenantId job) (sj_JobID job) s = (s', Inr k)" for s s' k
    using that generated by (auto simp: new_job_key_def generate_job_key_def)
next
  fix k assume k: "sj_JobID job = [] \<longrightarrow> own k"
  have new: "keeps I (create_job env k job h md)" if "sj_JobID job = []" for h md
    using leads_create_job [of k job h md] k that by (simp add: leads_def keeps_def)
  have same: "keeps I (bind_op (read_op (\<lambda>s. existingEquivalentJob s k job ih h parent))
      (\<lambda>found. if found then ret_op k else create_job env k job h md))" for ih h md
    using leads_create_job [of k job h md]
    by (auto simp: keeps_def leads_def op_steps op_defs dest: existing_job_absent split: sum.splits)
  show "keeps I (bind_op (lift_op (JobKey_Validate k)) (\<lambda>_.
     bind_op (lift_op (ValidateApplicationMetadata (sj_Metadata job))) (\<lambda>_.
     bind_op (ResolveActiveForNewJob env (sj_TenantId job) (sj_Schema job)) (\<lambda>schemaHash.
     bind_op (lift_op (BuildJobMetadataEnvelope (sj_Metadata job)
       (runtime_metadata schemaHash parent))) (\<lambda>storedMetadata.
       if sj_JobID job \<noteq> [] then
         bind_op (lift_op (jobdbInputHash env (sj_Data job))) (\<lambda>inputHash.
         bind_op (read_op (\<lambda>s. existingEquivalentJob s k job inputHash schemaHash parent)) (\<lambda>found.
           if found then ret_op k
           else create_job env k job schemaHash storedMetadata))
       else create_job env k job schemaHash storedMetadata)))))"
    by (intro engine_inv calm_ops same new) simp
qed

lemma leads_create_restart:
  assumes "log_ok target"
  shows "leads (\<lambda>s. I s \<and> (jobRecords s k = None \<or> own k)) I (create_restart env k job target chap0 md)"
proof -
  have ins: "I s \<and> (jobRecords s k = None \<or> own k) \<Longrightarrow>
      I ((set_record k (new_record env Ready jt m rp t [] views) s)\<lparr>runtimeChapters := (runtimeChapters s)(k \<mapsto> target)\<rparr>)"
    for s jt m rp t views
    using create [of s k "new_record env Ready jt m rp t [] views" target] new_record_ok assms
    by (simp add: new_job_def set_record_def)
  show ?thesis unfolding create_restart_def Let_def
    by (intro leads_bind leads_put engine_inv ins) auto
qed

lemma keeps_restart_from:
  assumes "log_ok source" "0 \<le> sr_LastStepToKeep job" "sr_JobID job = [] \<longrightarrow> own k"
  shows "keeps I (restart_from env k job h md source)"
proof -
  note l = log_ok_restrict [OF assms(1,2)]
  have new: "keeps I (create_restart env k job (restrict_chapters (sr_LastStepToKeep job) source) c md)"
    if "sr_JobID job = []" for c
    using leads_create_restart [OF l, of k job c md] assms(3) that by (simp add: leads_def keeps_def)
  have same: "keeps I (bind_op
      (read_op (\<lambda>s. existingEquivalentRestartJob s k job (restrict_chapters (sr_LastStepToKeep job) source) md))
      (\<lambda>same. if same then ret_op k
        else create_restart env k job (restrict_chapters (sr_LastStepToKeep job) source) c md))" for c
    using leads_create_restart [OF l, of k job c md]
    by (auto simp: keeps_def leads_def op_steps op_defs dest: existing_restart_absent split: sum.splits)
  show ?thesis unfolding restart_from_def Let_def
    by (intro engine_inv calm_ops same new) simp
qed

lemma keeps_restart: "keeps I (submitRestartJobWithParent env job parent)"
proof -
  have found: "keeps I (bind_op (get_op (\<lambda>s. runtimeChapters s prior)) (\<lambda>found.
       case found of None \<Rightarrow> fail_op e | Some source \<Rightarrow> restart_from env k job h md source))"
    if "0 \<le> sr_LastStepToKeep job" "sr_JobID job = [] \<longrightarrow> own k" for prior e k h md
  proof (rule keeps_bind_post [where P = "\<lambda>x. \<forall>c. x = Some c \<longrightarrow> log_ok c"])
    fix x assume "\<forall>c. x = Some c \<longrightarrow> log_ok c"
    then show "keeps I (case x of None \<Rightarrow> fail_op e | Some source \<Rightarrow> restart_from env k job h md source)"
      using that by (cases x) (auto intro: engine_inv keeps_restart_from)
  qed (auto simp: op_results logs intro: engine_inv)
  have key: "keeps I (bind_op (new_job_key env t (sr_JobID job)) f)"
    if "\<And>k. (sr_JobID job = [] \<longrightarrow> own k) \<Longrightarrow> keeps I (f k)" for t f
    using that generated
    by (intro keeps_bind_post [where P = "\<lambda>k. sr_JobID job = [] \<longrightarrow> own k"] calm_ops)
      (auto simp: new_job_key_def generate_job_key_def)
  show ?thesis unfolding submitRestartJobWithParent_def Let_def
    by (cases "0 \<le> sr_LastStepToKeep job", intro keeps_bind [OF keeps_reads(6)] keeps_bind [OF keeps_getJobRecord]
        key keeps_bind [OF keeps_reads(3)] keeps_bind [OF keeps_ResolveActive] keeps_bind [OF keeps_PrimeSchema] found)
      (auto simp: keeps_def op_steps)
qed

lemma keeps_cancel: "keeps I (cancel_job env k)"
  unfolding cancel_job_def by (intro keeps_bind calm_ops keeps_update [OF calm_cancel])

lemma keeps_PutChapter: "keeps I (PutChapter env claims req)"
  unfolding PutChapter_def Let_def by (intro engine_inv calm_ops keeps_store)

lemma keeps_KeepAlive: "keeps I (KeepAliveLeaseByIDWithExpiry env k l d)"
  unfolding KeepAliveLeaseByIDWithExpiry_def by (intro engine_inv calm_ops)

lemma keeps_SubmitJobWithLease: "keeps I (SubmitJobWithLeaseByID env p l job)"
  unfolding SubmitJobWithLeaseByID_def by (intro engine_inv keeps_KeepAlive keeps_submit)

lemma keeps_SubmitRestartWithLease: "keeps I (SubmitRestartJobWithLeaseByID env p l job)"
  unfolding SubmitRestartJobWithLeaseByID_def by (intro engine_inv keeps_KeepAlive keeps_restart)

lemma keeps_ensure: "keeps I (ensureCompletionChapter env k h c us)"
  unfolding ensureCompletionChapter_def by (intro engine_inv calm_ops keeps_store)

lemma keeps_complete: "keeps I (completeLease env k l req)"
proof -
  note u = keeps_update [OF calm_complete]
  show ?thesis unfolding completeLease_def
    by (intro keeps_option keeps_bind keeps_reads calm_ops keeps_ensure u)
qed

lemma keeps_reschedule: "keeps I (rescheduleLease env k l req)"
proof -
  note u = keeps_update [OF calm_reschedule]
  show ?thesis unfolding rescheduleLease_def by (intro keeps_bind keeps_reads calm_ops u)
qed

lemma keeps_CompleteTask: "keeps I (CompleteTaskIfWaiting env req)"
proof -
  note u = keeps_update [OF calm_resume]
  show ?thesis unfolding CompleteTaskIfWaiting_def Let_def
    by (intro keeps_bind keeps_option keeps_prod keeps_reads calm_ops keeps_store u)
qed

lemma keeps_occurrence: "keeps I (submitScheduledOccurrenceWithJobID env info j t pj bits man)"
proof -
  have rec: "record_ok (new_record env (occurrence_status env t w) jt md rp t w cs)" if "0 \<le> now env" for jt md rp w cs
    using that by (intro new_record_ok) (auto simp: occurrence_status_def Let_def)
  have last1: "keeps I (bind_op (get_op (\<lambda>s. jobRecords s k)) (\<lambda>existing.
      if existing \<noteq> None then ret_op k
      else bind_op (put_op (insert_job k (new_record env (occurrence_status env t w) jt md rp t w cs)
        (start_chapter env jt ih mm p st))) (\<lambda>_. ret_op k)))" for k w jt md rp cs ih mm p st
    by (rule keepsI) (auto simp: op_steps op_defs intro!: keeps_insert rec clock)
  show ?thesis unfolding submitScheduledOccurrenceWithJobID_def Let_def
    by (intro keeps_bind keeps_prod keeps_reads calm_ops last1)
qed

lemma keeps_occurrence_auto: "keeps I (submitScheduledOccurrence env info t pj bits man)"
  unfolding submitScheduledOccurrence_def by (rule keeps_occurrence)

lemma keeps_schedule_put:
  assumes "\<And>s. I s \<Longrightarrow> schedules s key = old \<Longrightarrow> schedule_write key old info" "keeps I m" "I s" "schedules s key = old"
  shows "I (fst (bind_op (put_op (set_schedule key info)) (\<lambda>_. m) s))"
  using assms schedule by (auto simp: op_steps keeps_def)

lemma keeps_upsert: "keeps I (UpsertSchedule env req)"
proof -
  let ?key = "ScheduleKey (us_TenantId req) (us_ScheduleId req)"
  have w: "schedule_write ?key old (upsert_info req t tg h nf old)" if "upsert_allowed old g = Inr ()" for old t tg h nf g
    using that by (auto simp: schedule_write_def upsert_info_def upsert_allowed_def Let_def split: option.splits if_splits)
  have sub: "keeps I (case nf of Some fire \<Rightarrow>
        if sc_State info = ScheduleActive
        then bind_op (submitScheduledOccurrence env info fire [] [] False) (\<lambda>_. ret_op info) else ret_op info
      | None \<Rightarrow> ret_op info)" for nf and info
    by (intro keeps_option keeps_if keeps_bind keeps_reads keeps_occurrence_auto)
  have store: "keeps I (bind_op (get_op (\<lambda>s. schedules s ?key)) (\<lambda>existing.
     bind_op (lift_op (upsert_allowed existing (us_ExpectedGeneration req))) (\<lambda>_.
     bind_op (put_op (set_schedule ?key (upsert_info req t tg h nf existing))) (\<lambda>_.
       case nf of Some fire \<Rightarrow>
         if sc_State (upsert_info req t tg h nf existing) = ScheduleActive
         then bind_op (submitScheduledOccurrence env (upsert_info req t tg h nf existing) fire [] [] False)
           (\<lambda>_. ret_op (upsert_info req t tg h nf existing))
         else ret_op (upsert_info req t tg h nf existing)
       | None \<Rightarrow> ret_op (upsert_info req t tg h nf existing)))))" for t tg h nf
    by (rule keepsI) (auto simp: op_steps(1,2) intro!: keeps_schedule_put w sub split: sum.splits)
  show ?thesis unfolding UpsertSchedule_def Let_def by (intro keeps_bind keeps_reads store)
qed

lemma keeps_mutate: "keeps I (mutateScheduleState env req st first)"
proof (rule keepsI)
  fix s assume s: "I s"
  let ?key = "sm_ScheduleKey req" and ?t = "request_time env (sm_RequestTime req)"
  have w: "schedule_write ?key (schedules s ?key) (mutate_info ?key st ?t nx info)"
    if "schedules s ?key = Some info" "\<not> (sc_State info = ScheduleArchived \<and> st \<noteq> ScheduleArchived)" for info nx
    using that by (auto simp: schedule_write_def mutate_info_def Let_def)
  have sub: "keeps I (case nf of Some fire \<Rightarrow>
        if b then bind_op (submitScheduledOccurrence env info fire [] [] False) (\<lambda>_. ret_op info) else ret_op info
      | None \<Rightarrow> ret_op info)" for nf b and info
    by (intro keeps_option keeps_if keeps_bind keeps_reads keeps_occurrence_auto)
  show "I (fst (mutateScheduleState env req st first s))"
    using s sub schedule [OF s w]
    by (auto simp: mutateScheduleState_def Let_def op_steps(1,2,4,5) fail_op_def keeps_def
        split: sum.splits option.splits simp del: split_paired_All)
qed

lemma keeps_trigger: "keeps I (TriggerSchedule env req)"
  unfolding TriggerSchedule_def by (intro keeps_bind keeps_reads keeps_occurrence)

lemma keeps_preflight: "keeps I (preflightScheduleLease env l)"
  unfolding preflightScheduleLease_def start_occurrence_def cancelScheduledLease_def Let_def
  by (intro keeps_bind keeps_option keeps_sum keeps_if keeps_reads calm_ops keeps_complete keeps_occurrence_auto)

lemma keeps_preflight_all: "keeps I (preflight_all env ls)"
  by (induction ls) (auto intro!: engine_inv keeps_preflight)

lemma keeps_take:
  assumes "I s" "jobRecords s k = Some r0" "advanceRecordState s k t r0 = Some r" "leasable caps r"
  shows "I (fst (take_lease env k r d (set_record k r s)))"
proof -
  have "I (set_record k r s)" using assms change calm_advance by blast
  then show ?thesis
    using lease [of "set_record k r s" k r] assms(4)
    by (simp add: take_lease_def draw_ksuid_def bind_op_def op_defs leasable_def set_record_def)
qed

lemma keeps_poll:
  "I s \<Longrightarrow> poll_take env tn caps preds d ks n s = Some (s', r) \<Longrightarrow> I s'"
proof (induction ks arbitrary: n s s' r)
  case (Cons k ks)
  show ?case
  proof (cases "jobRecords s k")
    case None
    with Cons show ?thesis by simp
  next
    case (Some r0)
    show ?thesis
    proof (cases "TenantId k = tn \<and> advanceRecordState s k (now env) r0 \<noteq> None")
      case False
      with Cons Some show ?thesis by (auto split: if_splits)
    next
      case True
      then obtain r1 where r1: "advanceRecordState s k (now env) r0 = Some r1" "TenantId k = tn" by blast
      have s1: "I (set_record k r1 s)" using change Cons.prems(1) Some calm_advance [OF r1(1)] by blast
      have s2: "I (fst (take_lease env k r1 d (set_record k r1 s)))" if "leasable caps r1"
        using keeps_take [OF Cons.prems(1) Some r1(1) that] .
      show ?thesis using Cons.prems Cons.IH s1 s2 Some r1
        by (auto simp: Let_def split: if_splits sum.splits prod.splits option.splits)
    qed
  qed
qed simp

lemma keeps_PollWork: "I s \<Longrightarrow> PollWork env order req s = Some (s', r) \<Longrightarrow> I s'"
  using keeps_preflight_all
  by (auto simp: PollWork_def keeps_def split: if_splits sum.splits option.splits prod.splits dest: keeps_poll)
    (metis fst_conv keeps_poll)+

lemma keeps_GetJobLease: "I s \<Longrightarrow> GetJobLease env req s = Some (s', r) \<Longrightarrow> I s'"
proof -
  assume a: "I s" "GetJobLease env req s = Some (s', r)"
  have pre: "keeps I (bind_op (preflightScheduleLease env l) (\<lambda>ok. ret_op (if ok then Some l else None)))" for l
    by (intro keeps_bind keeps_reads keeps_preflight)
  have "I (fst (bind_op (take_lease env k r1 d) (\<lambda>l. bind_op (preflightScheduleLease env l)
      (\<lambda>ok. ret_op (if ok then Some l else None))) s1))" if "I (fst (take_lease env k r1 d s1))" for k r1 d s1
    using that pre by (auto simp: bind_op_def [of "take_lease env k r1 d"] keeps_def split: prod.splits sum.splits)
  then show ?thesis using a change calm_advance keeps_take
    by (auto simp: GetJobLease_def Let_def split: if_splits option.splits dest!: arg_cong [of _ _ fst])
qed

end

end
