(* ===== verification/Engine_Steps.thy ===== *)
theory Engine_Steps
  imports Engine_Inv
begin

text \<open>
  The toy engine as a transition system: one step is one operation, at any time of the clock, with any
  arguments and whatever its result. The invariants of \<^verbatim>\<open>Engine_Inv\<close> are interpreted on it: the
  well-formedness of every reachable engine, the fencing of lease ids that are no longer held, the
  append-only chapter log and the life cycle of a schedule.
\<close>

section \<open>Steps and runs\<close>

inductive toy_step :: "Env \<Rightarrow> ToyEngine \<Rightarrow> ToyEngine \<Rightarrow> bool" for env where
  step_submit: "submit_job env job s = (s', r) \<Longrightarrow> toy_step env s s'"
| step_restart: "submit_restart_job env restart s = (s', r) \<Longrightarrow> toy_step env s s'"
| step_submit_leased: "SubmitJobWithLeaseByID env parent l job s = (s', r) \<Longrightarrow> toy_step env s s'"
| step_restart_leased: "SubmitRestartJobWithLeaseByID env parent l restart s = (s', r) \<Longrightarrow> toy_step env s s'"
| step_cancel: "cancel_job env k s = (s', u) \<Longrightarrow> toy_step env s s'"
| step_poll: "PollWork env order poll s = Some (s', leases) \<Longrightarrow> toy_step env s s'"
| step_lease: "GetJobLease env get s = Some (s', ls) \<Longrightarrow> toy_step env s s'"
| step_keepalive: "KeepAliveLeaseByIDWithExpiry env k l d s = (s', expiry) \<Longrightarrow> toy_step env s s'"
| step_put: "PutChapter env claims put s = (s', u) \<Longrightarrow> toy_step env s s'"
| step_complete: "completeLease env k l completion s = (s', u) \<Longrightarrow> toy_step env s s'"
| step_reschedule: "rescheduleLease env k l resched s = (s', u) \<Longrightarrow> toy_step env s s'"
| step_task: "CompleteTaskIfWaiting env task s = (s', u) \<Longrightarrow> toy_step env s s'"
| step_register: "RegisterJobSchema env tn schema s = (s', info) \<Longrightarrow> toy_step env s s'"
| step_archive_schema: "ArchiveJobSchema env key s = (s', info) \<Longrightarrow> toy_step env s s'"
| step_upsert: "UpsertSchedule env upsert s = (s', sched) \<Longrightarrow> toy_step env s s'"
| step_pause: "PauseSchedule env mut s = (s', sched) \<Longrightarrow> toy_step env s s'"
| step_resume: "ResumeSchedule env mut s = (s', sched) \<Longrightarrow> toy_step env s s'"
| step_archive: "ArchiveSchedule env mut s = (s', sched) \<Longrightarrow> toy_step env s s'"
| step_trigger: "TriggerSchedule env trigger s = (s', r) \<Longrightarrow> toy_step env s s'"

inductive runs :: "Env \<Rightarrow> ToyEngine \<Rightarrow> ToyEngine \<Rightarrow> bool" for w where
  runs_refl: "runs w s s"
| runs_step: "runs w s s1 \<Longrightarrow> 0 \<le> t \<Longrightarrow> toy_step (w\<lparr>now := t\<rparr>) s1 s2 \<Longrightarrow> runs w s s2"

definition reachable :: "Env \<Rightarrow> ToyEngine \<Rightarrow> bool" where
  "reachable w s \<longleftrightarrow> runs w NewToyEngine s"

lemma runs_trans: "runs w s1 s2 \<Longrightarrow> runs w s s1 \<Longrightarrow> runs w s s2"
  by (induction rule: runs.induct) (auto intro: runs.intros)

lemma reachable_runs: "reachable w s \<Longrightarrow> runs w s s' \<Longrightarrow> reachable w s'"
  unfolding reachable_def using runs_trans by blast

context engine_invariant
begin

lemma step_keeps: "toy_step env s s' \<Longrightarrow> I s \<Longrightarrow> I s'"
  by (induction rule: toy_step.induct)
    (auto simp: submit_job_def submit_restart_job_def PauseSchedule_def ResumeSchedule_def ArchiveSchedule_def
      intro: keepsD keeps_submit keeps_restart keeps_SubmitJobWithLease keeps_SubmitRestartWithLease keeps_cancel
        keeps_PollWork keeps_GetJobLease keeps_KeepAlive keeps_PutChapter keeps_complete keeps_reschedule
        keeps_CompleteTask keeps_RegisterJobSchema keeps_ArchiveJobSchema keeps_upsert keeps_mutate keeps_trigger)

end

section \<open>Well-formed engines\<close>

text \<open>Every lease id in use was drawn, and no two records hold the same one.\<close>

definition leases_ok :: "Env \<Rightarrow> ToyEngine \<Rightarrow> bool" where
  "leases_ok w s \<longleftrightarrow>
     (\<forall>k r. jobRecords s k = Some r \<longrightarrow> jr_leaseID r \<noteq> [] \<longrightarrow> (\<exists>i<ksuid_calls s. jr_leaseID r = ksuid w i)) \<and>
     (\<forall>k k' r r'. jobRecords s k = Some r \<longrightarrow> jobRecords s k' = Some r' \<longrightarrow> jr_leaseID r \<noteq> [] \<longrightarrow>
        jr_leaseID r = jr_leaseID r' \<longrightarrow> k = k')"

definition schedules_ok :: "ToyEngine \<Rightarrow> bool" where
  "schedules_ok s \<longleftrightarrow>
     (\<forall>key info. schedules s key = Some info \<longrightarrow> sc_ScheduleKey info = key \<and> 1 \<le> sc_Generation info)"

definition engine_ok :: "Env \<Rightarrow> ToyEngine \<Rightarrow> bool" where
  "engine_ok w s \<longleftrightarrow>
     dom (jobRecords s) = dom (runtimeChapters s) \<and>
     (\<forall>k r. jobRecords s k = Some r \<longrightarrow> record_ok r) \<and>
     (\<forall>k c. runtimeChapters s k = Some c \<longrightarrow> log_ok c) \<and> leases_ok w s \<and> schedules_ok s"

definition sane :: "Env \<Rightarrow> bool" where
  "sane w \<longleftrightarrow> 0 \<le> now w \<and> fresh_ids w"

lemma engine_ok_now [simp]: "engine_ok (w\<lparr>now := t\<rparr>) s = engine_ok w s"
  by (simp add: engine_ok_def leases_ok_def)

lemma engine_ok_new: "engine_ok w NewToyEngine"
  by (simp add: engine_ok_def leases_ok_def schedules_ok_def NewToyEngine_def)

lemma lease_drawn:
  "engine_ok w s \<Longrightarrow> jobRecords s k = Some r \<Longrightarrow> jr_leaseID r \<noteq> [] \<Longrightarrow> \<exists>i<ksuid_calls s. jr_leaseID r = ksuid w i"
  by (simp add: engine_ok_def leases_ok_def)

lemma lease_unique:
  "engine_ok w s \<Longrightarrow> jobRecords s k = Some r \<Longrightarrow> jobRecords s k' = Some r' \<Longrightarrow> jr_leaseID r \<noteq> [] \<Longrightarrow>
   jr_leaseID r = jr_leaseID r' \<Longrightarrow> k = k'"
  by (simp add: engine_ok_def leases_ok_def)

lemma engine_ok_sameI:
  assumes "engine_ok w s" "jobRecords s' = jobRecords s" "runtimeChapters s' = runtimeChapters s"
    "schedules s' = schedules s" "ksuid_calls s \<le> ksuid_calls s'"
  shows "engine_ok w s'"
  using assms by (auto simp: engine_ok_def leases_ok_def schedules_ok_def) (meson order_less_le_trans)

lemma set_record_calls: "ksuid_calls (set_record k r (s\<lparr>ksuid_calls := n\<rparr>)) = n"
  by (simp add: set_record_def)

lemma engine_ok_change:
  assumes "engine_ok w s" "jobRecords s k = Some r" "calm r r'"
  shows "engine_ok w (set_record k r' s)"
proof -
  have "leases_ok w (set_record k r' s)"
    using assms unfolding engine_ok_def leases_ok_def set_record_def calm_def
    by (auto split: if_splits)
  then show ?thesis using assms
    unfolding engine_ok_def set_record_def calm_def schedules_ok_def by (auto split: if_splits)
qed

lemma engine_ok_create:
  assumes "engine_ok w s" "record_ok r" "jr_leaseID r = []" "log_ok c"
  shows "engine_ok w (new_job k r c s)"
proof -
  have "leases_ok w (new_job k r c s)"
    using assms unfolding engine_ok_def leases_ok_def new_job_def by (auto split: if_splits)
  then show ?thesis using assms
    unfolding engine_ok_def new_job_def schedules_ok_def by (auto split: if_splits)
qed

lemma fresh_lease:
  assumes "engine_ok w s" "fresh_ids w" "jobRecords s k = Some r"
  shows "jr_leaseID r \<noteq> ksuid w (ksuid_calls s)"
proof
  assume a: "jr_leaseID r = ksuid w (ksuid_calls s)"
  then have "jr_leaseID r \<noteq> []" using assms(2) by (simp add: fresh_ids_def)
  then obtain i where "i < ksuid_calls s" "jr_leaseID r = ksuid w i"
    using assms(1,3) unfolding engine_ok_def leases_ok_def by blast
  with a assms(2) show False by (auto simp: fresh_ids_def dest: injD)
qed

lemma engine_ok_lease:
  assumes "engine_ok w s" "fresh_ids w" "jobRecords s k = Some r" "\<not> jr_leased r" "jr_status r = Ready"
  shows "engine_ok w (set_record k (lease_record (ksuid w (ksuid_calls s)) r) (s\<lparr>ksuid_calls := Suc (ksuid_calls s)\<rparr>))"
    (is "engine_ok w ?s'")
proof -
  have ne: "ksuid w (ksuid_calls s) \<noteq> []" using assms(2) by (simp add: fresh_ids_def)
  have get: "jobRecords ?s' k' = (if k' = k then Some (lease_record (ksuid w (ksuid_calls s)) r) else jobRecords s k')"
    for k' by (simp add: set_record_def)
  have drawn: "\<exists>i<Suc (ksuid_calls s). jr_leaseID r' = ksuid w i"
    if "jobRecords ?s' k' = Some r'" "jr_leaseID r' \<noteq> []" for k' r'
  proof (cases "k' = k")
    case True
    with that(1) get have "r' = lease_record (ksuid w (ksuid_calls s)) r" by simp
    then show ?thesis by (auto simp: lease_record_def)
  next
    case False
    with that get lease_drawn [OF assms(1), of k' r'] obtain i where "i < ksuid_calls s" "jr_leaseID r' = ksuid w i"
      by auto
    then show ?thesis using less_SucI by blast
  qed
  have uniq: "k1 = k2" if "jobRecords ?s' k1 = Some r1" "jobRecords ?s' k2 = Some r2" "jr_leaseID r1 \<noteq> []"
    "jr_leaseID r1 = jr_leaseID r2" for k1 k2 r1 r2
  proof -
    have id: "jr_leaseID (lease_record (ksuid w (ksuid_calls s)) r) = ksuid w (ksuid_calls s)"
      by (simp add: lease_record_def)
    show ?thesis
      using that fresh_lease [OF assms(1,2), of k1 r1] fresh_lease [OF assms(1,2), of k2 r2] lease_unique [OF assms(1)] id
      unfolding get by (auto split: if_splits)
  qed
  have "leases_ok w ?s'" unfolding leases_ok_def using drawn uniq by (metis set_record_calls)
  moreover have "record_ok (lease_record (ksuid w (ksuid_calls s)) r)"
    using ne assms(4,5) by (simp add: lease_record_def record_ok_def terminal_def)
  ultimately show ?thesis using assms(1,3)
    by (auto simp: engine_ok_def set_record_def schedules_ok_def split: if_splits)
qed

lemma engine_ok_append:
  assumes "engine_ok w s" "runtimeChapters s k = Some c" "appendable c i ch"
  shows "engine_ok w (put_chapter_state k i ch s)"
  using assms log_ok_append [OF _ assms(3)]
  by (auto simp: engine_ok_def put_chapter_state_def map_update_def leases_ok_def schedules_ok_def split: if_splits)

lemma engine_ok_schedule:
  assumes "engine_ok w s" "schedule_write key (schedules s key) info"
  shows "engine_ok w (set_schedule key info s)"
proof -
  have "1 \<le> sc_Generation e \<and> sc_ScheduleKey e = key" if "schedules s key = Some e" for e
    using that assms(1) by (simp add: engine_ok_def schedules_ok_def)
  then have "1 \<le> sc_Generation info \<and> sc_ScheduleKey info = key"
    using assms(2) by (fastforce simp: schedule_write_def split: option.splits)
  then show ?thesis using assms(1)
    by (simp add: engine_ok_def set_schedule_def leases_ok_def schedules_ok_def)
qed

interpretation wellformed: engine_invariant env "\<lambda>s. sane env \<and> engine_ok env s" "\<lambda>_. True" for env
  by unfold_locales
    (auto simp: sane_def engine_ok_create engine_ok_change engine_ok_lease engine_ok_append engine_ok_schedule
      intro: engine_ok_sameI, auto simp: engine_ok_def)

lemma fresh_ids_simps:
  assumes "fresh_ids w"
  shows "[] \<noteq> ksuid w i" "ksuid w i \<noteq> []" "ksuid w i = ksuid w j \<longleftrightarrow> i = j"
  using assms by (auto simp: fresh_ids_def inj_eq) metis

section \<open>What stays true once it is\<close>

text \<open>A fact about the jobs, logs and schedules of a well-formed engine that the writes keep.\<close>

locale engine_fact =
  fixes env :: Env and J :: "ToyEngine \<Rightarrow> bool" and own :: "JobKey \<Rightarrow> bool"
  assumes same: "J s \<Longrightarrow> jobRecords s' = jobRecords s \<Longrightarrow> runtimeChapters s' = runtimeChapters s \<Longrightarrow>
      schedules s' = schedules s \<Longrightarrow> ksuid_calls s \<le> ksuid_calls s' \<Longrightarrow> J s'"
    and fact_generated: "J s \<Longrightarrow> idGenerator env (ksuid_calls s) t = Inr k \<Longrightarrow> own k"
    and fact_create: "fresh_ids env \<Longrightarrow> engine_ok env s \<Longrightarrow> J s \<Longrightarrow> jobRecords s k = None \<or> own k \<Longrightarrow>
      jr_leaseID r = [] \<Longrightarrow> J (new_job k r c s)"
    and fact_change: "fresh_ids env \<Longrightarrow> engine_ok env s \<Longrightarrow> J s \<Longrightarrow> jobRecords s k = Some r \<Longrightarrow> calm r r' \<Longrightarrow>
      J (set_record k r' s)"
    and fact_lease: "fresh_ids env \<Longrightarrow> engine_ok env s \<Longrightarrow> J s \<Longrightarrow> jobRecords s k = Some r \<Longrightarrow>
      J (set_record k (lease_record (ksuid env (ksuid_calls s)) r) (s\<lparr>ksuid_calls := Suc (ksuid_calls s)\<rparr>))"
    and fact_append: "J s \<Longrightarrow> runtimeChapters s k = Some c \<Longrightarrow> appendable c i ch \<Longrightarrow> J (put_chapter_state k i ch s)"
    and fact_schedule: "J s \<Longrightarrow> schedule_write key (schedules s key) info \<Longrightarrow> J (set_schedule key info s)"

sublocale engine_fact < fact: engine_invariant env "\<lambda>s. (sane env \<and> engine_ok env s) \<and> J s" own
proof unfold_locales
  fix s assume s: "(sane env \<and> engine_ok env s) \<and> J s"
  show "(sane env \<and> engine_ok env (store_artifact k i nm b s)) \<and> J (store_artifact k i nm b s)" for k i nm b
    using s wellformed.artifact same [of s] by simp
  show "(sane env \<and> engine_ok env (s\<lparr>validators := c\<rparr>)) \<and> J (s\<lparr>validators := c\<rparr>)" for c
    using s wellformed.cache same [of s] by simp
  show "(sane env \<and> engine_ok env (s\<lparr>schemas := m\<rparr>)) \<and> J (s\<lparr>schemas := m\<rparr>)" for m
    using s wellformed.registry same [of s] by simp
  show "(sane env \<and> engine_ok env (s\<lparr>ksuid_calls := Suc (ksuid_calls s)\<rparr>)) \<and>
      J (s\<lparr>ksuid_calls := Suc (ksuid_calls s)\<rparr>)"
    using s wellformed.draw same [of s] by simp
qed (auto simp: engine_ok_create engine_ok_change engine_ok_lease engine_ok_append engine_ok_schedule
    fact_create fact_change fact_lease fact_append fact_schedule fact_generated sane_def, auto simp: engine_ok_def)

context engine_fact
begin

lemma fact_step: "toy_step env s s' \<Longrightarrow> (sane env \<and> engine_ok env s) \<and> J s \<Longrightarrow> J s'"
  using fact.step_keeps by blast

end

text \<open>A drawn lease id that no record holds is never held again.\<close>

definition unheld :: "Env \<Rightarrow> nat \<Rightarrow> ToyEngine \<Rightarrow> bool" where
  "unheld w i s \<longleftrightarrow> i < ksuid_calls s \<and> (\<forall>k r. jobRecords s k = Some r \<longrightarrow> jr_leaseID r \<noteq> ksuid w i)"

interpretation fenced: engine_fact env "unheld env i" "\<lambda>_. True" for env i
  by unfold_locales
    (auto simp: unheld_def new_job_def set_record_def lease_record_def calm_def fresh_ids_simps put_chapter_state_def
      set_schedule_def split: if_splits)

text \<open>A chapter that is in the log stays there, as long as the id generator does not give its job's key to
  another job.\<close>

definition not_regenerated :: "Env \<Rightarrow> JobKey \<Rightarrow> ToyEngine \<Rightarrow> bool" where
  "not_regenerated w k s \<longleftrightarrow> (\<forall>n\<ge>ksuid_calls s. \<forall>t. idGenerator w n t \<noteq> Inr k)"

definition logged :: "Env \<Rightarrow> JobKey \<Rightarrow> int \<Rightarrow> Chapter \<Rightarrow> ToyEngine \<Rightarrow> bool" where
  "logged w k i ch s \<longleftrightarrow>
     jobRecords s k \<noteq> None \<and> (\<exists>c. runtimeChapters s k = Some c \<and> c i = Some ch) \<and> not_regenerated w k s"

interpretation append_only: engine_fact env "logged env k i ch" "\<lambda>k'. k' \<noteq> k" for env k i ch
  by unfold_locales
    (auto simp: logged_def not_regenerated_def new_job_def set_record_def put_chapter_state_def set_schedule_def
      appendable_def map_update_def split: if_splits option.splits)

text \<open>The generation of a schedule tells its versions apart, and an archived schedule stays archived.\<close>

definition version_of :: "ScheduleKey \<Rightarrow> ScheduleInfo \<Rightarrow> ToyEngine \<Rightarrow> bool" where
  "version_of key info0 s \<longleftrightarrow>
     (\<exists>info. schedules s key = Some info \<and> (info = info0 \<or> sc_Generation info0 < sc_Generation info) \<and>
        (sc_State info0 = ScheduleArchived \<longrightarrow> sc_State info = ScheduleArchived))"

interpretation versioned: engine_fact env "version_of key info0" "\<lambda>_. True" for env key info0
  by unfold_locales
    (auto simp: version_of_def new_job_def set_record_def put_chapter_state_def set_schedule_def
      schedule_write_def split: if_splits option.splits)

section \<open>Runs keep the invariants\<close>

lemma runs_ok: "runs w s s' \<Longrightarrow> fresh_ids w \<Longrightarrow> engine_ok w s \<Longrightarrow> engine_ok w s'"
proof (induction rule: runs.induct)
  case (runs_step s s1 t s2)
  have "fresh_ids (w\<lparr>now := t\<rparr>)" using runs_step.prems(1) by (simp add: fresh_ids_def)
  then have "sane (w\<lparr>now := t\<rparr>) \<and> engine_ok (w\<lparr>now := t\<rparr>) s1"
    using runs_step by (simp add: sane_def)
  from wellformed.step_keeps [OF runs_step.hyps(3) this] show ?case by simp
qed

lemma runs_fact:
  assumes "\<And>t. engine_fact (w\<lparr>now := t\<rparr>) J own" "runs w s s'" "fresh_ids w" "engine_ok w s" "J s"
  shows "J s'"
  using assms(2,4,5)
proof (induction rule: runs.induct)
  case (runs_step s s1 t s2)
  have f: "engine_fact (w\<lparr>now := t\<rparr>) J own" by (rule assms(1))
  have "fresh_ids (w\<lparr>now := t\<rparr>)" using assms(3) by (simp add: fresh_ids_def)
  then have "(sane (w\<lparr>now := t\<rparr>) \<and> engine_ok (w\<lparr>now := t\<rparr>) s1) \<and> J s1"
    using runs_step runs_ok [OF runs_step.hyps(1) assms(3)] by (simp add: sane_def)
  from engine_fact.fact_step [OF f runs_step.hyps(3) this] show ?case .
qed

lemma reachable_ok: "fresh_ids w \<Longrightarrow> reachable w s \<Longrightarrow> engine_ok w s"
  unfolding reachable_def using runs_ok engine_ok_new by blast

lemma unheld_runs:
  assumes "fresh_ids w" "reachable w s" "unheld w i s" "runs w s s'"
  shows "unheld w i s'"
proof (rule runs_fact [of w "unheld w i" "\<lambda>_. True", OF _ assms(4,1) reachable_ok [OF assms(1,2)] assms(3)])
  show "engine_fact (w\<lparr>now := t\<rparr>) (unheld w i) (\<lambda>_. True)" for t
  proof -
    have "unheld (w\<lparr>now := t\<rparr>) i = unheld w i" by (simp add: unheld_def fun_eq_iff)
    then show ?thesis using fenced.engine_fact_axioms [of "w\<lparr>now := t\<rparr>" i] by simp
  qed
qed

lemma logged_runs:
  assumes "fresh_ids w" "reachable w s" "logged w k i ch s" "runs w s s'"
  shows "logged w k i ch s'"
proof (rule runs_fact [of w "logged w k i ch" "\<lambda>k'. k' \<noteq> k", OF _ assms(4,1) reachable_ok [OF assms(1,2)] assms(3)])
  show "engine_fact (w\<lparr>now := t\<rparr>) (logged w k i ch) (\<lambda>k'. k' \<noteq> k)" for t
  proof -
    have "logged (w\<lparr>now := t\<rparr>) k i ch = logged w k i ch"
      by (simp add: logged_def not_regenerated_def fun_eq_iff)
    then show ?thesis using append_only.engine_fact_axioms [of "w\<lparr>now := t\<rparr>" k i ch] by simp
  qed
qed

lemma version_runs:
  assumes "fresh_ids w" "reachable w s" "schedules s key = Some info" "runs w s s'"
  shows "version_of key info s'"
  by (rule runs_fact [OF versioned.engine_fact_axioms assms(4,1) reachable_ok [OF assms(1,2)]])
    (simp add: version_of_def assms(3))

section \<open>A sample run\<close>

definition sample_env :: Env where
  "sample_env =
     \<lparr>now = 10, ksuid = (\<lambda>n. replicate (Suc n) CHR ''k''),
      idGenerator = default_idGenerator (\<lambda>n. replicate (Suc n) CHR ''k''), zones = (\<lambda>_. None),
      Sha256 = (\<lambda>b. b), JsonSha256 = (\<lambda>_. ''h''), InputSha256 = (\<lambda>_ _. ''i''),
      fmt_duration = (\<lambda>_. []), parse_duration = (\<lambda>_. None), compiles = (\<lambda>_. True),
      conforms = (\<lambda>_ _. True)\<rparr>"

definition sample_submit :: SubmitJob where
  "sample_submit =
     \<lparr>sj_TenantId = ''x'', sj_JobType = ''t'', sj_JobID = ''j'', sj_Data = Some (SimpleTaskData (Json (JInt 1)) []),
      sj_RunPolicy = DefaultRunPolicy, sj_Metadata = Text [], sj_Schema = None, sj_AvailableAt = None,
      sj_Prerequisites = None\<rparr>"

definition sample_get :: GetJobLeaseRequest where
  "sample_get = \<lparr>gl_JobKey = JobKey ''x'' ''j'', gl_Capabilities = [''t''], gl_LeaseDuration = 0\<rparr>"

text \<open>Submitted, leased, cancelled.\<close>

definition submitted :: ToyEngine where "submitted = fst (submit_job sample_env sample_submit NewToyEngine)"
definition leased :: ToyEngine where "leased = fst (the (GetJobLease sample_env sample_get submitted))"
definition cancelled :: ToyEngine where "cancelled = fst (cancel_job sample_env (JobKey ''x'' ''j'') leased)"

lemma sample_fresh: "fresh_ids sample_env"
  by (auto simp: fresh_ids_def sample_env_def inj_def dest: arg_cong [of _ _ length])

lemma sample_now: "sample_env\<lparr>now := 10\<rparr> = sample_env"
  by (simp add: sample_env_def)

lemma sample_step: "runs sample_env s s1 \<Longrightarrow> toy_step sample_env s1 s2 \<Longrightarrow> runs sample_env s s2"
  using runs_step [of sample_env s s1 10 s2] sample_now by simp

lemma sample_runs:
  "runs sample_env NewToyEngine submitted" "runs sample_env submitted leased" "runs sample_env leased cancelled"
proof -
  have l: "GetJobLease sample_env sample_get submitted = Some (leased, snd (the (GetJobLease sample_env sample_get submitted)))"
  proof -
    have "GetJobLease sample_env sample_get submitted \<noteq> None" by code_simp
    then show ?thesis by (auto simp: leased_def)
  qed
  show "runs sample_env NewToyEngine submitted"
    by (rule sample_step [OF runs_refl step_submit]) (simp add: submitted_def prod_eq_iff)
  show "runs sample_env submitted leased" by (rule sample_step [OF runs_refl step_lease [OF l]])
  show "runs sample_env leased cancelled"
    by (rule sample_step [OF runs_refl step_cancel]) (simp add: cancelled_def prod_eq_iff)
qed

lemma sample_reachable: "reachable sample_env submitted" "reachable sample_env leased" "reachable sample_env cancelled"
  using sample_runs runs_trans unfolding reachable_def by blast+

section \<open>The properties\<close>

text \<open>C18: every engine that the operations can produce is well-formed: a job has a record exactly when
  it has a log; a log is numbered from its start chapter on without a gap; a record is leased exactly when
  its status is active and exactly when it holds a lease id; no two jobs hold the same lease id; a job that
  waits for jobs names some, one that waits for a time has one; a completed or cancelled job has its archive
  time; a schedule is stored under its key with a positive generation.\<close>
theorem reachable_engines_well_formed:
  assumes "fresh_ids w" "reachable w s"
  shows "dom (jobRecords s) = dom (runtimeChapters s)
    \<and> (\<forall>k r. jobRecords s k = Some r \<longrightarrow> record_ok r)
    \<and> (\<forall>k c. runtimeChapters s k = Some c \<longrightarrow> log_ok c)
    \<and> leases_ok w s \<and> schedules_ok s"
  using reachable_ok [OF assms] by (simp add: engine_ok_def)

theorem reachable_engines_well_formed_witness:
  "\<exists>r. jobRecords cancelled (JobKey ''x'' ''j'') = Some r \<and> record_ok r"
proof -
  have "\<exists>r. jobRecords leased (JobKey ''x'' ''j'') = Some r"
  proof -
    have "\<not> Option.is_none (jobRecords leased (JobKey ''x'' ''j''))" by code_simp
    then show ?thesis by (cases "jobRecords leased (JobKey ''x'' ''j'')") auto
  qed
  then have "jobRecords cancelled (JobKey ''x'' ''j'') \<noteq> None"
    by (auto simp: cancelled_def cancel_job_def getJobRecord_def op_steps op_defs update_record_def)
  then show ?thesis
    using reachable_engines_well_formed [OF sample_fresh sample_reachable(3)] by auto
qed

lemma completeLease_lost:
  "(\<And>r. jobRecords s k = Some r \<Longrightarrow> jr_leaseID r \<noteq> l) \<Longrightarrow> \<exists>e. completeLease env k l req s = (s, Inl e)"
  by (auto simp: completeLease_def getJobRecord_def op_steps op_defs split: option.splits)

lemma rescheduleLease_lost:
  "(\<And>r. jobRecords s k = Some r \<Longrightarrow> jr_leaseID r \<noteq> l) \<Longrightarrow> \<exists>e. rescheduleLease env k l req s = (s, Inl e)"
  by (auto simp: rescheduleLease_def getJobRecord_def op_steps op_defs split: option.splits)

lemma KeepAlive_lost:
  "(\<And>r. jobRecords s k = Some r \<Longrightarrow> jr_leaseID r \<noteq> l) \<Longrightarrow>
   \<exists>e. KeepAliveLeaseByIDWithExpiry env k l d s = (s, Inl e)"
  by (auto simp: KeepAliveLeaseByIDWithExpiry_def getJobRecord_def op_steps op_defs split: option.splits)

lemma PutChapter_lost:
  "(\<And>r. jobRecords s (pc_JobKey req) = Some r \<Longrightarrow> jr_leaseID r \<noteq> pc_LeaseID req) \<Longrightarrow>
   \<exists>e. PutChapter env None req s = (s, Inl e)"
  by (auto simp: PutChapter_def Authorize_def getJobRecord_def op_steps op_defs split: option.splits)

lemmas lost_lease = completeLease_lost rescheduleLease_lost KeepAlive_lost PutChapter_lost

text \<open>C19: fencing. Once no job holds a drawn lease id (its job was completed, rescheduled, resumed or
  cancelled), then whatever is run afterwards, completing, rescheduling, keeping alive or writing a chapter
  with that lease id fails on every job and changes nothing. (Writing is without the claims of a remote
  token, which authorise a write by themselves.)\<close>
theorem lease_fencing:
  assumes "fresh_ids w" "reachable w s" "unheld w i s" "runs w s s'"
  shows "(\<exists>e. completeLease env k (ksuid w i) completion s' = (s', Inl e))
    \<and> (\<exists>e. rescheduleLease env k (ksuid w i) resched s' = (s', Inl e))
    \<and> (\<exists>e. KeepAliveLeaseByIDWithExpiry env k (ksuid w i) d s' = (s', Inl e))
    \<and> (\<exists>e. PutChapter env None (put\<lparr>pc_LeaseID := ksuid w i\<rparr>) s' = (s', Inl e))"
proof -
  have "jr_leaseID r \<noteq> ksuid w i" if "jobRecords s' k = Some r" for k r
    using unheld_runs [OF assms] that by (simp add: unheld_def)
  then show ?thesis by (intro conjI lost_lease) auto
qed

text \<open>Cancelling releases the lease.\<close>

lemma cancel_unheld:
  assumes "engine_ok w s" "fresh_ids w" "jobRecords s k = Some r" "jr_leaseID r = ksuid w i"
  shows "unheld w i (fst (cancel_job env k s))"
proof -
  obtain j where j: "j < ksuid_calls s" "ksuid w i = ksuid w j"
    using lease_drawn [OF assms(1,3)] assms(4) fresh_ids_simps(1,2) [OF assms(2)] by metis
  then have "i < ksuid_calls s" using fresh_ids_simps(3) [OF assms(2)] by simp
  moreover have "jr_leaseID r' \<noteq> ksuid w i" if "jobRecords s k' = Some r'" "k' \<noteq> k" for k' r'
    using lease_unique [OF assms(1,3) that(1)] that(2) assms(4) fresh_ids_simps(1,2) [OF assms(2)] by auto
  ultimately show ?thesis using fresh_ids_simps(1) [OF assms(2)]
    by (auto simp: unheld_def cancel_job_def getJobRecord_def op_steps op_defs assms(3) update_record_def
        map_update_def cancel_record_def split: if_splits)
qed

theorem lease_fencing_witness:
  "\<forall>completion. \<exists>e. completeLease sample_env (JobKey ''x'' ''j'') (ksuid sample_env 0) completion cancelled =
     (cancelled, Inl e)"
proof -
  have "map_option jr_leaseID (jobRecords leased (JobKey ''x'' ''j'')) = Some (ksuid sample_env 0)" by code_simp
  then obtain r where "jobRecords leased (JobKey ''x'' ''j'') = Some r" "jr_leaseID r = ksuid sample_env 0" by auto
  then have "unheld sample_env 0 cancelled"
    unfolding cancelled_def
    by (rule cancel_unheld [OF reachable_ok [OF sample_fresh sample_reachable(2)] sample_fresh])
  from lease_fencing [OF sample_fresh sample_reachable(3) this runs_refl] show ?thesis by blast
qed



text \<open>C21: the generation of a schedule tells its versions apart: as long as the generation is the same,
  nothing of the schedule has changed; the generation never falls; and an archived schedule stays
  archived.\<close>
theorem schedule_generations:
  assumes "fresh_ids w" "reachable w s" "schedules s key = Some info" "runs w s s'"
  shows "\<exists>info'. schedules s' key = Some info' \<and> (info' = info \<or> sc_Generation info < sc_Generation info')
    \<and> (sc_State info = ScheduleArchived \<longrightarrow> sc_State info' = ScheduleArchived)"
  using version_runs [OF assms] unfolding version_of_def .

definition sample_upsert :: UpsertScheduleRequest where
  "sample_upsert =
     \<lparr>us_TenantId = ''x'', us_ScheduleId = ''s'',
      us_Trigger = \<lparr>trg_Kind = TriggerInterval, trg_Expression = [], trg_Timezone = [], trg_StartAt = None,
        trg_EndAt = None, trg_Interval = 60\<rparr>,
      us_Target = \<lparr>tgt_JobType = ''t'', tgt_Data = Some (SimpleTaskData (Json (JInt 1)) []),
        tgt_RunPolicy = DefaultRunPolicy, tgt_Metadata = Text []\<rparr>,
      us_OverlapPolicy = OverlapSerial,
      us_FailurePolicy = \<lparr>MinSuccessPercent = 0, WindowSize = 0, MaxSequentialFailures = 0\<rparr>,
      us_Paused = True, us_ExpectedGeneration = None, us_RequestTime = 0\<rparr>"

definition sample_mutation :: ScheduleMutationRequest where
  "sample_mutation = \<lparr>sm_ScheduleKey = ScheduleKey ''x'' ''s'', sm_ExpectedGeneration = None, sm_RequestTime = 0\<rparr>"

definition upserted :: ToyEngine where "upserted = fst (UpsertSchedule sample_env sample_upsert NewToyEngine)"
definition archived :: ToyEngine where "archived = fst (ArchiveSchedule sample_env sample_mutation upserted)"

lemma sample_schedule_runs: "reachable sample_env upserted" "runs sample_env upserted archived"
  unfolding reachable_def
  by (rule sample_step [OF runs_refl step_upsert], simp add: upserted_def prod_eq_iff)
    (rule sample_step [OF runs_refl step_archive], simp add: archived_def prod_eq_iff)

theorem schedule_generations_witness:
  "\<exists>info info'. schedules upserted (ScheduleKey ''x'' ''s'') = Some info
     \<and> schedules archived (ScheduleKey ''x'' ''s'') = Some info'
     \<and> (info' = info \<or> sc_Generation info < sc_Generation info')"
proof -
  have "\<not> Option.is_none (schedules upserted (ScheduleKey ''x'' ''s''))" by code_simp
  then obtain info where i: "schedules upserted (ScheduleKey ''x'' ''s'') = Some info"
    by (cases "schedules upserted (ScheduleKey ''x'' ''s'')") auto
  from schedule_generations [OF sample_fresh sample_schedule_runs(1) i sample_schedule_runs(2)] i
  show ?thesis by blast
qed

end
