(* ===== verification/Worker_Step.thy ===== *)
theory Worker_Step
  imports Ops
begin

text \<open>
  Steps of the worker runner (\<^verbatim>\<open>pkg/workflow/worker_runner.go\<close>). A step takes the state of the run and
  returns it changed with one of the ways in which Go code may end: it returns a value, it returns an
  error, it ends its goroutine (\<^verbatim>\<open>runtime.Goexit\<close>, with which the runner leaves a job that was
  rescheduled), or it panics. \<open>NoFuel\<close> stands for a retry loop that was cut off.
\<close>

datatype 'a step = Done 'a | Fail go_error | Goexit | Panic string | NoFuel

type_synonym ('s, 'a) act = "'s \<Rightarrow> 's \<times> 'a step"

definition ret_act :: "'a \<Rightarrow> ('s, 'a) act" where "ret_act x s = (s, Done x)"
definition fail_act :: "go_error \<Rightarrow> ('s, 'a) act" where "fail_act e s = (s, Fail e)"
definition exit_act :: "('s, 'a) act" where "exit_act s = (s, Goexit)"
definition panic_act :: "string \<Rightarrow> ('s, 'a) act" where "panic_act m s = (s, Panic m)"
definition stop_act :: "('s, 'a) act" where "stop_act s = (s, NoFuel)"
definition read_act :: "('s \<Rightarrow> 'a) \<Rightarrow> ('s, 'a) act" where "read_act f s = (s, Done (f s))"
definition write_act :: "('s \<Rightarrow> 's) \<Rightarrow> ('s, unit) act" where "write_act f s = (f s, Done ())"

definition lift_act :: "'a res \<Rightarrow> ('s, 'a) act" where
  "lift_act r s = (s, case r of Inl e \<Rightarrow> Fail e | Inr x \<Rightarrow> Done x)"

fun then_step :: "'s \<times> 'a step \<Rightarrow> ('a \<Rightarrow> ('s, 'b) act) \<Rightarrow> 's \<times> 'b step" where
  "then_step (s, Done x) f = f x s"
| "then_step (s, Fail e) f = (s, Fail e)"
| "then_step (s, Goexit) f = (s, Goexit)"
| "then_step (s, Panic m) f = (s, Panic m)"
| "then_step (s, NoFuel) f = (s, NoFuel)"

definition bind_act :: "('s, 'a) act \<Rightarrow> ('a \<Rightarrow> ('s, 'b) act) \<Rightarrow> ('s, 'b) act" where
  "bind_act m f s = then_step (m s) f"

text \<open>The error of a call as a value: \<^verbatim>\<open>x, err := f()\<close>.\<close>

fun catch_step :: "'s \<times> 'a step \<Rightarrow> 's \<times> 'a res step" where
  "catch_step (s, Done x) = (s, Done (Inr x))"
| "catch_step (s, Fail e) = (s, Done (Inl e))"
| "catch_step (s, Goexit) = (s, Goexit)"
| "catch_step (s, Panic m) = (s, Panic m)"
| "catch_step (s, NoFuel) = (s, NoFuel)"

definition try_act :: "('s, 'a) act \<Rightarrow> ('s, 'a res) act" where
  "try_act m s = catch_step (m s)"

lemmas act_defs = ret_act_def fail_act_def exit_act_def panic_act_def stop_act_def read_act_def
  write_act_def lift_act_def

text \<open>Running the first step of a chain.\<close>

lemma bind_act_simps [simp]:
  "bind_act (ret_act x) f s = f x s"
  "bind_act (fail_act e) f s = (s, Fail e)"
  "bind_act exit_act f s = (s, Goexit)"
  "bind_act (panic_act m) f s = (s, Panic m)"
  "bind_act stop_act f s = (s, NoFuel)"
  "bind_act (read_act g) f s = f (g s) s"
  "bind_act (write_act u) h s = h () (u s)"
  by (simp_all add: bind_act_def act_defs)

lemma bind_lift_act:
  "bind_act (lift_act r) f s = (case r of Inl e \<Rightarrow> (s, Fail e) | Inr x \<Rightarrow> f x s)"
  by (simp add: bind_act_def act_defs split: sum.splits)

lemma then_step_assoc: "then_step (then_step p f) g = then_step p (\<lambda>x. bind_act (f x) g)"
  by (cases "(p, f)" rule: then_step.cases) (auto simp: bind_act_def)

lemma bind_act_assoc: "bind_act (bind_act m f) g = bind_act m (\<lambda>x. bind_act (f x) g)"
  by (simp add: fun_eq_iff bind_act_def then_step_assoc)

lemma bind_act_Done:
  "bind_act m f s = (s', Done y) \<longleftrightarrow> (\<exists>s1 x. m s = (s1, Done x) \<and> f x s1 = (s', Done y))"
  by (cases "(m s, f)" rule: then_step.cases) (auto simp: bind_act_def)

section \<open>Invariants of the state\<close>

named_theorems run_inv

definition holds :: "('s \<Rightarrow> bool) \<Rightarrow> ('s, 'a) act \<Rightarrow> bool" where
  "holds I m \<longleftrightarrow> (\<forall>s. I s \<longrightarrow> I (fst (m s)))"

lemma holds_basic [run_inv]:
  "holds I (ret_act x)" "holds I (fail_act e)" "holds I exit_act" "holds I (panic_act t)" "holds I stop_act"
  "holds I (read_act g)" "holds I (lift_act r)"
  by (simp_all add: holds_def act_defs)

lemma holds_write [run_inv]: "(\<And>s. I s \<Longrightarrow> I (u s)) \<Longrightarrow> holds I (write_act u)"
  by (simp add: holds_def act_defs)

lemma holds_bind [run_inv]: "holds I m \<Longrightarrow> (\<And>x. holds I (f x)) \<Longrightarrow> holds I (bind_act m f)"
  unfolding holds_def bind_act_def
proof (intro allI impI)
  fix s
  assume m: "\<forall>s. I s \<longrightarrow> I (fst (m s))" and f: "\<And>x. \<forall>s. I s \<longrightarrow> I (fst (f x s))" and s: "I s"
  from m s have "I (fst (m s))" by blast
  then show "I (fst (then_step (m s) f))"
    using f by (cases "(m s, f)" rule: then_step.cases) auto
qed

lemma holds_try [run_inv]: "holds I m \<Longrightarrow> holds I (try_act m)"
  unfolding holds_def try_act_def
proof (intro allI impI)
  fix s
  assume "\<forall>s. I s \<longrightarrow> I (fst (m s))" "I s"
  then have "I (fst (m s))" by blast
  then show "I (fst (catch_step (m s)))" by (cases "m s" rule: catch_step.cases) auto
qed

lemma holds_if [run_inv]: "(b \<Longrightarrow> holds I m) \<Longrightarrow> (\<not> b \<Longrightarrow> holds I n) \<Longrightarrow> holds I (if b then m else n)"
  by simp

lemma holds_option [run_inv]:
  "(v = None \<Longrightarrow> holds I n) \<Longrightarrow> (\<And>x. v = Some x \<Longrightarrow> holds I (f x)) \<Longrightarrow>
   holds I (case v of None \<Rightarrow> n | Some x \<Rightarrow> f x)"
  by (cases v) simp_all

lemma holds_sum [run_inv]:
  "(\<And>x. holds I (f x)) \<Longrightarrow> (\<And>x. holds I (g x)) \<Longrightarrow> holds I (case v of Inl x \<Rightarrow> f x | Inr x \<Rightarrow> g x)"
  by (cases v) simp_all

lemma holds_prod [run_inv]: "(\<And>x y. holds I (f x y)) \<Longrightarrow> holds I (case v of (x, y) \<Rightarrow> f x y)"
  by (cases v) simp_all

end
