(* ===== verification/Worker_Chapter.thy ===== *)
theory Worker_Chapter
  imports Worker_Step Toy_Schedule
begin

text \<open>
  What the worker runner of \<^verbatim>\<open>pkg/workflow\<close> reads and writes: the metadata of a chapter
  (\<^verbatim>\<open>worker_envelope.go\<close>), chapters as task data and back (\<^verbatim>\<open>worker_runtime_support.go\<close>), and the
  interfaces it is given. \<^verbatim>\<open>WorkflowRuntime\<close>, \<^verbatim>\<open>ExecutionLease\<close> and the clock are records of the
  operations that the runner calls, over any state of the world \<open>'w\<close>, as the Go interfaces are; reading
  an artifact reads the world at the moment at which the artifact is made. The helpers that
  \<^verbatim>\<open>pkg/workflow\<close> repeats from \<^verbatim>\<open>pkg/jobdb\<close> (retry policies, error payloads, the wire form of
  bodies and metadata) are the definitions made for that package; pointers to error values behave as
  the values, so \<^verbatim>\<open>normalizeComparableError\<close> is the identity.
\<close>

section \<open>Chapter metadata\<close>

record workerMeta =
  wm_Version :: int
  wm_Ordinal :: int
  wm_TaskType :: string
  wm_WorkerID :: string
  wm_CreatedAt :: go_time
  wm_StartedAt :: "go_time option"
  wm_FinishedAt :: "go_time option"
  wm_InputHash :: string
  wm_Input :: raw
  wm_Attempt :: int
  wm_MaxAttempts :: int
  wm_NextAttemptAt :: "go_time option"
  wm_BackoffMillis :: int
  wm_Retryable :: "bool option"
  wm_InputRef :: "InputReference option"
  wm_RunPolicy :: "RunPolicy option"
  wm_Prerequisites :: "JobPrerequisite list"

definition zero_workerMeta :: workerMeta where
  "zero_workerMeta =
     \<lparr>wm_Version = 0, wm_Ordinal = 0, wm_TaskType = [], wm_WorkerID = [], wm_CreatedAt = 0,
      wm_StartedAt = None, wm_FinishedAt = None, wm_InputHash = [], wm_Input = Text [], wm_Attempt = 0,
      wm_MaxAttempts = 0, wm_NextAttemptAt = None, wm_BackoffMillis = 0, wm_Retryable = None,
      wm_InputRef = None, wm_RunPolicy = None, wm_Prerequisites = []\<rparr>"

definition omit_none :: "('a \<Rightarrow> json) \<Rightarrow> string \<Rightarrow> 'a option \<Rightarrow> json gomap" where
  "omit_none enc k v = (case v of None \<Rightarrow> [] | Some x \<Rightarrow> [(k, enc x)])"

text \<open>A raw message as a field: what is not JSON makes \<^verbatim>\<open>json.Marshal\<close> fail.\<close>

definition raw_json :: "raw \<Rightarrow> json res" where
  "raw_json r = (case r of Json j \<Rightarrow> Inr j | Text _ \<Rightarrow> Inl (Errorf ''json: error calling MarshalJSON''))"

definition meta_fields :: "workerMeta \<Rightarrow> json gomap \<Rightarrow> json gomap" where
  "meta_fields m input =
     [(''version'', JInt (wm_Version m)), (''ordinal'', JInt (wm_Ordinal m)),
      (''task_type'', JStr (wm_TaskType m)), (''worker_id'', JStr (wm_WorkerID m)),
      (''created_at'', JTime (wm_CreatedAt m))] @
     omit_none JTime ''started_at'' (wm_StartedAt m) @
     omit_none JTime ''finished_at'' (wm_FinishedAt m) @
     [(''input_hash'', JStr (wm_InputHash m))] @ input @
     omit_if (wm_Attempt m = 0) ''attempt'' (JInt (wm_Attempt m)) @
     omit_if (wm_MaxAttempts m = 0) ''max_attempts'' (JInt (wm_MaxAttempts m)) @
     omit_none JTime ''next_attempt_at'' (wm_NextAttemptAt m) @
     omit_if (wm_BackoffMillis m = 0) ''backoff_ms'' (JInt (wm_BackoffMillis m)) @
     omit_none JBool ''retryable'' (wm_Retryable m) @
     omit_none enc_InputReference ''input_ref'' (wm_InputRef m) @
     omit_none enc_RunPolicy ''run_policy'' (wm_RunPolicy m) @
     omit_if (wm_Prerequisites m = []) ''prereqs'' (JArr (map enc_JobPrerequisite (wm_Prerequisites m)))"

definition enc_workerMeta :: "workerMeta \<Rightarrow> json gomap res" where
  "enc_workerMeta m =
     (if raw_len0 (wm_Input m) then Inr (meta_fields m [])
      else (case raw_json (wm_Input m) of Inl e \<Rightarrow> Inl e | Inr j \<Rightarrow> Inr (meta_fields m [(''input'', j)])))"

text \<open>Decoding into a struct that already holds values: a missing field or \<open>null\<close> keeps them.\<close>

definition dec_keep :: "'a \<Rightarrow> (json option \<Rightarrow> 'a option) \<Rightarrow> json option \<Rightarrow> 'a option" where
  "dec_keep d dec v = (case v of None \<Rightarrow> Some d | Some JNull \<Rightarrow> Some d | Some j \<Rightarrow> dec (Some j))"

definition dec_workerMeta :: "workerMeta \<Rightarrow> json gomap \<Rightarrow> workerMeta option" where
  "dec_workerMeta d m =
     (case (dec_keep (wm_Version d) dec_int64 (jfield ''version'' m),
            dec_keep (wm_Ordinal d) dec_int64 (jfield ''ordinal'' m),
            dec_keep (wm_TaskType d) dec_string (jfield ''task_type'' m),
            dec_string (jfield ''worker_id'' m),
            dec_keep (wm_CreatedAt d) dec_time (jfield ''created_at'' m),
            dec_ptr dec_time (jfield ''started_at'' m),
            dec_ptr dec_time (jfield ''finished_at'' m),
            dec_keep (wm_InputHash d) dec_string (jfield ''input_hash'' m)) of
        (Some version, Some ordinal, Some taskType, Some workerID, Some createdAt, Some startedAt,
         Some finishedAt, Some inputHash) \<Rightarrow>
          (case (dec_int64 (jfield ''attempt'' m), dec_int64 (jfield ''max_attempts'' m),
                 dec_ptr dec_time (jfield ''next_attempt_at'' m), dec_int64 (jfield ''backoff_ms'' m),
                 dec_ptr dec_bool (jfield ''retryable'' m), dec_ptr dec_InputReference (jfield ''input_ref'' m),
                 dec_ptr dec_RunPolicy (jfield ''run_policy'' m),
                 dec_slice dec_JobPrerequisite (jfield ''prereqs'' m)) of
             (Some attempt, Some maxAttempts, Some nextAttemptAt, Some backoff, Some retryable, Some inputRef,
              Some runPolicy, Some prereqs) \<Rightarrow>
               Some \<lparr>wm_Version = version, wm_Ordinal = ordinal, wm_TaskType = taskType,
                 wm_WorkerID = workerID, wm_CreatedAt = createdAt, wm_StartedAt = startedAt,
                 wm_FinishedAt = finishedAt, wm_InputHash = inputHash,
                 wm_Input = (case jfield ''input'' m of None \<Rightarrow> Text [] | Some j \<Rightarrow> Json j),
                 wm_Attempt = attempt, wm_MaxAttempts = maxAttempts, wm_NextAttemptAt = nextAttemptAt,
                 wm_BackoffMillis = backoff, wm_Retryable = retryable, wm_InputRef = inputRef,
                 wm_RunPolicy = runPolicy,
                 wm_Prerequisites = (case prereqs of None \<Rightarrow> [] | Some ps \<Rightarrow> ps)\<rparr>
           | _ \<Rightarrow> None)
      | _ \<Rightarrow> None)"

definition envelopeVersion :: int where "envelopeVersion = 1"

definition meta_defaults :: "Chapter \<Rightarrow> workerMeta \<Rightarrow> workerMeta" where
  "meta_defaults c m =
     m\<lparr>wm_Version := (if wm_Version m = 0 then envelopeVersion else wm_Version m),
       wm_Ordinal := (if wm_Ordinal m = 0 then ch_Ordinal c else wm_Ordinal m),
       wm_TaskType := (if wm_TaskType m = [] then ch_TaskType c else wm_TaskType m),
       wm_CreatedAt := (if wm_CreatedAt m = 0 then ch_CreatedAt c else wm_CreatedAt m),
       wm_InputHash := (if wm_InputHash m = [] then ch_InputHash c else wm_InputHash m)\<rparr>"

definition workerMetaFromChapter :: "Chapter \<Rightarrow> workerMeta res" where
  "workerMetaFromChapter c =
     (let meta = zero_workerMeta\<lparr>wm_Version := envelopeVersion, wm_Ordinal := ch_Ordinal c,
                   wm_TaskType := ch_TaskType c, wm_CreatedAt := ch_CreatedAt c,
                   wm_InputHash := ch_InputHash c\<rparr>
      in case ChapterMetadataToJSON (ch_Metadata c) of
           Inl e \<Rightarrow> Inl (Wrap ''encode chapter metadata'' e)
         | Inr r \<Rightarrow>
             if raw_len0 r then Inr (meta_defaults c meta)
             else
               (case raw_key_map r of
                  None \<Rightarrow> Inl (Wrap ''decode chapter metadata'' unmarshal_error)
                | Some m \<Rightarrow>
                    (case dec_workerMeta meta m of
                       None \<Rightarrow> Inl (Wrap ''decode chapter metadata'' unmarshal_error)
                     | Some meta \<Rightarrow> Inr (meta_defaults c meta))))"

definition metaStartAt :: "workerMeta \<Rightarrow> go_time" where
  "metaStartAt meta = (case wm_StartedAt meta of Some t \<Rightarrow> t | None \<Rightarrow> wm_CreatedAt meta)"

definition metaEndAt :: "workerMeta \<Rightarrow> go_time" where
  "metaEndAt meta = (case wm_FinishedAt meta of Some t \<Rightarrow> t | None \<Rightarrow> wm_CreatedAt meta)"

section \<open>The interfaces\<close>

text \<open>\<^verbatim>\<open>JobInfo\<close> as the runner reads it.\<close>

record RuntimeJobInfo =
  rj_Status :: JobStatus
  rj_Data :: "TaskData option"

record 'w WorkflowRuntime =
  rt_GetChapter :: "JobKey \<Rightarrow> int \<Rightarrow> ('w, Chapter) op"
  rt_GetJob :: "JobKey \<Rightarrow> ('w, RuntimeJobInfo) op"
  rt_PutChapter :: "PutChapterRequest \<Rightarrow> ('w, unit) op"
  rt_OpenArtifact :: "JobKey \<Rightarrow> int \<Rightarrow> string \<Rightarrow> 'w \<Rightarrow> string res"

record 'w ExecutionLease =
  le_LeaseID :: string
  le_JobKey :: JobKey
  le_Capability :: string
  le_Payload :: raw
  le_KeepAlive :: "('w, unit) op"
  le_Complete :: "CompleteExecutionRequest \<Rightarrow> ('w, unit) op"
  le_Reschedule :: "RescheduleExecutionRequest \<Rightarrow> ('w, unit) op"
  le_SubmitJob :: "SubmitJob \<Rightarrow> ('w, JobKey) op"
  le_SubmitRestartJob :: "SubmitRestartJob \<Rightarrow> ('w, JobKey) op"

text \<open>
  The clock: its readings, a sleep of some duration (which the end of the context interrupts with its
  error), and whether the timer set for a deadline fires before the worker takes its next step.
\<close>

record 'w Clock =
  ck_Now :: "'w \<Rightarrow> 'w \<times> go_time"
  ck_Sleep :: "duration \<Rightarrow> ('w, unit) op"
  ck_Fires :: "go_time \<Rightarrow> 'w \<Rightarrow> 'w \<times> bool"

section \<open>Chapters as task data\<close>

text \<open>\<^verbatim>\<open>runtimeBackedArtifact\<close>: opened through the runtime, with the stored digest.\<close>

definition newRuntimeBackedArtifact ::
  "'w WorkflowRuntime \<Rightarrow> JobKey \<Rightarrow> int \<Rightarrow> 'w \<Rightarrow> StoredArtifact \<Rightarrow> Artifact" where
  "newRuntimeBackedArtifact rt jobKey ordinal w a =
     \<lparr>art_Name = sa_Name a, art_Size = sa_Size a,
      art_Content = rt_OpenArtifact rt jobKey ordinal (sa_Name a) w,
      art_Digest = (if sa_Digest a \<noteq> [] then Some (sa_Digest a) else None)\<rparr>"

definition chapterToTaskData ::
  "Env \<Rightarrow> 'w WorkflowRuntime \<Rightarrow> JobKey \<Rightarrow> Chapter \<Rightarrow> 'w \<Rightarrow> TaskData option \<times> go_error option" where
  "chapterToTaskData env rt jobKey c w =
     (let artifacts = map (newRuntimeBackedArtifact rt jobKey (ch_Ordinal c) w) (ch_Artifacts c)
      in case ChapterPayload c of
           Inl e \<Rightarrow> (None, Some e)
         | Inr (kind, d) \<Rightarrow>
             (let td = EnvelopedTaskData d artifacts kind in
              if kind = payloadKindApp then (Some td, None)
              else if kind = payloadKindTimeout then
                (Some td, case dec_TimeoutPayload d of None \<Rightarrow> Some unmarshal_error | Some p \<Rightarrow> Some (TimeoutError p))
              else if kind = payloadKindAppError then
                (Some td,
                 case dec_AppErrorPayload d of
                   None \<Rightarrow> Some unmarshal_error
                 | Some p \<Rightarrow>
                     (case decodeJobFailedAppError (parse_duration env) p of
                        Some e \<Rightarrow> Some e | None \<Rightarrow> Some (AppError p)))
              else if kind = payloadKindSystemError then
                (Some td, case dec_SystemErrorPayload d of None \<Rightarrow> Some unmarshal_error | Some p \<Rightarrow> Some (SystemError p))
              else (Some td, Some (Errorf ''unsupported payload kind''))))"

text \<open>The pair as the result that the callers look at: the error first.\<close>

definition data_or_error :: "TaskData option \<times> go_error option \<Rightarrow> TaskData option res" where
  "data_or_error p = (case snd p of Some e \<Rightarrow> Inl e | None \<Rightarrow> Inr (fst p))"

definition computeInputHash :: "Env \<Rightarrow> TaskData option \<Rightarrow> string res" where
  "computeInputHash env d =
     (case d of
        None \<Rightarrow> Inl (Errorf ''task data is required for hashing'')
      | Some td \<Rightarrow>
          (case td_GetData td of
             Inl e \<Rightarrow> Inl e
           | Inr r \<Rightarrow>
               (case td_GetArtifacts td of
                  Inl e \<Rightarrow> Inl e
                | Inr as \<Rightarrow>
                    (case artifact_parts env as of
                       Inl e \<Rightarrow> Inl e | Inr ps \<Rightarrow> Inr (InputSha256 env r (sort ps))))))"

fun artifactUploadsForChapterWrite :: "Env \<Rightarrow> Artifact list \<Rightarrow> (ArtifactUpload list \<times> StoredArtifact list) res" where
  "artifactUploadsForChapterWrite env [] = Inr ([], [])"
| "artifactUploadsForChapterWrite env (a # as) =
     (if art_Name a = [] then Inl (Errorf ''artifact is missing name'')
      else
        (case Artifact_Sha256 env a of
           Inl e \<Rightarrow> Inl (Wrap ''artifact sha256'' e)
         | Inr digest \<Rightarrow>
             if digest = [] then Inl (Errorf ''artifact sha256 is empty'')
             else
               (case artifactUploadsForChapterWrite env as of
                  Inl e \<Rightarrow> Inl e
                | Inr (us, ss) \<Rightarrow>
                    Inr (\<lparr>up_Name = art_Name a, up_Open = Some (art_Content a)\<rparr> # us,
                         \<lparr>sa_Name = art_Name a, sa_Digest = digest, sa_Size = art_Size a\<rparr> # ss))))"

fun validateOutputArtifacts :: "Env \<Rightarrow> Artifact list \<Rightarrow> string list res" where
  "validateOutputArtifacts env [] = Inr []"
| "validateOutputArtifacts env (a # as) =
     (if art_Name a = [] then Inl (Errorf ''artifact is missing name'')
      else
        (case Artifact_Sha256 env a of
           Inl e \<Rightarrow> Inl (Wrap ''artifact sha256'' e)
         | Inr digest \<Rightarrow>
             if digest = [] then Inl (Errorf ''artifact sha256 is empty'')
             else
               (case validateOutputArtifacts env as of Inl e \<Rightarrow> Inl e | Inr ds \<Rightarrow> Inr (digest # ds))))"

definition prepareTaskDataChapterWrite ::
  "Env \<Rightarrow> int \<Rightarrow> string \<Rightarrow> string \<Rightarrow> string \<Rightarrow> string \<Rightarrow> go_time \<Rightarrow> workerMeta \<Rightarrow> raw \<Rightarrow> Artifact list
   \<Rightarrow> (Chapter \<times> ArtifactUpload list) res" where
  "prepareTaskDataChapterWrite env ordinal taskType chapterType payloadKind inputHash createdAt meta payload artifacts =
     (case artifactUploadsForChapterWrite env artifacts of
        Inl e \<Rightarrow> Inl e
      | Inr (uploads, storedArtifacts) \<Rightarrow>
          (let meta = meta\<lparr>wm_Version := envelopeVersion, wm_Ordinal := ordinal, wm_TaskType := taskType,
                        wm_CreatedAt := (if wm_CreatedAt meta = 0 then createdAt else wm_CreatedAt meta),
                        wm_InputHash := (if wm_InputHash meta = [] then inputHash else wm_InputHash meta)\<rparr>
           in case enc_workerMeta meta of
                Inl e \<Rightarrow> Inl e
              | Inr metaJSON \<Rightarrow>
                  (case ChapterMetadataFromJSON (Json (JObj metaJSON)) of
                     Inl e \<Rightarrow> Inl e
                   | Inr metadata \<Rightarrow>
                       (case ChapterBodyFromWire chapterType payloadKind payload of
                          Inl e \<Rightarrow> Inl e
                        | Inr body \<Rightarrow>
                            Inr (\<lparr>ch_Ordinal = ordinal, ch_TaskType = taskType, ch_Body = Some body,
                                  ch_InputHash = inputHash, ch_CreatedAt = createdAt, ch_Metadata = metadata,
                                  ch_Artifacts = storedArtifacts\<rparr>, uploads)))))"

text \<open>\<^verbatim>\<open>persistTaskDataChapter\<close>; only an application output is read back.\<close>

definition persistTaskDataChapter ::
  "Env \<Rightarrow> 'w WorkflowRuntime \<Rightarrow> 'w ExecutionLease option \<Rightarrow> JobKey \<Rightarrow> int \<Rightarrow> string \<Rightarrow> string \<Rightarrow> string \<Rightarrow> string
   \<Rightarrow> go_time \<Rightarrow> workerMeta \<Rightarrow> raw \<Rightarrow> Artifact list \<Rightarrow> ('w, TaskData option) op" where
  "persistTaskDataChapter env rt lease jobKey ordinal taskType chapterType payloadKind inputHash createdAt meta
     payload artifacts =
     (case lease of
        None \<Rightarrow> fail_op (Errorf ''lease is required'')
      | Some l \<Rightarrow>
          bind_op (lift_op (prepareTaskDataChapterWrite env ordinal taskType chapterType payloadKind inputHash
            createdAt meta payload artifacts)) (\<lambda>(chapter, uploads).
          bind_op (rt_PutChapter rt \<lparr>pc_LeaseID = le_LeaseID l, pc_JobKey = jobKey, pc_Ordinal = ordinal,
            pc_Chapter = chapter, pc_Uploads = uploads\<rparr>) (\<lambda>_.
            if payloadKind \<noteq> payloadKindApp then ret_op None
            else read_op (\<lambda>w. data_or_error (chapterToTaskData env rt jobKey chapter w)))))"

section \<open>Capabilities and completion\<close>

definition workerCapability :: "string \<Rightarrow> string \<Rightarrow> string" where
  "workerCapability jobType taskType = (if taskType = [] then jobType else jobType @ '':'' @ taskType)"

definition taskTypeFromCapability :: "string \<Rightarrow> string" where
  "taskTypeFromCapability capability =
     (if CHR '':'' \<in> set capability then tl (dropWhile (\<lambda>c. c \<noteq> CHR '':'') capability) else capability)"

text \<open>\<^verbatim>\<open>JobTypeFromNextNeed\<close>: what stands before the first colon, unless that is nothing.\<close>

definition JobTypeFromNextNeed :: "string \<Rightarrow> string" where
  "JobTypeFromNextNeed nextNeed =
     (let jobType = takeWhile (\<lambda>c. c \<noteq> CHR '':'') nextNeed in if jobType = [] then nextNeed else jobType)"

definition messageOrFallback :: "string \<Rightarrow> go_error option \<Rightarrow> string" where
  "messageOrFallback message err =
     (if message \<noteq> [] then message else (case err of Some e \<Rightarrow> error_message e | None \<Rightarrow> []))"

definition completionStatusAndDetail :: "go_error option \<Rightarrow> string \<times> string" where
  "completionStatusAndDetail err =
     (case err of
        None \<Rightarrow> (''success'', [])
      | Some e \<Rightarrow>
          if errors_is e ErrJobCancelled \<or> errors_is e ContextCanceled then (''cancelled'', error_message e)
          else
            (case errors_as_timeout e of
               Some p \<Rightarrow> (''failed_timeout'', messageOrFallback (to_Message p) err)
             | None \<Rightarrow>
                 (case errors_as_app e of
                    Some p \<Rightarrow> (''failed_app'', messageOrFallback (app_Message p) err)
                  | None \<Rightarrow>
                      (case errors_as_system e of
                         Some p \<Rightarrow> (''failed_system'', messageOrFallback (sys_Message p) err)
                       | None \<Rightarrow> (''failed_system'', messageOrFallback [] err)))))"

definition TimeoutScopeInvocation :: string where "TimeoutScopeInvocation = ''invocation''"
definition TimeoutScopeTotal :: string where "TimeoutScopeTotal = ''total''"

definition NewTimeoutError :: "Env \<Rightarrow> string \<Rightarrow> duration \<Rightarrow> string \<Rightarrow> InputReference option \<Rightarrow> bool \<Rightarrow> go_error" where
  "NewTimeoutError env kind after scope inputRef retryable =
     TimeoutError \<lparr>to_Scope = scope, to_After = after, to_Retryable = retryable, to_InputRef = inputRef,
       to_Kind = kind, to_Component = ''runner'', to_Code = ''timeout_'' @ scope,
       to_Message = kind @ '' '' @ scope @ '' timed out after '' @ fmt_duration env after\<rparr>"

definition panicToAppError :: "string \<Rightarrow> go_error" where
  "panicToAppError rec =
     AppError \<lparr>app_Message = ''panic: '' @ rec, app_Level = ''error'', app_Attrs = [], app_InputRef = None,
       app_Stacktrace = []\<rparr>"

definition newPrereqFailedError :: "string \<Rightarrow> go_error" where
  "newPrereqFailedError message =
     PrereqFailed \<lparr>app_Message = message, app_Level = ''error'', app_Attrs = [], app_InputRef = None,
       app_Stacktrace = []\<rparr>"

fun miss_self :: "go_error \<Rightarrow> ReplayCacheMissError option" where
  "miss_self (ReplayCacheMiss m) = Some m"
| "miss_self _ = None"

definition isReplayCacheMiss :: "go_error \<Rightarrow> bool" where
  "isReplayCacheMiss e \<longleftrightarrow> first_some miss_self (error_chain e) \<noteq> None"

end
