(* ===== verification/Worker_Runner.thy ===== *)
theory Worker_Runner
  imports Worker_Chapter
begin

text \<open>
  The worker runner, \<^verbatim>\<open>pkg/workflow/worker_runner.go\<close>. User code is a program: a tree whose nodes are
  the calls it makes on its context, each with the continuation that receives the answer, so that any
  deterministic worker is one. The runner's fields are two records, the fixed ones (\<open>workerRunner\<close>) and
  those that change (\<open>run\<close>, with the state of the world and the events given to the observer). A retry
  loop takes fuel. While a worker runs in its goroutine, its timer may fire before each of its calls; the
  goroutine that a timeout leaves behind makes no further calls here.
\<close>

section \<open>Workers and the runner\<close>

datatype task_program =
    TReturn "TaskData option" "go_error option"
  | TPanic string
  | TAwaitDuration duration "go_error option \<Rightarrow> task_program"
  | TAwaitJobs "string list" "go_error option \<Rightarrow> task_program"
  | TSubmitJob SubmitJob "JobKey res \<Rightarrow> task_program"
  | TSubmitRestartJob SubmitRestartJob "JobKey res \<Rightarrow> task_program"

datatype job_program =
    JReturn "TaskData option" "go_error option"
  | JPanic string
  | JDoTask RunPolicy string "TaskData option" "TaskData option res \<Rightarrow> job_program"
  | JAwaitDuration duration "go_error option \<Rightarrow> job_program"
  | JAwaitJobs "string list" "go_error option \<Rightarrow> job_program"
  | JSubmitJob SubmitJob "JobKey res \<Rightarrow> job_program"
  | JSubmitRestartJob SubmitRestartJob "JobKey res \<Rightarrow> job_program"

text \<open>A worker receives the job's key, a task worker also the step it runs as.\<close>

record WorkSet =
  ws_JobType :: string
  ws_Run :: "JobKey \<Rightarrow> TaskData option \<Rightarrow> job_program"
  ws_TaskWorkers :: "string \<rightharpoonup> (JobKey \<Rightarrow> int \<Rightarrow> TaskData option \<Rightarrow> task_program)"

text \<open>The events of \<^verbatim>\<open>ReplayObserver\<close>; the job key, which never changes, is left out.\<close>

datatype ReplayEvent =
    JobStartEvent int "TaskData option" go_time
  | TaskStartEvent string int int "TaskData option" go_time
  | TaskEndEvent string int int "TaskData option" "go_error option" go_time
  | JobEndEvent int "TaskData option" "go_error option" go_time

record 'w workerRunner =
  wr_runtime :: "'w WorkflowRuntime"
  wr_worker :: WorkSet
  wr_lease :: "'w ExecutionLease option"
  wr_clock :: "'w Clock"
  wr_env :: Env
  wr_scale :: "duration \<Rightarrow> rat \<Rightarrow> int \<Rightarrow> duration"
  wr_replay :: bool
  wr_awaitThreshold :: duration
  wr_jobKey :: JobKey
  wr_storeInput :: bool

record 'w run =
  world :: 'w
  jobPolicy :: RunPolicy
  storyCounter :: int
  currentInvocationDeadline :: go_time
  currentTotalDeadline :: go_time
  currentInvocationLimit :: duration
  currentTotalLimit :: duration
  currentInputRef :: "InputReference option"
  currentKind :: string
  currentJobAttemptStartAt :: go_time
  lastTaskEndAt :: "go_time option"
  rescheduled :: bool
  events :: "ReplayEvent list"

definition newWorkerRunner :: "'w \<Rightarrow> RunPolicy \<Rightarrow> 'w run" where
  "newWorkerRunner w policy =
     \<lparr>world = w, jobPolicy = normalizeRunPolicy policy, storyCounter = 1,
      currentInvocationDeadline = 0, currentTotalDeadline = 0, currentInvocationLimit = 0,
      currentTotalLimit = 0, currentInputRef = None, currentKind = [], currentJobAttemptStartAt = 0,
      lastTaskEndAt = None, rescheduled = False, events = []\<rparr>"

type_synonym ('w, 'a) run_act = "('w run, 'a) act"

text \<open>An operation of the world as a step of the run.\<close>

definition world_op :: "('w, 'a) op \<Rightarrow> ('w, 'a) run_act" where
  "world_op m s =
     (case m (world s) of (w, r) \<Rightarrow> (s\<lparr>world := w\<rparr>, case r of Inl e \<Rightarrow> Fail e | Inr x \<Rightarrow> Done x))"

definition read_clock :: "'w workerRunner \<Rightarrow> ('w, go_time) run_act" where
  "read_clock r s = (case ck_Now (wr_clock r) (world s) of (w, t) \<Rightarrow> (s\<lparr>world := w\<rparr>, Done t))"

definition markStoryOrdinalConsumed :: "int \<Rightarrow> 'w run \<Rightarrow> 'w run" where
  "markStoryOrdinalConsumed ordinal s =
     (if storyCounter s \<le> ordinal then s\<lparr>storyCounter := ordinal + 1\<rparr> else s)"

definition emit :: "ReplayEvent \<Rightarrow> 'w run \<Rightarrow> 'w run" where
  "emit e s = s\<lparr>events := events s @ [e]\<rparr>"

definition emitTaskEnd ::
  "string \<Rightarrow> int \<Rightarrow> int \<Rightarrow> TaskData option \<Rightarrow> go_error option \<Rightarrow> go_time \<Rightarrow> 'w run \<Rightarrow> 'w run" where
  "emitTaskEnd taskType ordinal attempt output err t s =
     emit (TaskEndEvent taskType ordinal attempt output err t) (s\<lparr>lastTaskEndAt := Some t\<rparr>)"

definition fallbackTaskTime :: "'w workerRunner \<Rightarrow> ('w, go_time) run_act" where
  "fallbackTaskTime r =
     bind_act (read_act (\<lambda>s. (lastTaskEndAt s, currentJobAttemptStartAt s))) (\<lambda>(last1, start).
       case last1 of
         Some t \<Rightarrow> ret_act t
       | None \<Rightarrow> if start \<noteq> 0 then ret_act start else read_clock r)"

definition getChapter :: "'w workerRunner \<Rightarrow> int \<Rightarrow> ('w, Chapter \<times> workerMeta) run_act" where
  "getChapter r ordinal =
     bind_act (world_op (rt_GetChapter (wr_runtime r) (wr_jobKey r) ordinal)) (\<lambda>chapter.
     bind_act (lift_act (workerMetaFromChapter chapter)) (\<lambda>meta. ret_act (chapter, meta)))"

definition to_task_data :: "'w workerRunner \<Rightarrow> Chapter \<Rightarrow> ('w, TaskData option) run_act" where
  "to_task_data r chapter =
     world_op (read_op (\<lambda>w. data_or_error (chapterToTaskData (wr_env r) (wr_runtime r) (wr_jobKey r) chapter w)))"

definition taskTotalDeadline :: "'w workerRunner \<Rightarrow> int \<Rightarrow> duration \<Rightarrow> ('w, go_time) run_act" where
  "taskTotalDeadline r ordinal totalTimeout =
     (if totalTimeout \<le> 0 then ret_act 0
      else
        bind_act (getChapter r (if ordinal - 1 < 0 then 0 else ordinal - 1)) (\<lambda>(_, meta).
          ret_act (wm_CreatedAt meta + totalTimeout)))"

definition jobTotalDeadline :: "workerMeta \<Rightarrow> duration \<Rightarrow> go_time" where
  "jobTotalDeadline meta totalTimeout = (if totalTimeout \<le> 0 then 0 else wm_CreatedAt meta + totalTimeout)"

section \<open>Waiting and child jobs\<close>

text \<open>Leaving the job: \<^verbatim>\<open>Reschedule\<close>, then \<^verbatim>\<open>prematureCloseOut\<close>, also when the lease was lost.\<close>

definition leave_job ::
  "'w ExecutionLease \<Rightarrow> RescheduleExecutionRequest \<Rightarrow> (go_error \<Rightarrow> go_error) \<Rightarrow> ('w, 'a) run_act" where
  "leave_job l req wrap =
     bind_act (try_act (world_op (le_Reschedule l req))) (\<lambda>x.
       case x of
         Inl e \<Rightarrow>
           if IsExecutionLeaseLost e
           then bind_act (write_act (\<lambda>s. s\<lparr>rescheduled := True\<rparr>)) (\<lambda>_. exit_act)
           else fail_act (wrap e)
       | Inr _ \<Rightarrow> bind_act (write_act (\<lambda>s. s\<lparr>rescheduled := True\<rparr>)) (\<lambda>_. exit_act))"

definition past :: "go_time \<Rightarrow> go_time \<Rightarrow> bool" where
  "past deadline t \<longleftrightarrow> deadline \<noteq> 0 \<and> deadline < t"

definition reached :: "go_time \<Rightarrow> go_time \<Rightarrow> bool" where
  "reached deadline t \<longleftrightarrow> deadline \<noteq> 0 \<and> (deadline < t \<or> t = deadline)"

text \<open>The arguments of \<^verbatim>\<open>awaitUntil\<close> that a task or a job attempt fixes.\<close>

record wait_context =
  wc_ordinal :: int
  wc_attempt :: int
  wc_kind :: string
  wc_inputRef :: "InputReference option"
  wc_invocationDeadline :: go_time
  wc_totalDeadline :: go_time
  wc_invocationLimit :: duration
  wc_totalLimit :: duration

definition total_timeout :: "'w workerRunner \<Rightarrow> wait_context \<Rightarrow> go_error" where
  "total_timeout r c =
     NewTimeoutError (wr_env r) (wc_kind c) (wc_totalLimit c) TimeoutScopeTotal (wc_inputRef c) False"

definition invocation_timeout :: "'w workerRunner \<Rightarrow> wait_context \<Rightarrow> go_error" where
  "invocation_timeout r c =
     NewTimeoutError (wr_env r) (wc_kind c) (wc_invocationLimit c) TimeoutScopeInvocation (wc_inputRef c) True"

definition cap_wake :: "wait_context \<Rightarrow> go_time \<Rightarrow> go_time" where
  "cap_wake c wakeAt =
     (let wakeAt = (if wc_totalDeadline c \<noteq> 0 \<and> wc_totalDeadline c < wakeAt then wc_totalDeadline c else wakeAt)
      in if wc_invocationDeadline c \<noteq> 0 \<and> wc_invocationDeadline c < wakeAt then wc_invocationDeadline c
         else wakeAt)"

definition awaitUntil :: "'w workerRunner \<Rightarrow> go_time \<Rightarrow> wait_context \<Rightarrow> ('w, unit) run_act" where
  "awaitUntil r wakeAt c =
     bind_act (read_clock r) (\<lambda>t.
       if past (wc_totalDeadline c) t then fail_act (total_timeout r c)
       else if past (wc_invocationDeadline c) t then fail_act (invocation_timeout r c)
       else
         (let wakeAt = cap_wake c wakeAt in
          if wakeAt = 0 \<or> wakeAt \<le> t then ret_act ()
          else if wr_replay r then
            fail_act (ReplayCacheMiss \<lparr>miss_JobKey = wr_jobKey r, miss_TaskType = [],
              miss_Ordinal = wc_ordinal c, miss_Attempt = wc_attempt c,
              miss_Reason = ReplayCacheMissAwaitNotReady\<rparr>)
          else
            bind_act (read_clock r) (\<lambda>t2.
              (let wait = wakeAt - t2;
                   threshold = (if wr_awaitThreshold r \<le> 0 then 5 * minute else wr_awaitThreshold r);
                   sleep_inline =
                     bind_act (world_op (ck_Sleep (wr_clock r) wait)) (\<lambda>_.
                     bind_act (read_clock r) (\<lambda>t3.
                       if reached (wc_totalDeadline c) t3 then fail_act (total_timeout r c)
                       else if reached (wc_invocationDeadline c) t3 then fail_act (invocation_timeout r c)
                       else ret_act ()))
               in case wr_lease r of
                    None \<Rightarrow> sleep_inline
                  | Some l \<Rightarrow>
                      if threshold < wait
                      then leave_job l \<lparr>re_NextNeed = le_Capability l, re_WaitUntil = Some wakeAt,
                             re_WaitForJobIDs = [], re_Payload = le_Payload l, re_AlternateNeed = [],
                             re_AlternateAfter = None\<rparr> (\<lambda>e. e)
                      else sleep_inline))))"

fun awaitJobsComplete :: "'w workerRunner \<Rightarrow> string list \<Rightarrow> ('w, bool) run_act" where
  "awaitJobsComplete r [] = ret_act True"
| "awaitJobsComplete r (i # is) =
     (if i = [] then fail_act (Errorf ''jobId cannot be empty'')
      else
        bind_act (try_act (world_op (rt_GetJob (wr_runtime r) (JobKey (TenantId (wr_jobKey r)) i)))) (\<lambda>x.
          case x of
            Inl e \<Rightarrow> if errors_is e ErrJobNotFound then awaitJobsComplete r is else fail_act e
          | Inr job \<Rightarrow>
              if rj_Status job \<noteq> Completed \<and> rj_Status job \<noteq> Cancelled then ret_act False
              else awaitJobsComplete r is))"

definition AwaitJobs :: "'w workerRunner \<Rightarrow> string list \<Rightarrow> ('w, unit) run_act" where
  "AwaitJobs r jobIds =
     (if jobIds = [] then fail_act (Errorf ''at least one jobId is required'')
      else
        bind_act (awaitJobsComplete r jobIds) (\<lambda>done1.
          if done1 then ret_act ()
          else if wr_replay r then
            bind_act (read_act storyCounter) (\<lambda>n.
              fail_act (ReplayCacheMiss \<lparr>miss_JobKey = wr_jobKey r, miss_TaskType = [], miss_Ordinal = n,
                miss_Attempt = 1, miss_Reason = ReplayCacheMissAwaitJobsPending\<rparr>))
          else
            (case wr_lease r of
               None \<Rightarrow> fail_act (Errorf ''awaiting jobs requires an execution lease'')
             | Some l \<Rightarrow>
                 leave_job l \<lparr>re_NextNeed = le_Capability l, re_WaitUntil = None, re_WaitForJobIDs = jobIds,
                   re_Payload = le_Payload l, re_AlternateNeed = [], re_AlternateAfter = None\<rparr> (\<lambda>e. e))))"

definition AwaitDuration :: "'w workerRunner \<Rightarrow> duration \<Rightarrow> ('w, unit) run_act" where
  "AwaitDuration r wait =
     (if wait \<le> 0 then ret_act ()
      else
        bind_act (read_clock r) (\<lambda>t.
        bind_act (read_act (\<lambda>s. \<lparr>wc_ordinal = storyCounter s, wc_attempt = 0,
          wc_kind = (if currentKind s = [] then ''task'' else currentKind s), wc_inputRef = currentInputRef s,
          wc_invocationDeadline = currentInvocationDeadline s, wc_totalDeadline = currentTotalDeadline s,
          wc_invocationLimit = currentInvocationLimit s, wc_totalLimit = currentTotalLimit s\<rparr>)) (\<lambda>c.
          awaitUntil r (t + wait) c)))"

definition runner_SubmitJob :: "'w workerRunner \<Rightarrow> SubmitJob \<Rightarrow> ('w, JobKey) run_act" where
  "runner_SubmitJob r submit =
     (case wr_lease r of
        Some l \<Rightarrow>
          if wr_replay r then fail_act (Errorf ''submitting jobs requires an active execution lease'')
          else
            world_op (le_SubmitJob l
              (if sj_TenantId submit = [] then submit\<lparr>sj_TenantId := TenantId (wr_jobKey r)\<rparr> else submit))
      | None \<Rightarrow> fail_act (Errorf ''submitting jobs requires an active execution lease''))"

definition runner_SubmitRestartJob :: "'w workerRunner \<Rightarrow> SubmitRestartJob \<Rightarrow> ('w, JobKey) run_act" where
  "runner_SubmitRestartJob r restart =
     (case wr_lease r of
        Some l \<Rightarrow>
          if wr_replay r then fail_act (Errorf ''submitting restart jobs requires an active execution lease'')
          else
            world_op (le_SubmitRestartJob l
              (if TenantId (sr_PriorJobKey restart) = []
               then restart\<lparr>sr_PriorJobKey := JobKey (TenantId (wr_jobKey r)) (JobId (sr_PriorJobKey restart))\<rparr>
               else restart))
      | None \<Rightarrow> fail_act (Errorf ''submitting restart jobs requires an active execution lease''))"

section \<open>Prerequisites\<close>

definition shouldCheckPrerequisites :: "'w workerRunner \<Rightarrow> bool" where
  "shouldCheckPrerequisites r \<longleftrightarrow> \<not> wr_replay r \<and> wr_lease r \<noteq> None"

definition prereq_failure :: "string \<Rightarrow> RuntimeJobInfo \<Rightarrow> go_error option" where
  "prereq_failure jobId job =
     (if rj_Status job \<noteq> Completed
      then Some (newPrereqFailedError (''prerequisite job '' @ jobId @ '' not completed''))
      else
        (case rj_Data job of
           None \<Rightarrow> Some (newPrereqFailedError (''prerequisite job '' @ jobId @ '' did not expose result data''))
         | Some d \<Rightarrow>
             (case td_GetData d of
                Inr _ \<Rightarrow> None
              | Inl err \<Rightarrow>
                  Some (newPrereqFailedError (''prerequisite job '' @ jobId @ '' did not succeed'' @
                    (if error_message err = [] then [] else '': '' @ error_message err))))))"

fun checkPrerequisites :: "'w workerRunner \<Rightarrow> JobPrerequisite list \<Rightarrow> ('w, unit) run_act" where
  "checkPrerequisites r [] = ret_act ()"
| "checkPrerequisites r (p # ps) =
     (if pre_Condition p \<noteq> JobPrereqSuccess then checkPrerequisites r ps
      else
        bind_act (try_act (world_op (rt_GetJob (wr_runtime r) (JobKey (TenantId (wr_jobKey r)) (pre_JobID p))))) (\<lambda>x.
          case x of
            Inl e \<Rightarrow> fail_act (Wrap ''check prerequisite job'' e)
          | Inr job \<Rightarrow>
              (case prereq_failure (pre_JobID p) job of
                 Some e \<Rightarrow> fail_act e
               | None \<Rightarrow> checkPrerequisites r ps)))"

section \<open>Running a worker in its goroutine\<close>

text \<open>Before each call the timer for the deadline may fire (never without a deadline).\<close>

definition timer_fires :: "'w workerRunner \<Rightarrow> go_time \<Rightarrow> ('w, bool) run_act" where
  "timer_fires r deadline s =
     (if deadline = 0 then (s, Done False)
      else (case ck_Fires (wr_clock r) deadline (world s) of (w, b) \<Rightarrow> (s\<lparr>world := w\<rparr>, Done b)))"

definition error_of :: "'a res \<Rightarrow> go_error option" where
  "error_of x = (case x of Inl e \<Rightarrow> Some e | Inr _ \<Rightarrow> None)"

definition unless_fired ::
  "'w workerRunner \<Rightarrow> go_time \<Rightarrow> go_error \<Rightarrow> ('w, TaskData option \<times> go_error option) run_act
   \<Rightarrow> ('w, TaskData option \<times> go_error option) run_act" where
  "unless_fired r deadline timeout m =
     bind_act (timer_fires r deadline) (\<lambda>b. if b then ret_act (None, Some timeout) else m)"

primrec run_task ::
  "'w workerRunner \<Rightarrow> wait_context \<Rightarrow> go_time \<Rightarrow> go_error \<Rightarrow> task_program
   \<Rightarrow> ('w, TaskData option \<times> go_error option) run_act" where
  "run_task r c deadline timeout (TReturn output err) =
     unless_fired r deadline timeout (ret_act (output, err))"
| "run_task r c deadline timeout (TPanic m) = unless_fired r deadline timeout (panic_act m)"
| "run_task r c deadline timeout (TAwaitDuration wait k) =
     unless_fired r deadline timeout
       (bind_act (try_act (if wait \<le> 0 then ret_act ()
                           else bind_act (read_clock r) (\<lambda>t. awaitUntil r (t + wait) c))) (\<lambda>x.
          run_task r c deadline timeout (k (error_of x))))"
| "run_task r c deadline timeout (TAwaitJobs ids k) =
     unless_fired r deadline timeout
       (bind_act (try_act (AwaitJobs r ids)) (\<lambda>x. run_task r c deadline timeout (k (error_of x))))"
| "run_task r c deadline timeout (TSubmitJob j k) =
     unless_fired r deadline timeout
       (bind_act (try_act (runner_SubmitJob r j)) (\<lambda>x. run_task r c deadline timeout (k x)))"
| "run_task r c deadline timeout (TSubmitRestartJob j k) =
     unless_fired r deadline timeout
       (bind_act (try_act (runner_SubmitRestartJob r j)) (\<lambda>x. run_task r c deadline timeout (k x)))"

text \<open>The deferred functions of the goroutine of a task: a panic becomes an error of the application.\<close>

fun recover_step :: "'s \<times> (TaskData option \<times> go_error option) step \<Rightarrow> 's \<times> (TaskData option \<times> go_error option) step" where
  "recover_step (s, Panic m) = (s, Done (None, Some (panicToAppError m)))"
| "recover_step p = p"

definition recover_act ::
  "('s, TaskData option \<times> go_error option) act \<Rightarrow> ('s, TaskData option \<times> go_error option) act" where
  "recover_act m s = recover_step (m s)"

text \<open>Those of a job: leaving the job also puts \<open>(nil, nil)\<close> on the result channel.\<close>

fun finish_step :: "'s \<times> (TaskData option \<times> go_error option) step \<Rightarrow> 's \<times> (TaskData option \<times> go_error option) step" where
  "finish_step (s, Goexit) = (s, Done (None, None))"
| "finish_step p = p"

definition finish_act ::
  "('s, TaskData option \<times> go_error option) act \<Rightarrow> ('s, TaskData option \<times> go_error option) act" where
  "finish_act m s = finish_step (m s)"

definition nearest_deadline :: "go_time \<Rightarrow> go_time \<Rightarrow> go_time" where
  "nearest_deadline invocationDeadline totalDeadline =
     (if invocationDeadline = 0 \<or> (totalDeadline \<noteq> 0 \<and> totalDeadline < invocationDeadline)
      then totalDeadline else invocationDeadline)"

definition deadline_error :: "'w workerRunner \<Rightarrow> wait_context \<Rightarrow> go_error" where
  "deadline_error r c =
     (if wc_totalDeadline c \<noteq> 0 \<and>
         nearest_deadline (wc_invocationDeadline c) (wc_totalDeadline c) = wc_totalDeadline c
      then total_timeout r c else invocation_timeout r c)"

text \<open>A result that came without an error after its deadline is a timeout after all.\<close>

definition late_error :: "'w workerRunner \<Rightarrow> wait_context \<Rightarrow> go_time \<Rightarrow> go_error option \<Rightarrow> go_error option" where
  "late_error r c t err =
     (if err \<noteq> None then err
      else if past (wc_totalDeadline c) t then Some (total_timeout r c)
      else if past (wc_invocationDeadline c) t then Some (invocation_timeout r c)
      else None)"

section \<open>Tasks\<close>

record task_config =
  tk_type :: string
  tk_data :: "TaskData option"
  tk_inputHash :: string
  tk_retry :: RetryPolicy
  tk_invocationTimeout :: duration
  tk_totalTimeout :: duration

text \<open>One round of the loop ends with the task's output, or goes on with the attempt and its start.\<close>

type_synonym 'a round = "'a + int \<times> go_time"

definition task_input_ref :: "task_config \<Rightarrow> int \<Rightarrow> InputReference" where
  "task_input_ref t ordinal =
     \<lparr>ref_Ordinal = (if ordinal - 1 < 0 then 0 else ordinal - 1), ref_Hash = tk_inputHash t\<rparr>"

definition determinism_meta :: "workerMeta \<Rightarrow> TaskDeterminismMeta" where
  "determinism_meta m =
     \<lparr>dm_Ordinal = wm_Ordinal m, dm_TaskType = wm_TaskType m, dm_WorkerID = wm_WorkerID m,
      dm_CreatedAt = wm_CreatedAt m, dm_Attempt = wm_Attempt m, dm_MaxAttempts = wm_MaxAttempts m,
      dm_NextAttemptAt = wm_NextAttemptAt m, dm_BackoffMillis = wm_BackoffMillis m,
      dm_Retryable = wm_Retryable m, dm_InputHash = wm_InputHash m, dm_InputRef = wm_InputRef m,
      dm_RunPolicy = wm_RunPolicy m, dm_InputPayload = wm_Input m, dm_Version = wm_Version m\<rparr>"

definition task_mismatch :: "task_config \<Rightarrow> int \<Rightarrow> workerMeta \<Rightarrow> go_error" where
  "task_mismatch t ordinal meta =
     TaskInputMismatch \<lparr>mis_TaskType = tk_type t, mis_Ordinal = ordinal,
       mis_CachedInputHash = wm_InputHash meta, mis_ComputedInputHash = tk_inputHash t,
       mis_CachedInput = wm_Input meta, mis_Meta = determinism_meta meta\<rparr>"

definition prior_attempt :: "workerMeta \<Rightarrow> int" where
  "prior_attempt meta = (if wm_Attempt meta \<le> 0 then 1 else wm_Attempt meta)"

definition task_wait_context ::
  "task_config \<Rightarrow> int \<Rightarrow> int \<Rightarrow> go_time \<Rightarrow> go_time \<Rightarrow> duration \<Rightarrow> wait_context" where
  "task_wait_context t ordinal attempt invocationDeadline totalDeadline invocationLimit =
     \<lparr>wc_ordinal = ordinal, wc_attempt = attempt, wc_kind = ''task'',
      wc_inputRef = Some (task_input_ref t ordinal), wc_invocationDeadline = invocationDeadline,
      wc_totalDeadline = totalDeadline, wc_invocationLimit = invocationLimit,
      wc_totalLimit = tk_totalTimeout t\<rparr>"

text \<open>The chapter at the counter is a stored outcome: it answers for the worker.\<close>

definition cached_outcome ::
  "'w workerRunner \<Rightarrow> task_config \<Rightarrow> int \<Rightarrow> int \<Rightarrow> go_time \<Rightarrow> Chapter \<Rightarrow> workerMeta
   \<Rightarrow> ('w, TaskData option round) run_act" where
  "cached_outcome r t ordinal attempt totalDeadline chapter meta =
     bind_act (try_act (to_task_data r chapter)) (\<lambda>x.
       case x of
         Inr td \<Rightarrow>
           bind_act (write_act (emitTaskEnd (tk_type t) ordinal attempt td None (metaEndAt meta))) (\<lambda>_.
             ret_act (Inl td))
       | Inl payloadErr \<Rightarrow>
           (let priorAttempt = prior_attempt meta in
            bind_act (write_act (emitTaskEnd (tk_type t) ordinal attempt None (Some payloadErr) (metaEndAt meta))) (\<lambda>_.
              if \<not> isRetryable (Some payloadErr) (tk_retry t) \<or> MaximumAttempts (tk_retry t) \<le> priorAttempt
              then fail_act payloadErr
              else
                (let backoff = computeBackoff (wr_scale r) (tk_retry t) priorAttempt;
                     next_round = ret_act (Inr (priorAttempt + 1, metaEndAt meta))
                 in if 0 < backoff
                    then bind_act (awaitUntil r (wm_CreatedAt meta + backoff)
                           (task_wait_context t ordinal priorAttempt 0 totalDeadline 0)) (\<lambda>_. next_round)
                    else next_round))))"

definition cached_task ::
  "'w workerRunner \<Rightarrow> task_config \<Rightarrow> int \<Rightarrow> int \<Rightarrow> go_time \<Rightarrow> Chapter \<Rightarrow> workerMeta
   \<Rightarrow> ('w, TaskData option round) run_act" where
  "cached_task r t ordinal attempt totalDeadline chapter meta =
     bind_act (write_act (markStoryOrdinalConsumed ordinal)) (\<lambda>_.
       if \<not> ChapterIs chapter ChapterTypeTaskAttemptOutcome \<and> \<not> ChapterIs chapter ChapterTypeRestartExtra
       then fail_act (Wrap ''unexpected chapter type'' (Sentinel ErrWorkflowNotDeterministic))
       else
         bind_act (write_act (emit (TaskStartEvent (tk_type t) ordinal attempt (tk_data t) (metaStartAt meta)))) (\<lambda>_.
         bind_act (if ChapterIs chapter ChapterTypeRestartExtra \<and> shouldCheckPrerequisites r
                      \<and> wm_Prerequisites meta \<noteq> []
                   then
                     bind_act (try_act (checkPrerequisites r (wm_Prerequisites meta))) (\<lambda>x.
                       case x of
                         Inr _ \<Rightarrow> ret_act ()
                       | Inl e \<Rightarrow>
                           bind_act (write_act (emitTaskEnd (tk_type t) ordinal attempt None (Some e) (metaEndAt meta)))
                             (\<lambda>_. fail_act e))
                   else ret_act ()) (\<lambda>_.
           if wm_InputHash meta = []
           then fail_act (Wrap ''missing input hash'' (Sentinel ErrMissingInputHash))
           else if wm_InputHash meta \<noteq> tk_inputHash t then fail_act (task_mismatch t ordinal meta)
           else cached_outcome r t ordinal attempt totalDeadline chapter meta)))"

text \<open>No local worker for the task: the job waits for another worker to do it.\<close>

definition remote_task_request :: "'w workerRunner \<Rightarrow> task_config \<Rightarrow> RunPolicy \<Rightarrow> int \<Rightarrow> RescheduleExecutionRequest" where
  "remote_task_request r t policy ordinal =
     \<lparr>re_NextNeed = workerCapability (ws_JobType (wr_worker r)) (tk_type t), re_WaitUntil = None,
      re_WaitForJobIDs = [],
      re_Payload = mustMarshalWorkerPayload \<lparr>wp_RunPolicy = policy,
        wp_TaskWait = Some \<lparr>tw_InputStep = (if ordinal - 1 < 0 then 0 else ordinal - 1), tw_OutputStep = ordinal,
          tw_Next = ws_JobType (wr_worker r), tw_InputHash = tk_inputHash t\<rparr>\<rparr>,
      re_AlternateNeed = (if 0 < tk_invocationTimeout t then ws_JobType (wr_worker r) else []),
      re_AlternateAfter = (if 0 < tk_invocationTimeout t then Some (tk_invocationTimeout t) else None)\<rparr>"

definition task_miss :: "'w workerRunner \<Rightarrow> task_config \<Rightarrow> int \<Rightarrow> int \<Rightarrow> go_error" where
  "task_miss r t ordinal attempt =
     ReplayCacheMiss \<lparr>miss_JobKey = wr_jobKey r, miss_TaskType = tk_type t, miss_Ordinal = ordinal,
       miss_Attempt = attempt, miss_Reason = ReplayCacheMissTaskResultMissing\<rparr>"

definition nil_pointer :: string where
  "nil_pointer = ''runtime error: invalid memory address or nil pointer dereference''"

text \<open>What is stored of an attempt: payload, kind and artifacts.\<close>

definition task_payload_of ::
  "'w workerRunner \<Rightarrow> InputReference \<Rightarrow> TaskData option \<Rightarrow> go_error option
   \<Rightarrow> ('w, raw \<times> string \<times> Artifact list) run_act" where
  "task_payload_of r inputRef output err =
     (case err of
        Some e \<Rightarrow>
          (case errorPayloadFromError (fmt_duration (wr_env r)) e (Some inputRef) of
             (payload, kind) \<Rightarrow>
               ret_act (payload, kind,
                 case output of
                   None \<Rightarrow> []
                 | Some td \<Rightarrow> (case td_GetArtifacts td of Inl _ \<Rightarrow> [] | Inr as \<Rightarrow> as)))
      | None \<Rightarrow>
          (case output of
             None \<Rightarrow> panic_act nil_pointer
           | Some td \<Rightarrow>
               bind_act (lift_act (td_GetData td)) (\<lambda>payload.
               bind_act (lift_act (td_GetArtifacts td)) (\<lambda>artifacts.
               bind_act (lift_act (validateOutputArtifacts (wr_env r) artifacts)) (\<lambda>_.
                 ret_act (payload, payloadKindApp, artifacts))))))"

definition attempt_meta :: "int \<Rightarrow> InputReference \<Rightarrow> raw \<Rightarrow> go_time \<Rightarrow> go_time \<Rightarrow> workerMeta" where
  "attempt_meta attempt inputRef input startAt finishedAt =
     zero_workerMeta\<lparr>wm_Attempt := attempt, wm_InputRef := Some inputRef, wm_Input := input,
       wm_StartedAt := Some startAt, wm_FinishedAt := Some finishedAt\<rparr>"

definition persist_failure :: "InputReference \<Rightarrow> go_error \<Rightarrow> go_error" where
  "persist_failure inputRef err =
     SystemError \<lparr>sys_Message = ''persist task outcome chapter: '' @ error_message err,
       sys_Component = ''jobdb.worker_runner'', sys_Code = ''task_outcome_persist_failed'',
       sys_Retryable = False, sys_InputRef = Some inputRef, sys_Stacktrace = []\<rparr>"

text \<open>The outcome is stored, then given to the job or tried again.\<close>

definition settle_task ::
  "'w workerRunner \<Rightarrow> task_config \<Rightarrow> int \<Rightarrow> int \<Rightarrow> go_time \<Rightarrow> go_time \<Rightarrow> TaskData option \<times> go_error option
   \<Rightarrow> ('w, TaskData option round) run_act" where
  "settle_task r t ordinal attempt totalDeadline startAt outcome =
     (case outcome of
        (output, originalErr) \<Rightarrow>
     bind_act (task_payload_of r (task_input_ref t ordinal) output originalErr) (\<lambda>(payload, payloadKind, artifacts).
     bind_act (read_clock r) (\<lambda>finishedAt.
     bind_act (if wr_storeInput r then lift_act (task_payload (tk_data t)) else ret_act (Text [])) (\<lambda>inputPayload.
     bind_act (if wr_replay r then fail_act (Sentinel ErrReplayShouldNeverMutate) else ret_act ()) (\<lambda>_.
     bind_act (read_clock r) (\<lambda>createdAt.
     bind_act (try_act (world_op (persistTaskDataChapter (wr_env r) (wr_runtime r) (wr_lease r) (wr_jobKey r)
       ordinal (tk_type t) ChapterTypeTaskAttemptOutcome payloadKind (tk_inputHash t) createdAt
       (attempt_meta attempt (task_input_ref t ordinal) inputPayload startAt finishedAt) payload artifacts))) (\<lambda>x.
       case x of
         Inl e \<Rightarrow> fail_act (persist_failure (task_input_ref t ordinal) e)
       | Inr persistedOutput \<Rightarrow>
           bind_act (write_act (markStoryOrdinalConsumed ordinal)) (\<lambda>_.
             case originalErr of
               None \<Rightarrow>
                 bind_act (write_act (emitTaskEnd (tk_type t) ordinal attempt persistedOutput None finishedAt))
                   (\<lambda>_. ret_act (Inl persistedOutput))
             | Some e \<Rightarrow>
                 bind_act (write_act (emitTaskEnd (tk_type t) ordinal attempt None (Some e) finishedAt)) (\<lambda>_.
                   if isRetryable (Some e) (tk_retry t) \<and> attempt < MaximumAttempts (tk_retry t)
                   then
                     (let backoff = computeBackoff (wr_scale r) (tk_retry t) attempt;
                          next_round = ret_act (Inr (attempt + 1, finishedAt))
                      in if 0 < backoff
                         then bind_act (read_clock r) (\<lambda>now1.
                              bind_act (awaitUntil r (now1 + backoff)
                                (task_wait_context t ordinal attempt 0 totalDeadline 0)) (\<lambda>_. next_round))
                         else next_round)
                   else fail_act e)))))))))"

definition execute_task ::
  "'w workerRunner \<Rightarrow> task_config \<Rightarrow> (JobKey \<Rightarrow> int \<Rightarrow> TaskData option \<Rightarrow> task_program)
   \<Rightarrow> int \<Rightarrow> int \<Rightarrow> go_time \<Rightarrow> go_time \<Rightarrow> ('w, TaskData option round) run_act" where
  "execute_task r t worker ordinal attempt totalDeadline startAt =
     bind_act (write_act (emit (TaskStartEvent (tk_type t) ordinal attempt (tk_data t) startAt))) (\<lambda>_.
     bind_act (read_clock r) (\<lambda>now1.
       (let c = task_wait_context t ordinal attempt
                  (if 0 < tk_invocationTimeout t then now1 + tk_invocationTimeout t else 0)
                  totalDeadline (tk_invocationTimeout t)
        in
        if past totalDeadline now1 then
          bind_act (write_act (emitTaskEnd (tk_type t) ordinal attempt None (Some (total_timeout r c)) startAt))
            (\<lambda>_. fail_act (total_timeout r c))
        else
          bind_act (recover_act (run_task r c
            (nearest_deadline (wc_invocationDeadline c) totalDeadline) (deadline_error r c)
            (worker (wr_jobKey r) ordinal (tk_data t)))) (\<lambda>(output, taskErr).
          bind_act (read_clock r) (\<lambda>now2.
            settle_task r t ordinal attempt totalDeadline startAt (output, late_error r c now2 taskErr))))))"

definition missing_task ::
  "'w workerRunner \<Rightarrow> task_config \<Rightarrow> int \<Rightarrow> int \<Rightarrow> go_time \<Rightarrow> go_time \<Rightarrow> ('w, TaskData option round) run_act" where
  "missing_task r t ordinal attempt totalDeadline startAt =
     (if wr_replay r then fail_act (task_miss r t ordinal attempt)
      else
        (case ws_TaskWorkers (wr_worker r) (tk_type t) of
           Some worker \<Rightarrow> execute_task r t worker ordinal attempt totalDeadline startAt
         | None \<Rightarrow>
             (case wr_lease r of
                None \<Rightarrow> fail_act (task_miss r t ordinal attempt)
              | Some l \<Rightarrow>
                  bind_act (read_act jobPolicy) (\<lambda>policy.
                    leave_job l (remote_task_request r t policy ordinal) (Wrap ''failed to reschedule job'')))))"

definition task_round ::
  "'w workerRunner \<Rightarrow> task_config \<Rightarrow> int \<Rightarrow> go_time option \<Rightarrow> ('w, TaskData option round) run_act" where
  "task_round r t attempt nextStartAt =
     bind_act (read_clock r) (\<lambda>now0.
     bind_act (read_act storyCounter) (\<lambda>ordinal.
     bind_act (try_act (taskTotalDeadline r ordinal (tk_totalTimeout t))) (\<lambda>x.
       (let startAt = (case nextStartAt of None \<Rightarrow> now0 | Some s \<Rightarrow> s);
            go_on = (\<lambda>totalDeadline.
              bind_act (try_act (getChapter r ordinal)) (\<lambda>y.
                case y of
                  Inr (chapter, meta) \<Rightarrow> cached_task r t ordinal attempt totalDeadline chapter meta
                | Inl e \<Rightarrow>
                    if errors_is e ErrChapterNotFound
                    then missing_task r t ordinal attempt totalDeadline startAt
                    else fail_act (Wrap ''failed to get chapter'' e)))
        in case x of
             Inr totalDeadline \<Rightarrow> go_on totalDeadline
           | Inl e \<Rightarrow> if errors_is e ErrChapterNotFound then go_on 0
                      else fail_act (Wrap ''compute total deadline'' e)))))"

fun task_loop ::
  "nat \<Rightarrow> 'w workerRunner \<Rightarrow> task_config \<Rightarrow> int \<Rightarrow> go_time option \<Rightarrow> ('w, TaskData option) run_act" where
  "task_loop 0 r t attempt nextStartAt = stop_act"
| "task_loop (Suc n) r t attempt nextStartAt =
     bind_act (task_round r t attempt nextStartAt) (\<lambda>x.
       case x of
         Inl td \<Rightarrow> ret_act td
       | Inr (attempt', startAt) \<Rightarrow> task_loop n r t attempt' (Some startAt))"

definition DoTask ::
  "nat \<Rightarrow> 'w workerRunner \<Rightarrow> RunPolicy \<Rightarrow> string \<Rightarrow> TaskData option \<Rightarrow> ('w, TaskData option) run_act" where
  "DoTask fuel r policy taskType d =
     (case computeInputHash (wr_env r) d of
        Inl e \<Rightarrow> fail_act (Wrap ''compute input hash'' e)
      | Inr inputHash \<Rightarrow>
          bind_act (read_act jobPolicy) (\<lambda>base.
            (let effective = normalizeRunPolicy (mergeRunPolicy policy base)
             in task_loop fuel r
                  \<lparr>tk_type = taskType, tk_data = d, tk_inputHash = inputHash, tk_retry = Retry effective,
                   tk_invocationTimeout = durationPtrToDuration (InvocationTimeout effective),
                   tk_totalTimeout = durationPtrToDuration (TotalTimeout effective)\<rparr> 1 None)))"

end
