(* ===== verification/Worker_Job.thy ===== *)
theory Worker_Job
  imports Worker_Runner
begin

text \<open>
  Jobs in the worker runner (\<^verbatim>\<open>worker_runner.go\<close>, from \<^verbatim>\<open>loadInitialChapterAndPolicy\<close> to \<^verbatim>\<open>DoJob\<close>) and
  replay (\<^verbatim>\<open>replay.go\<close>). The job worker runs against its runner; a stored outcome of an attempt answers
  for it, an outcome that is final completes the lease.
\<close>

section \<open>Running the job worker\<close>

primrec run_job ::
  "nat \<Rightarrow> 'w workerRunner \<Rightarrow> go_time \<Rightarrow> go_error \<Rightarrow> job_program
   \<Rightarrow> ('w, TaskData option \<times> go_error option) run_act" where
  "run_job fuel r deadline timeout (JReturn output err) =
     unless_fired r deadline timeout (ret_act (output, err))"
| "run_job fuel r deadline timeout (JPanic m) = unless_fired r deadline timeout (panic_act m)"
| "run_job fuel r deadline timeout (JDoTask policy taskType d k) =
     unless_fired r deadline timeout
       (bind_act (try_act (DoTask fuel r policy taskType d)) (\<lambda>x. run_job fuel r deadline timeout (k x)))"
| "run_job fuel r deadline timeout (JAwaitDuration wait k) =
     unless_fired r deadline timeout
       (bind_act (try_act (AwaitDuration r wait)) (\<lambda>x. run_job fuel r deadline timeout (k (error_of x))))"
| "run_job fuel r deadline timeout (JAwaitJobs ids k) =
     unless_fired r deadline timeout
       (bind_act (try_act (AwaitJobs r ids)) (\<lambda>x. run_job fuel r deadline timeout (k (error_of x))))"
| "run_job fuel r deadline timeout (JSubmitJob j k) =
     unless_fired r deadline timeout
       (bind_act (try_act (runner_SubmitJob r j)) (\<lambda>x. run_job fuel r deadline timeout (k x)))"
| "run_job fuel r deadline timeout (JSubmitRestartJob j k) =
     unless_fired r deadline timeout
       (bind_act (try_act (runner_SubmitRestartJob r j)) (\<lambda>x. run_job fuel r deadline timeout (k x)))"

text \<open>\<^verbatim>\<open>executeJobWorkerAsync\<close> and \<^verbatim>\<open>waitForJobResultWithDeadline\<close>\<close>

definition execute_job ::
  "nat \<Rightarrow> 'w workerRunner \<Rightarrow> wait_context \<Rightarrow> TaskData option \<Rightarrow> ('w, TaskData option \<times> go_error option) run_act" where
  "execute_job fuel r c inputData =
     finish_act (recover_act (run_job fuel r
       (nearest_deadline (wc_invocationDeadline c) (wc_totalDeadline c)) (deadline_error r c)
       (ws_Run (wr_worker r) (wr_jobKey r) inputData)))"

record jobExecutionConfig =
  jc_retryCfg :: RetryPolicy
  jc_invocationTimeout :: duration
  jc_totalTimeout :: duration
  jc_inputRef :: InputReference
  jc_totalDeadline :: go_time

definition loadInitialChapterAndPolicy :: "'w workerRunner \<Rightarrow> ('w, TaskData option \<times> workerMeta) run_act" where
  "loadInitialChapterAndPolicy r =
     bind_act (getChapter r 0) (\<lambda>(chapter, meta).
       if \<not> ChapterIs chapter ChapterTypeJobStart
       then fail_act (Wrap ''unexpected chapter type at ordinal 0'' (Sentinel ErrWorkflowNotDeterministic))
       else
         bind_act (case wm_RunPolicy meta of
                     None \<Rightarrow> ret_act ()
                   | Some p \<Rightarrow> write_act (\<lambda>s. s\<lparr>jobPolicy := mergeRunPolicy p (jobPolicy s)\<rparr>)) (\<lambda>_.
         bind_act (to_task_data r chapter) (\<lambda>inputData. ret_act (inputData, meta))))"

definition setupJobExecutionConfig ::
  "'w workerRunner \<Rightarrow> TaskData option \<Rightarrow> workerMeta \<Rightarrow> ('w, jobExecutionConfig) run_act" where
  "setupJobExecutionConfig r inputData meta =
     (case computeInputHash (wr_env r) inputData of
        Inl e \<Rightarrow> fail_act (Wrap ''failed to hash job input'' e)
      | Inr inputHash \<Rightarrow>
          bind_act (read_act jobPolicy) (\<lambda>p.
            (let totalTimeout = durationPtrToDuration (TotalTimeout p) in
             ret_act \<lparr>jc_retryCfg = Retry p,
               jc_invocationTimeout = durationPtrToDuration (InvocationTimeout p),
               jc_totalTimeout = totalTimeout,
               jc_inputRef = \<lparr>ref_Ordinal = 0, ref_Hash = inputHash\<rparr>,
               jc_totalDeadline = jobTotalDeadline meta totalTimeout\<rparr>)))"

definition job_wait_context :: "jobExecutionConfig \<Rightarrow> int \<Rightarrow> int \<Rightarrow> go_time \<Rightarrow> duration \<Rightarrow> wait_context" where
  "job_wait_context cfg ordinal attempt invocationDeadline invocationLimit =
     \<lparr>wc_ordinal = ordinal, wc_attempt = attempt, wc_kind = ''job'', wc_inputRef = Some (jc_inputRef cfg),
      wc_invocationDeadline = invocationDeadline, wc_totalDeadline = jc_totalDeadline cfg,
      wc_invocationLimit = invocationLimit, wc_totalLimit = jc_totalTimeout cfg\<rparr>"

definition job_total_timeout :: "'w workerRunner \<Rightarrow> jobExecutionConfig \<Rightarrow> go_error" where
  "job_total_timeout r cfg = total_timeout r (job_wait_context cfg 0 0 0 0)"

definition setupAttemptDeadlines :: "'w workerRunner \<Rightarrow> jobExecutionConfig \<Rightarrow> ('w, wait_context) run_act" where
  "setupAttemptDeadlines r cfg =
     bind_act (read_clock r) (\<lambda>t.
       (let c = job_wait_context cfg 0 0 (if 0 < jc_invocationTimeout cfg then t + jc_invocationTimeout cfg else 0)
                  (jc_invocationTimeout cfg)
        in bind_act (write_act (\<lambda>s. s\<lparr>currentInvocationDeadline := wc_invocationDeadline c,
             currentTotalDeadline := wc_totalDeadline c, currentInvocationLimit := wc_invocationLimit c,
             currentTotalLimit := wc_totalLimit c, currentInputRef := wc_inputRef c, currentKind := ''job''\<rparr>))
             (\<lambda>_. ret_act c)))"

section \<open>Storing the outcome of a job\<close>

definition prepareJobResultPayload ::
  "'w workerRunner \<Rightarrow> TaskData option \<Rightarrow> go_error option \<Rightarrow> InputReference \<Rightarrow> (raw \<times> Artifact list \<times> string) res" where
  "prepareJobResultPayload r output originalErr inputRef =
     (case originalErr of
        Some e \<Rightarrow>
          (case errorPayloadFromError (fmt_duration (wr_env r)) e (Some inputRef) of
             (payload, kind) \<Rightarrow>
               Inr (payload,
                 case output of
                   None \<Rightarrow> []
                 | Some td \<Rightarrow> (case td_GetArtifacts td of Inl _ \<Rightarrow> [] | Inr as \<Rightarrow> as), kind))
      | None \<Rightarrow>
          (case output of
             None \<Rightarrow>
               Inr (Json (enc_SystemErrorPayload \<lparr>sys_Message = ''missing job output'', sys_Component = [],
                 sys_Code = [], sys_Retryable = False, sys_InputRef = Some inputRef, sys_Stacktrace = []\<rparr>),
                 [], payloadKindSystemError)
           | Some td \<Rightarrow>
               (case td_GetData td of
                  Inl e \<Rightarrow> Inl e
                | Inr payload \<Rightarrow>
                    (case td_GetArtifacts td of Inl e \<Rightarrow> Inl e | Inr as \<Rightarrow> Inr (payload, as, payloadKindApp)))))"

definition completeLeaseWithChapter :: "'w workerRunner \<Rightarrow> Chapter \<Rightarrow> go_error option \<Rightarrow> ('w, unit) run_act" where
  "completeLeaseWithChapter r chapter err =
     (if wr_replay r then fail_act (Sentinel ErrReplayShouldNeverMutate)
      else
        (case wr_lease r of
           None \<Rightarrow> fail_act (Errorf ''lease is required'')
         | Some l \<Rightarrow>
             (case completionStatusAndDetail err of
                (status, detail) \<Rightarrow>
                  world_op (le_Complete l \<lparr>ce_Status = status, ce_Detail = Text detail,
                    ce_Chapter = Some chapter, ce_Uploads = []\<rparr>))))"

definition outcome_meta :: "int \<Rightarrow> InputReference \<Rightarrow> (go_time \<times> go_time) option \<Rightarrow> workerMeta" where
  "outcome_meta attempt inputRef period =
     zero_workerMeta\<lparr>wm_Attempt := attempt, wm_InputRef := Some inputRef,
       wm_StartedAt := map_option fst period, wm_FinishedAt := map_option snd period\<rparr>"

definition completeJobOutcome ::
  "'w workerRunner \<Rightarrow> jobExecutionConfig \<Rightarrow> int \<Rightarrow> raw \<times> Artifact list \<times> string \<Rightarrow> int
   \<Rightarrow> (go_time \<times> go_time) option \<Rightarrow> go_error option \<Rightarrow> ('w, TaskData option) run_act" where
  "completeJobOutcome r cfg ordinal result attempt period jobErr =
     (case result of
        (payload, artifacts, payloadKind) \<Rightarrow>
          if wr_replay r then fail_act (Sentinel ErrReplayShouldNeverMutate)
          else
            (case wr_lease r of
               None \<Rightarrow> fail_act (Errorf ''lease is required'')
             | Some l \<Rightarrow>
                 bind_act (read_clock r) (\<lambda>createdAt.
                 bind_act (lift_act (prepareTaskDataChapterWrite (wr_env r) ordinal (ws_JobType (wr_worker r))
                   ChapterTypeJobAttemptOutcome payloadKind (ref_Hash (jc_inputRef cfg)) createdAt
                   (outcome_meta attempt (jc_inputRef cfg) period) payload artifacts)) (\<lambda>(chapter, uploads).
                   (case completionStatusAndDetail jobErr of
                      (status, detail) \<Rightarrow>
                        bind_act (world_op (le_Complete l \<lparr>ce_Status = status, ce_Detail = Text detail,
                          ce_Chapter = Some chapter, ce_Uploads = uploads\<rparr>)) (\<lambda>_.
                          if payloadKind \<noteq> payloadKindApp then ret_act None else to_task_data r chapter))))))"

definition persistJobOutcome ::
  "'w workerRunner \<Rightarrow> jobExecutionConfig \<Rightarrow> int \<Rightarrow> raw \<times> Artifact list \<times> string \<Rightarrow> int
   \<Rightarrow> go_time \<times> go_time \<Rightarrow> ('w, TaskData option) run_act" where
  "persistJobOutcome r cfg ordinal result attempt period =
     (case result of
        (payload, artifacts, payloadKind) \<Rightarrow>
          if wr_replay r then fail_act (Sentinel ErrReplayShouldNeverMutate)
          else
            bind_act (read_clock r) (\<lambda>createdAt.
              world_op (persistTaskDataChapter (wr_env r) (wr_runtime r) (wr_lease r) (wr_jobKey r) ordinal
                (ws_JobType (wr_worker r)) ChapterTypeJobAttemptOutcome payloadKind (ref_Hash (jc_inputRef cfg))
                createdAt (outcome_meta attempt (jc_inputRef cfg) (Some period)) payload artifacts)))"

definition consume :: "int \<Rightarrow> ('w, unit) run_act" where
  "consume ordinal = write_act (markStoryOrdinalConsumed ordinal)"

definition failJobPrerequisites ::
  "'w workerRunner \<Rightarrow> jobExecutionConfig \<Rightarrow> TaskData option \<Rightarrow> go_error \<Rightarrow> ('w, TaskData option) run_act" where
  "failJobPrerequisites r cfg inputData err =
     bind_act (read_clock r) (\<lambda>startAt.
     bind_act (write_act (emit (JobStartEvent 1 inputData startAt))) (\<lambda>_.
     bind_act (read_act storyCounter) (\<lambda>ordinal.
     bind_act (lift_act (prepareJobResultPayload r None (Some err) (jc_inputRef cfg))) (\<lambda>result.
     bind_act (completeJobOutcome r cfg ordinal result 1 (Some (startAt, startAt)) (Some err)) (\<lambda>_.
     bind_act (consume ordinal) (\<lambda>_.
     bind_act (write_act (emit (JobEndEvent 1 None (Some err) startAt))) (\<lambda>_.
       fail_act err)))))))"

section \<open>A stored outcome\<close>

text \<open>The results of \<^verbatim>\<open>checkCachedJobResult\<close>, in its order; the two period are one.\<close>

record cached_job =
  cj_output :: "TaskData option"
  cj_nextAttempt :: int
  cj_cached :: bool
  cj_terminal :: bool
  cj_priorErr :: "go_error option"
  cj_err :: "go_error option"
  cj_endAt :: "go_time option"

definition not_cached :: "int \<Rightarrow> go_error option \<Rightarrow> cached_job" where
  "not_cached nextAttempt err =
     \<lparr>cj_output = None, cj_nextAttempt = nextAttempt, cj_cached = False, cj_terminal = False,
      cj_priorErr = None, cj_err = err, cj_endAt = None\<rparr>"

definition stored_job_outcome ::
  "'w workerRunner \<Rightarrow> jobExecutionConfig \<Rightarrow> int \<Rightarrow> Chapter \<Rightarrow> workerMeta \<Rightarrow> ('w, cached_job) run_act" where
  "stored_job_outcome r cfg ordinal chapter meta =
     (let priorAttempt = prior_attempt meta;
          result = (\<lambda>output terminal priorErr err.
            \<lparr>cj_output = output, cj_nextAttempt = priorAttempt + 1, cj_cached = True, cj_terminal = terminal,
             cj_priorErr = priorErr, cj_err = err, cj_endAt = Some (metaEndAt meta)\<rparr>)
      in
      bind_act (try_act (to_task_data r chapter)) (\<lambda>x.
        case x of
          Inr output \<Rightarrow> ret_act (result output True None None)
        | Inl payloadErr \<Rightarrow>
            if \<not> isRetryable (Some payloadErr) (jc_retryCfg cfg)
               \<or> MaximumAttempts (jc_retryCfg cfg) \<le> priorAttempt
            then ret_act (result None True (Some payloadErr) (Some payloadErr))
            else
              (let backoff = computeBackoff (wr_scale r) (jc_retryCfg cfg) priorAttempt;
                   again = ret_act (result None False (Some payloadErr) None);
                   wakeAt = wm_CreatedAt meta + backoff
               in if 0 < backoff
                  then
                    bind_act (read_clock r) (\<lambda>t.
                      if t < wakeAt
                      then bind_act (try_act (awaitUntil r wakeAt (job_wait_context cfg ordinal priorAttempt 0 0))) (\<lambda>y.
                             case y of
                               Inl e \<Rightarrow> ret_act (not_cached 0 (Some e))
                             | Inr _ \<Rightarrow> again)
                      else again)
                  else again)))"

definition checkCachedJobResult :: "'w workerRunner \<Rightarrow> jobExecutionConfig \<Rightarrow> int \<Rightarrow> ('w, cached_job) run_act" where
  "checkCachedJobResult r cfg ordinal =
     bind_act (try_act (getChapter r ordinal)) (\<lambda>x.
       case x of
         Inl e \<Rightarrow>
           ret_act (if errors_is e ErrChapterNotFound then not_cached 1 None else not_cached 0 (Some e))
       | Inr (chapter, meta) \<Rightarrow>
           if \<not> ChapterIs chapter ChapterTypeJobAttemptOutcome
           then ret_act (not_cached 0 (Some (Wrap ''unexpected chapter type'' (Sentinel ErrWorkflowNotDeterministic))))
           else if wm_InputHash meta \<noteq> [] \<and> wm_InputHash meta \<noteq> ref_Hash (jc_inputRef cfg)
           then ret_act (not_cached 0 (Some (Wrap ''job result input hash mismatch''
                  (Sentinel ErrWorkflowNotDeterministic))))
           else
             bind_act (if jc_totalDeadline cfg = 0 then ret_act False
                       else bind_act (read_clock r) (\<lambda>t. ret_act (past (jc_totalDeadline cfg) t))) (\<lambda>late.
               if late then ret_act (not_cached 0 (Some (job_total_timeout r cfg)))
               else stored_job_outcome r cfg ordinal chapter meta))"

text \<open>What the job does with a stored outcome; \<open>t0\<close> is the time when there is none in it.\<close>

definition use_cached_job ::
  "'w workerRunner \<Rightarrow> int \<Rightarrow> int \<Rightarrow> go_time \<Rightarrow> Chapter \<Rightarrow> cached_job \<Rightarrow> ('w, TaskData option round) run_act" where
  "use_cached_job r ordinal attempt t0 chapter j =
     (let t1 = (case cj_endAt j of None \<Rightarrow> t0 | Some t \<Rightarrow> t) in
      if cj_terminal j then
        bind_act (if wr_replay r then ret_act () else completeLeaseWithChapter r chapter (cj_priorErr j)) (\<lambda>_.
        bind_act (consume ordinal) (\<lambda>_.
        bind_act (write_act (emit (JobEndEvent attempt (cj_output j) (cj_priorErr j) t1))) (\<lambda>_.
          case cj_priorErr j of Some e \<Rightarrow> fail_act e | None \<Rightarrow> ret_act (Inl (cj_output j)))))
      else
        bind_act (consume ordinal) (\<lambda>_.
        bind_act (write_act (emit (JobEndEvent attempt None (cj_priorErr j) t1))) (\<lambda>_.
          ret_act (Inr (cj_nextAttempt j, t1)))))"

section \<open>The job loop\<close>

definition replayJobResultMissing :: "'w workerRunner \<Rightarrow> int \<Rightarrow> int \<Rightarrow> go_error" where
  "replayJobResultMissing r ordinal attempt =
     ReplayCacheMiss \<lparr>miss_JobKey = wr_jobKey r, miss_TaskType = [], miss_Ordinal = ordinal,
       miss_Attempt = attempt, miss_Reason = ReplayCacheMissJobResultMissing\<rparr>"

text \<open>The job has run past its total deadline before this attempt.\<close>

definition expire_job ::
  "'w workerRunner \<Rightarrow> jobExecutionConfig \<Rightarrow> int \<Rightarrow> go_time \<Rightarrow> ('w, TaskData option round) run_act" where
  "expire_job r cfg attempt startAt =
     (let err = job_total_timeout r cfg in
      bind_act (read_act storyCounter) (\<lambda>ordinal.
        if wr_replay r then
          (let miss = replayJobResultMissing r ordinal attempt in
           bind_act (write_act (emit (JobEndEvent attempt None (Some miss) startAt))) (\<lambda>_. fail_act miss))
        else
          bind_act (lift_act (prepareJobResultPayload r None (Some err) (jc_inputRef cfg))) (\<lambda>result.
          bind_act (completeJobOutcome r cfg ordinal result attempt None (Some err)) (\<lambda>_.
          bind_act (consume ordinal) (\<lambda>_.
          bind_act (write_act (emit (JobEndEvent attempt None (Some err) startAt))) (\<lambda>_. fail_act err))))))"

text \<open>A fresh result of the worker: final, or stored for another attempt.\<close>

definition settle_job ::
  "'w workerRunner \<Rightarrow> jobExecutionConfig \<Rightarrow> int \<Rightarrow> int \<Rightarrow> go_time \<Rightarrow> go_time \<Rightarrow> TaskData option \<Rightarrow> go_error option
   \<Rightarrow> ('w, TaskData option round) run_act" where
  "settle_job r cfg ordinal attempt startAt finishedAt output jobErr =
     bind_act (lift_act (prepareJobResultPayload r output jobErr (jc_inputRef cfg))) (\<lambda>result.
       case jobErr of
         None \<Rightarrow>
           bind_act (completeJobOutcome r cfg ordinal result attempt (Some (startAt, finishedAt)) None) (\<lambda>persisted.
           bind_act (consume ordinal) (\<lambda>_.
           bind_act (write_act (emit (JobEndEvent attempt persisted None finishedAt))) (\<lambda>_.
             ret_act (Inl persisted))))
       | Some e \<Rightarrow>
           if \<not> isRetryable (Some e) (jc_retryCfg cfg) \<or> MaximumAttempts (jc_retryCfg cfg) \<le> attempt
           then
             bind_act (completeJobOutcome r cfg ordinal result attempt (Some (startAt, finishedAt)) (Some e)) (\<lambda>_.
             bind_act (consume ordinal) (\<lambda>_.
             bind_act (write_act (emit (JobEndEvent attempt None (Some e) finishedAt))) (\<lambda>_. fail_act e)))
           else
             bind_act (persistJobOutcome r cfg ordinal result attempt (startAt, finishedAt)) (\<lambda>_.
             bind_act (consume ordinal) (\<lambda>_.
             bind_act (write_act (emit (JobEndEvent attempt None (Some e) finishedAt))) (\<lambda>_.
               (let backoff = computeBackoff (wr_scale r) (jc_retryCfg cfg) attempt;
                    next_round = ret_act (Inr (attempt + 1, finishedAt))
                in if 0 < backoff
                   then bind_act (read_clock r) (\<lambda>t.
                        bind_act (awaitUntil r (t + backoff) (job_wait_context cfg ordinal attempt 0 0)) (\<lambda>_.
                          next_round))
                   else next_round)))))"

text \<open>The worker has answered; a chapter that is there at the counter by now is the outcome.\<close>

definition answer_job ::
  "'w workerRunner \<Rightarrow> jobExecutionConfig \<Rightarrow> int \<Rightarrow> go_time \<Rightarrow> go_time \<Rightarrow> TaskData option \<Rightarrow> go_error option
   \<Rightarrow> int \<Rightarrow> ('w, TaskData option round) run_act" where
  "answer_job r cfg attempt startAt finishedAt output jobErr ordinal =
     bind_act (checkCachedJobResult r cfg ordinal) (\<lambda>j.
       case cj_err j of
         Some e \<Rightarrow> fail_act e
       | None \<Rightarrow>
           if cj_cached j then
             (if cj_terminal j
              then bind_act (getChapter r ordinal) (\<lambda>(chapter, _).
                     use_cached_job r ordinal attempt finishedAt chapter j)
              else
                bind_act (consume ordinal) (\<lambda>_.
                bind_act (write_act (emit (JobEndEvent attempt None (cj_priorErr j)
                  (case cj_endAt j of None \<Rightarrow> finishedAt | Some t \<Rightarrow> t)))) (\<lambda>_.
                  ret_act (Inr (cj_nextAttempt j, case cj_endAt j of None \<Rightarrow> finishedAt | Some t \<Rightarrow> t)))))
           else if wr_replay r then
             (let e = (case jobErr of Some e \<Rightarrow> e | None \<Rightarrow> replayJobResultMissing r ordinal attempt) in
              bind_act (write_act (emit (JobEndEvent attempt None (Some e) finishedAt))) (\<lambda>_. fail_act e))
           else settle_job r cfg ordinal attempt startAt finishedAt output jobErr)"

definition late_job_error :: "'w workerRunner \<Rightarrow> wait_context \<Rightarrow> go_error option \<Rightarrow> ('w, go_error option) run_act" where
  "late_job_error r c jobErr =
     (if jobErr \<noteq> None then ret_act jobErr
      else bind_act (read_clock r) (\<lambda>t. ret_act (late_error r c t jobErr)))"

definition job_finished_at :: "'w workerRunner \<Rightarrow> go_error option \<Rightarrow> ('w, go_time) run_act" where
  "job_finished_at r jobErr =
     bind_act (read_clock r) (\<lambda>t.
       case jobErr of
         Some e \<Rightarrow> if isReplayCacheMiss e then fallbackTaskTime r else ret_act t
       | None \<Rightarrow> ret_act t)"

definition work_on_job ::
  "nat \<Rightarrow> 'w workerRunner \<Rightarrow> jobExecutionConfig \<Rightarrow> TaskData option \<Rightarrow> int \<Rightarrow> go_time
   \<Rightarrow> ('w, TaskData option round) run_act" where
  "work_on_job fuel r cfg inputData attempt startAt =
     bind_act (setupAttemptDeadlines r cfg) (\<lambda>c.
     bind_act (execute_job fuel r c inputData) (\<lambda>(output, jobErr).
       if output = None \<and> jobErr = None
       then bind_act (write_act (emit (JobEndEvent attempt None None startAt))) (\<lambda>_. ret_act (Inl None))
       else
         bind_act (late_job_error r c jobErr) (\<lambda>jobErr.
         bind_act (job_finished_at r jobErr) (\<lambda>finishedAt.
         bind_act (read_act storyCounter) (answer_job r cfg attempt startAt finishedAt output jobErr)))))"

definition job_round ::
  "nat \<Rightarrow> 'w workerRunner \<Rightarrow> jobExecutionConfig \<Rightarrow> TaskData option \<Rightarrow> go_time \<Rightarrow> int \<Rightarrow> go_time option
   \<Rightarrow> ('w, TaskData option round) run_act" where
  "job_round fuel r cfg inputData initialStartAt attempt nextStartAt =
     bind_act (read_clock r) (\<lambda>now0.
       (let startAt = (case nextStartAt of
                         Some t \<Rightarrow> t | None \<Rightarrow> if attempt = 1 then initialStartAt else now0) in
       bind_act (write_act (\<lambda>s. s\<lparr>currentJobAttemptStartAt := startAt, lastTaskEndAt := None\<rparr>)) (\<lambda>_.
       bind_act (write_act (emit (JobStartEvent attempt inputData startAt))) (\<lambda>_.
       bind_act (if jc_totalDeadline cfg = 0 then ret_act False
                 else bind_act (read_clock r) (\<lambda>t. ret_act (past (jc_totalDeadline cfg) t))) (\<lambda>late.
         if late then expire_job r cfg attempt startAt
         else
           bind_act (read_act storyCounter) (\<lambda>ordinal.
           bind_act (try_act (getChapter r ordinal)) (\<lambda>x.
             case x of
               Inl e \<Rightarrow>
                 if errors_is e ErrChapterNotFound then work_on_job fuel r cfg inputData attempt startAt
                 else fail_act e
             | Inr (cachedChapter, _) \<Rightarrow>
                 if ChapterIs cachedChapter ChapterTypeJobAttemptOutcome
                 then
                   bind_act (checkCachedJobResult r cfg ordinal) (\<lambda>j.
                     case cj_err j of
                       Some e \<Rightarrow> fail_act e
                     | None \<Rightarrow>
                         if cj_cached j then use_cached_job r ordinal attempt startAt cachedChapter j
                         else work_on_job fuel r cfg inputData attempt startAt)
                 else work_on_job fuel r cfg inputData attempt startAt)))))))"

fun job_loop ::
  "nat \<Rightarrow> nat \<Rightarrow> 'w workerRunner \<Rightarrow> jobExecutionConfig \<Rightarrow> TaskData option \<Rightarrow> go_time \<Rightarrow> int \<Rightarrow> go_time option
   \<Rightarrow> ('w, TaskData option) run_act" where
  "job_loop 0 fuel r cfg inputData initialStartAt attempt nextStartAt = stop_act"
| "job_loop (Suc n) fuel r cfg inputData initialStartAt attempt nextStartAt =
     bind_act (job_round fuel r cfg inputData initialStartAt attempt nextStartAt) (\<lambda>x.
       case x of
         Inl output \<Rightarrow> ret_act output
       | Inr (attempt', startAt) \<Rightarrow> job_loop n fuel r cfg inputData initialStartAt attempt' (Some startAt))"

definition keep_alive :: "'w workerRunner \<Rightarrow> ('w, unit) run_act" where
  "keep_alive r =
     (case wr_lease r of
        None \<Rightarrow> ret_act ()
      | Some l \<Rightarrow>
          if wr_replay r then ret_act ()
          else bind_act (try_act (world_op (le_KeepAlive l))) (\<lambda>_. ret_act ()))"

definition DoJob :: "nat \<Rightarrow> 'w workerRunner \<Rightarrow> ('w, TaskData option) run_act" where
  "DoJob fuel r =
     bind_act (loadInitialChapterAndPolicy r) (\<lambda>(inputData, meta).
     bind_act (setupJobExecutionConfig r inputData meta) (\<lambda>cfg.
     bind_act (if shouldCheckPrerequisites r
               then try_act (checkPrerequisites r (wm_Prerequisites meta)) else ret_act (Inr ())) (\<lambda>x.
       case x of
         Inl err \<Rightarrow> failJobPrerequisites r cfg inputData err
       | Inr _ \<Rightarrow>
           bind_act (keep_alive r) (\<lambda>_.
             job_loop fuel fuel r cfg inputData (wm_CreatedAt meta) 1 None))))"

section \<open>Replay\<close>

definition replayMutationError :: "string \<Rightarrow> go_error" where
  "replayMutationError operation = Wrap operation (Sentinel ErrReplayShouldNeverMutate)"

definition newReplayReadOnlyRuntime :: "'w WorkflowRuntime \<Rightarrow> 'w WorkflowRuntime" where
  "newReplayReadOnlyRuntime rt = rt\<lparr>rt_PutChapter := (\<lambda>req. fail_op (replayMutationError ''put chapter''))\<rparr>"

definition replay_runner ::
  "Env \<Rightarrow> (duration \<Rightarrow> rat \<Rightarrow> int \<Rightarrow> duration) \<Rightarrow> 'w WorkflowRuntime \<Rightarrow> 'w Clock \<Rightarrow> WorkSet \<Rightarrow> JobKey \<Rightarrow> duration
   \<Rightarrow> 'w workerRunner" where
  "replay_runner env scale rt clock ws jobKey threshold =
     \<lparr>wr_runtime = newReplayReadOnlyRuntime rt, wr_worker = ws, wr_lease = None, wr_clock = clock, wr_env = env,
      wr_scale = scale, wr_replay = True, wr_awaitThreshold = threshold, wr_jobKey = jobKey,
      wr_storeInput = True\<rparr>"

text \<open>\<^verbatim>\<open>replayRuntimeJob\<close>; \<open>override\<close> is the worker that the request may put in place.\<close>

definition replayRuntimeJob ::
  "nat \<Rightarrow> Env \<Rightarrow> (duration \<Rightarrow> rat \<Rightarrow> int \<Rightarrow> duration) \<Rightarrow> 'w WorkflowRuntime \<Rightarrow> 'w Clock \<Rightarrow> (string \<rightharpoonup> WorkSet)
   \<Rightarrow> JobKey \<Rightarrow> (JobKey \<Rightarrow> TaskData option \<Rightarrow> job_program) option \<Rightarrow> duration \<Rightarrow> 'w
   \<Rightarrow> 'w run \<times> TaskData option step" where
  "replayRuntimeJob fuel env scale rt clock workers jobKey override threshold w =
     (case rt_GetChapter (newReplayReadOnlyRuntime rt) jobKey 0 w of
        (w1, Inl e) \<Rightarrow>
          (newWorkerRunner w1 zero_RunPolicy,
           Fail (if e = Sentinel ErrChapterNotFound then Sentinel ErrJobNotFound else e))
      | (w1, Inr chapter) \<Rightarrow>
          (case workerMetaFromChapter chapter of
             Inl e \<Rightarrow> (newWorkerRunner w1 zero_RunPolicy, Fail e)
           | Inr meta \<Rightarrow>
               (let jobType = (if wm_TaskType meta = [] then ch_TaskType chapter else wm_TaskType meta) in
                case workers (JobTypeFromNextNeed jobType) of
                  None \<Rightarrow> (newWorkerRunner w1 zero_RunPolicy, Fail (Errorf ''job worker not registered''))
                | Some ws \<Rightarrow>
                    (let ws = (case override of None \<Rightarrow> ws | Some run1 \<Rightarrow> ws\<lparr>ws_Run := run1\<rparr>)
                     in DoJob fuel (replay_runner env scale rt clock ws jobKey threshold)
                          (newWorkerRunner w1 zero_RunPolicy)))))"

end
