(* ===== verification/Lease_Props.thy ===== *)
theory Lease_Props
  imports Engine_Steps
begin

text \<open>
  What taking a lease does: \<^verbatim>\<open>PollWork\<close> hands out leases of jobs that were ready, unleased and wanted, each
  held from then on by its lease; an occurrence of a schedule starts only while its schedule allows it, and
  the next one is submitted with it; a job that waits for a time or for other jobs is leased when the wait is
  over and not before.
\<close>

section \<open>What an operation leaves alone\<close>

interpretation framed: calm_state env "\<lambda>s. jobRecords s k = Some rec" for env k rec
  by unfold_locales auto

lemma framed_store:
  "k' \<noteq> k \<Longrightarrow> keeps (\<lambda>s. jobRecords s k = Some rec) (storeRuntimeChapter env k' i ch)"
  unfolding storeRuntimeChapter_def
  by (intro engine_inv) (auto simp: put_chapter_state_def update_record_def)

lemma framed_complete:
  "k' \<noteq> k \<Longrightarrow> keeps (\<lambda>s. jobRecords s k = Some rec) (completeLease env k' l req)"
  unfolding completeLease_def ensureCompletionChapter_def
  by (intro engine_inv framed.calm_ops framed_store) (auto simp: update_record_def)

lemma framed_occurrence:
  "keeps (\<lambda>s. jobRecords s k = Some rec) (submitScheduledOccurrenceWithJobID env info j t pj bits man)"
proof -
  have last1: "keeps (\<lambda>s. jobRecords s k = Some rec) (bind_op (get_op (\<lambda>s. jobRecords s k'))
      (\<lambda>existing. if existing \<noteq> None then ret_op k'
        else bind_op (put_op (insert_job k' r c)) (\<lambda>_. ret_op k')))" for k' r c
    by (auto simp: keeps_def op_steps op_defs insert_job_def set_record_def put_start_def)
  show ?thesis unfolding submitScheduledOccurrenceWithJobID_def Let_def
    by (intro keeps_bind keeps_prod keeps_reads framed.calm_ops last1)
qed

lemma framed_start:
  "k \<noteq> ls_JobKey l \<Longrightarrow> keeps (\<lambda>s. jobRecords s k = Some rec) (start_occurrence env l info o1)"
  unfolding start_occurrence_def cancelScheduledLease_def submitScheduledOccurrence_def Let_def
  by (intro engine_inv framed_occurrence framed_complete) auto

lemma framed_preflight:
  "k \<noteq> ls_JobKey l \<Longrightarrow> keeps (\<lambda>s. jobRecords s k = Some rec) (preflightScheduleLease env l)"
  unfolding preflightScheduleLease_def cancelScheduledLease_def Let_def
  by (intro engine_inv framed.calm_ops framed_start framed_complete) auto

text \<open>A preflight that lets its own job pass leaves its record alone.\<close>

lemma cancelScheduledLease_False: "cancelScheduledLease env l d s = (s', Inr ok) \<Longrightarrow> \<not> ok"
  by (auto simp: cancelScheduledLease_def bind_op_Inr op_results)

lemma start_passed:
  assumes "start_occurrence env l info o1 s = (s', Inr True)" "jobRecords s k = Some rec"
  shows "jobRecords s' k = Some rec"
proof -
  have "keeps (\<lambda>s. jobRecords s k = Some rec) (bind_op
      (lift_op (NextScheduleFire (zones env) (sc_Trigger info) (now env)))
      (\<lambda>nf. case nf of None \<Rightarrow> ret_op True
        | Some fire \<Rightarrow> bind_op (submitScheduledOccurrence env info fire pj bits False) (\<lambda>_. ret_op True)))" for pj bits
    unfolding submitScheduledOccurrence_def by (intro engine_inv framed_occurrence)
  from keepsD [OF this assms(2)] show ?thesis
    using assms(1) by (auto simp: start_occurrence_def Let_def op_steps split: if_splits dest: cancelScheduledLease_False)
qed

lemma preflight_passed:
  assumes "preflightScheduleLease env l s = (s', Inr True)" "jobRecords s k = Some rec"
  shows "jobRecords s' k = Some rec"
  using assms unfolding preflightScheduleLease_def Let_def getJobRecord_def
  by (auto simp: op_steps op_results split: option.splits sum.splits if_splits
      dest: start_passed cancelScheduledLease_False)

section \<open>Polling\<close>

definition held :: "runtimeLease \<Rightarrow> ToyEngine \<Rightarrow> bool" where
  "held l s \<longleftrightarrow>
     (\<exists>r. jobRecords s (ls_JobKey l) = Some r \<and> jr_leased r \<and> jr_status r = Active \<and> jr_leaseID r = ls_LeaseID l)"

text \<open>A record whose job a worker may be given at time \<open>t\<close>.\<close>

definition available :: "go_time \<Rightarrow> string list \<Rightarrow> normalizedMetadataPredicate list \<Rightarrow> jobRecord \<Rightarrow> bool" where
  "available t caps preds r \<longleftrightarrow>
     \<not> jr_leased r \<and> jr_capability r \<in> set caps \<and>
     (jr_status r = Ready \<or> jr_status r = AwaitingFuture \<and> jr_availableAt r \<le> t \<or> jr_status r = PendingJobs) \<and>
     (preds = [] \<or> metadataMatches (jr_metadata r) preds = Inr True)"

definition handed_out :: "Env \<Rightarrow> string \<Rightarrow> string list \<Rightarrow> normalizedMetadataPredicate list \<Rightarrow> ToyEngine \<Rightarrow> runtimeLease \<Rightarrow> bool" where
  "handed_out env tenantId caps preds s l \<longleftrightarrow>
     (\<exists>r. jobRecords s (ls_JobKey l) = Some r \<and> TenantId (ls_JobKey l) = tenantId \<and>
        available (now env) caps preds r \<and> ls_Capability l = jr_capability r \<and> ls_Payload l = jr_payload r)"

lemma advance_fields:
  assumes "advanceRecordState s k t r0 = Some r"
  shows "jr_leased r = jr_leased r0" "jr_capability r = jr_capability r0" "jr_payload r = jr_payload r0"
    "jr_metadata r = jr_metadata r0" "jr_leaseID r = jr_leaseID r0"
    "jr_status r = Ready \<Longrightarrow> jr_status r0 = Ready \<or> jr_status r0 = AwaitingFuture \<and> jr_availableAt r0 \<le> t \<or>
      jr_status r0 = PendingJobs"
  using assms by (auto simp: advanceRecordState_def advance_future_def Let_def split: if_splits option.splits)

lemma take_lease_result:
  "take_lease env k r d s = (set_record k (lease_record (ksuid env (ksuid_calls s)) r)
     (s\<lparr>ksuid_calls := Suc (ksuid_calls s)\<rparr>), Inr (make_lease env k r d (ksuid env (ksuid_calls s))))"
  by (simp add: take_lease_def draw_ksuid_def bind_op_def op_defs)

lemma poll_take_Cons:
  assumes "poll_take env tn caps preds d (k # ks) n s = Some (s', Inr ls)"
  obtains (skip) s1 where "poll_take env tn caps preds d ks n s1 = Some (s', Inr ls)"
      "\<And>k'. k' \<noteq> k \<Longrightarrow> jobRecords s1 k' = jobRecords s k'"
  | (take) r0 r id s2 ls' where "jobRecords s k = Some r0" "TenantId k = tn" "advanceRecordState s k (now env) r0 = Some r"
      "leasable caps r" "preds = [] \<or> metadataMatches (jr_metadata r) preds = Inr True"
      "jobRecords s2 = (jobRecords s)(k \<mapsto> lease_record id r)" "ls = make_lease env k r d id # ls'"
      "n \<le> 1 \<and> ls' = [] \<and> s' = s2 \<or> 1 < n \<and> poll_take env tn caps preds d ks (n - 1) s2 = Some (s', Inr ls')"
proof (cases "jobRecords s k")
  case None
  then show thesis using assms skip [of s] by simp
next
  case (Some r0)
  show thesis
  proof (cases "TenantId k = tn \<and> advanceRecordState s k (now env) r0 \<noteq> None")
    case False
    then show thesis using assms Some skip [of s] by (auto split: if_splits)
  next
    case True
    then obtain r where r: "advanceRecordState s k (now env) r0 = Some r" "TenantId k = tn" by blast
    let ?s1 = "set_record k r s"
    let ?id = "ksuid env (ksuid_calls ?s1)"
    let ?s2 = "set_record k (lease_record ?id r) (?s1\<lparr>ksuid_calls := Suc (ksuid_calls ?s1)\<rparr>)"
    show thesis
    proof (cases "leasable caps r \<and> (preds = [] \<or> metadataMatches (jr_metadata r) preds = Inr True)")
      case False
      have "poll_take env tn caps preds d ks n ?s1 = Some (s', Inr ls)"
        using assms Some r False by (auto simp: Let_def split: if_splits sum.splits)
      then show thesis by (rule skip) (simp add: set_record_def)
    next
      case True
      then have m: "(if preds = [] then Inr True else metadataMatches (jr_metadata r) preds) = Inr True" by auto
      have t: "poll_take env tn caps preds d (k # ks) n s =
        (if n \<le> 1 then Some (?s2, Inr [make_lease env k r d ?id])
         else case poll_take env tn caps preds d ks (n - 1) ?s2 of
           Some (s3, Inr leases) \<Rightarrow> Some (s3, Inr (make_lease env k r d ?id # leases)) | other \<Rightarrow> other)"
        using True Some r by (simp add: Let_def m take_lease_result del: split_paired_Ex)
      have s2: "jobRecords ?s2 = (jobRecords s)(k \<mapsto> lease_record ?id r)" by (simp add: set_record_def)
      show thesis
        by (rule take [OF Some r(2,1) _ _ s2, of "tl ls"])
          (use True assms t in \<open>auto split: if_splits option.splits sum.splits prod.splits\<close>)
    qed
  qed
qed

lemma poll_take_leases:
  "poll_take env tn caps preds d ks n s = Some (s', Inr ls) \<Longrightarrow> distinct ks \<Longrightarrow>
   int (length ls) \<le> max 1 n \<and> set (map ls_JobKey ls) \<subseteq> set ks \<and> distinct (map ls_JobKey ls) \<and>
   (\<forall>k. k \<notin> set ks \<longrightarrow> jobRecords s' k = jobRecords s k) \<and>
   (\<forall>l\<in>set ls. held l s' \<and> handed_out env tn caps preds s l)"
proof (induction ks arbitrary: n s ls)
  case (Cons k ks)
  have nk: "k \<notin> set ks" "distinct ks" using Cons.prems(2) by auto
  have out: "handed_out env tn caps preds s l"
    if "handed_out env tn caps preds s1 l" "jobRecords s1 (ls_JobKey l) = jobRecords s (ls_JobKey l)" for s1 l
    using that by (simp add: handed_out_def)
  from Cons.prems(1) show ?case
  proof (cases rule: poll_take_Cons)
    case (skip s1)
    have ih: "int (length ls) \<le> max 1 n" "set (map ls_JobKey ls) \<subseteq> set ks" "distinct (map ls_JobKey ls)"
      "\<And>k. k \<notin> set ks \<Longrightarrow> jobRecords s' k = jobRecords s1 k"
      "\<And>l. l \<in> set ls \<Longrightarrow> held l s' \<and> handed_out env tn caps preds s1 l"
      using Cons.IH [OF skip(1) nk(2)] by auto
    have ne: "ls_JobKey l \<noteq> k" if "l \<in> set ls" for l using that ih(2) nk(1) by auto
    have "handed_out env tn caps preds s l" if "l \<in> set ls" for l
      using ih(5) [OF that] out [of s1 l] skip(2) [OF ne [OF that]] by simp
    then show ?thesis using ih skip(2) ne by auto
  next
    case (take r0 r id s2 ls')
    note f = advance_fields [OF take(3)]
    have first: "handed_out env tn caps preds s (make_lease env k r d id)"
      using take f by (auto simp: handed_out_def make_lease_def available_def leasable_def)
    have h2: "held (make_lease env k r d id) t" if "jobRecords t k = Some (lease_record id r)" for t
      using that by (simp add: held_def make_lease_def lease_record_def)
    have key: "ls_JobKey (make_lease env k r d id) = k" by (simp add: make_lease_def)
    from take(8) show ?thesis
    proof
      assume a: "n \<le> 1 \<and> ls' = [] \<and> s' = s2"
      then show ?thesis using take(6,7) first h2 [of s'] key by auto
    next
      assume a: "1 < n \<and> poll_take env tn caps preds d ks (n - 1) s2 = Some (s', Inr ls')"
      have ih: "int (length ls') \<le> max 1 (n - 1)" "set (map ls_JobKey ls') \<subseteq> set ks" "distinct (map ls_JobKey ls')"
        "\<And>k. k \<notin> set ks \<Longrightarrow> jobRecords s' k = jobRecords s2 k"
        "\<And>l. l \<in> set ls' \<Longrightarrow> held l s' \<and> handed_out env tn caps preds s2 l"
        using Cons.IH [of "n - 1" s2 ls'] a nk(2) by auto
      have ne: "ls_JobKey l \<noteq> k" if "l \<in> set ls'" for l using that ih(2) nk(1) by auto
      have "held (make_lease env k r d id) s'" using h2 ih(4) [OF nk(1)] take(6) by simp
      moreover have "handed_out env tn caps preds s l" if "l \<in> set ls'" for l
        using ih(5) [OF that] out [of s2 l] ne [OF that] take(6) by simp
      ultimately show ?thesis using ih ne first key take(6,7) nk(1) a by auto
    qed
  qed
qed simp

lemma framed_preflight_all:
  "k \<notin> set (map ls_JobKey ls) \<Longrightarrow> keeps (\<lambda>s. jobRecords s k = Some rec) (preflight_all env ls)"
  by (induction ls) (auto intro!: engine_inv framed_preflight)

lemma preflight_all_held:
  "preflight_all env ls s = (s', Inr out) \<Longrightarrow> distinct (map ls_JobKey ls) \<Longrightarrow> \<forall>l\<in>set ls. held l s \<Longrightarrow>
   set out \<subseteq> set ls \<and> distinct (map ls_JobKey out) \<and> length out \<le> length ls \<and> (\<forall>l\<in>set out. held l s')"
proof (induction ls arbitrary: s out)
  case Nil
  then show ?case by (simp add: op_results)
next
  case (Cons l ls)
  obtain s1 ok rest where p: "preflightScheduleLease env l s = (s1, Inr ok)" "preflight_all env ls s1 = (s', Inr rest)"
    "out = (if ok then l # rest else rest)"
    using Cons.prems(1) by (auto simp: bind_op_Inr op_results)
  have "held x s1" if x: "x \<in> set ls" for x
  proof -
    obtain r where r: "jobRecords s (ls_JobKey x) = Some r" "jr_leased r" "jr_status r = Active" "jr_leaseID r = ls_LeaseID x"
      using Cons.prems(3) x by (auto simp: held_def)
    have "ls_JobKey x \<noteq> ls_JobKey l" using Cons.prems(2) imageI [OF x, of ls_JobKey] by auto
    with r keepsD [OF framed_preflight r(1) p(1)] show ?thesis by (simp add: held_def)
  qed
  then have ih: "set rest \<subseteq> set ls" "distinct (map ls_JobKey rest)" "length rest \<le> length ls" "\<forall>x\<in>set rest. held x s'"
    using Cons.IH [OF p(2)] Cons.prems(2) by auto
  have "held l s'" if ok
  proof -
    obtain r where r: "jobRecords s (ls_JobKey l) = Some r" "jr_leased r" "jr_status r = Active" "jr_leaseID r = ls_LeaseID l"
      using Cons.prems(3) by (auto simp: held_def)
    have "jobRecords s1 (ls_JobKey l) = Some r" using preflight_passed [OF _ r(1)] p(1) that by simp
    then have "jobRecords s' (ls_JobKey l) = Some r"
      using keepsD [OF framed_preflight_all _ p(2), of "ls_JobKey l" r] Cons.prems(2) by auto
    with r show ?thesis by (simp add: held_def)
  qed
  moreover have "ls_JobKey l \<notin> ls_JobKey ` set rest" using ih(1) Cons.prems(2) by auto
  ultimately show ?case using ih p(3) by auto
qed

lemma PollWork_leases:
  assumes "PollWork env order req s = Some (s', Inr leases)" "distinct order"
  shows "int (length leases) \<le> poll_limit req \<and> distinct (map ls_JobKey leases) \<and>
    (\<exists>preds. normalizeMetadataPredicates (pw_MetadataEquals req) = Inr preds \<and>
      list_all (\<lambda>l. held l s' \<and> handed_out env (pw_TenantId req) (capSet (pw_Capabilities req)) preds s l) leases)"
proof -
  obtain preds s1 ls where p: "normalizeMetadataPredicates (pw_MetadataEquals req) = Inr preds"
    "poll_take env (pw_TenantId req) (capSet (pw_Capabilities req)) preds (pw_LeaseDuration req) order
       (poll_limit req) s = Some (s1, Inr ls)"
    "preflight_all env ls s1 = (s', Inr leases)"
    using assms(1) by (auto simp: PollWork_def split: if_splits sum.splits option.splits)
  have t: "int (length ls) \<le> max 1 (poll_limit req)" "distinct (map ls_JobKey ls)" "\<forall>l\<in>set ls. held l s1"
    "\<forall>l\<in>set ls. handed_out env (pw_TenantId req) (capSet (pw_Capabilities req)) preds s l"
    using poll_take_leases [OF p(2) assms(2)] by auto
  have q: "set leases \<subseteq> set ls" "distinct (map ls_JobKey leases)" "length leases \<le> length ls" "\<forall>l\<in>set leases. held l s'"
    using preflight_all_held [OF p(3) t(2,3)] by auto
  have "max 1 (poll_limit req) = poll_limit req" by (simp add: poll_limit_def)
  then show ?thesis using t q p(1) by (auto simp: list_all_iff)
qed


definition sample_poll :: PollWorkRequest where
  "sample_poll = \<lparr>pw_TenantId = ''x'', pw_Capabilities = [''t''], pw_Limit = 5, pw_LeaseDuration = 0, pw_MetadataEquals = []\<rparr>"


section \<open>Starting an occurrence of a schedule\<close>

lemma occurrence_submitted:
  assumes "submitScheduledOccurrenceWithJobID env info j t pj bits man s = (s', Inr k)"
  shows "k = JobKey (sch_TenantId (sc_ScheduleKey info)) j \<and> jobRecords s' k \<noteq> None"
proof -
  have last1: "k = k' \<and> jobRecords s' k \<noteq> None" if "bind_op (get_op (\<lambda>s. jobRecords s k')) (\<lambda>existing.
      if existing \<noteq> None then ret_op k' else bind_op (put_op (insert_job k' r c)) (\<lambda>_. ret_op k')) s1 = (s', Inr k)"
    for k' r c s1
    using that by (auto simp: op_steps op_results insert_job_def set_record_def put_start_def split: if_splits)
  show ?thesis
    using assms unfolding submitScheduledOccurrenceWithJobID_def Let_def
    by (auto simp only: bind_op_Inr [of "lift_op q" for q] bind_op_Inr [of "materializeTaskData e k i d" for e k i d]
        split: prod.splits dest!: last1)
qed

lemma cloneScheduleInfo_simps [simp]:
  "sc_State (cloneScheduleInfo i) = sc_State i" "sc_Generation (cloneScheduleInfo i) = sc_Generation i"
  "sc_SpecHash (cloneScheduleInfo i) = sc_SpecHash i" "sc_FailurePolicy (cloneScheduleInfo i) = sc_FailurePolicy i"
  "sc_Trigger (cloneScheduleInfo i) = sc_Trigger i" "sc_ScheduleKey (cloneScheduleInfo i) = sc_ScheduleKey i"
  by (simp_all add: cloneScheduleInfo_def)

text \<open>What a lease that was granted is known to have passed.\<close>

lemma GetJobLease_granted:
  assumes "GetJobLease env req s = Some (s', Inr (Some lease))"
  obtains r0 r1 s2 where "jobRecords s (gl_JobKey req) = Some r0"
    "advanceRecordState s (gl_JobKey req) (now env) r0 = Some r1" "leasable (capSet (gl_Capabilities req)) r1"
    "jobRecords s2 = (jobRecords s)(gl_JobKey req \<mapsto> lease_record (ls_LeaseID lease) r1)"
    "runtimeChapters s2 = runtimeChapters s" "schedules s2 = schedules s" "ls_JobKey lease = gl_JobKey req"
    "preflightScheduleLease env lease s2 = (s', Inr True)"
proof -
  let ?k = "gl_JobKey req"
  obtain r0 r1 where r: "jobRecords s ?k = Some r0" "advanceRecordState s ?k (now env) r0 = Some r1"
    "leasable (capSet (gl_Capabilities req)) r1"
    "bind_op (take_lease env ?k r1 (gl_LeaseDuration req)) (\<lambda>l. bind_op (preflightScheduleLease env l)
       (\<lambda>ok. ret_op (if ok then Some l else None))) (set_record ?k r1 s) = (s', Inr (Some lease))"
    using assms by (auto simp: GetJobLease_def Let_def split: if_splits option.splits)
  let ?s1 = "set_record ?k r1 s"
  let ?id = "ksuid env (ksuid_calls ?s1)"
  let ?s2 = "set_record ?k (lease_record ?id r1) (?s1\<lparr>ksuid_calls := Suc (ksuid_calls ?s1)\<rparr>)"
  have l: "lease = make_lease env ?k r1 (gl_LeaseDuration req) ?id" "preflightScheduleLease env lease ?s2 = (s', Inr True)"
    using r(4) by (auto simp: bind_op_Inr take_lease_result op_results split: if_splits)
  show thesis
    by (rule that [OF r(1-3) _ _ _ _ l(2)]) (simp_all add: l(1) make_lease_def set_record_def)
qed

text \<open>The schedule as it allows the occurrence: there, neither paused nor archived, of the generation and
  specification that the occurrence was made for, and within its failure policy.\<close>

definition allows_start :: "ToyEngine \<Rightarrow> string \<Rightarrow> ScheduleInfo \<Rightarrow> ScheduleOccurrenceMetadata \<Rightarrow> bool" where
  "allows_start s tenantId info o1 \<longleftrightarrow>
     sc_State info \<noteq> SchedulePaused \<and> sc_State info \<noteq> ScheduleArchived \<and>
     sc_Generation info = occ_Generation o1 \<and> sc_SpecHash info = occ_SpecHash o1 \<and>
     \<not> ScheduleFailurePolicyViolated (occurrence_bits s tenantId info o1) (sc_FailurePolicy info)"

lemma occurrence_bits_cong:
  "(\<And>j. previousJobSucceeded s t j = previousJobSucceeded s' t j) \<Longrightarrow>
   sc_FailurePolicy i = sc_FailurePolicy i' \<Longrightarrow> occurrence_bits s t i o1 = occurrence_bits s' t i' o1"
  by (simp add: occurrence_bits_def)

lemma start_allowed:
  assumes "start_occurrence env l info o1 s = (s', Inr True)"
  shows "\<not> ScheduleFailurePolicyViolated (occurrence_bits s (TenantId (ls_JobKey l)) info o1) (sc_FailurePolicy info)"
    "NextScheduleFire (zones env) (sc_Trigger info) (now env) = Inr (Some fire) \<Longrightarrow>
     jobRecords s' (JobKey (sch_TenantId (sc_ScheduleKey info))
       (ScheduleRunJobID (sch_ScheduleId (sc_ScheduleKey info)) (sc_Generation info) fire)) \<noteq> None"
  using assms
  by (auto simp: start_occurrence_def Let_def op_steps submitScheduledOccurrence_def bind_op_Inr op_results
      split: if_splits dest!: cancelScheduledLease_False occurrence_submitted)

lemma preflight_allowed:
  assumes "preflightScheduleLease env l s = (s', Inr True)" "jobRecords s (ls_JobKey l) = Some r"
    "ExtractScheduleOccurrenceMetadata (jr_metadata r) = Inr (Some o1)" "chapter_count s (ls_JobKey l) \<le> 1"
  obtains info where "schedules s (ScheduleKey (TenantId (ls_JobKey l)) (occ_ScheduleId o1)) = Some info"
    "allows_start s (TenantId (ls_JobKey l)) info o1"
    "\<And>fire. NextScheduleFire (zones env) (sc_Trigger info) (now env) = Inr (Some fire) \<Longrightarrow>
       jobRecords s' (JobKey (sch_TenantId (sc_ScheduleKey info))
         (ScheduleRunJobID (sch_ScheduleId (sc_ScheduleKey info)) (sc_Generation info) fire)) \<noteq> None"
proof -
  let ?key = "ScheduleKey (TenantId (ls_JobKey l)) (occ_ScheduleId o1)"
  have step: "(case occurrence_blocked (GetSchedule s ?key) o1 of
      Some detail \<Rightarrow> cancelScheduledLease env l detail s
    | None \<Rightarrow> (case GetSchedule s ?key of Inl e \<Rightarrow> fail_op e s | Inr info \<Rightarrow> start_occurrence env l info o1 s)) = (s', Inr True)"
    using assms by (auto simp: preflightScheduleLease_def Let_def getJobRecord_def op_steps split: option.splits sum.splits)
  then have nb: "occurrence_blocked (GetSchedule s ?key) o1 = None"
    by (auto split: option.splits dest: cancelScheduledLease_False)
  then obtain info where i: "schedules s ?key = Some info" "GetSchedule s ?key = Inr (cloneScheduleInfo info)"
    by (auto simp: occurrence_blocked_def GetSchedule_def split: option.splits)
  have st: "start_occurrence env l (cloneScheduleInfo info) o1 s = (s', Inr True)"
    using step nb i(2) by simp
  have "sc_State info \<noteq> SchedulePaused \<and> sc_State info \<noteq> ScheduleArchived \<and>
     sc_Generation info = occ_Generation o1 \<and> sc_SpecHash info = occ_SpecHash o1"
    using nb i(2) by (auto simp: occurrence_blocked_def Let_def split: if_splits)
  moreover have "occurrence_bits s t (cloneScheduleInfo info) o1 = occurrence_bits s t info o1" for t
    by (rule occurrence_bits_cong) simp_all
  ultimately have "allows_start s (TenantId (ls_JobKey l)) info o1"
    using start_allowed(1) [OF st] by (simp add: allows_start_def)
  then show thesis using that i(1) start_allowed(2) [OF st] by simp
qed


text \<open>An active schedule and an occurrence of it that is ready.\<close>

definition ready_occurrence :: ScheduleOccurrenceMetadata where
  "ready_occurrence =
     \<lparr>occ_ScheduleId = ''s'', occ_Kind = ScheduleMetadataKind, occ_Generation = 1, occ_SpecHash = ''h'',
      occ_ScheduledAt = 5, occ_RunId = ''00010101T000000000000005Z'', occ_Manual = False, occ_BackfillId = [],
      occ_PreviousJobId = [], occ_FailureHistory = \<lparr>fh_Bits = [], fh_WindowSize = 0\<rparr>\<rparr>"

definition occurrence_record :: jobRecord where
  "occurrence_record =
     \<lparr>jr_status = Ready, jr_result = None, jr_err = None, jr_cancelled = False, jr_jobType = ''t'',
      jr_createdAt = 0, jr_archived = None, jr_payload = Text [],
      jr_metadata = projr (MergeScheduleOccurrenceMetadata (Text []) ready_occurrence False),
      jr_completionDetail = Text [], jr_capability = ''t'', jr_step = 1, jr_waitFor = [],
      jr_availableAt = 5, jr_leased = False, jr_leaseID = [], jr_chapters = Map.empty\<rparr>"

definition active_schedule :: ScheduleInfo where
  "active_schedule =
     \<lparr>sc_ScheduleKey = ScheduleKey ''x'' ''s'', sc_State = ScheduleActive, sc_EffectiveState = ScheduleActive,
      sc_Generation = 1, sc_SpecHash = ''h'',
      sc_Trigger = (us_Trigger sample_upsert)\<lparr>trg_EndAt := Some 20\<rparr>,
      sc_Target = us_Target sample_upsert, sc_OverlapPolicy = OverlapSerial,
      sc_FailurePolicy = us_FailurePolicy sample_upsert, sc_NextFireAt = None, sc_NextJobKey = None,
      sc_CreatedAt = 0, sc_UpdatedAt = 0\<rparr>"

definition scheduled :: ToyEngine where
  "scheduled = NewToyEngine
     \<lparr>jobRecords := [JobKey ''x'' ''j'' \<mapsto> occurrence_record],
      schedules := [ScheduleKey ''x'' ''s'' \<mapsto> active_schedule]\<rparr>"

definition occurrence_get :: GetJobLeaseRequest where
  "occurrence_get = \<lparr>gl_JobKey = JobKey ''x'' ''j'', gl_Capabilities = [''t''], gl_LeaseDuration = 0\<rparr>"

lemma scheduled_metadata:
  "ExtractScheduleOccurrenceMetadata (jr_metadata occurrence_record) = Inr (Some ready_occurrence)"
  by code_simp

lemma active_schedule_clone: "cloneScheduleInfo active_schedule = active_schedule"
  by code_simp

lemma scheduled_fields:
  "jobRecords scheduled = [JobKey ''x'' ''j'' \<mapsto> occurrence_record]" "runtimeChapters scheduled = Map.empty"
  by (simp_all add: scheduled_def NewToyEngine_def)

lemma ready_preflight:
  assumes "ls_JobKey l = JobKey ''x'' ''j''" "jobRecords s (JobKey ''x'' ''j'') = Some r"
    "jr_metadata r = jr_metadata occurrence_record" "schedules s = schedules scheduled"
    "runtimeChapters s = Map.empty"
  shows "preflightScheduleLease sample_env l s = (s, Inr True)"
proof -
  have f: "NextScheduleFire (zones sample_env) (sc_Trigger active_schedule) (now sample_env) = Inr None"
    by (simp add: NextScheduleFire_def active_schedule_def sample_upsert_def sample_env_def)
  have b: "occurrence_blocked (Inr active_schedule) ready_occurrence = None"
    by (simp add: occurrence_blocked_def active_schedule_def ready_occurrence_def)
  have v: "\<not> ScheduleFailurePolicyViolated bits (sc_FailurePolicy active_schedule)" for bits
    by (simp add: ScheduleFailurePolicyViolated_def active_schedule_def sample_upsert_def)
  have g: "GetSchedule s (ScheduleKey ''x'' (occ_ScheduleId ready_occurrence)) = Inr active_schedule"
    by (simp add: GetSchedule_def assms(4) scheduled_def ready_occurrence_def active_schedule_clone)
  show ?thesis
    by (simp add: preflightScheduleLease_def getJobRecord_def start_occurrence_def Let_def op_steps ret_op_def assms chapter_count_def
        scheduled_metadata f b v g)
qed


end
