(* ===== verification/Worker_Toy.thy ===== *)
theory Worker_Toy
  imports Worker_Job Lease_Props
begin

text \<open>
  The worker runner on the toy runtime: the adapters that \<^verbatim>\<open>toyimpl/runtime.go\<close> offers as
  \<^verbatim>\<open>WorkflowRuntime\<close> and \<^verbatim>\<open>ExecutionLease\<close>, a clock with any readings, and running a lease
  (\<^verbatim>\<open>run_job_if_leaseable.go\<close>). The world is the engine and the number of times that the clock was
  asked; \<open>Oracle\<close> says what each time it answered. What the runner relies on in a runtime
  that it only reads is the locale \<open>observed\<close> of the theory \<open>Worker_Replay\<close>, which the toy runtime satisfies.
\<close>

section \<open>The adapters\<close>

record Oracle =
  or_time :: "nat \<Rightarrow> go_time"
  or_fires :: "nat \<Rightarrow> bool"
  or_cancelled :: "nat \<Rightarrow> bool"

record World =
  engine :: ToyEngine
  asked :: nat

definition asked_once :: "World \<Rightarrow> World" where "asked_once w = w\<lparr>asked := Suc (asked w)\<rparr>"

definition toy_clock :: "Oracle \<Rightarrow> World Clock" where
  "toy_clock orc =
     \<lparr>ck_Now = (\<lambda>w. (asked_once w, or_time orc (asked w))),
      ck_Sleep = (\<lambda>d w. (asked_once w, if or_cancelled orc (asked w) then Inl (Sentinel ContextCanceled) else Inr ())),
      ck_Fires = (\<lambda>t w. (asked_once w, or_fires orc (asked w)))\<rparr>"

text \<open>An operation of the engine, at the time the clock shows.\<close>

definition on_engine :: "Env \<Rightarrow> Oracle \<Rightarrow> (Env \<Rightarrow> 'a toy_op) \<Rightarrow> (World, 'a) op" where
  "on_engine env orc m w =
     (case m (env\<lparr>now := or_time orc (asked w)\<rparr>) (engine w) of
        (e, x) \<Rightarrow> ((asked_once w)\<lparr>engine := e\<rparr>, x))"

text \<open>\<^verbatim>\<open>jobInfoTaskData\<close>\<close>

definition job_info_data :: "TaskData option \<times> go_error option \<Rightarrow> TaskData" where
  "job_info_data d =
     \<lparr>td_GetData =
        (case jobInfoTaskData_GetData d of
           (_, Some e) \<Rightarrow> Inl e | (Some r, None) \<Rightarrow> Inr r | (None, None) \<Rightarrow> Inr (Text [])),
      td_GetArtifacts =
        (case d of
           (None, Some e) \<Rightarrow> Inl e | (None, None) \<Rightarrow> Inr [] | (Some td, _) \<Rightarrow> td_GetArtifacts td),
      td_Kind = None\<rparr>"

definition toy_job_info :: "JobInfo \<Rightarrow> RuntimeJobInfo" where
  "toy_job_info i = \<lparr>rj_Status = ji_Status i, rj_Data = Some (job_info_data (ji_Data i))\<rparr>"

definition toy_runtime :: "Env \<Rightarrow> Oracle \<Rightarrow> World WorkflowRuntime" where
  "toy_runtime env orc =
     \<lparr>rt_GetChapter = (\<lambda>k n w. (w, GetChapter (engine w) k n)),
      rt_GetJob = (\<lambda>k w. (w, case GetJob (engine w) k of Inl e \<Rightarrow> Inl e | Inr i \<Rightarrow> Inr (toy_job_info i))),
      rt_PutChapter = (\<lambda>req. on_engine env orc (\<lambda>env. PutChapter env None req)),
      rt_OpenArtifact = (\<lambda>k n name w. OpenStoredArtifact (engine w) k n name)\<rparr>"

definition toy_lease :: "Env \<Rightarrow> Oracle \<Rightarrow> runtimeLease \<Rightarrow> World ExecutionLease" where
  "toy_lease env orc l =
     \<lparr>le_LeaseID = ls_LeaseID l, le_JobKey = ls_JobKey l, le_Capability = ls_Capability l,
      le_Payload = clone_json (ls_Payload l),
      le_KeepAlive = ret_op (),
      le_Complete = (\<lambda>req. on_engine env orc (\<lambda>env. completeLease env (ls_JobKey l) (ls_LeaseID l) req)),
      le_Reschedule = (\<lambda>req. on_engine env orc (\<lambda>env. rescheduleLease env (ls_JobKey l) (ls_LeaseID l) req)),
      le_SubmitJob = (\<lambda>j. on_engine env orc (\<lambda>env. SubmitJobWithLeaseByID env (ls_JobKey l) (ls_LeaseID l) j)),
      le_SubmitRestartJob =
        (\<lambda>j. on_engine env orc (\<lambda>env. SubmitRestartJobWithLeaseByID env (ls_JobKey l) (ls_LeaseID l) j))\<rparr>"

section \<open>Running a lease\<close>

text \<open>\<^verbatim>\<open>runClaimedJobLease\<close>; a payload that cannot be decoded counts as empty.\<close>

definition lease_payload :: "raw \<Rightarrow> workerJobPayload" where
  "lease_payload r =
     (if raw_len0 r then \<lparr>wp_RunPolicy = zero_RunPolicy, wp_TaskWait = None\<rparr>
      else
        (case dec_workerJobPayload r of
           None \<Rightarrow> \<lparr>wp_RunPolicy = zero_RunPolicy, wp_TaskWait = None\<rparr> | Some p \<Rightarrow> p))"

definition lease_runner ::
  "Env \<Rightarrow> (duration \<Rightarrow> rat \<Rightarrow> int \<Rightarrow> duration) \<Rightarrow> 'w WorkflowRuntime \<Rightarrow> 'w Clock \<Rightarrow> WorkSet \<Rightarrow> 'w ExecutionLease
   \<Rightarrow> duration \<Rightarrow> bool \<Rightarrow> 'w workerRunner" where
  "lease_runner env scale rt clock ws lease threshold storeInput =
     \<lparr>wr_runtime = rt, wr_worker = ws, wr_lease = Some lease, wr_clock = clock, wr_env = env, wr_scale = scale,
      wr_replay = False, wr_awaitThreshold = threshold, wr_jobKey = le_JobKey lease,
      wr_storeInput = storeInput\<rparr>"

definition runClaimedJobLease ::
  "nat \<Rightarrow> Env \<Rightarrow> (duration \<Rightarrow> rat \<Rightarrow> int \<Rightarrow> duration) \<Rightarrow> 'w WorkflowRuntime \<Rightarrow> 'w Clock \<Rightarrow> WorkSet
   \<Rightarrow> 'w ExecutionLease \<Rightarrow> duration \<Rightarrow> bool \<Rightarrow> 'w \<Rightarrow> 'w run \<times> TaskData option step" where
  "runClaimedJobLease fuel env scale rt clock ws lease threshold storeInput w =
     DoJob fuel (lease_runner env scale rt clock ws lease threshold storeInput)
       (newWorkerRunner w (normalizeRunPolicy (wp_RunPolicy (lease_payload (le_Payload lease)))))"

end
