(* ===== verification/Worker_Replay.thy ===== *)
theory Worker_Replay
  imports Worker_Toy
begin

text \<open>
  Replay reads and never writes. What can be observed of a world that the reads and the clock leave alone
  (the locale \<open>observed\<close>) is the same after a replay as before it.
\<close>

locale observed =
  fixes rt :: "'w WorkflowRuntime" and clock :: "'w Clock" and obs :: "'w \<Rightarrow> 'o"
  assumes get_chapter: "obs (fst (rt_GetChapter rt k n w)) = obs w"
    and get_job: "obs (fst (rt_GetJob rt k w)) = obs w"
    and clock_now: "obs (fst (ck_Now clock w)) = obs w"
    and clock_sleep: "obs (fst (ck_Sleep clock d w)) = obs w"
    and clock_fires: "obs (fst (ck_Fires clock t w)) = obs w"
begin

definition seen :: "'o \<Rightarrow> 'w run \<Rightarrow> bool" where "seen v s \<longleftrightarrow> obs (world s) = v"

text \<open>A runner that replays.\<close>

definition reader :: "'w workerRunner \<Rightarrow> bool" where
  "reader r \<longleftrightarrow> wr_replay r \<and> wr_lease r = None \<and> wr_clock r = clock
     \<and> wr_runtime r = newReplayReadOnlyRuntime rt"

lemma reader_simps:
  "reader r \<Longrightarrow> wr_replay r" "reader r \<Longrightarrow> wr_lease r = None" "reader r \<Longrightarrow> wr_clock r = clock"
  "reader r \<Longrightarrow> rt_GetChapter (wr_runtime r) = rt_GetChapter rt"
  "reader r \<Longrightarrow> rt_GetJob (wr_runtime r) = rt_GetJob rt"
  by (simp_all add: reader_def newReplayReadOnlyRuntime_def)

lemma seen_world_op:
  "(\<And>w. obs (fst (m w)) = obs w) \<Longrightarrow> holds (seen v) (world_op m)"
  by (auto simp: holds_def world_op_def seen_def split: prod.splits) (metis fst_conv)

lemma seen_write:
  "(\<And>s. world (u s) = world s) \<Longrightarrow> holds (seen v) (write_act u)"
  by (simp add: holds_def act_defs seen_def)

lemma seen_clock: "reader r \<Longrightarrow> holds (seen v) (read_clock r)"
  using clock_now by (auto simp: holds_def read_clock_def seen_def reader_simps split: prod.splits) (metis fst_conv)

lemma seen_timer: "reader r \<Longrightarrow> holds (seen v) (timer_fires r d)"
  using clock_fires by (auto simp: holds_def timer_fires_def seen_def reader_simps split: prod.splits) (metis fst_conv)

lemma seen_recover: "holds (seen v) m \<Longrightarrow> holds (seen v) (finish_act m)" "holds (seen v) n \<Longrightarrow> holds (seen v) (recover_act n)"
proof -
  show "holds (seen v) (finish_act m)" if "holds (seen v) m"
    unfolding holds_def finish_act_def
  proof (intro allI impI)
    fix s assume "seen v s"
    with that have "seen v (fst (m s))" by (simp add: holds_def)
    then show "seen v (fst (finish_step (m s)))" by (cases "m s" rule: finish_step.cases) auto
  qed
  show "holds (seen v) (recover_act n)" if "holds (seen v) n"
    unfolding holds_def recover_act_def
  proof (intro allI impI)
    fix s assume "seen v s"
    with that have "seen v (fst (n s))" by (simp add: holds_def)
    then show "seen v (fst (recover_step (n s)))" by (cases "n s" rule: recover_step.cases) auto
  qed
qed

lemmas seen_basic = seen_world_op seen_write seen_clock seen_timer seen_recover holds_basic holds_bind holds_try
  holds_if holds_option holds_sum holds_prod

lemma seen_getChapter: "reader r \<Longrightarrow> holds (seen v) (getChapter r n)"
  by (simp add: getChapter_def reader_simps get_chapter seen_basic)

lemma seen_to_task_data: "holds (seen v) (to_task_data r c)"
  by (simp add: to_task_data_def seen_basic op_defs)

lemma seen_awaitUntil: "reader r \<Longrightarrow> holds (seen v) (awaitUntil r t c)"
  by (simp add: awaitUntil_def Let_def reader_simps seen_basic clock_sleep)

lemma seen_awaitJobsComplete: "reader r \<Longrightarrow> holds (seen v) (awaitJobsComplete r ids)"
  by (induction ids) (simp_all add: reader_simps get_job seen_basic)

lemma seen_AwaitJobs: "reader r \<Longrightarrow> holds (seen v) (AwaitJobs r ids)"
  by (simp add: AwaitJobs_def reader_simps seen_basic seen_awaitJobsComplete)

lemma seen_AwaitDuration: "reader r \<Longrightarrow> holds (seen v) (AwaitDuration r d)"
  by (simp add: AwaitDuration_def seen_basic seen_awaitUntil)

lemma seen_checkPrerequisites: "reader r \<Longrightarrow> holds (seen v) (checkPrerequisites r ps)"
  by (induction ps) (simp_all add: reader_simps get_job seen_basic)

lemma seen_emit:
  "world (emit e s) = world s" "world (emitTaskEnd ty n a out err t s) = world s"
  "world (markStoryOrdinalConsumed n s) = world s"
  by (simp_all add: emit_def emitTaskEnd_def markStoryOrdinalConsumed_def)

lemma seen_cached_outcome: "reader r \<Longrightarrow> holds (seen v) (cached_outcome r t n a d c m)"
  by (simp add: cached_outcome_def Let_def seen_basic seen_emit seen_to_task_data seen_awaitUntil)

lemma seen_cached_task: "reader r \<Longrightarrow> holds (seen v) (cached_task r t n a d c m)"
  by (simp add: cached_task_def seen_basic seen_emit seen_checkPrerequisites seen_cached_outcome)

lemma seen_missing_task: "reader r \<Longrightarrow> holds (seen v) (missing_task r t n a d s)"
  by (simp add: missing_task_def reader_simps seen_basic)

lemma seen_taskTotalDeadline: "reader r \<Longrightarrow> holds (seen v) (taskTotalDeadline r n d)"
  by (simp add: taskTotalDeadline_def seen_basic seen_getChapter)

lemma seen_task_round: "reader r \<Longrightarrow> holds (seen v) (task_round r t a n)"
  by (simp add: task_round_def Let_def seen_basic seen_taskTotalDeadline seen_getChapter seen_cached_task
      seen_missing_task)

lemma seen_task_loop: "reader r \<Longrightarrow> holds (seen v) (task_loop fuel r t a n)"
  by (induction fuel arbitrary: a n) (simp_all add: seen_basic seen_task_round)

lemma seen_DoTask: "reader r \<Longrightarrow> holds (seen v) (DoTask fuel r p ty d)"
  by (simp add: DoTask_def Let_def seen_basic seen_task_loop split: sum.split)

lemma seen_submit: "reader r \<Longrightarrow> holds (seen v) (runner_SubmitJob r j)" "reader r \<Longrightarrow> holds (seen v) (runner_SubmitRestartJob r k)"
  by (simp_all add: runner_SubmitJob_def runner_SubmitRestartJob_def reader_simps seen_basic)

lemma seen_run_job: "reader r \<Longrightarrow> holds (seen v) (run_job fuel r d e p)"
  by (induction p) (simp_all add: unless_fired_def seen_basic seen_DoTask seen_AwaitDuration seen_AwaitJobs seen_submit)

lemma seen_execute_job: "reader r \<Longrightarrow> holds (seen v) (execute_job fuel r c d)"
  by (simp add: execute_job_def seen_basic seen_run_job)

lemma seen_checkCachedJobResult: "reader r \<Longrightarrow> holds (seen v) (checkCachedJobResult r cfg n)"
  by (simp add: checkCachedJobResult_def stored_job_outcome_def Let_def seen_basic seen_getChapter seen_to_task_data
      seen_awaitUntil)

lemma seen_use_cached_job: "reader r \<Longrightarrow> holds (seen v) (use_cached_job r n a t c j)"
  by (simp add: use_cached_job_def Let_def consume_def reader_simps seen_basic seen_emit)

lemma seen_expire_job: "reader r \<Longrightarrow> holds (seen v) (expire_job r cfg a t)"
  by (simp add: expire_job_def Let_def reader_simps seen_basic seen_emit)

lemma seen_work_on_job: "reader r \<Longrightarrow> holds (seen v) (work_on_job fuel r cfg d a t)"
  by (simp add: work_on_job_def answer_job_def late_job_error_def job_finished_at_def
      setupAttemptDeadlines_def fallbackTaskTime_def consume_def Let_def reader_simps
      seen_basic seen_emit seen_execute_job seen_checkCachedJobResult seen_getChapter seen_use_cached_job)

lemma seen_job_loop: "reader r \<Longrightarrow> holds (seen v) (job_loop n fuel r cfg d t a s)"
  by (induction n arbitrary: a s)
    (simp_all add: job_round_def Let_def seen_basic seen_emit seen_expire_job seen_getChapter
      seen_checkCachedJobResult seen_use_cached_job seen_work_on_job)

lemma seen_failJobPrerequisites: "reader r \<Longrightarrow> holds (seen v) (failJobPrerequisites r cfg d e)"
  by (simp add: failJobPrerequisites_def completeJobOutcome_def split_def reader_simps consume_def seen_basic seen_emit)

lemma seen_DoJob: "reader r \<Longrightarrow> holds (seen v) (DoJob fuel r)"
  by (simp add: DoJob_def loadInitialChapterAndPolicy_def setupJobExecutionConfig_def keep_alive_def
      shouldCheckPrerequisites_def Let_def reader_simps seen_basic seen_getChapter seen_to_task_data seen_job_loop
      seen_failJobPrerequisites)

lemma replay_seen:
  "obs (world (fst (replayRuntimeJob fuel env scale rt clock workers key override th w))) = obs w"
proof -
  have w1: "obs (fst (rt_GetChapter (newReplayReadOnlyRuntime rt) key 0 w)) = obs w"
    by (simp add: newReplayReadOnlyRuntime_def get_chapter)
  have run: "obs (world (fst (DoJob fuel (replay_runner env scale rt clock ws key th) (newWorkerRunner w' p)))) = obs w'"
    for ws w' p
    using seen_DoJob [of "replay_runner env scale rt clock ws key th" "obs w'" fuel]
    by (simp add: holds_def seen_def reader_def replay_runner_def newWorkerRunner_def)
  have fresh: "obs (world (newWorkerRunner w' p)) = obs w'" for w' p by (simp add: newWorkerRunner_def)
  show ?thesis using w1
    by (auto simp: replayRuntimeJob_def Let_def run fresh split: prod.splits sum.splits option.splits)
qed

end

interpretation toy_reads: observed "toy_runtime env orc" "toy_clock orc" engine for env orc
  by unfold_locales (simp_all add: toy_runtime_def toy_clock_def asked_once_def)

text \<open>C24: a replay, of any job with any worker (also one put in place for it), never changes the engine:
  not its records, chapters, schedules or artifacts, whether it succeeds, fails, or is cut off.\<close>
theorem replay_never_mutates:
  "engine (world (fst (replayRuntimeJob fuel env scale (toy_runtime env orc) (toy_clock orc) workers key override
     threshold w))) = engine w"
  by (rule toy_reads.replay_seen)

end
