(* ===== verification/Worker_Props.thy ===== *)
theory Worker_Props
  imports Worker_Replay
begin

text \<open>
  What the worker runner does on the toy runtime, step by step: a stored outcome answers for the task
  worker, a wait longer than the threshold leaves the job, a final outcome ends it.
\<close>

section \<open>Running the steps\<close>

lemma bind_run:
  "m s = (s1, Done x) \<Longrightarrow> bind_act m f s = f x s1"
  "m s = (s1, Fail e) \<Longrightarrow> bind_act m f s = (s1, Fail e)"
  "m s = (s1, Goexit) \<Longrightarrow> bind_act m f s = (s1, Goexit)"
  by (simp_all add: bind_act_def)

lemma bind_try_run:
  "m s = (s1, Done x) \<Longrightarrow> bind_act (try_act m) f s = f (Inr x) s1"
  "m s = (s1, Fail e) \<Longrightarrow> bind_act (try_act m) f s = f (Inl e) s1"
  "m s = (s1, Goexit) \<Longrightarrow> bind_act (try_act m) f s = (s1, Goexit)"
  by (simp_all add: bind_act_def try_act_def)

text \<open>A runner that reads the toy runtime: a live one, or one that replays.\<close>

definition on_toy :: "Env \<Rightarrow> Oracle \<Rightarrow> World workerRunner \<Rightarrow> bool" where
  "on_toy env orc r \<longleftrightarrow>
     rt_GetChapter (wr_runtime r) = rt_GetChapter (toy_runtime env orc) \<and>
     rt_GetJob (wr_runtime r) = rt_GetJob (toy_runtime env orc) \<and>
     rt_OpenArtifact (wr_runtime r) = rt_OpenArtifact (toy_runtime env orc) \<and> wr_clock r = toy_clock orc"

definition tick :: "World run \<Rightarrow> World run" where "tick s = s\<lparr>world := asked_once (world s)\<rparr>"

lemma tick_simps [simp]:
  "engine (world (tick s)) = engine (world s)" "storyCounter (tick s) = storyCounter s"
  "jobPolicy (tick s) = jobPolicy s" "asked (world (tick s)) = Suc (asked (world s))" "events (tick s) = events s"
  "rescheduled (tick s) = rescheduled s"
  by (simp_all add: tick_def asked_once_def)

lemma read_clock_toy: "on_toy env orc r \<Longrightarrow> read_clock r s = (tick s, Done (or_time orc (asked (world s))))"
  by (simp add: read_clock_def on_toy_def toy_clock_def tick_def)

lemma GetChapter_toy:
  "on_toy env orc r \<Longrightarrow> world_op (rt_GetChapter (wr_runtime r) k n) s =
     (s, case GetChapter (engine (world s)) k n of Inl e \<Rightarrow> Fail e | Inr c \<Rightarrow> Done c)"
  by (simp add: world_op_def on_toy_def toy_runtime_def)

lemma GetChapter_cases:
  "GetChapter e k n = (case Option.bind (runtimeChapters e k) (\<lambda>chapters. chapters n) of
     None \<Rightarrow> Inl (Sentinel ErrChapterNotFound) | Some c \<Rightarrow> Inr c)"
  by (simp add: GetChapter_def split: option.splits)

text \<open>The chapter at an ordinal of the runner's job.\<close>

definition chapter_at :: "World workerRunner \<Rightarrow> World run \<Rightarrow> int \<Rightarrow> Chapter option" where
  "chapter_at r s n = Option.bind (runtimeChapters (engine (world s)) (wr_jobKey r)) (\<lambda>chapters. chapters n)"

lemma chapter_at_tick [simp]: "chapter_at r (tick s) = chapter_at r s"
  by (simp add: chapter_at_def fun_eq_iff)

lemma getChapter_toy:
  "on_toy env orc r \<Longrightarrow> getChapter r n s =
     (case chapter_at r s n of
        None \<Rightarrow> (s, Fail (Sentinel ErrChapterNotFound))
      | Some c \<Rightarrow> (case workerMetaFromChapter c of Inl e \<Rightarrow> (s, Fail e) | Inr m \<Rightarrow> (s, Done (c, m))))"
  by (simp add: getChapter_def bind_act_def GetChapter_toy GetChapter_cases chapter_at_def act_defs
      split: option.splits sum.splits)

text \<open>The metadata of the chapter at an ordinal can be read, if it is there.\<close>

definition readable :: "World workerRunner \<Rightarrow> World run \<Rightarrow> int \<Rightarrow> bool" where
  "readable r s n \<longleftrightarrow> (case chapter_at r s n of None \<Rightarrow> True | Some c \<Rightarrow> \<not> isl (workerMetaFromChapter c))"

lemma readable_tick [simp]: "readable r (tick s) n = readable r s n"
  by (simp add: readable_def)

lemma taskTotalDeadline_toy:
  assumes "on_toy env orc r" "readable r s (if n - 1 < 0 then 0 else n - 1)"
  shows "\<exists>x. taskTotalDeadline r n d s = (s, x) \<and> (x = Fail (Sentinel ErrChapterNotFound) \<or> (\<exists>t. x = Done t))"
  using assms by (auto simp: taskTotalDeadline_def getChapter_toy bind_act_def act_defs readable_def isl_def
      split: option.splits sum.splits)

section \<open>A stored outcome answers for the worker\<close>

text \<open>The outcome of a chapter for the runner, and whether a task ends with it.\<close>

definition stored_answer :: "World workerRunner \<Rightarrow> World run \<Rightarrow> Chapter \<Rightarrow> TaskData option res" where
  "stored_answer r s c =
     data_or_error (chapterToTaskData (wr_env r) (wr_runtime r) (wr_jobKey r) c (world s))"

definition final_answer :: "RetryPolicy \<Rightarrow> workerMeta \<Rightarrow> TaskData option res \<Rightarrow> bool" where
  "final_answer rp meta x \<longleftrightarrow>
     (case x of Inr _ \<Rightarrow> True | Inl e \<Rightarrow> \<not> isRetryable (Some e) rp \<or> MaximumAttempts rp \<le> prior_attempt meta)"

lemma stored_answer_cong:
  "on_toy env orc r \<Longrightarrow> engine (world s) = engine (world s') \<Longrightarrow> stored_answer r s c = stored_answer r s' c"
proof -
  assume a: "on_toy env orc r" "engine (world s) = engine (world s')"
  have "newRuntimeBackedArtifact (wr_runtime r) k n (world s) = newRuntimeBackedArtifact (wr_runtime r) k n (world s')"
    for k n using a by (simp add: fun_eq_iff newRuntimeBackedArtifact_def on_toy_def toy_runtime_def)
  then show ?thesis by (simp add: stored_answer_def chapterToTaskData_def)
qed

lemma to_task_data_toy:
  "to_task_data r c s = (s, case stored_answer r s c of Inl e \<Rightarrow> Fail e | Inr td \<Rightarrow> Done td)"
  by (simp add: to_task_data_def world_op_def read_op_def stored_answer_def)

lemma engine_writes [simp]:
  "world (emit e s) = world s" "world (emitTaskEnd ty n a out err t s) = world s"
  "world (markStoryOrdinalConsumed n s) = world s"
  "storyCounter (emit e s) = storyCounter s" "storyCounter (emitTaskEnd ty n a out err t s) = storyCounter s"
  "storyCounter (markStoryOrdinalConsumed n s) = (if storyCounter s \<le> n then n + 1 else storyCounter s)"
  "jobPolicy (emit e s) = jobPolicy s" "jobPolicy (emitTaskEnd ty n a out err t s) = jobPolicy s"
  "jobPolicy (markStoryOrdinalConsumed n s) = jobPolicy s"
  by (simp_all add: emit_def emitTaskEnd_def markStoryOrdinalConsumed_def)

lemma cached_outcome_final:
  assumes "final_answer (tk_retry t) meta (stored_answer r s c)"
  shows "\<exists>s'. cached_outcome r t n a d c meta s =
      (s', case stored_answer r s c of Inl e \<Rightarrow> Fail e | Inr td \<Rightarrow> Done (Inl td))
    \<and> world s' = world s \<and> storyCounter s' = storyCounter s"
  using assms
  by (auto simp: cached_outcome_def bind_act_def try_act_def to_task_data_toy final_answer_def act_defs Let_def
      split: sum.splits)

lemma cached_task_final:
  assumes "on_toy env orc r" "ch_Body c = Some (TaskAttemptOutcome o1)" "ChapterOutcomeToWire o1 = Inr w"
    and "tk_inputHash t = wm_InputHash meta" "wm_InputHash meta \<noteq> []"
    and "final_answer (tk_retry t) meta (stored_answer r s c)" "storyCounter s = n"
  shows "\<exists>s'. cached_task r t n a d c meta s =
      (s', case stored_answer r s c of Inl e \<Rightarrow> Fail e | Inr td \<Rightarrow> Done (Inl td))
    \<and> engine (world s') = engine (world s) \<and> storyCounter s' = n + 1"
proof -
  have ty: "ChapterIs c ChapterTypeTaskAttemptOutcome" "\<not> ChapterIs c ChapterTypeRestartExtra"
    using assms(2,3) by (cases w, simp add: ChapterIs_def ChapterType_def chapter_type_defs)+
  let ?s = "emit (TaskStartEvent (tk_type t) n a (tk_data t) (metaStartAt meta)) (markStoryOrdinalConsumed n s)"
  have "stored_answer r ?s c = stored_answer r s c" by (rule stored_answer_cong [OF assms(1)]) simp
  then obtain s' where "cached_outcome r t n a d c meta ?s =
      (s', case stored_answer r s c of Inl e \<Rightarrow> Fail e | Inr td \<Rightarrow> Done (Inl td))"
    "world s' = world ?s" "storyCounter s' = storyCounter ?s"
    using cached_outcome_final [of t meta r ?s c n a d] assms(6) by auto
  then show ?thesis using ty assms(4,5,7) by (auto simp: cached_task_def)
qed

lemma task_round_stored:
  assumes "on_toy env orc r" "chapter_at r s (storyCounter s) = Some c" "workerMetaFromChapter c = Inr meta"
    and "readable r s (if storyCounter s - 1 < 0 then 0 else storyCounter s - 1)"
  shows "\<exists>d. task_round r t a next s = cached_task r t (storyCounter s) a d c meta (tick s)"
proof -
  obtain x where x: "taskTotalDeadline r (storyCounter s) (tk_totalTimeout t) (tick s) = (tick s, x)"
    "x = Fail (Sentinel ErrChapterNotFound) \<or> (\<exists>d. x = Done d)"
    using taskTotalDeadline_toy [OF assms(1), of "tick s" "storyCounter s"] assms(4) by (metis readable_tick)
  have g: "getChapter r (storyCounter s) (tick s) = (tick s, Done (c, meta))"
    using assms by (simp add: getChapter_toy)
  show ?thesis using x(2)
  proof (elim disjE exE)
    assume "x = Fail (Sentinel ErrChapterNotFound)"
    then show ?thesis using x(1) g
      by (intro exI [of _ 0]) (simp add: task_round_def Let_def bind_run(1) [OF read_clock_toy [OF assms(1)]] bind_try_run)
  next
    fix d assume "x = Done d"
    then show ?thesis using x(1) g
      by (intro exI [of _ d]) (simp add: task_round_def Let_def bind_run(1) [OF read_clock_toy [OF assms(1)]] bind_try_run)
  qed
qed

definition task_of :: "'w workerRunner \<Rightarrow> RunPolicy \<Rightarrow> string \<Rightarrow> TaskData option \<Rightarrow> string \<Rightarrow> RunPolicy \<Rightarrow> task_config" where
  "task_of r policy taskType d inputHash base =
     (let effective = normalizeRunPolicy (mergeRunPolicy policy base) in
      \<lparr>tk_type = taskType, tk_data = d, tk_inputHash = inputHash, tk_retry = Retry effective,
       tk_invocationTimeout = durationPtrToDuration (InvocationTimeout effective),
       tk_totalTimeout = durationPtrToDuration (TotalTimeout effective)\<rparr>)"

lemma DoTask_run:
  "computeInputHash (wr_env r) d = Inr h \<Longrightarrow>
   DoTask fuel r policy taskType d s = task_loop fuel r (task_of r policy taskType d h (jobPolicy s)) 1 None s"
  by (simp add: DoTask_def task_of_def Let_def)

lemma DoTask_stored:
  assumes "on_toy env orc r" "chapter_at r s (storyCounter s) = Some c"
    and "ch_Body c = Some (TaskAttemptOutcome o1)" "ChapterOutcomeToWire o1 = Inr w"
    and "workerMetaFromChapter c = Inr meta" "wm_InputHash meta \<noteq> []"
    and "computeInputHash (wr_env r) d = Inr (wm_InputHash meta)"
    and "readable r s (if storyCounter s - 1 < 0 then 0 else storyCounter s - 1)"
    and "final_answer (Retry (normalizeRunPolicy (mergeRunPolicy policy (jobPolicy s)))) meta (stored_answer r s c)"
  shows "\<exists>s'. DoTask (Suc fuel) r policy taskType d s =
      (s', case stored_answer r s c of Inl e \<Rightarrow> Fail e | Inr td \<Rightarrow> Done td)
    \<and> engine (world s') = engine (world s) \<and> storyCounter s' = storyCounter s + 1"
proof -
  let ?t = "task_of r policy taskType d (wm_InputHash meta) (jobPolicy s)"
  obtain dl where round: "task_round r ?t 1 None s = cached_task r ?t (storyCounter s) 1 dl c meta (tick s)"
    using task_round_stored [OF assms(1,2,5,8)] by blast
  have same: "stored_answer r (tick s) c = stored_answer r s c" by (rule stored_answer_cong [OF assms(1)]) simp
  obtain s' where "task_round r ?t 1 None s =
      (s', case stored_answer r s c of Inl e \<Rightarrow> Fail e | Inr td \<Rightarrow> Done (Inl td))"
    "engine (world s') = engine (world s)" "storyCounter s' = storyCounter s + 1"
    using cached_task_final [OF assms(1,3,4), of ?t meta "tick s" "storyCounter s" 1 dl] assms(6,9)
    unfolding same round by (auto simp: task_of_def Let_def)
  then show ?thesis
    by (auto simp: DoTask_run [OF assms(7)] bind_run ret_act_def split: sum.splits)
qed

text \<open>C25: if the chapter at the runner's counter is an outcome of a task with this input, and it is final
  (an output, or an error that is not retried), DoTask answers with it: it returns the output or the
  error, moves the counter past the chapter and leaves the engine as it is. Which task workers there are
  plays no part, so an outcome that is stored is never computed again, live or in a replay.\<close>
theorem stored_task_answers:
  assumes "on_toy env orc r" "chapter_at r s (storyCounter s) = Some c"
    and "ch_Body c = Some (TaskAttemptOutcome o1)" "ChapterOutcomeToWire o1 = Inr w"
    and "workerMetaFromChapter c = Inr meta" "wm_InputHash meta \<noteq> []"
    and "computeInputHash (wr_env r) d = Inr (wm_InputHash meta)"
    and "readable r s (if storyCounter s - 1 < 0 then 0 else storyCounter s - 1)"
    and "final_answer (Retry (normalizeRunPolicy (mergeRunPolicy policy (jobPolicy s)))) meta (stored_answer r s c)"
  shows "\<exists>s'. DoTask (Suc fuel) r policy taskType d s =
      (s', case stored_answer r s c of Inl e \<Rightarrow> Fail e | Inr td \<Rightarrow> Done td)
    \<and> engine (world s') = engine (world s) \<and> storyCounter s' = storyCounter s + 1"
  by (rule DoTask_stored [OF assms])

text \<open>A job whose log holds its start and one outcome.\<close>

definition sample_chapter :: "int \<Rightarrow> ChapterBody \<Rightarrow> Chapter" where
  "sample_chapter n body =
     \<lparr>ch_Ordinal = n, ch_TaskType = ''t'', ch_Body = Some body, ch_InputHash = ''i'', ch_CreatedAt = 5,
      ch_Metadata = None, ch_Artifacts = []\<rparr>"

definition sample_log :: "ChapterBody \<Rightarrow> ToyEngine" where
  "sample_log body = NewToyEngine\<lparr>runtimeChapters :=
     [JobKey ''x'' ''j'' \<mapsto> [0 \<mapsto> sample_chapter 0 (JobStart (Json (JInt 1))), 1 \<mapsto> sample_chapter 1 body]]\<rparr>"

definition sample_oracle :: Oracle where
  "sample_oracle = \<lparr>or_time = (\<lambda>n. 100 + int n), or_fires = (\<lambda>n. False), or_cancelled = (\<lambda>n. False)\<rparr>"

definition sample_workers :: WorkSet where
  "sample_workers =
     \<lparr>ws_JobType = ''t'', ws_Run = (\<lambda>k d. JReturn None None), ws_TaskWorkers = Map.empty\<rparr>"

definition sample_replayer :: "World workerRunner" where
  "sample_replayer =
     replay_runner sample_env (\<lambda>d c n. d) (toy_runtime sample_env sample_oracle) (toy_clock sample_oracle)
       sample_workers (JobKey ''x'' ''j'') 0"

definition sample_run :: "ToyEngine \<Rightarrow> World run" where
  "sample_run e = newWorkerRunner \<lparr>engine = e, asked = 0\<rparr> DefaultRunPolicy"

definition sample_input :: "TaskData option" where
  "sample_input = Some (SimpleTaskData (Json (JInt 1)) [])"

definition sample_output :: ChapterBody where
  "sample_output = TaskAttemptOutcome (Some (ApplicationOutput (Json (JInt 7))))"

lemma sample_on_toy: "on_toy sample_env sample_oracle sample_replayer"
  by (simp add: on_toy_def sample_replayer_def replay_runner_def newReplayReadOnlyRuntime_def)

lemma sample_chapter_at:
  "chapter_at sample_replayer (sample_run (sample_log body)) n =
     [0 \<mapsto> sample_chapter 0 (JobStart (Json (JInt 1))), 1 \<mapsto> sample_chapter 1 body] n"
  by (simp add: chapter_at_def sample_replayer_def replay_runner_def sample_run_def newWorkerRunner_def
      sample_log_def)

lemma sample_meta:
  "workerMetaFromChapter (sample_chapter n body) =
     Inr (zero_workerMeta\<lparr>wm_Version := 1, wm_Ordinal := n, wm_TaskType := ''t'', wm_CreatedAt := 5,
       wm_InputHash := ''i''\<rparr>)"
  by (simp add: workerMetaFromChapter_def ChapterMetadataToJSON_def raw_len0_def sample_chapter_def
      meta_defaults_def envelopeVersion_def zero_workerMeta_def)

lemma sample_input_hash: "computeInputHash sample_env sample_input = Inr ''i''"
  by (simp add: computeInputHash_def sample_input_def SimpleTaskData_def sample_env_def)

theorem stored_task_answers_witness:
  "\<exists>s' td. DoTask 1 sample_replayer DefaultRunPolicy ''t'' sample_input (sample_run (sample_log sample_output)) =
      (s', Done (Some td)) \<and> td_GetData td = Inr (Json (JInt 7)) \<and> storyCounter s' = 2"
proof -
  let ?s = "sample_run (sample_log sample_output)"
  let ?c = "sample_chapter 1 sample_output"
  have n: "storyCounter ?s = 1" by (simp add: sample_run_def newWorkerRunner_def)
  have a: "stored_answer sample_replayer ?s ?c = Inr (Some (EnvelopedTaskData (Json (JInt 7)) [] payloadKindApp))"
    by (simp add: stored_answer_def chapterToTaskData_def ChapterPayload_def sample_chapter_def sample_output_def
        data_or_error_def clone_json_def)
  have e: "wr_env sample_replayer = sample_env" by (simp add: sample_replayer_def replay_runner_def)
  have r: "readable sample_replayer ?s 0" by (simp add: readable_def sample_chapter_at sample_meta)
  have b: "ch_Body ?c = Some (TaskAttemptOutcome (Some (ApplicationOutput (Json (JInt 7)))))"
    by (simp add: sample_chapter_def sample_output_def)
  have w: "ChapterOutcomeToWire (Some (ApplicationOutput (Json (JInt 7)))) = Inr (payloadKindApp, Json (JInt 7))"
    by (simp add: clone_json_def)
  have "\<exists>s'. DoTask (Suc 0) sample_replayer DefaultRunPolicy ''t'' sample_input ?s =
      (s', case stored_answer sample_replayer ?s ?c of Inl e \<Rightarrow> Fail e | Inr td \<Rightarrow> Done td)
    \<and> engine (world s') = engine (world ?s) \<and> storyCounter s' = storyCounter ?s + 1"
    by (rule stored_task_answers [OF sample_on_toy _ b w sample_meta])
      (simp_all add: n sample_chapter_at r e sample_input_hash final_answer_def a)
  then show ?thesis by (auto simp: n a EnvelopedTaskData_def)
qed

section \<open>Waiting\<close>

lemma world_op_on_engine:
  "m (env\<lparr>now := or_time orc (asked (world s))\<rparr>) (engine (world s)) = (e, Inr x) \<Longrightarrow>
   world_op (on_engine env orc m) s = ((tick s)\<lparr>world := (world (tick s))\<lparr>engine := e\<rparr>\<rparr>, Done x)"
  by (simp add: world_op_def on_engine_def tick_def)

lemma rescheduleLease_held:
  assumes "jobRecords s k = Some rec" "jr_leaseID rec = lid"
  shows "rescheduleLease env k lid req s = (set_record k (reschedule_record env req rec) s, Inr ())"
  using assms by (simp add: rescheduleLease_def getJobRecord_def op_steps put_op_def update_record_def map_update_def
      set_record_def)

lemma reschedule_wait_until:
  assumes "re_WaitForJobIDs req = []" "re_WaitUntil req = Some t" "now env < t"
  shows "jr_status (reschedule_record env req rec) = AwaitingFuture"
    "jr_availableAt (reschedule_record env req rec) = t" "\<not> jr_leased (reschedule_record env req rec)"
    "jr_capability (reschedule_record env req rec) = re_NextNeed req"
  using assms
  by (simp_all add: reschedule_record_def reschedule_status_def reschedule_wait_def Let_def split: option.splits sum.splits)


text \<open>A leased job on the toy runtime, and its runner.\<close>

definition sample_lease :: runtimeLease where
  "sample_lease =
     \<lparr>ls_JobKey = JobKey ''x'' ''j'', ls_LeaseID = ''l'', ls_Capability = ''t'', ls_Payload = Text [],
      ls_ExpiresAt = 0, ls_Duration = 0, ls_SchemaHash = []\<rparr>"

definition sample_held :: ToyEngine where
  "sample_held = NewToyEngine\<lparr>jobRecords := [JobKey ''x'' ''j'' \<mapsto> lease_record ''l'' occurrence_record]\<rparr>"

definition sample_runner :: "World workerRunner" where
  "sample_runner =
     lease_runner sample_env (\<lambda>d c n. d) (toy_runtime sample_env sample_oracle) (toy_clock sample_oracle)
       sample_workers (toy_lease sample_env sample_oracle sample_lease) 10 True"

lemma sample_runner_on_toy: "on_toy sample_env sample_oracle sample_runner"
  by (simp add: on_toy_def sample_runner_def lease_runner_def)


section \<open>Stored outcomes of a job\<close>

text \<open>A runner whose clock and log are the toy runtime's, at a job outcome.\<close>

lemma checkCachedJobResult_final_error:
  assumes "on_toy env orc r" "chapter_at r s n = Some c" "ChapterIs c ChapterTypeJobAttemptOutcome"
    and "workerMetaFromChapter c = Inr meta" "wm_InputHash meta = [] \<or> wm_InputHash meta = ref_Hash (jc_inputRef cfg)"
    and "jc_totalDeadline cfg = 0" "stored_answer r s c = Inl e"
    and "\<not> isRetryable (Some e) (jc_retryCfg cfg) \<or> MaximumAttempts (jc_retryCfg cfg) \<le> prior_attempt meta"
  shows "\<exists>j. checkCachedJobResult r cfg n s = (s, Done j) \<and> cj_err j = Some e \<and> cj_terminal j"
proof -
  have g: "getChapter r n s = (s, Done (c, meta))" using assms by (simp add: getChapter_toy)
  have d: "to_task_data r c s = (s, Fail e)" using assms(7) by (simp add: to_task_data_toy)
  show ?thesis using assms(3,5,6,8)
    by (auto simp: checkCachedJobResult_def bind_try_run g stored_job_outcome_def Let_def
        d ret_act_def)
qed


definition sample_config :: jobExecutionConfig where
  "sample_config =
     \<lparr>jc_retryCfg = normalizeRetryPolicy zero_RetryPolicy, jc_invocationTimeout = 0, jc_totalTimeout = 0,
      jc_inputRef = \<lparr>ref_Ordinal = 0, ref_Hash = ''i''\<rparr>, jc_totalDeadline = 0\<rparr>"

definition sample_failure :: AppErrorPayload where
  "sample_failure =
     \<lparr>app_Message = ''m'', app_Level = ''error'', app_Attrs = [], app_InputRef = None, app_Stacktrace = []\<rparr>"

definition failed_outcome :: ChapterBody where
  "failed_outcome = JobAttemptOutcome (Some (AppErrorOutcome sample_failure))"

lemma sample_runner_chapter_at:
  "chapter_at sample_runner (sample_run (sample_log body)) n =
     [0 \<mapsto> sample_chapter 0 (JobStart (Json (JInt 1))), 1 \<mapsto> sample_chapter 1 body] n"
  by (simp add: chapter_at_def sample_runner_def lease_runner_def toy_lease_def sample_lease_def sample_run_def
      newWorkerRunner_def sample_log_def)




end
