(* ===== verification/Worker_Meta.thy ===== *)
theory Worker_Meta
  imports Worker_Chapter
begin

text \<open>
  The metadata that the runner writes with a chapter come back when it reads the chapter, through the typed
  metadata in which the store keeps them.
\<close>

text \<open>Looking up the fs that were written, from the left.\<close>

lemma gget_omit_none_append:
  "gget (omit_none e k v @ m) k' = (if k' = k \<and> v \<noteq> None then Some (e (the v)) else gget m k')"
  by (cases v) (simp_all add: omit_none_def)

lemma lower_keys_omit_none [simp]: "lower_keys (omit_none e k v) = (v = None \<or> lower_key k)"
  by (cases v) (simp_all add: omit_none_def)

lemma gget_omit_if_end: "gget (omit_if e k j) k' = (if k' = k \<and> \<not> e then Some j else None)"
  by (simp add: omit_if_def)

lemmas gget_fields = gget_omit_if_append gget_omit_none_append gget_omit_if_end

text \<open>The field of an object that was stored as typed metadata.\<close>

definition kept :: "json gomap \<Rightarrow> json gomap" where
  "kept m = map (\<lambda>(k, v). (k, chapterMetadataValueToAny v)) (gomap_of (map (\<lambda>(k, v). (k, chapterMetadataValueFromAny v)) m))"

lemma gget_kept: "distinct (map fst m) \<Longrightarrow> gget (kept m) k = map_option stored_json (gget m k)"
  by (simp add: kept_def map_of_map_values gget_gomap_of_map option.map_comp o_def)

lemma keys_gunion: "fst ` set (gunion n m) = fst ` set n \<union> fst ` set m"
proof (induction m arbitrary: n)
  case Nil
  then show ?case by (simp add: gunion_def)
next
  case (Cons a m)
  obtain k v where a: "a = (k, v)" by (cases a)
  have "gunion n (a # m) = gunion (gput k v n) m" by (simp add: gunion_def a)
  then show ?case by (simp add: a Cons)
qed

lemma keys_gomap_of: "fst ` set (gomap_of m) = fst ` set m"
  by (simp add: gomap_of_def keys_gunion)

lemma keys_map_values: "fst ` set (map (\<lambda>(k, v). (k, f v)) m) = fst ` set m"
  by force

lemma lower_keys_keys: "lower_keys m = (\<forall>k \<in> fst ` set m. lower_key k)"
  by (induction m) auto

lemma lower_keys_kept: "lower_keys (kept m) = lower_keys m"
  unfolding lower_keys_keys kept_def keys_map_values keys_gomap_of ..

lemma jfield_kept:
  "lower_keys m \<Longrightarrow> distinct (map fst m) \<Longrightarrow> lower_key k \<Longrightarrow> jfield k (kept m) = map_option stored_json (gget m k)"
  by (simp add: jfield_lower lower_keys_kept gget_kept)

lemma metadata_kept:
  "ChapterMetadataFromJSON (Json (JObj m)) = Inr md \<Longrightarrow> ChapterMetadataToJSON md = Inr (Json (JObj (kept m)))"
  by (auto simp: ChapterMetadataFromJSON_def ChapterMetadataToJSON_def kept_def)

section \<open>Decoding stored values\<close>

lemma dec_stored_InputReference:
  "int64 (ref_Ordinal r) \<Longrightarrow> dec_InputReference (Some (stored_json (enc_InputReference r))) = Some r"
proof -
  assume i: "int64 (ref_Ordinal r)"
  let ?m = "[(''ordinal'', JInt (ref_Ordinal r))] @ omit_if (ref_Hash r = []) ''hash'' (JStr (ref_Hash r))"
  have d: "distinct (map fst ?m)" "lower_keys ?m" by (simp_all add: omit_if_def lower_key_def fold_char_def)
  have k: "lower_key ''ordinal''" "lower_key ''hash''" by (simp_all add: lower_key_def fold_char_def)
  have s: "stored_json (JObj ?m) = JObj (kept ?m)" by (simp add: kept_def)
  have f: "jfield ''ordinal'' (kept ?m) = Some (JInt (ref_Ordinal r))"
    "jfield ''hash'' (kept ?m) = (if ref_Hash r = [] then None else Some (JStr (ref_Hash r)))"
    unfolding jfield_kept [OF d(2,1) k(1)] jfield_kept [OF d(2,1) k(2)]
    by (simp_all add: gget_omit_if stored_leaf del: chapterMetadataValueFromAny.simps chapterMetadataValueToAny.simps)
  show ?thesis
    unfolding enc_InputReference_def s dec_InputReference_def
    using i by (simp add: key_map_def f [simplified] codec_simps)
qed

lemma dec_keep_simps:
  "dec_keep d dec None = Some d"
  "dec_keep i0 dec_int64 (Some (JInt i)) = dec_int64 (Some (JInt i))"
  "dec_keep s0 dec_string (Some (JStr s)) = Some s" "dec_keep t0 dec_time (Some (JTime t)) = Some t"
  by (simp_all add: dec_keep_def dec_string_def dec_time_def)

text \<open>A pointer that is written only when it is set.\<close>

lemma dec_ptr_opt_field:
  "(\<And>x. v = Some x \<Longrightarrow> d (Some (stored_json (e x))) = Some x \<and> stored_json (e x) \<noteq> JNull) \<Longrightarrow>
   dec_ptr d (map_option stored_json (if v \<noteq> None then Some (e (the v)) else None)) = Some v"
  by (cases v) (auto simp: dec_ptr_def split: json.splits)

lemma stored_objects:
  "stored_json (enc_InputReference r) \<noteq> JNull" "stored_json (enc_RunPolicy p) \<noteq> JNull"
  by (simp_all add: enc_InputReference_def enc_RunPolicy_def)

lemma dec_stored_time: "dec_ptr dec_time (map_option stored_json (if v \<noteq> None then Some (JTime (the v)) else None)) = Some v"
  by (rule dec_ptr_opt_field) (simp add: dec_time_def)

lemma dec_stored_bool: "dec_ptr dec_bool (map_option stored_json (if v \<noteq> None then Some (JBool (the v)) else None)) = Some v"
  by (rule dec_ptr_opt_field) (simp add: dec_bool_def)

lemma dec_stored_int:
  "int64 i \<Longrightarrow> dec_int64 (map_option stored_json (if i \<noteq> 0 then Some (JInt i) else None)) = Some i"
  by (simp add: stored_leaf codec_simps del: chapterMetadataValueFromAny.simps chapterMetadataValueToAny.simps)

text \<open>Metadata whose numbers fit their Go types.\<close>

definition wire_meta :: "workerMeta \<Rightarrow> bool" where
  "wire_meta m \<longleftrightarrow>
     int64 (wm_Ordinal m) \<and> int64 (wm_Attempt m) \<and> int64 (wm_MaxAttempts m) \<and> int64 (wm_BackoffMillis m) \<and>
     (\<forall>r. wm_InputRef m = Some r \<longrightarrow> int64 (ref_Ordinal r)) \<and> (\<forall>p. wm_RunPolicy m = Some p \<longrightarrow> wire_policy p)"

text \<open>What comes back of a raw input: the document as typed metadata keep it.\<close>

definition kept_input :: "raw \<Rightarrow> raw" where
  "kept_input r = (case r of Text _ \<Rightarrow> Text [] | Json j \<Rightarrow> Json (stored_json j))"

lemma keys_omit:
  "k' \<in> fst ` set (omit_if e k j @ m) \<longleftrightarrow> (k' = k \<and> \<not> e) \<or> k' \<in> fst ` set m"
  "k' \<in> fst ` set (omit_none enc k v @ m) \<longleftrightarrow> (k' = k \<and> v \<noteq> None) \<or> k' \<in> fst ` set m"
  "k' \<in> fst ` set (omit_if e k j) \<longleftrightarrow> k' = k \<and> \<not> e"
  by (auto simp: omit_if_def omit_none_def split: option.splits)

lemma distinct_omit:
  "k \<notin> fst ` set m \<Longrightarrow> distinct (map fst m) \<Longrightarrow> distinct (map fst (omit_if e k j @ m))"
  "k \<notin> fst ` set m \<Longrightarrow> distinct (map fst m) \<Longrightarrow> distinct (map fst (omit_none enc k v @ m))"
  "distinct (map fst (omit_if e k j))"
  "k \<notin> fst ` set m \<Longrightarrow> distinct (map fst m) \<Longrightarrow> distinct (map fst ([(k, j)] @ m))"
  "k \<notin> fst ` set m \<Longrightarrow> distinct (map fst m) \<Longrightarrow> distinct (map fst ((k, j) # m))"
  by (auto simp: omit_if_def omit_none_def split: option.splits)

lemma keys_cons: "k' \<in> fst ` set ((k, j) # m) \<longleftrightarrow> k' = k \<or> k' \<in> fst ` set m"
  by auto

text \<open>The input is written as one field or not at all.\<close>

definition input_field :: "json option \<Rightarrow> json gomap" where
  "input_field v = omit_none (\<lambda>j. j) ''input'' v"

lemma meta_fields_ok:
  "distinct (map fst (meta_fields m (input_field v)))" "lower_keys (meta_fields m (input_field v))"
proof -
  show "distinct (map fst (meta_fields m (input_field v)))"
    unfolding meta_fields_def input_field_def append.simps
    by (intro distinct_omit; simp only: keys_omit keys_cons; simp)
  show "lower_keys (meta_fields m (input_field v))"
    by (simp add: meta_fields_def input_field_def) (simp add: lower_key_def fold_char_def)
qed

lemma gget_meta:
  "gget (meta_fields m (input_field v)) ''version'' = Some (JInt (wm_Version m))"
  "gget (meta_fields m (input_field v)) ''ordinal'' = Some (JInt (wm_Ordinal m))"
  "gget (meta_fields m (input_field v)) ''task_type'' = Some (JStr (wm_TaskType m))"
  "gget (meta_fields m (input_field v)) ''worker_id'' = Some (JStr (wm_WorkerID m))"
  "gget (meta_fields m (input_field v)) ''created_at'' = Some (JTime (wm_CreatedAt m))"
  "gget (meta_fields m (input_field v)) ''started_at'' =
     (if wm_StartedAt m \<noteq> None then Some (JTime (the (wm_StartedAt m))) else None)"
  "gget (meta_fields m (input_field v)) ''finished_at'' =
     (if wm_FinishedAt m \<noteq> None then Some (JTime (the (wm_FinishedAt m))) else None)"
  "gget (meta_fields m (input_field v)) ''input_hash'' = Some (JStr (wm_InputHash m))"
  "gget (meta_fields m (input_field v)) ''input'' = v"
  "gget (meta_fields m (input_field v)) ''attempt'' = (if wm_Attempt m \<noteq> 0 then Some (JInt (wm_Attempt m)) else None)"
  "gget (meta_fields m (input_field v)) ''max_attempts'' =
     (if wm_MaxAttempts m \<noteq> 0 then Some (JInt (wm_MaxAttempts m)) else None)"
  "gget (meta_fields m (input_field v)) ''next_attempt_at'' =
     (if wm_NextAttemptAt m \<noteq> None then Some (JTime (the (wm_NextAttemptAt m))) else None)"
  "gget (meta_fields m (input_field v)) ''backoff_ms'' =
     (if wm_BackoffMillis m \<noteq> 0 then Some (JInt (wm_BackoffMillis m)) else None)"
  "gget (meta_fields m (input_field v)) ''retryable'' =
     (if wm_Retryable m \<noteq> None then Some (JBool (the (wm_Retryable m))) else None)"
  "gget (meta_fields m (input_field v)) ''input_ref'' =
     (if wm_InputRef m \<noteq> None then Some (enc_InputReference (the (wm_InputRef m))) else None)"
  "gget (meta_fields m (input_field v)) ''run_policy'' =
     (if wm_RunPolicy m \<noteq> None then Some (enc_RunPolicy (the (wm_RunPolicy m))) else None)"
  "gget (meta_fields m (input_field v)) ''prereqs'' =
     (if wm_Prerequisites m \<noteq> [] then Some (JArr (map enc_JobPrerequisite (wm_Prerequisites m))) else None)"
  unfolding meta_fields_def input_field_def append.simps
  by (simp_all only: gget_fields map_of.simps fst_conv snd_conv fun_upd_apply)
    (simp_all)

lemma dec_kept_meta:
  assumes w: "wire_meta m" "wm_Version m = 1"
  shows "dec_workerMeta d (kept (meta_fields m (input_field v))) =
    Some (m\<lparr>wm_Input := (case v of None \<Rightarrow> Text [] | Some j \<Rightarrow> Json (stored_json j))\<rparr>)"
proof -
  have v: "int64 1" by (simp add: int64_def)
  have ref: "dec_ptr dec_InputReference (map_option stored_json
      (if wm_InputRef m \<noteq> None then Some (enc_InputReference (the (wm_InputRef m))) else None)) = Some (wm_InputRef m)"
    using w by (intro dec_ptr_opt_field) (simp add: dec_stored_InputReference stored_objects wire_meta_def)
  have pol: "dec_ptr dec_RunPolicy (map_option stored_json
      (if wm_RunPolicy m \<noteq> None then Some (enc_RunPolicy (the (wm_RunPolicy m))) else None)) = Some (wm_RunPolicy m)"
    using w by (intro dec_ptr_opt_field) (simp add: dec_stored_RunPolicy stored_objects wire_meta_def)
  have pre: "dec_slice dec_JobPrerequisite (map_option stored_json (if wm_Prerequisites m \<noteq> []
      then Some (JArr (map enc_JobPrerequisite (wm_Prerequisites m))) else None)) =
      Some (if wm_Prerequisites m = [] then None else Some (wm_Prerequisites m))"
    using dec_stored_prereqs [of "Some (wm_Prerequisites m)"] by (simp add: enc_slice_def dec_slice_def)
  have f: "jfield k (kept (meta_fields m (input_field v))) = map_option stored_json (gget (meta_fields m (input_field v)) k)"
    if "lower_key k" for k by (rule jfield_kept [OF meta_fields_ok(2,1) that])
  have lower: "lower_key ''version''" "lower_key ''ordinal''" "lower_key ''task_type''" "lower_key ''worker_id''"
    "lower_key ''created_at''" "lower_key ''started_at''" "lower_key ''finished_at''" "lower_key ''input_hash''"
    "lower_key ''input''" "lower_key ''attempt''" "lower_key ''max_attempts''" "lower_key ''next_attempt_at''"
    "lower_key ''backoff_ms''" "lower_key ''retryable''" "lower_key ''input_ref''" "lower_key ''run_policy''"
    "lower_key ''prereqs''"
    by (simp_all add: lower_key_def fold_char_def)
  have ints: "int64 (wm_Ordinal m)" "int64 (wm_Attempt m)" "int64 (wm_MaxAttempts m)" "int64 (wm_BackoffMillis m)"
    using w by (simp_all add: wire_meta_def)
  show ?thesis
    by (simp only: dec_workerMeta_def f lower gget_meta option.map stored_leaf dec_keep_simps codec_simps dec_stored_time
        dec_stored_bool dec_stored_int [OF ints(2)] dec_stored_int [OF ints(3)] dec_stored_int [OF ints(4)]
        dec_int64_simps(2) [OF ints(1)] dec_int64_simps(2) [OF v] w(2) ref pol pre prod.case option.case)
      (cases m, use w(2) in \<open>simp split: option.split\<close>)
qed

text \<open>The metadata that a chapter is written with: the caller's, completed.\<close>

definition completed_meta :: "int \<Rightarrow> string \<Rightarrow> string \<Rightarrow> go_time \<Rightarrow> workerMeta \<Rightarrow> workerMeta" where
  "completed_meta ordinal taskType inputHash createdAt meta =
     meta\<lparr>wm_Version := 1, wm_Ordinal := ordinal, wm_TaskType := taskType,
       wm_CreatedAt := (if wm_CreatedAt meta = 0 then createdAt else wm_CreatedAt meta),
       wm_InputHash := (if wm_InputHash meta = [] then inputHash else wm_InputHash meta)\<rparr>"

lemma enc_workerMeta_fields:
  "enc_workerMeta m = Inr fs \<Longrightarrow> \<exists>v. fs = meta_fields m (input_field v) \<and>
     (case v of None \<Rightarrow> Text [] | Some j \<Rightarrow> Json (stored_json j)) = kept_input (wm_Input m)"
proof (cases "wm_Input m")
  case (Text t)
  assume "enc_workerMeta m = Inr fs"
  with Text show ?thesis
    by (intro exI [of _ None]) (auto simp: enc_workerMeta_def raw_json_def input_field_def omit_none_def kept_input_def
        split: if_splits)
next
  case (Json j)
  assume "enc_workerMeta m = Inr fs"
  with Json show ?thesis
    by (intro exI [of _ "Some j"]) (auto simp: enc_workerMeta_def raw_json_def input_field_def omit_none_def kept_input_def)
qed

lemma workerMetaFromChapter_kept:
  assumes "ChapterMetadataFromJSON (Json (JObj (meta_fields m (input_field v)))) = Inr (ch_Metadata c)"
    and "wire_meta m" "wm_Version m = 1" "wm_Ordinal m = ch_Ordinal c" "wm_TaskType m = ch_TaskType c"
    and "wm_CreatedAt m = 0 \<Longrightarrow> ch_CreatedAt c = 0" "wm_InputHash m = [] \<Longrightarrow> ch_InputHash c = []"
  shows "workerMetaFromChapter c = Inr (m\<lparr>wm_Input := (case v of None \<Rightarrow> Text [] | Some j \<Rightarrow> Json (stored_json j))\<rparr>)"
proof -
  let ?m = "m\<lparr>wm_Input := (case v of None \<Rightarrow> Text [] | Some j \<Rightarrow> Json (stored_json j))\<rparr>"
  have "meta_defaults c ?m = ?m" using assms(3-) by (cases m) (auto simp: meta_defaults_def)
  then show ?thesis
    by (simp add: workerMetaFromChapter_def metadata_kept [OF assms(1)] raw_key_map_def key_map_def
        dec_kept_meta [OF assms(2,3)])
qed

lemma prepared_meta_read:
  assumes "prepareTaskDataChapterWrite env ordinal taskType chapterType payloadKind inputHash createdAt meta payload
      artifacts = Inr (c, uploads)"
    and "wire_meta meta" "int64 ordinal"
  shows "workerMetaFromChapter c =
    Inr ((completed_meta ordinal taskType inputHash createdAt meta)\<lparr>wm_Input := kept_input (wm_Input meta)\<rparr>)"
proof -
  let ?m = "completed_meta ordinal taskType inputHash createdAt meta"
  obtain fs where f: "enc_workerMeta ?m = Inr fs"
    "ChapterMetadataFromJSON (Json (JObj fs)) = Inr (ch_Metadata c)"
    "ch_Ordinal c = ordinal" "ch_TaskType c = taskType" "ch_CreatedAt c = createdAt" "ch_InputHash c = inputHash"
    using assms(1)
    by (auto simp: prepareTaskDataChapterWrite_def Let_def completed_meta_def envelopeVersion_def split: sum.splits)
  obtain v where v: "fs = meta_fields ?m (input_field v)"
    "(case v of None \<Rightarrow> Text [] | Some j \<Rightarrow> Json (stored_json j)) = kept_input (wm_Input ?m)"
    using enc_workerMeta_fields [OF f(1)] by blast
  have w: "wire_meta ?m" using assms(2,3) by (simp add: wire_meta_def completed_meta_def)
  have same: "wm_Version ?m = 1" "wm_Ordinal ?m = ch_Ordinal c" "wm_TaskType ?m = ch_TaskType c"
    "wm_CreatedAt ?m = 0 \<Longrightarrow> ch_CreatedAt c = 0" "wm_InputHash ?m = [] \<Longrightarrow> ch_InputHash c = []"
    "wm_Input ?m = wm_Input meta"
    using f by (auto simp: completed_meta_def split: if_splits)
  show ?thesis
    using workerMetaFromChapter_kept [OF f(2) [unfolded v(1)] w same(1-5)] by (simp only: v(2) same(6))
qed



end
