(* ===== verification/Worker_Events.thy ===== *)
theory Worker_Events
  imports Worker_Job
begin

text \<open>
  What the observer was told only grows, and the story counter never goes back: whatever the runtime, the
  lease and the clock do, every step of the runner leaves the events that were emitted before it in place (\<open>logs\<close>, closed under the
  combinators by the collection \<open>run_inv\<close>).
\<close>

definition logs :: "ReplayEvent list \<Rightarrow> int \<Rightarrow> 'w run \<Rightarrow> bool" where
  "logs xs c0 s \<longleftrightarrow> (\<exists>ys. events s = xs @ ys) \<and> c0 \<le> storyCounter s"

lemma logs_self: "logs (events s) (storyCounter s) s"
  by (simp add: logs_def)

lemma logs_emit:
  "logs xs c0 s \<Longrightarrow> logs xs c0 (emit e s)" "logs xs c0 s \<Longrightarrow> logs xs c0 (emitTaskEnd ty n a out err t s)"
  "logs xs c0 s \<Longrightarrow> logs xs c0 (markStoryOrdinalConsumed n s)"
  by (auto simp: logs_def emit_def emitTaskEnd_def markStoryOrdinalConsumed_def)

lemma logs_world_op: "holds (logs xs c0) (world_op m)"
  by (auto simp: holds_def world_op_def logs_def split: prod.splits)

lemma logs_clock: "holds (logs xs c0) (read_clock r)" "holds (logs xs c0) (timer_fires r d)"
  by (auto simp: holds_def read_clock_def timer_fires_def logs_def split: prod.splits)

lemma holds_finish: "holds I m \<Longrightarrow> holds I (finish_act m)" "holds I n \<Longrightarrow> holds I (recover_act n)"
proof -
  show "holds I (finish_act m)" if "holds I m"
    unfolding holds_def finish_act_def
  proof (intro allI impI)
    fix s assume "I s"
    with that have "I (fst (m s))" by (simp add: holds_def)
    then show "I (fst (finish_step (m s)))" by (cases "m s" rule: finish_step.cases) auto
  qed
  show "holds I (recover_act n)" if "holds I n"
    unfolding holds_def recover_act_def
  proof (intro allI impI)
    fix s assume "I s"
    with that have "I (fst (n s))" by (simp add: holds_def)
    then show "I (fst (recover_step (n s)))" by (cases "n s" rule: recover_step.cases) auto
  qed
qed

lemma logs_write: "(\<And>s. events (u s) = events s) \<Longrightarrow> (\<And>s. storyCounter (u s) = storyCounter s) \<Longrightarrow> holds (logs xs c0) (write_act u)"
  by (simp add: holds_def act_defs logs_def)

lemma logs_write_emit:
  "holds (logs xs c0) (write_act (emit e))" "holds (logs xs c0) (write_act (emitTaskEnd ty n a out err t))"
  "holds (logs xs c0) (write_act (markStoryOrdinalConsumed n))"
  by (simp_all add: holds_def act_defs logs_emit)

lemmas logs_basic = logs_world_op logs_clock holds_finish logs_write_emit logs_write holds_basic holds_bind holds_try
  holds_if holds_option holds_sum holds_prod

lemma logs_getChapter [run_inv]: "holds (logs xs c0) (getChapter r n)"
  by (simp add: getChapter_def logs_basic)

lemma logs_to_task_data [run_inv]: "holds (logs xs c0) (to_task_data r c)"
  by (simp add: to_task_data_def logs_basic)

lemma logs_leave [run_inv]: "holds (logs xs c0) (leave_job l q w)"
  by (simp add: leave_job_def logs_basic)

lemma logs_awaitUntil [run_inv]: "holds (logs xs c0) (awaitUntil r t c)"
  by (simp add: awaitUntil_def Let_def logs_basic logs_leave)

lemma logs_awaitJobsComplete [run_inv]: "holds (logs xs c0) (awaitJobsComplete r ids)"
  by (induction ids) (simp_all add: logs_basic)

lemma logs_AwaitJobs [run_inv]: "holds (logs xs c0) (AwaitJobs r ids)"
  by (simp add: AwaitJobs_def logs_basic logs_awaitJobsComplete logs_leave)

lemma logs_AwaitDuration [run_inv]: "holds (logs xs c0) (AwaitDuration r d)"
  by (simp add: AwaitDuration_def logs_basic logs_awaitUntil)

lemma logs_checkPrerequisites [run_inv]: "holds (logs xs c0) (checkPrerequisites r ps)"
  by (induction ps) (simp_all add: logs_basic)

lemma logs_submit [run_inv]: "holds (logs xs c0) (runner_SubmitJob r j)" "holds (logs xs c0) (runner_SubmitRestartJob r k)"
  by (simp_all add: runner_SubmitJob_def runner_SubmitRestartJob_def logs_basic)

lemma logs_run_task [run_inv]: "holds (logs xs c0) (run_task r c d e p)"
  by (induction p) (simp_all add: unless_fired_def logs_basic logs_awaitUntil logs_AwaitJobs logs_submit)

lemma logs_cached_task [run_inv]: "holds (logs xs c0) (cached_task r t n a d c m)"
  by (simp add: cached_task_def cached_outcome_def Let_def logs_basic logs_checkPrerequisites logs_to_task_data
      logs_awaitUntil)

lemma logs_settle_task [run_inv]: "holds (logs xs c0) (settle_task r t n a d st out)"
  by (simp add: settle_task_def task_payload_of_def Let_def split_def logs_basic logs_awaitUntil)

lemma logs_missing_task [run_inv]: "holds (logs xs c0) (missing_task r t n a d st)"
  by (simp add: missing_task_def execute_task_def Let_def split_def logs_basic logs_run_task logs_settle_task logs_leave)

lemma logs_task_round [run_inv]: "holds (logs xs c0) (task_round r t a n)"
  by (simp add: task_round_def taskTotalDeadline_def Let_def logs_basic logs_getChapter logs_cached_task
      logs_missing_task)

lemma logs_task_loop [run_inv]: "holds (logs xs c0) (task_loop fuel r t a n)"
  by (induction fuel arbitrary: a n) (simp_all add: logs_basic logs_task_round)

lemma logs_DoTask [run_inv]: "holds (logs xs c0) (DoTask fuel r p ty d)"
  by (simp add: DoTask_def Let_def logs_basic logs_task_loop split: sum.split)

lemma logs_run_job [run_inv]: "holds (logs xs c0) (run_job fuel r d e p)"
  by (induction p) (simp_all add: unless_fired_def logs_basic logs_DoTask logs_AwaitDuration logs_AwaitJobs logs_submit)

lemma logs_checkCachedJobResult [run_inv]: "holds (logs xs c0) (checkCachedJobResult r cfg n)"
  by (simp add: checkCachedJobResult_def stored_job_outcome_def Let_def logs_basic logs_getChapter logs_to_task_data
      logs_awaitUntil)

lemma logs_use_cached_job [run_inv]: "holds (logs xs c0) (use_cached_job r n a t c j)"
  by (simp add: use_cached_job_def completeLeaseWithChapter_def Let_def consume_def split_def logs_basic)

lemma logs_completeJobOutcome [run_inv]: "holds (logs xs c0) (completeJobOutcome r cfg n res a p e)"
  by (simp add: completeJobOutcome_def split_def logs_basic logs_to_task_data)

lemma logs_expire_job [run_inv]: "holds (logs xs c0) (expire_job r cfg a t)"
  by (simp add: expire_job_def Let_def consume_def logs_basic logs_completeJobOutcome)

lemma logs_settle_job [run_inv]: "holds (logs xs c0) (settle_job r cfg n a st fin out err)"
  by (simp add: settle_job_def persistJobOutcome_def Let_def split_def consume_def logs_basic
      logs_completeJobOutcome logs_awaitUntil)

lemma logs_work_on_job [run_inv]: "holds (logs xs c0) (work_on_job fuel r cfg d a t)"
  by (simp add: work_on_job_def answer_job_def late_job_error_def job_finished_at_def
      setupAttemptDeadlines_def fallbackTaskTime_def consume_def Let_def split_def
      execute_job_def logs_basic logs_run_job logs_checkCachedJobResult logs_getChapter logs_use_cached_job
      logs_settle_job)

lemma logs_job_round [run_inv]: "holds (logs xs c0) (job_round fuel r cfg d t a s)"
  by (simp add: job_round_def Let_def logs_basic logs_expire_job logs_getChapter logs_checkCachedJobResult
      logs_use_cached_job logs_work_on_job)

lemma logs_job_loop [run_inv]: "holds (logs xs c0) (job_loop n fuel r cfg d t a s)"
  by (induction n arbitrary: a s) (simp_all add: logs_basic logs_job_round)

text \<open>In this form the results are used: the events of a state are a prefix of those of a later one, and the
  story counter has not gone back.\<close>

definition extends_log :: "'w run \<Rightarrow> 'w run \<Rightarrow> bool" where
  "extends_log s s' \<longleftrightarrow> (\<exists>ys. events s' = events s @ ys) \<and> storyCounter s \<le> storyCounter s'"

lemma logs_run:
  assumes "\<And>xs c0. holds (logs xs c0) m" "m s = (s', x)"
  shows "extends_log s s'"
proof -
  have "logs (events s) (storyCounter s) (fst (m s))" using assms(1) [of "events s" "storyCounter s"] logs_self [of s] by (simp add: holds_def)
  then show ?thesis using assms(2) by (simp add: extends_log_def logs_def)
qed

text \<open>No attempt of a task or of the job ended with an error.\<close>

fun failed_event :: "ReplayEvent \<Rightarrow> bool" where
  "failed_event (TaskEndEvent ty n a out err t) = (err \<noteq> None)"
| "failed_event (JobEndEvent a out err t) = (err \<noteq> None)"
| "failed_event _ = False"

definition flawless :: "'w run \<Rightarrow> bool" where
  "flawless s \<longleftrightarrow> list_all (\<lambda>e. \<not> failed_event e) (events s)"

lemma flawless_before: "extends_log s s' \<Longrightarrow> flawless s' \<Longrightarrow> flawless s"
  by (auto simp: extends_log_def flawless_def)

lemma flawless_run: "m s = (s', x) \<Longrightarrow> (\<And>xs c0. holds (logs xs c0) m) \<Longrightarrow> flawless s' \<Longrightarrow> flawless s"
  using logs_run flawless_before by blast

end
