(* ===== verification/Worker_Log.thy ===== *)
theory Worker_Log
  imports Worker_Props Worker_Meta Worker_Events
begin

text \<open>
  What writing a chapter does to the log of a job: \<open>shares n k e e'\<close> says that two engines agree on the
  chapters of the job \<open>k\<close> before the ordinal \<open>n\<close> and on the bytes of their artifacts. A chapter written
  at \<open>n\<close> leaves all that is before \<open>n\<close>, and is then read back as it was written.
\<close>

definition log_at :: "ToyEngine \<Rightarrow> JobKey \<Rightarrow> int \<Rightarrow> Chapter option" where
  "log_at e k n = Option.bind (runtimeChapters e k) (\<lambda>chapters. chapters n)"

definition shares :: "int \<Rightarrow> JobKey \<Rightarrow> ToyEngine \<Rightarrow> ToyEngine \<Rightarrow> bool" where
  "shares n k e e' \<longleftrightarrow>
     (\<forall>m<n. log_at e' k m = log_at e k m \<and> (\<forall>x. runtimeArtifacts e' (k, m, x) = runtimeArtifacts e (k, m, x)))"

lemma shares_refl [simp]: "shares n k e e"
  by (simp add: shares_def)

lemma shares_trans: "shares n k e e' \<Longrightarrow> shares m k e' e'' \<Longrightarrow> n \<le> m \<Longrightarrow> shares n k e e''"
  by (simp add: shares_def)

lemma chapter_at_log: "chapter_at r s n = log_at (engine (world s)) (wr_jobKey r) n"
  by (simp add: chapter_at_def log_at_def)

text \<open>Writes at one ordinal of one job.\<close>

definition touches :: "JobKey \<Rightarrow> int \<Rightarrow> ToyEngine \<Rightarrow> ToyEngine \<Rightarrow> bool" where
  "touches k n e e' \<longleftrightarrow>
     (\<forall>m. m \<noteq> n \<longrightarrow> log_at e' k m = log_at e k m \<and> (\<forall>x. runtimeArtifacts e' (k, m, x) = runtimeArtifacts e (k, m, x)))"

lemma touches_shares: "touches k n e e' \<Longrightarrow> shares n k e e'"
  by (simp add: touches_def shares_def)

lemma touches_refl: "touches k n e e"
  by (simp add: touches_def)

lemma touches_trans: "touches k n e e' \<Longrightarrow> touches k n e' e'' \<Longrightarrow> touches k n e e''"
  by (simp add: touches_def)

definition only_artifacts :: "JobKey \<Rightarrow> int \<Rightarrow> ToyEngine \<Rightarrow> ToyEngine \<Rightarrow> bool" where
  "only_artifacts k n e e' \<longleftrightarrow> runtimeChapters e' = runtimeChapters e \<and>
     (\<forall>m x. m \<noteq> n \<longrightarrow> runtimeArtifacts e' (k, m, x) = runtimeArtifacts e (k, m, x))"

lemma only_artifacts_touches: "only_artifacts k n e e' \<Longrightarrow> touches k n e e'"
  by (simp add: only_artifacts_def touches_def log_at_def)

lemma only_artifacts_trans: "only_artifacts k n e e' \<Longrightarrow> only_artifacts k n e' e'' \<Longrightarrow> only_artifacts k n e e''"
  by (simp add: only_artifacts_def)

lemma store_uploads_only: "only_artifacts k n e (fst (store_uploads env k n us e))"
proof (induction env k n us arbitrary: e rule: store_uploads.induct)
  case (2 env k n u us)
  show ?case
  proof (cases "up_Open u")
    case (Some content)
    show ?thesis
    proof (cases content)
      case (Inr bytes)
      let ?e = "store_artifact k n (up_Name u) bytes e"
      have "only_artifacts k n e ?e" by (simp add: only_artifacts_def store_artifact_def)
      from only_artifacts_trans [OF this "2.IH" [OF Some]] show ?thesis
        by (auto simp: Some Inr op_steps bind_op_def [of "store_uploads env k n us"] ret_op_def
            split: prod.splits sum.splits)
    qed (simp add: Some op_steps only_artifacts_def)
  qed (simp add: fail_op_def only_artifacts_def)
qed (simp add: ret_op_def only_artifacts_def)

lemma prepareChapterWrite_Inr:
  assumes "prepareChapterWrite env k n c us e = (e', Inr c')"
  shows "only_artifacts k n e e' \<and> (us = [] \<and> ch_Artifacts c = [] \<and> c' = c \<or>
     (\<exists>stored. us \<noteq> [] \<and> store_uploads env k n us e = (e', Inr stored) \<and> c' = c\<lparr>ch_Artifacts := stored\<rparr> \<and>
        validateStoredArtifactDescriptors (ch_Artifacts c) stored = Inr ()))"
  using assms store_uploads_only [of k n e env us]
  by (auto simp: prepareChapterWrite_def bind_op_Inr op_results only_artifacts_def split: if_splits)

lemma validate_chapter_only: "only_artifacts k n e (fst (validate_chapter env key role c e))"
  by (simp add: validate_chapter_def with_cache_def only_artifacts_def split: prod.split)

lemma storeRuntimeChapter_Inr:
  assumes "storeRuntimeChapter env k n c e = (e', Inr ())"
  shows "touches k n e e'" "log_at e' k n = Some c" "log_at e k n = None" "ch_Ordinal c = n" "0 \<le> n"
    "runtimeArtifacts e' = runtimeArtifacts e"
proof -
  obtain chapters where ch: "runtimeChapters e k = Some chapters"
    using assms by (cases "runtimeChapters e k") (auto simp: storeRuntimeChapter_def bind_op_Inr op_results)
  have g: "0 \<le> n" "ch_Ordinal c = n" "chapters n = None"
    using assms by (auto simp: storeRuntimeChapter_def bind_op_Inr op_results ch split: if_splits)
  have s: "runtimeChapters e' = (runtimeChapters e)(k \<mapsto> chapters(n \<mapsto> c)) \<and> runtimeArtifacts e' = runtimeArtifacts e"
    using assms ch
    by (simp add: storeRuntimeChapter_def bind_op_Inr op_results split: option.splits prod.splits if_splits)
      (auto simp: put_chapter_state_def map_update_def update_record_def)
  show "touches k n e e'" "log_at e' k n = Some c" "log_at e k n = None" "ch_Ordinal c = n" "0 \<le> n"
    "runtimeArtifacts e' = runtimeArtifacts e"
    using g s ch by (auto simp: touches_def log_at_def)
qed

section \<open>Artifacts as they were described\<close>

text \<open>An artifact that reports no bytes has none.\<close>

definition honest :: "Artifact \<Rightarrow> bool" where
  "honest a \<longleftrightarrow> (case art_Content a of Inl e \<Rightarrow> True | Inr bytes \<Rightarrow> art_Size a = 0 \<longrightarrow> bytes = [])"

definition honest_data :: "TaskData option \<Rightarrow> bool" where
  "honest_data d =
     (case d of None \<Rightarrow> True
      | Some td \<Rightarrow> (case td_GetArtifacts td of Inl e \<Rightarrow> True | Inr as \<Rightarrow> list_all honest as))"

lemma uploads_described:
  assumes "artifactUploadsForChapterWrite env as = Inr (us, ds)" "store_uploads env' k n us e = (e', Inr stored)"
    and "artifacts_match ds stored = Inr ()" "list_all honest as"
  shows "stored = ds"
  using assms
proof (induction as arbitrary: us ds e stored)
  case Nil
  then show ?case by (auto simp: op_results)
next
  case (Cons a as)
  obtain digest us' ds' where u: "Artifact_Sha256 env a = Inr digest" "digest \<noteq> []" "artifactUploadsForChapterWrite env as = Inr (us', ds')"
    "us = \<lparr>up_Name = art_Name a, up_Open = Some (art_Content a)\<rparr> # us'"
    "ds = \<lparr>sa_Name = art_Name a, sa_Digest = digest, sa_Size = art_Size a\<rparr> # ds'"
    using Cons.prems(1) by (auto split: if_splits sum.splits prod.splits)
  obtain bytes where b: "art_Content a = Inr bytes"
    using Cons.prems(2) by (cases "art_Content a") (auto simp: u(4) op_steps)
  obtain e1 stored' where st: "art_Content a = Inr bytes" "store_uploads env' k n us' e1 = (e', Inr stored')"
    "stored = \<lparr>sa_Name = art_Name a, sa_Digest = Sha256 env' bytes, sa_Size = int (length bytes)\<rparr> # stored'"
    using Cons.prems(2) by (auto simp: u(4) b bind_op_Inr op_results)
  have m: "artifacts_match ds' stored' = Inr ()" "art_Size a \<noteq> 0 \<longrightarrow> art_Size a = int (length bytes)"
    "digest = Sha256 env' bytes"
    using Cons.prems(3) u(2) by (auto simp: u(5) st(3) split: if_splits)
  have "stored' = ds'" using Cons.IH [OF u(3) st(2) m(1)] Cons.prems(4) by simp
  moreover have "art_Size a = int (length bytes)" using m(2) Cons.prems(4) st(1) by (auto simp: honest_def)
  ultimately show ?case using m(3) by (simp add: u(5) st(3))
qed

lemma uploads_empty: "artifactUploadsForChapterWrite env as = Inr (us, ds) \<Longrightarrow> (us = []) = (as = []) \<and> (ds = []) = (as = [])"
  by (cases as) (auto split: if_splits sum.splits prod.splits)

section \<open>Writing a chapter\<close>

lemma prepared_kept:
  assumes "prepareTaskDataChapterWrite env n ty ct kind h t meta payload as = Inr (c, us)" "list_all honest as"
    and "prepareChapterWrite env' k n c us e = (e', Inr c')"
  shows "c' = c" "only_artifacts k n e e'"
proof -
  obtain ds where u: "artifactUploadsForChapterWrite env as = Inr (us, ds)" "ch_Artifacts c = ds"
    using assms(1) by (auto simp: prepareTaskDataChapterWrite_def Let_def split: sum.splits)
  show "only_artifacts k n e e'" "c' = c"
    using prepareChapterWrite_Inr [OF assms(3)] uploads_described [OF u(1) _ _ assms(2)] u(2) uploads_empty [OF u(1)]
    by (auto simp: validateStoredArtifactDescriptors_def split: if_splits)
qed

lemma PutChapter_stores:
  assumes "PutChapter env' None \<lparr>pc_LeaseID = lid, pc_JobKey = k, pc_Ordinal = n, pc_Chapter = c, pc_Uploads = us\<rparr> e =
      (e', Inr ())"
    and "prepareTaskDataChapterWrite env n ty ct kind h t meta payload as = Inr (c, us)" "list_all honest as"
  shows "touches k n e e'" "log_at e' k n = Some c" "log_at e k n = None" "0 \<le> n" "ch_Ordinal c = n"
proof -
  obtain e1 c' key e2 where p: "prepareChapterWrite env' k n c us e = (e1, Inr c')"
    "validate_chapter env' key ChapterRoleDefault c' e1 = (e2, Inr ())" "storeRuntimeChapter env' k n c' e2 = (e', Inr ())"
    using assms(1) by (auto simp: PutChapter_def bind_op_Inr op_results getJobRecord_def Let_def split: option.splits if_splits)
  note q = prepared_kept [OF assms(2,3) p(1)]
  have v: "only_artifacts k n e1 e2" using validate_chapter_only [of k n e1 env' key ChapterRoleDefault c'] p(2) by simp
  note st = storeRuntimeChapter_Inr [OF p(3) [unfolded q(1)]]
  have 1: "only_artifacts k n e e2" using only_artifacts_trans [OF q(2) v] .
  show "touches k n e e'" using touches_trans [OF only_artifacts_touches [OF 1] st(1)] .
  show "log_at e' k n = Some c" "0 \<le> n" "ch_Ordinal c = n" by (rule st)+
  show "log_at e k n = None" using st(3) 1 by (simp add: only_artifacts_def log_at_def)
qed

text \<open>A final chapter: stored now, or already there with the same contents.\<close>

lemma ensureCompletionChapter_stores:
  assumes "ensureCompletionChapter env' k h1 c us e = (e', Inr c')"
    and "prepareTaskDataChapterWrite env n ty ct kind h t meta payload as = Inr (c, us) \<and> list_all honest as
       \<or> us = [] \<and> log_at e k n = Some c" "ch_Ordinal c = n"
  shows "touches k n e e'" "log_at e' k n = Some c"
proof -
  have kept: "c2 = c \<and> only_artifacts k n e e2" if "prepareChapterWrite env' k n c us e = (e2, Inr c2)" for c2 e2
    using assms(2) prepared_kept [OF _ _ that] prepareChapterWrite_Inr [OF that] by auto
  show "touches k n e e'" "log_at e' k n = Some c"
  proof -
    have "touches k n e e' \<and> log_at e' k n = Some c"
    proof (cases "log_at e k n")
      case None
      then have "existingRuntimeChapter e k n = None"
        by (auto simp: existingRuntimeChapter_def log_at_def split: option.splits)
      then obtain e1 c2 e2 where p: "prepareChapterWrite env' k n c us e = (e1, Inr c2)"
        "validate_chapter env' (JobSchemaKey (TenantId k) h1) ChapterRoleLast c2 e1 = (e2, Inr ())"
        "storeRuntimeChapter env' k n c2 e2 = (e', Inr ())"
        using assms(1,3) by (auto simp: ensureCompletionChapter_def bind_op_Inr op_results split: if_splits)
      have v: "only_artifacts k n e1 e2"
        using validate_chapter_only [of k n e1 env' "JobSchemaKey (TenantId k) h1" ChapterRoleLast c2] p(2) by simp
      have 1: "only_artifacts k n e e2" using only_artifacts_trans [OF _ v] kept [OF p(1)] by blast
      from storeRuntimeChapter_Inr [OF p(3)] kept [OF p(1)] show ?thesis
        using touches_trans [OF only_artifacts_touches [OF 1]] by simp
    next
      case (Some c0)
      then have ex: "existingRuntimeChapter e k n = Some c0"
        by (cases "runtimeChapters e k") (simp_all add: existingRuntimeChapter_def log_at_def)
      then obtain c2 where c2: "(if us \<noteq> [] then prepareChapterWrite env' k n c us else ret_op c) e = (e', Inr c2)" "c0 = c2"
        using assms(1,3)
        by (auto simp: ensureCompletionChapter_def bind_op_Inr op_results split: if_splits)
      then have "c2 = c \<and> only_artifacts k n e e'"
        using kept by (cases "us = []") (auto simp: op_results only_artifacts_def)
      then show ?thesis using Some c2(2) only_artifacts_touches by (auto simp: only_artifacts_def log_at_def)
    qed
    then show "touches k n e e'" "log_at e' k n = Some c" by blast+
  qed
qed

lemma completeLease_stores:
  assumes "completeLease env' k lid \<lparr>ce_Status = st, ce_Detail = d, ce_Chapter = Some c, ce_Uploads = us\<rparr> e = (e', Inr ())"
    and "prepareTaskDataChapterWrite env n ty ct kind h t meta payload as = Inr (c, us) \<and> list_all honest as
       \<or> us = [] \<and> log_at e k n = Some c" "ch_Ordinal c = n"
  shows "touches k n e e'" "log_at e' k n = Some c"
proof -
  obtain h1 e1 c1 where p: "ensureCompletionChapter env' k h1 c us e = (e1, Inr c1)"
    "runtimeChapters e' = runtimeChapters e1" "runtimeArtifacts e' = runtimeArtifacts e1"
    using assms(1)
    by (auto simp: completeLease_def bind_op_Inr op_results getJobRecord_def update_record_def split: option.splits if_splits)
  from ensureCompletionChapter_stores [OF p(1) assms(2,3)] p(2,3)
  show "touches k n e e'" "log_at e' k n = Some c" by (simp_all add: touches_def log_at_def)
qed

section \<open>The result of a completed job\<close>

text \<open>The job's record says that it is completed, with this data and no error.\<close>

definition finished_with :: "JobKey \<Rightarrow> raw \<Rightarrow> ToyEngine \<Rightarrow> bool" where
  "finished_with k d e \<longleftrightarrow>
     (\<exists>rec td. jobRecords e k = Some rec \<and> jr_status rec = Completed \<and> jr_result rec = Some td \<and> jr_err rec = None \<and>
        td_GetData td = Inr d)"

lemma store_job_result:
  assumes "storeRuntimeChapter env k n c e = (e', Inr ())" "jobRecords e' k = Some rec"
    and "ChapterPayload c = Inr (payloadKindApp, d)" "ChapterType c = Inr ChapterTypeJobAttemptOutcome"
  shows "\<exists>td. jr_result rec = Some td \<and> jr_err rec = None \<and> td_GetData td = Inr d"
  using assms
  by (simp add: storeRuntimeChapter_def bind_op_Inr op_results split: option.splits prod.splits if_splits)
    (auto simp: put_chapter_state_def update_record_def record_chapter_def taskDataFromChapter_def EnvelopedTaskData_def
      Let_def split: sum.splits)

lemma ChapterIs_type: "ChapterIs c t \<Longrightarrow> ChapterType c = Inr t"
  by (simp add: ChapterIs_def split: sum.splits)

lemma app_payload:
  "ChapterBodyFromWire ct payloadKindApp d = Inr body \<Longrightarrow> ch_Body c = Some body \<Longrightarrow>
   ChapterPayload c = Inr (payloadKindApp, d)"
  by (auto simp: ChapterPayload_def ChapterBodyFromWire_def ChapterOutcomeFromWire_def split: sum.splits if_splits)

lemma completeLease_result:
  assumes "completeLease env' k lid \<lparr>ce_Status = st, ce_Detail = d, ce_Chapter = Some c, ce_Uploads = us\<rparr> e = (e', Inr ())"
    and "prepareTaskDataChapterWrite env n ty ct payloadKindApp h t meta payload as = Inr (c, us)" "list_all honest as"
    and "\<And>c0. log_at e k n = Some c0 \<Longrightarrow> \<not> ChapterIs c0 ChapterTypeJobAttemptOutcome" "st \<noteq> ''cancelled''"
  shows "finished_with k payload e'"
proof -
  have o1: "ch_Ordinal c = n" using assms(2) by (auto simp: prepareTaskDataChapterWrite_def Let_def split: sum.splits)
  obtain h1 e1 c1 rec where p: "ensureCompletionChapter env' k h1 c us e = (e1, Inr c1)" "jobRecords e1 k = Some rec"
    "jobRecords e' k = Some (complete_record (now env') st d rec)" "ChapterIs c ChapterTypeJobAttemptOutcome"
    using assms(1)
    by (auto simp: completeLease_def bind_op_Inr op_results getJobRecord_def update_record_def map_update_def
        split: option.splits if_splits)
  have "log_at e k n = None"
  proof (cases "log_at e k n")
    case (Some c0)
    then have ex: "existingRuntimeChapter e k n = Some c0"
      by (cases "runtimeChapters e k") (simp_all add: existingRuntimeChapter_def log_at_def)
    obtain e2 where "(if us \<noteq> [] then prepareChapterWrite env' k n c us else ret_op c) e = (e2, Inr c0)"
      using p(1) o1 ex by (auto simp: ensureCompletionChapter_def bind_op_Inr op_results split: if_splits)
    then have "c0 = c" using prepared_kept(1) [OF assms(2,3)] by (auto simp: op_results split: if_splits)
    with assms(4) [OF Some] p(4) show ?thesis by simp
  qed
  then have "existingRuntimeChapter e k n = None"
    by (auto simp: existingRuntimeChapter_def log_at_def split: option.splits)
  then obtain e2 c2 e3 where q: "prepareChapterWrite env' k n c us e = (e2, Inr c2)"
    "storeRuntimeChapter env' k n c2 e3 = (e1, Inr ())"
    using p(1) o1 by (auto simp: ensureCompletionChapter_def bind_op_Inr op_results split: if_splits)
  have c2: "c2 = c" by (rule prepared_kept(1) [OF assms(2,3) q(1)])
  obtain body where "ChapterBodyFromWire ct payloadKindApp payload = Inr body" "ch_Body c = Some body"
    using assms(2) by (auto simp: prepareTaskDataChapterWrite_def Let_def split: sum.splits)
  then have "ChapterPayload c = Inr (payloadKindApp, payload)" by (rule app_payload)
  from store_job_result [OF q(2) p(2) this [folded c2] ChapterIs_type [OF p(4) [folded c2]]] p(3) assms(5)
  show ?thesis by (auto simp: finished_with_def complete_record_def Let_def)
qed

end
