(* ===== verification/Task_Props.thy ===== *)
theory Task_Props
  imports Worker_Log
begin

text \<open>
  How a lease and a wait end: completing a lease archives the job with its final chapter in the log, and completing
  a task that a job waits for stores the task's output and makes the job ready, whatever became of the job
  in the meantime.
\<close>

lemma update_record_at: "jobRecords s k = Some r \<Longrightarrow> jobRecords (update_record k f s) k = Some (f r)"
  by (simp add: update_record_def map_update_def)

lemma update_record_chapters: "runtimeChapters (update_record k f s) = runtimeChapters s"
  by (simp add: update_record_def)

lemma getJobRecord_Inr: "getJobRecord k s = (s', Inr r) \<longleftrightarrow> s' = s \<and> jobRecords s k = Some r"
  by (auto simp: getJobRecord_def bind_op_Inr op_results split: option.splits)

lemma bind_getJobRecord: "jobRecords s k = Some r \<Longrightarrow> bind_op (getJobRecord k) f s = f r s"
  by (simp add: getJobRecord_def op_defs)

lemma GetChapter_log: "GetChapter s k n = (case log_at s k n of None \<Rightarrow> Inl (Sentinel ErrChapterNotFound) | Some c \<Rightarrow> Inr c)"
  by (simp add: GetChapter_cases log_at_def)

lemma store_stored: "storeRuntimeChapter env k n c s = (s', Inr ()) \<Longrightarrow> GetChapter s' k n = Inr c"
  using storeRuntimeChapter_Inr(2) by (simp add: GetChapter_log)

lemma ensured:
  assumes "ensureCompletionChapter env k h c us s = (s', Inr c')"
  shows "GetChapter s' k (ch_Ordinal c) = Inr c' \<and> ch_Body c' = ch_Body c \<and>
    (\<forall>old. GetChapter s k (ch_Ordinal c) = Inr old \<longrightarrow> c' = old)"
proof (cases "log_at s k (ch_Ordinal c)")
  case None
  then have "existingRuntimeChapter s k (ch_Ordinal c) = None"
    by (auto simp: existingRuntimeChapter_def log_at_def split: option.splits)
  then obtain s1 s2 where p: "prepareChapterWrite env k (ch_Ordinal c) c us s = (s1, Inr c')"
    "storeRuntimeChapter env k (ch_Ordinal c) c' s2 = (s', Inr ())"
    using assms by (auto simp: ensureCompletionChapter_def bind_op_Inr op_results split: if_splits)
  then show ?thesis using store_stored [OF p(2)] prepareChapterWrite_Inr [OF p(1)] None by (auto simp: GetChapter_log)
next
  case (Some old)
  then have ex: "existingRuntimeChapter s k (ch_Ordinal c) = Some old"
    by (cases "runtimeChapters s k") (simp_all add: existingRuntimeChapter_def log_at_def)
  then obtain c2 where c2: "(if us \<noteq> [] then prepareChapterWrite env k (ch_Ordinal c) c us else ret_op c) s = (s', Inr c2)"
    "old = c2" "c' = old"
    using assms by (auto simp: ensureCompletionChapter_def bind_op_Inr op_results split: if_splits)
  then have "ch_Body c2 = ch_Body c \<and> only_artifacts k (ch_Ordinal c) s s'"
    by (cases "us = []") (auto simp: op_results only_artifacts_def dest: prepareChapterWrite_Inr)
  then show ?thesis using Some c2 by (auto simp: GetChapter_log only_artifacts_def log_at_def)
qed

lemma GetChapter_update: "GetChapter (update_record k f s) k' n = GetChapter s k' n"
  by (simp add: GetChapter_def update_record_chapters)

text \<open>What was decoded has numbers that fit their types.\<close>

lemma dec_int64_range: "dec_int64 v = Some i \<Longrightarrow> int64 i"
  by (auto simp: dec_int64_def int64_def split: option.splits json.splits if_splits)

lemma dec_ptr_range: "dec_ptr dec_int64 v = Some p \<Longrightarrow> p = Some i \<Longrightarrow> int64 i"
  by (auto simp: dec_ptr_def dest: dec_int64_range split: option.splits json.splits)

lemma zero_policy_wire: "wire_policy zero_RunPolicy"
  by (simp add: wire_policy_def zero_RunPolicy_def zero_RetryPolicy_def int64_def int32_def)

lemma dec_retry_range:
  "dec_RetryPolicy v = Some p \<Longrightarrow> int64 (InitialInterval p) \<and> int64 (MaximumInterval p) \<and> int32 (MaximumAttempts p)"
  by (auto simp: dec_RetryPolicy_def zero_RetryPolicy_def dec_int32_def int64_def int32_def dest!: dec_int64_range
      split: option.splits if_splits)

lemma dec_policy_wire: "dec_RunPolicy v = Some p \<Longrightarrow> wire_policy p"
  using zero_policy_wire
  by (auto simp: dec_RunPolicy_def wire_policy_def dest: dec_retry_range dec_ptr_range split: option.splits)

lemma payload_policy_wire:
  "wire_policy (case dec_workerJobPayload r of None \<Rightarrow> zero_RunPolicy | Some p \<Rightarrow> wp_RunPolicy p)"
  using zero_policy_wire by (auto simp: dec_workerJobPayload_def dest: dec_policy_wire split: option.splits)

lemma task_completed:
  assumes "CompleteTaskIfWaiting env req s = (s', Inr ())"
  obtains r w r3 md payload stored rp where "jobRecords s (ct_JobKey req) = Some r"
    "extractWorkerTaskWait (clone_json (jr_payload r)) = Inr (Some w)" "wait_matches w (jr_capability r) req = Inr ()"
    "GetChapter s' (ct_JobKey req) (tw_OutputStep w) =
       Inr (task_chapter env w (extractTaskType (jr_capability r)) md payload stored)"
    "marshalChapterMetadata
       (chapter_metadata_fields env (tw_OutputStep w) (extractTaskType (jr_capability r)) (tw_InputHash w) rp) = Inr md"
    "wire_policy rp" "\<exists>d. ct_Data req = Some d \<and> td_GetData d = Inr payload"
    "jobRecords s' (ct_JobKey req) =
       Some (resume_record (if ct_ResumeNeed req \<noteq> [] then ct_ResumeNeed req else tw_Next w)
         (mustMarshalWorkerPayload \<lparr>wp_RunPolicy = rp, wp_TaskWait = None\<rparr>) (tw_OutputStep w) r3)"
proof -
  let ?k = "ct_JobKey req"
  obtain r where r: "jobRecords s ?k = Some r"
    using assms by (auto simp: CompleteTaskIfWaiting_def bind_op_Inr getJobRecord_Inr)
  obtain w where w: "extractWorkerTaskWait (clone_json (jr_payload r)) = Inr (Some w)"
    using assms r
    by (auto simp: CompleteTaskIfWaiting_def Let_def bind_getJobRecord op_steps op_results split: sum.splits option.splits)
  have m: "wait_matches w (jr_capability r) req = Inr ()"
    using assms r w
    by (cases "wait_matches w (jr_capability r) req")
      (auto simp: CompleteTaskIfWaiting_def Let_def bind_getJobRecord op_steps)
  let ?rp = "case dec_workerJobPayload (jr_payload r) of None \<Rightarrow> zero_RunPolicy | Some p \<Rightarrow> wp_RunPolicy p"
  obtain td stored payload md s1 s2 s3 r3 where c:
    "materializeTaskData env ?k (tw_OutputStep w) (ct_Data req) s = (s1, Inr (td, stored))" "task_payload td = Inr payload"
    "marshalChapterMetadata
       (chapter_metadata_fields env (tw_OutputStep w) (extractTaskType (jr_capability r)) (tw_InputHash w) ?rp) = Inr md"
    "storeRuntimeChapter env ?k (tw_OutputStep w)
       (task_chapter env w (extractTaskType (jr_capability r)) md payload stored) s2 = (s3, Inr ())"
    "jobRecords s3 ?k = Some r3"
    "s' = update_record ?k (resume_record (if ct_ResumeNeed req \<noteq> [] then ct_ResumeNeed req else tw_Next w)
       (mustMarshalWorkerPayload \<lparr>wp_RunPolicy = ?rp, wp_TaskWait = None\<rparr>) (tw_OutputStep w)) s3"
    using assms r w m
    by (simp add: CompleteTaskIfWaiting_def Let_def bind_getJobRecord op_steps split: if_splits)
      (auto simp: bind_op_Inr getJobRecord_Inr op_results eq_commute [of "Inr x" "task_payload t" for x t]
        eq_commute [of "Inr x" "marshalChapterMetadata t" for x t] intro!: that)
  have d: "\<exists>d. ct_Data req = Some d \<and> td_GetData d = Inr payload"
    using c(1,2) by (cases "ct_Data req")
      (auto simp: materializeTaskData_def task_payload_def bind_op_Inr op_results SimpleTaskData_def)
  show ?thesis
    using store_stored [OF c(4)] c(3,5,6) r w m d payload_policy_wire [of "jr_payload r"]
    by (intro that [of r w md payload stored ?rp r3]) (auto simp: GetChapter_update update_record_at)
qed


text \<open>A job that waited for the task \<^verbatim>\<open>u\<close> and was then cancelled.\<close>

definition abandoned :: ToyEngine where
  "abandoned = NewToyEngine\<lparr>
     jobRecords := [JobKey ''x'' ''j'' \<mapsto> (cancel_record 7 occurrence_record)\<lparr>jr_metadata := Text [], jr_capability := ''t:u'',
       jr_payload := mustMarshalWorkerPayload \<lparr>wp_RunPolicy = zero_RunPolicy, wp_TaskWait =
         Some \<lparr>tw_InputStep = 0, tw_OutputStep = 1, tw_Next = ''t'', tw_InputHash = ''i''\<rparr>\<rparr>\<rparr>],
     runtimeChapters := [JobKey ''x'' ''j'' \<mapsto> [0 \<mapsto> sample_chapter 0 (JobStart (Json (JInt 1)))]]\<rparr>"

definition task_done :: CompleteTaskIfWaitingRequest where
  "task_done = \<lparr>ct_JobKey = JobKey ''x'' ''j'', ct_Capability = [], ct_ResumeNeed = [], ct_InputOrdinal = 0,
     ct_OutputOrdinal = 1, ct_InputHash = [], ct_Data = Some (SimpleTaskData (Json (JInt 7)) [])\<rparr>"

lemma abandoned_wait:
  "snd (CompleteTaskIfWaiting sample_env task_done abandoned) = Inr ()"
  by code_simp

lemma abandoned_cancelled: "map_option jr_status (jobRecords abandoned (JobKey ''x'' ''j'')) = Some Cancelled"
  by code_simp


text \<open>C32: completing a lease needs the lease and a final chapter; it leaves the chapter in the log at its ordinal,
  takes the lease away and archives the job as completed, or as cancelled when the request says so. What the
  log had there already must have been the same chapter, so completing again after a crash cannot change the
  outcome.\<close>
theorem complete_lease_effect:
  assumes "completeLease env k l req s = (s', Inr ())"
  shows "\<exists>r c r' c'. ce_Chapter req = Some c \<and> ChapterIs c ChapterTypeJobAttemptOutcome \<and>
     jobRecords s k = Some r \<and> jr_leaseID r = l \<and>
     GetChapter s' k (ch_Ordinal c) = Inr c' \<and> ch_Body c' = ch_Body c \<and>
     (\<forall>old. GetChapter s k (ch_Ordinal c) = Inr old \<longrightarrow> c' = old) \<and>
     jobRecords s' k = Some r' \<and> \<not> jr_leased r' \<and> jr_leaseID r' = [] \<and> jr_archived r' = Some (now env) \<and>
     jr_status r' = (if ce_Status req = ''cancelled'' then Cancelled else Completed)"
proof -
  obtain c r s1 c' r1 where c: "ce_Chapter req = Some c" "ChapterIs c ChapterTypeJobAttemptOutcome"
    "jobRecords s k = Some r" "jr_leaseID r = l"
    "ensureCompletionChapter env k (SchemaHashFromStoredMetadata (jr_metadata r)) c (ce_Uploads req) s = (s1, Inr c')"
    "jobRecords s1 k = Some r1" "s' = update_record k (complete_record (now env) (ce_Status req) (ce_Detail req)) s1"
    using assms
    by (auto simp: completeLease_def bind_op_Inr getJobRecord_Inr op_results split: option.splits if_splits)
  show ?thesis
    using c ensured [OF c(5)] by (auto simp: GetChapter_update update_record_at complete_record_def Let_def)
qed

text \<open>A leased job, and the outcome it ends with.\<close>

definition leased_job :: ToyEngine where
  "leased_job = NewToyEngine\<lparr>
     jobRecords := [JobKey ''x'' ''j'' \<mapsto> (lease_record ''l'' occurrence_record)\<lparr>jr_metadata := Text []\<rparr>],
     runtimeChapters := [JobKey ''x'' ''j'' \<mapsto> [0 \<mapsto> sample_chapter 0 (JobStart (Json (JInt 1)))]]\<rparr>"

definition final_request :: CompleteExecutionRequest where
  "final_request = \<lparr>ce_Status = ''completed'', ce_Detail = Text [],
     ce_Chapter = Some (sample_chapter 1 (JobAttemptOutcome (Some (ApplicationOutput (Json (JInt 2)))))), ce_Uploads = []\<rparr>"

lemma leased_job_completes: "snd (completeLease sample_env (JobKey ''x'' ''j'') ''l'' final_request leased_job) = Inr ()"
  by code_simp

theorem complete_lease_effect_witness:
  "\<exists>s' r' c. completeLease sample_env (JobKey ''x'' ''j'') ''l'' final_request leased_job = (s', Inr ()) \<and>
     jobRecords s' (JobKey ''x'' ''j'') = Some r' \<and> jr_status r' = Completed \<and> jr_leaseID r' = [] \<and>
     GetChapter s' (JobKey ''x'' ''j'') 1 = Inr c \<and> ch_Body c = Some (JobAttemptOutcome (Some (ApplicationOutput (Json (JInt 2)))))"
proof -
  let ?p = "completeLease sample_env (JobKey ''x'' ''j'') ''l'' final_request leased_job"
  have eq: "?p = (fst ?p, Inr ())" using leased_job_completes by (simp add: prod_eq_iff)
  show ?thesis
    using complete_lease_effect [OF eq] eq by (auto simp: final_request_def sample_chapter_def)
qed

end
