(* ===== verification/Worker_Live.thy ===== *)
theory Worker_Live
  imports Worker_Log
begin

text \<open>
  A live run on the toy runtime, read backwards from its result: a task that succeeded at its first attempt
  has its outcome in the log at the ordinal at which it ran (\<open>recorded\<close>), whether the outcome was
  there before or was computed and stored now.
\<close>

section \<open>Successful steps\<close>

lemma catch_step_Done:
  "catch_step p = (s', Done x) \<longleftrightarrow> (\<exists>v. x = Inr v \<and> p = (s', Done v)) \<or> (\<exists>e. x = Inl e \<and> p = (s', Fail e))"
  by (cases p rule: catch_step.cases) auto

lemma try_act_Done:
  "try_act m s = (s', Done x) \<longleftrightarrow>
     (\<exists>v. x = Inr v \<and> m s = (s', Done v)) \<or> (\<exists>e. x = Inl e \<and> m s = (s', Fail e))"
  by (simp add: try_act_def catch_step_Done)

lemma act_Done:
  "ret_act x s = (s', Done y) \<longleftrightarrow> s' = s \<and> y = x" "fail_act e s = (s', Done y') \<longleftrightarrow> False"
  "read_act g s = (s', Done z) \<longleftrightarrow> s' = s \<and> z = g s" "write_act u s = (s', Done v) \<longleftrightarrow> s' = u s"
  "lift_act q s = (s', Done w) \<longleftrightarrow> s' = s \<and> q = Inr w" "exit_act s = (s', Done y'') \<longleftrightarrow> False"
  "panic_act t s = (s', Done y4) \<longleftrightarrow> False" "stop_act s = (s', Done y3) \<longleftrightarrow> False"
  by (auto simp: act_defs split: sum.splits)

lemma world_op_Done: "world_op m s = (s', Done x) \<longleftrightarrow> (\<exists>w. m (world s) = (w, Inr x) \<and> s' = s\<lparr>world := w\<rparr>)"
  by (auto simp: world_op_def split: prod.splits sum.splits)

lemma op_Inr:
  "lift_op q s = (s', Inr x) \<longleftrightarrow> s' = s \<and> q = Inr x" "read_op h s = (s', Inr x) \<longleftrightarrow> s' = s \<and> h s = Inr x"
  "ret_op y s = (s', Inr x) \<longleftrightarrow> s' = s \<and> y = x" "fail_op e s = (s', Inr x) \<longleftrightarrow> False"
  by (auto simp: op_defs)

lemmas run_Done = bind_act_Done try_act_Done act_Done

text \<open>A retry needs a failed attempt.\<close>

definition marks :: "('w, 'a round) run_act \<Rightarrow> bool" where
  "marks m \<longleftrightarrow> (\<forall>s s' x. m s = (s', Done (Inr x)) \<longrightarrow> \<not> flawless s')"

lemma marks_basic:
  "marks (ret_act (Inl y))" "marks (fail_act e)" "marks exit_act"
  "(b \<Longrightarrow> marks n) \<Longrightarrow> (\<not> b \<Longrightarrow> marks n') \<Longrightarrow> marks (if b then n else n')"
  "(v = None \<Longrightarrow> marks n) \<Longrightarrow> (\<And>x. v = Some x \<Longrightarrow> marks (g x)) \<Longrightarrow> marks (case v of None \<Rightarrow> n | Some x \<Rightarrow> g x)"
  "(\<And>x. marks (h x)) \<Longrightarrow> (\<And>x. marks (k x)) \<Longrightarrow> marks (case q of Inl x \<Rightarrow> h x | Inr x \<Rightarrow> k x)"
  "(\<And>x y. marks (l x y)) \<Longrightarrow> marks (case p of (x, y) \<Rightarrow> l x y)"
  by (auto simp: marks_def run_Done split: sum.splits prod.splits option.splits)

lemma marks_bind: "(\<And>x. marks (f x)) \<Longrightarrow> marks (bind_act m f)"
  unfolding marks_def bind_act_Done by blast

lemma marks_failed:
  assumes "failed_event ev" "\<And>s. \<exists>t. u s = emit ev t" "\<And>xs c0. holds (logs xs c0) m"
  shows "marks (bind_act (write_act u) (\<lambda>_. m))"
  unfolding marks_def
proof (intro allI impI notI)
  fix s s' x
  assume r: "bind_act (write_act u) (\<lambda>_. m) s = (s', Done (Inr x))" and f: "flawless s'"
  from r have "m (u s) = (s', Done (Inr x))" by simp
  from flawless_run [OF this assms(3) f] have "flawless (u s)" .
  moreover obtain t where "u s = emit ev t" using assms(2) by blast
  ultimately show False using assms(1) by (simp add: flawless_def emit_def)
qed

lemma marks_TaskEnd:
  "(\<And>xs c0. holds (logs xs c0) m) \<Longrightarrow> marks (bind_act (write_act (emitTaskEnd ty n a out (Some e) t)) (\<lambda>_. m))"
  by (rule marks_failed) (auto simp: emitTaskEnd_def)

lemma marks_cached_task: "marks (cached_task r t n a d c m)"
  by (simp add: cached_task_def cached_outcome_def Let_def marks_basic marks_bind marks_TaskEnd logs_basic
      logs_awaitUntil)

lemma marks_settle_task: "marks (settle_task r t n a d st out)"
  by (simp add: settle_task_def Let_def marks_basic marks_bind marks_TaskEnd logs_basic logs_awaitUntil)

lemma marks_leave: "marks (leave_job l q w)"
  by (simp add: leave_job_def marks_basic marks_bind)

lemma marks_task_round: "marks (task_round r t a nx)"
  by (simp add: task_round_def missing_task_def execute_task_def Let_def marks_basic marks_bind marks_cached_task
      marks_settle_task marks_leave)

lemma task_loop_first:
  assumes "task_loop fuel r t a nx s = (s', Done td)" "flawless s'"
  shows "task_round r t a nx s = (s', Done (Inl td))"
proof (cases fuel)
  case (Suc n)
  obtain s1 x where x: "task_round r t a nx s = (s1, Done x)"
    "(case x of Inl td' \<Rightarrow> ret_act td' | Inr (b, st) \<Rightarrow> task_loop n r t b (Some st)) s1 = (s', Done td)"
    using assms(1) by (auto simp: Suc bind_act_Done)
  show ?thesis
  proof (cases x)
    case (Inr p)
    obtain b st where p: "p = (b, st)" by (cases p)
    have "flawless s1"
      by (rule flawless_run [OF _ logs_task_loop assms(2)]) (use x(2) in \<open>simp add: Inr p\<close>)
    moreover have "\<not> flawless s1" using marks_task_round [of r t a nx, unfolded marks_def] x(1) [unfolded Inr] by blast
    ultimately show ?thesis by simp
  qed (use x in \<open>simp add: act_Done\<close>)
qed (use assms(1) in \<open>simp add: act_Done\<close>)

section \<open>The task at the counter\<close>

text \<open>Only the clock moved, apart from the events.\<close>

definition idle :: "World run \<Rightarrow> World run \<Rightarrow> bool" where
  "idle s s' \<longleftrightarrow> engine (world s') = engine (world s) \<and> storyCounter s' = storyCounter s \<and> jobPolicy s' = jobPolicy s"

lemma idle_simps [simp]:
  "idle s s" "idle s (tick s') = idle s s'" "idle s (emit e s') = idle s s'"
  "idle s (emitTaskEnd ty n a out err t s') = idle s s'"
  by (simp_all add: idle_def)

lemma idle_trans: "idle s s' \<Longrightarrow> idle s' s'' \<Longrightarrow> idle s s''"
  by (simp add: idle_def)

text \<open>A task worker that makes no calls on its context.\<close>

definition pure_task :: "task_program \<Rightarrow> bool" where
  "pure_task p = (case p of TReturn out err \<Rightarrow> honest_data out | TPanic m \<Rightarrow> True | _ \<Rightarrow> False)"

definition pure_tasks :: "WorkSet \<Rightarrow> bool" where
  "pure_tasks ws \<longleftrightarrow> (\<forall>ty w k n d. ws_TaskWorkers ws ty = Some w \<longrightarrow> pure_task (w k n d))"

lemma timer_fires_toy:
  "on_toy env orc r \<Longrightarrow> \<exists>b s'. timer_fires r d s = (s', Done b) \<and> idle s s' \<and> events s' = events s"
  by (auto simp: timer_fires_def on_toy_def toy_clock_def idle_def asked_once_def)

lemma run_pure_task:
  assumes "on_toy env orc r" "pure_task p" "recover_act (run_task r c dl to p) s = (s', Done (out, err))"
  shows "idle s s' \<and> honest_data out"
proof -
  obtain b s1 where b: "timer_fires r dl s = (s1, Done b)" "idle s s1" using timer_fires_toy [OF assms(1)] by blast
  show ?thesis
    using assms(2,3) b
    by (cases p) (auto simp: pure_task_def recover_act_def unless_fired_def bind_run honest_data_def act_defs
        split: if_splits)
qed

text \<open>The outcome of a task with this input hash, at an ordinal of the log.\<close>

definition recorded :: "World workerRunner \<Rightarrow> World run \<Rightarrow> int \<Rightarrow> string \<Rightarrow> TaskData option \<Rightarrow> bool" where
  "recorded r s n h td \<longleftrightarrow>
     (\<exists>c meta. chapter_at r s n = Some c \<and> ch_Ordinal c = n \<and>
        (ChapterIs c ChapterTypeTaskAttemptOutcome \<or> ChapterIs c ChapterTypeRestartExtra) \<and>
        workerMetaFromChapter c = Inr meta \<and> wm_InputHash meta = h \<and> h \<noteq> [] \<and> stored_answer r s c = Inr td)"

lemma checkPrerequisites_toy:
  "on_toy env orc r \<Longrightarrow> fst (checkPrerequisites r ps s) = s"
proof (induction ps)
  case (Cons p ps)
  have w: "\<exists>x. world_op (rt_GetJob (wr_runtime r) k) s = (s, x) \<and> (x \<noteq> Goexit \<and> (\<forall>m. x \<noteq> Panic m) \<and> x \<noteq> NoFuel)" for k
    using Cons.prems by (auto simp: world_op_def on_toy_def toy_runtime_def split: sum.splits)
  obtain x where x: "world_op (rt_GetJob (wr_runtime r) (JobKey (TenantId (wr_jobKey r)) (pre_JobID p))) s = (s, x)"
    "x \<noteq> Goexit" "\<forall>m. x \<noteq> Panic m" "x \<noteq> NoFuel" using w by blast
  show ?case using x Cons
    by (cases x) (auto simp: bind_try_run act_defs split: option.splits)
qed (simp add: act_defs)

lemma unit_result: "\<forall>e. x \<noteq> Inl e \<Longrightarrow> x \<noteq> Inr () \<Longrightarrow> False"
  by (cases x) auto

lemma cached_task_Done:
  assumes "on_toy env orc r" "cached_task r t n a d c meta s = (s', Done (Inl td))" "storyCounter s = n"
  shows "(ChapterIs c ChapterTypeTaskAttemptOutcome \<or> ChapterIs c ChapterTypeRestartExtra) \<and>
    wm_InputHash meta = tk_inputHash t \<and> wm_InputHash meta \<noteq> [] \<and> stored_answer r s c = Inr td \<and>
    engine (world s') = engine (world s) \<and> storyCounter s' = n + 1 \<and> jobPolicy s' = jobPolicy s"
proof -
  have p: "\<And>ps s s' x. checkPrerequisites r ps s = (s', x) \<Longrightarrow> s' = s"
    using checkPrerequisites_toy [OF assms(1)] by (metis fst_conv)
  have "\<exists>s2. cached_outcome r t n a d c meta s2 = (s', Done (Inl td)) \<and> engine (world s2) = engine (world s)
      \<and> storyCounter s2 = n + 1 \<and> jobPolicy s2 = jobPolicy s
      \<and> (ChapterIs c ChapterTypeTaskAttemptOutcome \<or> ChapterIs c ChapterTypeRestartExtra)
      \<and> wm_InputHash meta = tk_inputHash t \<and> wm_InputHash meta \<noteq> []"
    using assms(2,3)
    by (auto simp: cached_task_def run_Done split: if_splits sum.splits dest!: p dest: unit_result)
  then obtain s2 where s2: "cached_outcome r t n a d c meta s2 = (s', Done (Inl td))" "engine (world s2) = engine (world s)"
    "storyCounter s2 = n + 1" "jobPolicy s2 = jobPolicy s"
    "ChapterIs c ChapterTypeTaskAttemptOutcome \<or> ChapterIs c ChapterTypeRestartExtra"
    "wm_InputHash meta = tk_inputHash t" "wm_InputHash meta \<noteq> []" by blast
  have "stored_answer r s2 c = Inr td \<and> world s' = world s2 \<and> storyCounter s' = storyCounter s2 \<and> jobPolicy s' = jobPolicy s2"
    using s2(1)
    by (auto simp: cached_outcome_def run_Done to_task_data_toy Let_def split: sum.splits if_splits)
  then show ?thesis using s2 stored_answer_cong [OF assms(1) s2(2), of c] by simp
qed

section \<open>A task that runs now\<close>

text \<open>A runner that holds a lease of the toy runtime, and hashes that are never empty.\<close>

definition live :: "Env \<Rightarrow> Oracle \<Rightarrow> runtimeLease \<Rightarrow> World workerRunner \<Rightarrow> bool" where
  "live env orc l r \<longleftrightarrow>
     on_toy env orc r \<and> wr_runtime r = toy_runtime env orc \<and> wr_lease r = Some (toy_lease env orc l) \<and> \<not> wr_replay r \<and> wr_jobKey r = ls_JobKey l
     \<and> pure_tasks (wr_worker r)"

lemma world_op_bind:
  "world_op (bind_op m f) s = (s', Done y) \<longleftrightarrow> (\<exists>s1 x. world_op m s = (s1, Done x) \<and> world_op (f x) s1 = (s', Done y))"
proof -
  have "world_op (f x) (s\<lparr>world := w\<rparr>) = (s', Done y) \<longleftrightarrow> (\<exists>w'. f x w = (w', Inr y) \<and> s' = s\<lparr>world := w'\<rparr>)" for x w
    by (simp add: world_op_Done)
  then show ?thesis by (auto simp: world_op_Done bind_op_Inr)
qed

lemma on_engine_Inr:
  "on_engine env orc m w = (w', Inr x) \<Longrightarrow>
   \<exists>env' e. m env' (engine w) = (e, Inr x) \<and> engine w' = e"
  by (auto simp: on_engine_def split: prod.splits)

text \<open>Storing an application output as a chapter.\<close>

lemma persist_Done:
  assumes "wr_runtime r = toy_runtime env orc" "list_all honest as"
    and "world_op (persistTaskDataChapter (wr_env r) (wr_runtime r) (wr_lease r) (wr_jobKey r) n ty ct payloadKindApp h t
      meta payload as) s = (s', Done td)"
  shows "\<exists>c us. prepareTaskDataChapterWrite (wr_env r) n ty ct payloadKindApp h t meta payload as = Inr (c, us) \<and>
    touches (wr_jobKey r) n (engine (world s)) (engine (world s')) \<and> log_at (engine (world s')) (wr_jobKey r) n = Some c \<and>
    0 \<le> n \<and> ch_Ordinal c = n \<and> stored_answer r s' c = Inr td \<and>
    storyCounter s' = storyCounter s \<and> jobPolicy s' = jobPolicy s"
proof (cases "wr_lease r")
  case None
  then show ?thesis using assms(3) by (simp add: persistTaskDataChapter_def world_op_Done fail_op_def)
next
  case (Some l)
  obtain c us w1 where p: "prepareTaskDataChapterWrite (wr_env r) n ty ct payloadKindApp h t meta payload as = Inr (c, us)"
    "rt_PutChapter (wr_runtime r) \<lparr>pc_LeaseID = le_LeaseID l, pc_JobKey = wr_jobKey r, pc_Ordinal = n,
       pc_Chapter = c, pc_Uploads = us\<rparr> (world s) = (w1, Inr ())"
    "data_or_error (chapterToTaskData (wr_env r) (wr_runtime r) (wr_jobKey r) c w1) = Inr td" "s' = s\<lparr>world := w1\<rparr>"
    using assms(3) by (auto simp: Some persistTaskDataChapter_def world_op_Done bind_op_Inr op_Inr split: prod.splits)
  obtain env' where e: "PutChapter env' None \<lparr>pc_LeaseID = le_LeaseID l, pc_JobKey = wr_jobKey r, pc_Ordinal = n,
       pc_Chapter = c, pc_Uploads = us\<rparr> (engine (world s)) = (engine w1, Inr ())"
    using p(2) assms(1) on_engine_Inr by (fastforce simp: toy_runtime_def)
  show ?thesis
    using PutChapter_stores [OF e p(1) assms(2)] p by (auto simp: stored_answer_def)
qed

lemma to_chapter_type:
  "prepareTaskDataChapterWrite env n ty ct kind h t meta payload as = Inr (c, us) \<Longrightarrow> ChapterIs c ct"
proof -
  assume "prepareTaskDataChapterWrite env n ty ct kind h t meta payload as = Inr (c, us)"
  then obtain b where "ChapterBodyFromWire ct kind payload = Inr b" "ch_Body c = Some b"
    by (auto simp: prepareTaskDataChapterWrite_def Let_def split: sum.splits)
  then show "ChapterIs c ct"
    by (auto simp: ChapterBodyFromWire_def ChapterIs_def ChapterType_def chapter_type_defs dest: ChapterOutcomeToWire_Inl
        split: if_splits sum.splits)
qed

text \<open>The payload of an output: an application payload with honest artifacts.\<close>

lemma task_payload_Done:
  assumes "task_payload_of r ref out None s = (s', Done (payload, kind, as))" "honest_data out"
  shows "s' = s \<and> kind = payloadKindApp \<and> list_all honest as"
  using assms
  by (cases out) (auto simp: task_payload_of_def run_Done honest_data_def)

lemma stored_here:
  assumes "prepareTaskDataChapterWrite env n ty ct kind h t meta payload as = Inr (c, us)"
    and "wire_meta meta" "int64 n" "wm_InputHash meta = []"
  shows "\<exists>m. workerMetaFromChapter c = Inr m \<and> wm_InputHash m = h"
  using prepared_meta_read [OF assms(1-3)] assms(4) by (simp add: completed_meta_def)

lemma settle_task_Done:
  assumes "live env orc l r" "honest_data out" "tk_inputHash t \<noteq> []" "int64 n" "0 < n" "int64 attempt" "storyCounter s = n"
    and "settle_task r t n attempt d st (out, err) s = (s', Done (Inl td))"
  shows "recorded r s' n (tk_inputHash t) td \<and> touches (wr_jobKey r) n (engine (world s)) (engine (world s')) \<and>
    storyCounter s' = n + 1 \<and> jobPolicy s' = jobPolicy s"
proof -
  have toy: "on_toy env orc r" using assms(1) by (simp add: live_def)
  have e: "err = None"
    using assms(8) by (cases err) (auto simp: settle_task_def Let_def run_Done split: if_splits)
  obtain payload kind as s1 where p0: "task_payload_of r (task_input_ref t n) out None s = (s1, Done (payload, kind, as))"
    using assms(8) by (auto simp: settle_task_def e bind_act_Done)
  have p1: "s1 = s" "kind = payloadKindApp" "list_all honest as" using task_payload_Done [OF p0 assms(2)] by simp_all
  have p: "task_payload_of r (task_input_ref t n) out None s = (s, Done (payload, payloadKindApp, as))"
    using p0 p1 by simp
  have nr: "\<not> wr_replay r" and rt: "wr_runtime r = toy_runtime env orc" using assms(1) by (simp_all add: live_def)
  have "\<exists>input created fin s2 s3. world_op (persistTaskDataChapter (wr_env r) (wr_runtime r) (wr_lease r) (wr_jobKey r) n
       (tk_type t) ChapterTypeTaskAttemptOutcome payloadKindApp (tk_inputHash t) created
       (attempt_meta attempt (task_input_ref t n) input st fin) payload as) s2 = (s3, Done td) \<and>
    idle s s2 \<and> s' = emitTaskEnd (tk_type t) n attempt td None fin (markStoryOrdinalConsumed n s3)"
    using assms(8) nr
    by (auto simp: settle_task_def e p read_clock_toy [OF toy] run_Done split: if_splits)
      (intro exI conjI, assumption, simp_all)+
  then obtain s2 s3 input created fin where q:
    "world_op (persistTaskDataChapter (wr_env r) (wr_runtime r) (wr_lease r) (wr_jobKey r) n (tk_type t)
       ChapterTypeTaskAttemptOutcome payloadKindApp (tk_inputHash t) created
       (attempt_meta attempt (task_input_ref t n) input st fin) payload as) s2 = (s3, Done td)"
    "idle s s2" "s' = emitTaskEnd (tk_type t) n attempt td None fin (markStoryOrdinalConsumed n s3)" by blast
  obtain c us where c: "prepareTaskDataChapterWrite (wr_env r) n (tk_type t) ChapterTypeTaskAttemptOutcome
      payloadKindApp (tk_inputHash t) created (attempt_meta attempt (task_input_ref t n) input st fin) payload as = Inr (c, us)"
    "touches (wr_jobKey r) n (engine (world s2)) (engine (world s3))" "log_at (engine (world s3)) (wr_jobKey r) n = Some c"
    "ch_Ordinal c = n" "stored_answer r s3 c = Inr td" "storyCounter s3 = storyCounter s2" "jobPolicy s3 = jobPolicy s2"
    using persist_Done [OF rt p1(3) q(1)] by blast
  have "wire_meta (attempt_meta attempt (task_input_ref t n) input st fin)"
    using assms(4-6) by (auto simp: wire_meta_def attempt_meta_def zero_workerMeta_def task_input_ref_def int64_def)
  then obtain m where m: "workerMetaFromChapter c = Inr m" "wm_InputHash m = tk_inputHash t"
    using stored_here [OF c(1) _ assms(4)] by (auto simp: attempt_meta_def zero_workerMeta_def)
  have a: "stored_answer r s' c = Inr td" using c(5) by (simp add: q(3) stored_answer_def)
  have "recorded r s' n (tk_inputHash t) td"
    unfolding recorded_def chapter_at_log using c(3,4) m a to_chapter_type [OF c(1)] assms(3) by (auto simp: q(3))
  then show ?thesis using c q assms(7) by (simp add: idle_def)
qed

text \<open>What a successful task leaves: its outcome at the ordinal \<open>n\<close>, all else in the log as before.\<close>

definition done_task :: "World workerRunner \<Rightarrow> World run \<Rightarrow> World run \<Rightarrow> string \<Rightarrow> TaskData option \<Rightarrow> bool" where
  "done_task r s s' h td \<longleftrightarrow>
     recorded r s' (storyCounter s) h td \<and>
     touches (wr_jobKey r) (storyCounter s) (engine (world s)) (engine (world s')) \<and>
     storyCounter s' = storyCounter s + 1 \<and> jobPolicy s' = jobPolicy s"

lemma done_task_idle: "idle s s1 \<Longrightarrow> done_task r s1 s' h td \<Longrightarrow> done_task r s s' h td"
  by (simp add: done_task_def idle_def)

lemma execute_task_Done:
  assumes "live env orc l r" "ws_TaskWorkers (wr_worker r) ty = Some w" "tk_inputHash t \<noteq> []"
    and "int64 (storyCounter s)" "0 < storyCounter s" "int64 attempt"
    and "execute_task r t w (storyCounter s) attempt d st s = (s', Done (Inl td))"
  shows "done_task r s s' (tk_inputHash t) td"
proof -
  have toy: "on_toy env orc r" using assms(1) by (simp add: live_def)
  have pure: "pure_task (w k n x)" for k n x using assms(1,2) by (auto simp: live_def pure_tasks_def)
  have "\<exists>s0 c dl to s1 out err err'. idle s s0 \<and>
      recover_act (run_task r c dl to (w (wr_jobKey r) (storyCounter s) (tk_data t))) s0 = (s1, Done (out, err)) \<and>
      settle_task r t (storyCounter s) attempt d st (out, err') (tick s1) = (s', Done (Inl td))"
    using assms(7)
    by (auto simp: execute_task_def Let_def run_Done read_clock_toy [OF toy] split: if_splits)
      (intro exI conjI; (assumption | simp))+
  then obtain c dl to s0 s1 out err err' where e: "idle s s0"
    "recover_act (run_task r c dl to (w (wr_jobKey r) (storyCounter s) (tk_data t))) s0 = (s1, Done (out, err))"
    "settle_task r t (storyCounter s) attempt d st (out, err') (tick s1) = (s', Done (Inl td))" by blast
  have i: "idle s0 s1" "honest_data out" using run_pure_task [OF toy pure e(2)] by simp_all
  have n: "storyCounter (tick s1) = storyCounter s" using e(1) i(1) by (simp add: idle_def)
  from settle_task_Done [OF assms(1) i(2) assms(3,4,5,6) n e(3)]
  have "done_task r (tick s1) s' (tk_inputHash t) td" using n by (simp add: done_task_def)
  then show ?thesis by (rule done_task_idle [rotated]) (use e(1) i(1) idle_trans in simp)
qed

text \<open>Every chapter stands at its own ordinal.\<close>

definition ordered_log :: "World workerRunner \<Rightarrow> World run \<Rightarrow> bool" where
  "ordered_log r s \<longleftrightarrow> (\<forall>n c. chapter_at r s n = Some c \<longrightarrow> ch_Ordinal c = n)"

lemma leave_job_Done: "leave_job l q w s = (s', Done x) \<longleftrightarrow> False"
proof -
  obtain s1 y where "world_op (le_Reschedule l q) s = (s1, y)" by (cases "world_op (le_Reschedule l q) s")
  then show ?thesis
    by (cases y) (auto simp: leave_job_def bind_act_def try_act_def act_defs)
qed

text \<open>A round looks at the chapter at the counter, or has the task done now.\<close>

lemma task_round_cases:
  assumes "on_toy env orc r" "task_round r t attempt nx s = (s', Done v)"
  shows "(\<exists>c meta d s1. idle s s1 \<and> chapter_at r s (storyCounter s) = Some c \<and> workerMetaFromChapter c = Inr meta \<and>
        cached_task r t (storyCounter s) attempt d c meta s1 = (s', Done v))
      \<or> (\<exists>d st s1. idle s s1 \<and> missing_task r t (storyCounter s) attempt d st s1 = (s', Done v))"
proof -
  note toy = assms(1)
  have dl: "\<And>n d s s' x. taskTotalDeadline r n d s = (s', x) \<Longrightarrow> s' = s"
    using toy by (auto simp: taskTotalDeadline_def getChapter_toy bind_act_def act_defs split: option.splits sum.splits if_splits)
  let ?n = "storyCounter s"
  let ?st = "case nx of None \<Rightarrow> or_time orc (asked (world s)) | Some t \<Rightarrow> t"
  obtain x where x: "taskTotalDeadline r ?n (tk_totalTimeout t) (tick s) = (tick s, x)"
    using dl by (metis surj_pair)
  have "\<exists>d. bind_act (try_act (getChapter r ?n)) (\<lambda>y.
      case y of
        Inr (chapter, meta) \<Rightarrow> cached_task r t ?n attempt d chapter meta
      | Inl e \<Rightarrow> if errors_is e ErrChapterNotFound then missing_task r t ?n attempt d ?st
                 else fail_act (Wrap ''failed to get chapter'' e)) (tick s) = (s', Done v)"
    using assms(2) x
    by (cases x) (auto simp: task_round_def Let_def bind_try_run bind_run(1) [OF read_clock_toy [OF toy]]
        bind_act_def [of "try_act (taskTotalDeadline r ?n (tk_totalTimeout t))"] try_act_def act_Done split: if_splits,
      unfold tick_simps, blast+)
  then obtain d where d: "bind_act (try_act (getChapter r ?n)) (\<lambda>y.
      case y of
        Inr (chapter, meta) \<Rightarrow> cached_task r t ?n attempt d chapter meta
      | Inl e \<Rightarrow> if errors_is e ErrChapterNotFound then missing_task r t ?n attempt d ?st
                 else fail_act (Wrap ''failed to get chapter'' e)) (tick s) = (s', Done v)" by blast
  show ?thesis
  proof (cases "chapter_at r s ?n")
    case None
    then have "getChapter r ?n (tick s) = (tick s, Fail (Sentinel ErrChapterNotFound))"
      by (simp add: getChapter_toy [OF toy])
    with d have "missing_task r t ?n attempt d ?st (tick s) = (s', Done v)"
      by (auto simp: bind_try_run act_Done split: if_splits)
    then show ?thesis by (intro disjI2 exI conjI; (assumption | simp))
  next
    case (Some c)
    show ?thesis
    proof (cases "workerMetaFromChapter c")
      case (Inl e)
      with Some have "getChapter r ?n (tick s) = (tick s, Fail e)" by (simp add: getChapter_toy [OF toy])
      with d have "missing_task r t ?n attempt d ?st (tick s) = (s', Done v)"
        by (auto simp: bind_try_run act_Done split: if_splits)
      then show ?thesis by (intro disjI2 exI conjI; (assumption | simp))
    next
      case (Inr meta)
      with Some have "getChapter r ?n (tick s) = (tick s, Done (c, meta))" by (simp add: getChapter_toy [OF toy])
      with d have "cached_task r t ?n attempt d c meta (tick s) = (s', Done v)" by (simp add: bind_try_run)
      with Some Inr show ?thesis by (intro disjI1 exI conjI; (assumption | simp))
    qed
  qed
qed

lemma task_round_Done:
  assumes "live env orc l r" "ordered_log r s" "tk_inputHash t \<noteq> []"
    and "int64 (storyCounter s)" "0 < storyCounter s" "int64 attempt"
    and "task_round r t attempt nx s = (s', Done (Inl td))"
  shows "done_task r s s' (tk_inputHash t) td"
proof -
  have toy: "on_toy env orc r" and nr: "\<not> wr_replay r" using assms(1) by (simp_all add: live_def)
  from task_round_cases [OF toy assms(7)] show ?thesis
  proof (elim disjE exE conjE)
    fix c meta d s1
    assume c: "idle s s1" "chapter_at r s (storyCounter s) = Some c" "workerMetaFromChapter c = Inr meta"
      "cached_task r t (storyCounter s) attempt d c meta s1 = (s', Done (Inl td))"
    have n: "storyCounter s1 = storyCounter s" "engine (world s1) = engine (world s)" "jobPolicy s1 = jobPolicy s"
      using c(1) by (simp_all add: idle_def)
    note h = cached_task_Done [OF toy c(4) n(1)]
    then have "stored_answer r s' c = Inr td" using stored_answer_cong [OF toy, of s' s1 c] by simp
    moreover have "chapter_at r s' = chapter_at r s" using h n by (simp add: chapter_at_log fun_eq_iff)
    ultimately show ?thesis
      using h c(2,3) n assms(2,3) by (auto simp: done_task_def recorded_def touches_refl ordered_log_def)
  next
    fix d st s1
    assume m: "idle s s1" "missing_task r t (storyCounter s) attempt d st s1 = (s', Done (Inl td))"
    have n: "storyCounter s1 = storyCounter s" using m(1) by (simp add: idle_def)
    obtain w where w: "ws_TaskWorkers (wr_worker r) (tk_type t) = Some w"
      "execute_task r t w (storyCounter s1) attempt d st s1 = (s', Done (Inl td))"
      using m(2) nr n
      by (auto simp: missing_task_def leave_job_Done run_Done split: option.splits)
    from execute_task_Done [OF assms(1) w(1) assms(3) _ _ assms(6) w(2)] n assms(4,5) m(1)
    show ?thesis by (auto intro: done_task_idle)
  qed
qed

definition hashes :: "Env \<Rightarrow> bool" where "hashes env \<longleftrightarrow> (\<forall>r ps. InputSha256 env r ps \<noteq> [])"

lemma computeInputHash_nonempty: "hashes env \<Longrightarrow> computeInputHash env d = Inr h \<Longrightarrow> h \<noteq> []"
  by (auto simp: computeInputHash_def hashes_def split: option.splits sum.splits)

lemma DoTask_live:
  assumes "live env orc l r" "hashes (wr_env r)" "ordered_log r s" "int64 (storyCounter s)" "0 < storyCounter s"
    and "DoTask fuel r policy ty d s = (s', Done td)" "flawless s'"
  shows "\<exists>h. computeInputHash (wr_env r) d = Inr h \<and> done_task r s s' h td"
proof (cases "computeInputHash (wr_env r) d")
  case (Inl e)
  then show ?thesis using assms(6) by (simp add: DoTask_def act_Done)
next
  case (Inr h)
  let ?t = "task_of r policy ty d h (jobPolicy s)"
  have "task_round r ?t 1 None s = (s', Done (Inl td))"
    using task_loop_first [OF _ assms(7)] assms(6) by (simp add: DoTask_run [OF Inr])
  moreover have "tk_inputHash ?t = h" by (simp add: task_of_def Let_def)
  ultimately have "done_task r s s' h td"
    using task_round_Done [OF assms(1,3) _ assms(4,5), of ?t 1 None s' td] computeInputHash_nonempty [OF assms(2) Inr]
    by (simp add: int64_def)
  with Inr show ?thesis by blast
qed

end
