(* ===== verification/Worker_Open.thy ===== *)
theory Worker_Open
  imports Worker_Live
begin

text \<open>
  What the tasks of a job keep of the engine. The locale \<open>task_invariant\<close> is the contract of a fact about an
  engine that every write of a task respects: its artifacts, the records it touches, and chapters that are
  outcomes of tasks, at ordinals where they may go. Two facts meet it: a job without an outcome stays without one
  while its worker runs tasks (\<open>unfinished\<close>), and a task at one ordinal writes nothing behind it (\<open>vacant\<close>).
\<close>

locale task_invariant =
  fixes I :: "ToyEngine \<Rightarrow> bool" and ok :: "JobKey \<Rightarrow> int \<Rightarrow> bool"
  assumes artifact: "I e \<Longrightarrow> I (store_artifact k i nm b e)"
    and cache: "I e \<Longrightarrow> I (e\<lparr>validators := c\<rparr>)"
    and registry: "I e \<Longrightarrow> I (e\<lparr>schemas := m\<rparr>)"
    and draw: "I e \<Longrightarrow> I (e\<lparr>ksuid_calls := Suc (ksuid_calls e)\<rparr>)"
    and change: "I e \<Longrightarrow> I (update_record k f e)"
    and outcome: "I e \<Longrightarrow> ok k n \<Longrightarrow> \<not> ChapterIs ch ChapterTypeJobAttemptOutcome \<Longrightarrow> I (put_chapter_state k n ch e)"

sublocale task_invariant < calm: calm_state env I for env
  by unfold_locales (auto intro: artifact cache registry draw)

lemma ChapterIs_artifacts [simp]: "ChapterIs (c\<lparr>ch_Artifacts := as\<rparr>) ty = ChapterIs c ty"
  by (simp add: ChapterIs_def ChapterType_def)

lemma live_toy: "live env orc l r \<Longrightarrow> on_toy env orc r"
  by (simp add: live_def)

lemma live_lease: "live env orc l r \<Longrightarrow> wr_lease r = Some (toy_lease env orc l)"
  by (simp add: live_def)

context task_invariant
begin

lemma keeps_store:
  assumes "ok k n" "\<not> ChapterIs c ChapterTypeJobAttemptOutcome"
  shows "keeps I (storeRuntimeChapter env k n c)"
proof -
  have rest: "keeps I (bind_op (get_op (\<lambda>s. (s, jobRecords s k))) (\<lambda>(s, record1).
      case record1 of
        None \<Rightarrow> ret_op ()
      | Some rec \<Rightarrow>
          (case taskDataFromChapter env s k c of
             (td, err) \<Rightarrow>
               if err \<noteq> None \<and> ct \<noteq> ChapterTypeJobAttemptOutcome \<and> td = None then fail_op (the err)
               else put_op (update_record k (record_chapter env s k n c ct p)))))" for ct p
    by (intro engine_inv change)
  show ?thesis
    unfolding storeRuntimeChapter_def
    by (intro keeps_bind keeps_option keeps_reads keeps_put rest) (rule outcome [OF _ assms])
qed

lemma keeps_PutChapter:
  assumes "ok (pc_JobKey req) (pc_Ordinal req)" "\<not> ChapterIs (pc_Chapter req) ChapterTypeJobAttemptOutcome"
  shows "keeps I (PutChapter env claims req)"
proof -
  have kept: "\<not> ChapterIs x ChapterTypeJobAttemptOutcome"
    if "prepareChapterWrite env (pc_JobKey req) (pc_Ordinal req) (pc_Chapter req) (pc_Uploads req) s = (s', Inr x)" for s s' x
    using assms(2) prepareChapterWrite_Inr [OF that] by auto
  show ?thesis
    unfolding PutChapter_def Let_def
    by (intro keeps_bind keeps_reads calm.calm_ops keeps_bind_post [OF calm.keeps_prepare kept] keeps_store assms(1))
qed

lemma keeps_reschedule: "keeps I (rescheduleLease env key lid req)"
  unfolding rescheduleLease_def by (intro engine_inv calm.calm_ops change)

text \<open>The steps of a task.\<close>

lemma run_world_op:
  "(\<And>w. engine (fst (m w)) = engine w) \<Longrightarrow> holds (\<lambda>s. I (engine (world s))) (world_op m)"
  "(\<And>env. keeps I (f env)) \<Longrightarrow> holds (\<lambda>s. I (engine (world s))) (world_op (on_engine env orc f))"
  by (auto simp: holds_def world_op_def on_engine_def keeps_def split: prod.splits) (metis fst_conv)+

lemma run_world: "keeps (\<lambda>w. I (engine w)) m \<Longrightarrow> holds (\<lambda>s. I (engine (world s))) (world_op m)"
  by (simp add: holds_def world_op_def keeps_def split_beta)

lemma run_clock:
  "on_toy env orc r \<Longrightarrow> holds (\<lambda>s. I (engine (world s))) (read_clock r)"
  "on_toy env orc r \<Longrightarrow> holds (\<lambda>s. I (engine (world s))) (timer_fires r d)"
  by (auto simp: holds_def read_clock_toy timer_fires_def on_toy_def toy_clock_def asked_once_def)

lemma run_write: "(\<And>s. world (u s) = world s) \<Longrightarrow> holds (\<lambda>s. I (engine (world s))) (write_act u)"
  by (simp add: holds_def act_defs)

lemma run_persist:
  assumes "live env orc l r" "ok (wr_jobKey r) n"
  shows "holds (\<lambda>s. I (engine (world s))) (world_op (persistTaskDataChapter (wr_env r) (wr_runtime r) (wr_lease r)
    (wr_jobKey r) n ty ChapterTypeTaskAttemptOutcome kind h t meta payload as))"
proof -
  have "I (engine (fst (persistTaskDataChapter (wr_env r) (wr_runtime r) (wr_lease r) (wr_jobKey r) n ty
      ChapterTypeTaskAttemptOutcome kind h t meta payload as w)))" if u: "I (engine w)" for w
  proof (cases "prepareTaskDataChapterWrite (wr_env r) n ty ChapterTypeTaskAttemptOutcome kind h t meta payload as")
    case (Inl err)
    then show ?thesis using u assms by (simp add: persistTaskDataChapter_def live_def op_steps)
  next
    case (Inr p)
    obtain c us where p: "p = (c, us)" by (cases p)
    have "\<not> ChapterIs c ChapterTypeJobAttemptOutcome"
      using to_chapter_type [OF Inr [unfolded p]] by (auto simp: ChapterIs_def chapter_type_defs split: sum.splits)
    then have "keeps I (PutChapter env' None \<lparr>pc_LeaseID = lid, pc_JobKey = ls_JobKey l, pc_Ordinal = n, pc_Chapter = c,
        pc_Uploads = us\<rparr>)" for env' lid using assms by (intro keeps_PutChapter) (simp_all add: live_def)
    then show ?thesis using u assms Inr p
      by (auto simp: persistTaskDataChapter_def live_def op_steps toy_runtime_def on_engine_def bind_op_def op_defs
          keeps_def split: prod.splits sum.splits) (metis fst_conv)+
  qed
  then show ?thesis by (intro run_world) (simp add: keeps_def)
qed

lemmas run_basic = run_world_op run_clock run_write holds_finish holds_basic holds_bind holds_try holds_if holds_option
  holds_sum holds_prod

lemma run_getChapter: "on_toy env orc r \<Longrightarrow> holds (\<lambda>s. I (engine (world s))) (getChapter r n)"
  by (simp add: getChapter_def run_basic on_toy_def toy_runtime_def)

lemma run_to_task_data: "holds (\<lambda>s. I (engine (world s))) (to_task_data r c)"
  by (simp add: to_task_data_def run_basic op_defs)

lemma run_leave: "holds (\<lambda>s. I (engine (world s))) (leave_job (toy_lease env orc l) q w)"
  by (simp add: leave_job_def toy_lease_def run_basic keeps_reschedule)

lemma run_sleep: "on_toy env orc r \<Longrightarrow> holds (\<lambda>s. I (engine (world s))) (world_op (ck_Sleep (wr_clock r) d))"
  by (simp add: run_world_op on_toy_def toy_clock_def asked_once_def)

lemma run_awaitUntil:
  assumes "live env orc l r" shows "holds (\<lambda>s. I (engine (world s))) (awaitUntil r t c)"
  using live_toy [OF assms]
  by (simp add: awaitUntil_def Let_def run_basic run_leave run_sleep live_lease [OF assms])

lemma run_checkPrerequisites: "on_toy env orc r \<Longrightarrow> holds (\<lambda>s. I (engine (world s))) (checkPrerequisites r ps)"
  by (induction ps) (simp_all add: run_basic on_toy_def toy_runtime_def)

lemma run_run_task: "on_toy env orc r \<Longrightarrow> pure_task p \<Longrightarrow> holds (\<lambda>s. I (engine (world s))) (run_task r c d e p)"
  by (cases p) (simp_all add: pure_task_def unless_fired_def run_basic)

lemma run_cached_task:
  assumes "live env orc l r" shows "holds (\<lambda>s. I (engine (world s))) (cached_task r t n a d c m)"
  using live_toy [OF assms]
  by (simp add: cached_task_def cached_outcome_def Let_def run_basic run_checkPrerequisites run_to_task_data
      run_awaitUntil [OF assms])

lemma run_settle_task:
  assumes "live env orc l r" "ok (wr_jobKey r) n"
  shows "holds (\<lambda>s. I (engine (world s))) (settle_task r t n a d st out)"
  using live_toy [OF assms(1)]
  by (simp add: settle_task_def task_payload_of_def Let_def split_def run_basic run_persist [OF assms]
      run_awaitUntil [OF assms(1)])

lemma run_missing_task:
  assumes "live env orc l r" "ok (wr_jobKey r) n"
  shows "holds (\<lambda>s. I (engine (world s))) (missing_task r t n a d st)"
proof -
  have "pure_task (w k' n' d')" if "ws_TaskWorkers (wr_worker r) ty = Some w" for ty w k' n' d'
    using assms that by (auto simp: live_def pure_tasks_def)
  then show ?thesis
    using live_toy [OF assms(1)]
    by (simp add: missing_task_def execute_task_def Let_def split_def run_basic run_run_task
        run_settle_task [OF assms] run_leave live_lease [OF assms(1)])
qed

lemma run_task_loop:
  assumes "live env orc l r" "\<And>n. ok (wr_jobKey r) n"
  shows "holds (\<lambda>s. I (engine (world s))) (task_loop fuel r t a n)"
  using live_toy [OF assms(1)]
  by (induction fuel arbitrary: a n)
    (simp_all add: task_round_def taskTotalDeadline_def Let_def run_basic run_getChapter run_cached_task [OF assms(1)]
      run_missing_task [OF assms(1) assms(2)])

lemma run_DoTask:
  "live env orc l r \<Longrightarrow> (\<And>n. ok (wr_jobKey r) n) \<Longrightarrow> holds (\<lambda>s. I (engine (world s))) (DoTask fuel r p ty d)"
  by (simp add: DoTask_def Let_def run_basic run_task_loop split: sum.split)

end

section \<open>No outcome of the job\<close>

definition unfinished :: "JobKey \<Rightarrow> ToyEngine \<Rightarrow> bool" where
  "unfinished k e \<longleftrightarrow> (\<forall>n c. log_at e k n = Some c \<longrightarrow> \<not> ChapterIs c ChapterTypeJobAttemptOutcome)"

lemma log_at_put:
  "log_at (put_chapter_state k n ch e) k' m =
     (if k' = k \<and> m = n \<and> runtimeChapters e k \<noteq> None then Some ch else log_at e k' m)"
  by (cases "runtimeChapters e k") (auto simp: log_at_def put_chapter_state_def map_update_def)

lemma log_at_other [simp]:
  "log_at (store_artifact k i nm b e) = log_at e" "log_at (e\<lparr>validators := c\<rparr>) = log_at e"
  "log_at (e\<lparr>schemas := m\<rparr>) = log_at e" "log_at (e\<lparr>ksuid_calls := j\<rparr>) = log_at e" "log_at (update_record k f e) = log_at e"
  by (simp_all add: fun_eq_iff log_at_def store_artifact_def update_record_def)

interpretation unfinished: task_invariant "unfinished k" "\<lambda>_ _. True" for k
  by unfold_locales (auto simp: unfinished_def log_at_put split: if_splits)

definition open_log :: "JobKey \<Rightarrow> World run \<Rightarrow> bool" where "open_log k s \<longleftrightarrow> unfinished k (engine (world s))"

lemma open_steps:
  "on_toy env orc r \<Longrightarrow> holds (open_log k) (timer_fires r d)"
  "live env orc l r \<Longrightarrow> holds (open_log k) (DoTask fuel r p ty td)"
  using unfinished.run_clock(2) [of env orc r k d] unfinished.run_DoTask [of env orc l r k fuel p ty td]
  by (simp_all add: holds_def open_log_def)

lemmas open_basic = open_steps holds_basic holds_bind holds_try holds_if

section \<open>Nothing behind an ordinal\<close>

definition vacant :: "JobKey \<Rightarrow> int \<Rightarrow> ToyEngine \<Rightarrow> bool" where
  "vacant k b e \<longleftrightarrow> (\<forall>n\<ge>b. log_at e k n = None)"

interpretation vacant: task_invariant "vacant k b" "\<lambda>k' n. k' = k \<longrightarrow> n < b" for k b
  by unfold_locales (auto simp: vacant_def log_at_put split: if_splits)

end
