(* ===== verification/Worker_Ends.thy ===== *)
theory Worker_Ends
  imports Worker_Open
begin

text \<open>
  The loop over the attempts of a task ends. Every round that goes on has passed a chapter: one that was there, or
  the failed attempt that it stored. So the chapters ahead of the counter and the attempts of the policy
  bound the rounds, whatever the outcomes that are stored and the workers do.
\<close>

section \<open>Steps that end\<close>

definition ends :: "('w, 'a) run_act \<Rightarrow> bool" where "ends m \<longleftrightarrow> (\<forall>s. snd (m s) \<noteq> NoFuel)"

lemma ends_basic:
  "ends (ret_act x)" "ends (fail_act e)" "ends exit_act" "ends (panic_act t)" "ends (read_act g)" "ends (write_act u)"
  "ends (lift_act q)" "ends (world_op w)" "ends (read_clock r)" "ends (timer_fires r d)"
  by (auto simp: ends_def act_defs world_op_def read_clock_def timer_fires_def split: sum.splits prod.splits)

lemma ends_bind: "ends m \<Longrightarrow> (\<And>x. ends (f x)) \<Longrightarrow> ends (bind_act m f)"
  unfolding ends_def bind_act_def
proof (intro allI)
  fix s assume m: "\<forall>s. snd (m s) \<noteq> NoFuel" and f: "\<And>x. \<forall>s. snd (f x s) \<noteq> NoFuel"
  have "snd (m s) \<noteq> NoFuel" using m by blast
  then show "snd (then_step (m s) f) \<noteq> NoFuel" using f by (cases "(m s, f)" rule: then_step.cases) auto
qed

lemma ends_wrap: "ends m \<Longrightarrow> ends (try_act m)" "ends n \<Longrightarrow> ends (recover_act n)"
proof -
  show "ends (try_act m)" if "ends m"
    unfolding ends_def try_act_def
  proof
    fix s
    have "snd (m s) \<noteq> NoFuel" using that by (simp add: ends_def)
    then show "snd (catch_step (m s)) \<noteq> NoFuel" by (cases "m s" rule: catch_step.cases) auto
  qed
  show "ends (recover_act n)" if "ends n"
    unfolding ends_def recover_act_def
  proof
    fix s
    have "snd (n s) \<noteq> NoFuel" using that by (simp add: ends_def)
    then show "snd (recover_step (n s)) \<noteq> NoFuel" by (cases "n s" rule: recover_step.cases) auto
  qed
qed

lemma ends_cases:
  "(b \<Longrightarrow> ends m) \<Longrightarrow> (\<not> b \<Longrightarrow> ends n) \<Longrightarrow> ends (if b then m else n)"
  "ends n \<Longrightarrow> (\<And>x. ends (f x)) \<Longrightarrow> ends (case v of None \<Rightarrow> n | Some x \<Rightarrow> f x)"
  "(\<And>x. ends (g x)) \<Longrightarrow> (\<And>x. ends (h x)) \<Longrightarrow> ends (case q of Inl x \<Rightarrow> g x | Inr x \<Rightarrow> h x)"
  "(\<And>x y. ends (k x y)) \<Longrightarrow> ends (case p of (x, y) \<Rightarrow> k x y)"
  by (auto split: option.splits sum.splits prod.splits)

lemmas ends_steps = ends_basic ends_bind ends_wrap ends_cases

lemma ends_leave: "ends (leave_job l q w)"
  by (simp add: leave_job_def ends_steps)

lemma ends_awaitUntil: "ends (awaitUntil r t c)"
  by (simp add: awaitUntil_def Let_def ends_steps ends_leave)

lemma ends_awaitJobsComplete: "ends (awaitJobsComplete r ids)"
  by (induction ids) (simp_all add: ends_steps)

lemma ends_AwaitJobs: "ends (AwaitJobs r ids)"
  by (simp add: AwaitJobs_def ends_steps ends_awaitJobsComplete ends_leave)

lemma ends_checkPrerequisites: "ends (checkPrerequisites r ps)"
  by (induction ps) (simp_all add: ends_steps)

lemma ends_run_task: "ends (run_task r c d e p)"
  by (induction p) (simp_all add: unless_fired_def runner_SubmitJob_def runner_SubmitRestartJob_def ends_steps
      ends_awaitUntil ends_AwaitJobs)

lemma ends_getChapter: "ends (getChapter r n)"
  by (simp add: getChapter_def ends_steps)

lemma ends_task_round: "ends (task_round r t a nx)"
  by (simp add: task_round_def taskTotalDeadline_def cached_task_def cached_outcome_def to_task_data_def missing_task_def
      execute_task_def settle_task_def task_payload_of_def Let_def split_def ends_steps ends_getChapter
      ends_checkPrerequisites ends_awaitUntil ends_run_task ends_leave)

section \<open>A round that goes on\<close>

lemma idle_left [simp]:
  "idle (tick s) s' = idle s s'" "idle (emit e s) s' = idle s s'" "idle (emitTaskEnd ty n a out err t s) s' = idle s s'"
  by (simp_all add: idle_def)

lemma awaitUntil_Done:
  assumes "on_toy env orc r" "awaitUntil r t c s = (s', Done x)"
  shows "idle s s'"
proof -
  have sleep: "\<And>d s s' x. world_op (ck_Sleep (wr_clock r) d) s = (s', Done x) \<Longrightarrow> idle s s'"
    using assms(1) by (auto simp: world_op_Done on_toy_def toy_clock_def idle_def asked_once_def)
  note defs = awaitUntil_def bind_run(1) [OF read_clock_toy [OF assms(1)]] Let_def
  show ?thesis
  proof (cases "wr_lease r")
    case None
    then show ?thesis using assms(2)
      by (auto simp: defs bind_act_Done act_Done read_clock_toy [OF assms(1)] dest!: sleep split: if_splits)
  next
    case (Some l)
    then show ?thesis using assms(2)
      by (auto simp: defs bind_act_Done act_Done read_clock_toy [OF assms(1)] leave_job_Done dest!: sleep split: if_splits)
  qed
qed

lemma persist_counter:
  "world_op m s = (s', Done x) \<Longrightarrow> storyCounter s' = storyCounter s"
  by (auto simp: world_op_Done)

lemma settle_task_retry:
  assumes "live env orc l r" "settle_task r t n a d st out s = (s', Done (Inr (b, t')))" "storyCounter s = n"
  shows "b = a + 1 \<and> a < MaximumAttempts (tk_retry t) \<and> storyCounter s' = n + 1"
proof -
  have toy: "on_toy env orc r" and nr: "\<not> wr_replay r" using assms(1) by (simp_all add: live_def)
  obtain td e where out: "out = (td, Some e)"
    using assms(2) by (cases out; cases "snd out") (auto simp: settle_task_def run_Done split: if_splits)
  obtain pl kind as where pay: "task_payload_of r (task_input_ref t n) td (Some e) s = (s, Done (pl, kind, as))"
    by (cases "errorPayloadFromError (fmt_duration (wr_env r)) e (Some (task_input_ref t n))")
      (auto simp: task_payload_of_def act_defs)
  obtain s1 s2 po where s1: "storyCounter s1 = n" "idle (emitTaskEnd (tk_type t) n a None (Some e) po (markStoryOrdinalConsumed n s1)) s2"
    "isRetryable (Some e) (tk_retry t) \<and> a < MaximumAttempts (tk_retry t)" "b = a + 1" "s' = s2"
    using assms(2,3) nr pay
    by (auto simp: out settle_task_def bind_act_Done act_Done try_act_Done Let_def read_clock_toy [OF toy]
        dest!: persist_counter awaitUntil_Done [OF toy] split: if_splits) (fastforce simp: idle_def)+
  then show ?thesis by (simp add: idle_def)
qed

lemma missing_task_retry:
  assumes "live env orc l r" "missing_task r t n a d st s = (s', Done (Inr (b, t')))" "storyCounter s = n"
  shows "b = a + 1 \<and> a < MaximumAttempts (tk_retry t) \<and> storyCounter s' = n + 1"
proof -
  have toy: "on_toy env orc r" and nr: "\<not> wr_replay r" using assms(1) by (simp_all add: live_def)
  obtain w where w: "ws_TaskWorkers (wr_worker r) (tk_type t) = Some w" "execute_task r t w n a d st s = (s', Done (Inr (b, t')))"
    using assms(2) nr by (auto simp: missing_task_def leave_job_Done run_Done split: option.splits)
  have pure: "pure_task (w k m x)" for k m x using assms(1) w(1) by (auto simp: live_def pure_tasks_def)
  obtain s0 c dl to s1 out err err' where e: "idle s s0"
      "recover_act (run_task r c dl to (w (wr_jobKey r) n (tk_data t))) s0 = (s1, Done (out, err))"
      "settle_task r t n a d st (out, err') (tick s1) = (s', Done (Inr (b, t')))"
  proof -
    have "\<exists>s0 c dl to s1 out err err'. idle s s0 \<and>
      recover_act (run_task r c dl to (w (wr_jobKey r) n (tk_data t))) s0 = (s1, Done (out, err)) \<and>
      settle_task r t n a d st (out, err') (tick s1) = (s', Done (Inr (b, t')))"
      using w(2)
      by (auto simp: execute_task_def Let_def run_Done read_clock_toy [OF toy] split: if_splits)
        (intro exI conjI; (assumption | simp))+
    then show ?thesis using that by blast
  qed
  have "storyCounter (tick s1) = n" using run_pure_task [OF toy pure e(2)] e(1) assms(3) by (simp add: idle_def)
  from settle_task_retry [OF assms(1) e(3) this] show ?thesis .
qed

lemma cached_task_retry:
  assumes "on_toy env orc r" "cached_task r t n a d c meta s = (s', Done (Inr (b, t')))" "storyCounter s = n"
  shows "2 \<le> b \<and> b \<le> MaximumAttempts (tk_retry t) \<and> engine (world s') = engine (world s) \<and> storyCounter s' = n + 1"
proof -
  have p: "\<And>ps s s' x. checkPrerequisites r ps s = (s', x) \<Longrightarrow> s' = s"
    using checkPrerequisites_toy [OF assms(1)] by (metis fst_conv)
  obtain s2 where s2: "cached_outcome r t n a d c meta s2 = (s', Done (Inr (b, t')))" "engine (world s2) = engine (world s)"
    "storyCounter s2 = n + 1"
  proof -
    have "\<exists>s2. cached_outcome r t n a d c meta s2 = (s', Done (Inr (b, t'))) \<and> engine (world s2) = engine (world s) \<and>
        storyCounter s2 = n + 1"
      using assms(2,3)
      by (auto simp: cached_task_def run_Done split: if_splits sum.splits dest!: p dest: unit_result)
    then show ?thesis using that by blast
  qed
  have "2 \<le> b \<and> b \<le> MaximumAttempts (tk_retry t) \<and> idle s2 s'"
    using s2(1)
    by (auto simp: cached_outcome_def run_Done to_task_data_toy Let_def prior_attempt_def dest!: awaitUntil_Done [OF assms(1)]
        split: sum.splits if_splits)
  then show ?thesis using s2 by (simp add: idle_def)
qed

text \<open>The rounds that may still follow: the chapters ahead, then the attempts.\<close>

definition rounds_left :: "int \<Rightarrow> int \<Rightarrow> int \<Rightarrow> int \<Rightarrow> nat" where
  "rounds_left b most n a = (if n < b then nat (b - n) + nat most + 1 else nat (most - a) + 1)"

lemma task_round_retry:
  assumes "live env orc l r" "task_round r t a nx s = (s', Done (Inr (a', t')))" "vacant (wr_jobKey r) b (engine (world s))" "1 \<le> a"
  shows "\<exists>b'. vacant (wr_jobKey r) b' (engine (world s')) \<and> 1 \<le> a' \<and>
    rounds_left b' (MaximumAttempts (tk_retry t)) (storyCounter s') a' < rounds_left b (MaximumAttempts (tk_retry t)) (storyCounter s) a"
proof -
  have toy: "on_toy env orc r" using assms(1) by (simp add: live_def)
  let ?k = "wr_jobKey r" and ?n = "storyCounter s" and ?most = "MaximumAttempts (tk_retry t)"
  from task_round_cases [OF toy assms(2)] show ?thesis
  proof (elim disjE exE conjE)
    fix c meta d s1
    assume c: "idle s s1" "chapter_at r s ?n = Some c" "cached_task r t ?n a d c meta s1 = (s', Done (Inr (a', t')))"
    have n: "storyCounter s1 = ?n" "engine (world s1) = engine (world s)" using c(1) by (simp_all add: idle_def)
    have "?n < b"
    proof (rule ccontr)
      assume "\<not> ?n < b"
      then show False using c(2) assms(3) by (simp add: vacant_def chapter_at_log)
    qed
    then show ?thesis
      using cached_task_retry [OF toy c(3) n(1)] n(2) assms(3) by (intro exI [of _ b]) (auto simp: rounds_left_def)
  next
    fix d st s1
    assume m: "idle s s1" "missing_task r t ?n a d st s1 = (s', Done (Inr (a', t')))"
    have n: "storyCounter s1 = ?n" "engine (world s1) = engine (world s)" using m(1) by (simp_all add: idle_def)
    note step = missing_task_retry [OF assms(1) m(2) n(1)]
    let ?b = "max b (?n + 1)"
    have "vacant ?k ?b (engine (world s1))" using assms(3) n(2) by (simp add: vacant_def)
    moreover have "holds (\<lambda>s. vacant ?k ?b (engine (world s))) (missing_task r t ?n a d st)"
      by (rule vacant.run_missing_task [OF assms(1)]) simp
    ultimately have "vacant ?k ?b (engine (world s'))" using m(2) by (metis holds_def fst_conv)
    then show ?thesis using step assms(4) by (intro exI [of _ ?b]) (auto simp: rounds_left_def max_def)
  qed
qed

lemma task_loop_ends:
  assumes "live env orc l r"
  shows "vacant (wr_jobKey r) b (engine (world s)) \<Longrightarrow> 1 \<le> a \<Longrightarrow>
    rounds_left b (MaximumAttempts (tk_retry t)) (storyCounter s) a \<le> fuel \<Longrightarrow> snd (task_loop fuel r t a nx s) \<noteq> NoFuel"
proof (induction fuel arbitrary: b s a nx)
  case 0
  then show ?case by (simp add: rounds_left_def split: if_splits)
next
  case (Suc fuel)
  obtain s1 y where y: "task_round r t a nx s = (s1, y)" by (cases "task_round r t a nx s")
  have n: "y \<noteq> NoFuel" using ends_task_round [of r t a nx] y by (auto simp: ends_def dest: spec [of _ s])
  show ?case
  proof (cases "\<exists>a' t'. y = Done (Inr (a', t'))")
    case True
    then obtain a' t' where r: "y = Done (Inr (a', t'))" by blast
    obtain b' where b': "vacant (wr_jobKey r) b' (engine (world s1))" "1 \<le> a'"
      "rounds_left b' (MaximumAttempts (tk_retry t)) (storyCounter s1) a' < rounds_left b (MaximumAttempts (tk_retry t)) (storyCounter s) a"
      using task_round_retry [OF assms y [unfolded r] Suc.prems(1,2)] by blast
    then show ?thesis using Suc.IH [OF b'(1,2)] Suc.prems(3) by (simp add: bind_act_def y r)
  next
    case False
    then show ?thesis using n y by (cases y) (auto simp: bind_act_def act_defs split: sum.splits)
  qed
qed

text \<open>C30: DoTask ends. On the toy runtime, with task workers that make no calls on their context, the loop over
  the attempts stops within the chapters that are ahead of the counter and the attempts of the policy: with fuel
  for so many rounds it never runs out, whatever outcomes are stored there (also attempts numbered out of
  order), and whatever the workers, the clock and the timers do. Nothing is stored from the ordinal b on.\<close>
theorem DoTask_terminates:
  assumes "live env orc l r" "vacant (wr_jobKey r) b (engine (world s))"
    and "nat (b - storyCounter s) + nat (MaximumAttempts (Retry (normalizeRunPolicy (mergeRunPolicy policy (jobPolicy s))))) + 1
       \<le> fuel"
  shows "snd (DoTask fuel r policy ty d s) \<noteq> NoFuel"
proof (cases "computeInputHash (wr_env r) d")
  case (Inr h)
  let ?t = "task_of r policy ty d h (jobPolicy s)"
  have "rounds_left b (MaximumAttempts (tk_retry ?t)) (storyCounter s) 1 \<le> fuel"
    using assms(3) by (auto simp: rounds_left_def task_of_def Let_def)
  from task_loop_ends [OF assms(1,2) _ this, of None] show ?thesis by (simp add: DoTask_run [OF Inr])
qed (simp add: DoTask_def fail_act_def)

theorem DoTask_terminates_witness:
  "snd (DoTask 4 sample_runner zero_RunPolicy ''u'' sample_input (sample_run sample_held)) \<noteq> NoFuel"
proof -
  have "live sample_env sample_oracle sample_lease sample_runner"
    using sample_runner_on_toy
    by (simp add: live_def sample_runner_def lease_runner_def toy_lease_def pure_tasks_def sample_workers_def)
  moreover have "vacant (wr_jobKey sample_runner) 1 (engine (world (sample_run sample_held)))"
    by (simp add: vacant_def log_at_def sample_run_def newWorkerRunner_def sample_held_def NewToyEngine_def)
  ultimately show ?thesis
    by (rule DoTask_terminates)
      (simp add: sample_run_def newWorkerRunner_def normalizeRunPolicy_def mergeRunPolicy_def mergeRetryPolicy_def
        normalizeRetryPolicy_def zero_RunPolicy_def zero_RetryPolicy_def DefaultRunPolicy_def Let_def normalizeTimeout_def)
qed

end
