(* ===== verification/Worker_Equiv.thy ===== *)
theory Worker_Equiv
  imports Worker_Live
begin

text \<open>
  A replay does what the live run did: the tasks of a job that succeeded in a live run answer with the same
  outputs when the program runs again on a log that shares the chapters (\<open>run_again\<close>). The clocks of the two
  runs have nothing in common.
\<close>

text \<open>A chapter stands for the same data in any two worlds that share its artifacts.\<close>

lemma stored_answer_shares:
  assumes "on_toy env orc r" "on_toy env' orc' r'" "wr_env r' = wr_env r" "wr_jobKey r' = wr_jobKey r"
    and "shares (ch_Ordinal c + 1) (wr_jobKey r) (engine (world s)) (engine (world t))"
  shows "stored_answer r' t c = stored_answer r s c"
proof -
  have "newRuntimeBackedArtifact (wr_runtime r') (wr_jobKey r') (ch_Ordinal c) (world t) a =
      newRuntimeBackedArtifact (wr_runtime r) (wr_jobKey r) (ch_Ordinal c) (world s) a" for a
    using assms by (simp add: newRuntimeBackedArtifact_def on_toy_def toy_runtime_def OpenStoredArtifact_def shares_def)
  then have "newRuntimeBackedArtifact (wr_runtime r') (wr_jobKey r') (ch_Ordinal c) (world t) =
      newRuntimeBackedArtifact (wr_runtime r) (wr_jobKey r) (ch_Ordinal c) (world s)" by (rule ext)
  then show ?thesis unfolding stored_answer_def chapterToTaskData_def assms(3) by simp
qed

lemma cached_task_again:
  assumes "on_toy env orc r" "wr_replay r" "stored_answer r s c = Inr td" "storyCounter s = n"
    and "ChapterIs c ChapterTypeTaskAttemptOutcome \<or> ChapterIs c ChapterTypeRestartExtra"
    and "tk_inputHash t = wm_InputHash meta" "wm_InputHash meta \<noteq> []"
  shows "\<exists>s'. cached_task r t n a d c meta s = (s', Done (Inl td)) \<and> engine (world s') = engine (world s)
    \<and> storyCounter s' = n + 1"
proof -
  let ?s = "emit (TaskStartEvent (tk_type t) n a (tk_data t) (metaStartAt meta)) (markStoryOrdinalConsumed n s)"
  have eq: "stored_answer r ?s c = Inr td" using stored_answer_cong [OF assms(1), of ?s s c] assms(3) by simp
  obtain s' where "cached_outcome r t n a d c meta ?s = (s', Done (Inl td))" "world s' = world ?s" "storyCounter s' = storyCounter ?s"
    using cached_outcome_final [of t meta r ?s c n a d] eq by (auto simp: final_answer_def)
  then show ?thesis using assms(2,4-7) by (auto simp: cached_task_def shouldCheckPrerequisites_def)
qed

lemma DoTask_again:
  assumes "on_toy env orc r" "on_toy env' orc' r'" "wr_replay r'" "wr_env r' = wr_env r" "wr_jobKey r' = wr_jobKey r"
    and "recorded r s n h td" "shares (n + 1) (wr_jobKey r) (engine (world s)) (engine (world t))"
    and "computeInputHash (wr_env r) d = Inr h" "storyCounter t = n" "0 < n" "readable r' t (n - 1)"
  shows "\<exists>t'. DoTask (Suc fuel) r' policy ty d t = (t', Done td) \<and> engine (world t') = engine (world t)
    \<and> storyCounter t' = n + 1 \<and> readable r' t' n"
proof -
  obtain c meta where c: "chapter_at r s n = Some c" "ch_Ordinal c = n"
    "ChapterIs c ChapterTypeTaskAttemptOutcome \<or> ChapterIs c ChapterTypeRestartExtra"
    "workerMetaFromChapter c = Inr meta" "wm_InputHash meta = h" "h \<noteq> []" "stored_answer r s c = Inr td"
    using assms(6) by (auto simp: recorded_def)
  let ?t = "task_of r' policy ty d h (jobPolicy t)"
  have at: "chapter_at r' t (storyCounter t) = Some c"
    using c(1) assms(5,7,9) by (simp add: chapter_at_log shares_def)
  have "stored_answer r' (tick t) c = Inr td"
    using stored_answer_shares [OF assms(1,2,4,5), of c s "tick t"] assms(7) c(2,7) by simp
  then obtain dl t' where t': "task_round r' ?t 1 None t = (t', Done (Inl td))" "engine (world t') = engine (world t)"
    "storyCounter t' = n + 1"
    using task_round_stored [OF assms(2) at c(4), of ?t 1 None] assms(9-11)
      cached_task_again [OF assms(2,3), of "tick t" c td n ?t meta 1] c(3,5,6)
    by (force simp: task_of_def Let_def)
  have "DoTask (Suc fuel) r' policy ty d t = (t', Done td)"
    using assms(4,8) t'(1) by (simp add: DoTask_run bind_run ret_act_def)
  moreover have "readable r' t' n" using at c(4) t'(2) assms(9) by (simp add: readable_def chapter_at_log)
  ultimately show ?thesis using t' by blast
qed

section \<open>The job worker\<close>

text \<open>A job worker that runs tasks, one after the other, and gives up with the first error; its output has no
  artifact that says it is empty and is not.\<close>

primrec tasks_only :: "job_program \<Rightarrow> bool" where
  "tasks_only (JReturn out err) = honest_data out"
| "tasks_only (JPanic m) = True"
| "tasks_only (JDoTask policy ty d k) =
     ((\<forall>e. k (Inl e) = JReturn None (Some e)) \<and> (\<forall>td. tasks_only (k (Inr td))))"
| "tasks_only (JAwaitDuration d k) = False"
| "tasks_only (JAwaitJobs ids k) = False"
| "tasks_only (JSubmitJob j k) = False"
| "tasks_only (JSubmitRestartJob j k) = False"

text \<open>The live run ends with an output; the same program on a log that shares its chapters ends with it too.\<close>

lemma not_fired:
  assumes "on_toy env orc r" "unless_fired r dl to m s = (s', Done (Some out, None))"
  shows "\<exists>s1. idle s s1 \<and> events s1 = events s \<and> m s1 = (s', Done (Some out, None))"
proof -
  obtain b s1 where b: "timer_fires r dl s = (s1, Done b)" "idle s s1" "events s1 = events s"
    using timer_fires_toy [OF assms(1)] by blast
  show ?thesis using assms(2) b by (auto simp: unless_fired_def bind_run act_defs split: if_splits)
qed

lemma touches_ordered:
  assumes "ordered_log r s" "recorded r s' (storyCounter s) h td"
    and "touches (wr_jobKey r) (storyCounter s) (engine (world s)) (engine (world s'))"
  shows "ordered_log r s'"
  unfolding ordered_log_def
proof (intro allI impI)
  fix n c assume c: "chapter_at r s' n = Some c"
  show "ch_Ordinal c = n"
  proof (cases "n = storyCounter s")
    case False
    then have "chapter_at r s n = Some c" using c assms(3) by (simp add: touches_def chapter_at_log)
    then show ?thesis using assms(1) by (simp add: ordered_log_def)
  qed (use c assms(2) in \<open>auto simp: recorded_def\<close>)
qed

lemma ordered_same: "idle s s1 \<Longrightarrow> ordered_log r s1 = ordered_log r s"
  by (simp add: idle_def ordered_log_def chapter_at_log)

lemma recorded_shares:
  assumes "on_toy env orc r" "recorded r s n h td" "shares (n + 1) (wr_jobKey r) (engine (world s)) (engine (world s'))"
  shows "recorded r s' n h td"
proof -
  have "chapter_at r s' n = chapter_at r s n" using assms(3) by (simp add: shares_def chapter_at_log)
  moreover have "stored_answer r s' c = stored_answer r s c" if "ch_Ordinal c = n" for c
    using stored_answer_shares [OF assms(1,1) refl refl, of c s s'] assms(3) that by simp
  ultimately show ?thesis using assms(2) by (auto simp: recorded_def)
qed

text \<open>What is in the log after the run, for a replay from the same counter.\<close>

lemma run_again:
  assumes "live env orc l r" "hashes (wr_env r)" "on_toy env' orc' r'" "wr_replay r'" "wr_env r' = wr_env r"
    "wr_jobKey r' = wr_jobKey r" "tasks_only p"
    and "run_job (Suc fuel) r dl to p s = (s', Done (Some out, None))" "flawless s'" "int64 (storyCounter s')"
    and "ordered_log r s" "0 < storyCounter s"
  shows "storyCounter s \<le> storyCounter s' \<and> honest_data (Some out) \<and>
    shares (storyCounter s) (wr_jobKey r) (engine (world s)) (engine (world s')) \<and> ordered_log r s' \<and>
    (storyCounter s < storyCounter s' \<longrightarrow> (\<exists>h td. recorded r s' (storyCounter s) h td)) \<and>
    (\<forall>t. storyCounter t = storyCounter s \<longrightarrow> readable r' t (storyCounter s - 1) \<longrightarrow>
       shares (storyCounter s') (wr_jobKey r) (engine (world s')) (engine (world t)) \<longrightarrow>
       (\<exists>t'. run_job (Suc fuel') r' 0 to' p t = (t', Done (Some out, None)) \<and> engine (world t') = engine (world t)
          \<and> storyCounter t' = storyCounter s'))"
  using assms(7-12)
proof (induction p arbitrary: s)
  case (JReturn o1 e1)
  have toy: "on_toy env orc r" using assms(1) by (simp add: live_def)
  obtain s1 where "idle s s1" "(s1, Done (o1, e1)) = (s', Done (Some out, None))"
    using not_fired [OF toy JReturn.prems(2) [unfolded run_job.simps]] by (auto simp: act_defs)
  then have i: "idle s s'" "o1 = Some out" "e1 = None" by auto
  then show ?case using JReturn.prems(1,4) i
    by (auto simp: idle_def ordered_same [OF i(1)] JReturn.prems unless_fired_def timer_fires_def act_defs bind_act_def)
next
  case (JDoTask policy ty d k)
  have toy: "on_toy env orc r" using assms(1) by (simp add: live_def)
  obtain s1 s2 x where s1: "idle s s1" "try_act (DoTask (Suc fuel) r policy ty d) s1 = (s2, Done x)"
    "run_job (Suc fuel) r dl to (k x) s2 = (s', Done (Some out, None))"
    using not_fired [OF toy JDoTask.prems(2) [unfolded run_job.simps]] by (auto simp: bind_act_Done)
  have n: "storyCounter s1 = storyCounter s" "engine (world s1) = engine (world s)" using s1(1) by (simp_all add: idle_def)
  obtain td where td: "x = Inr td" "DoTask (Suc fuel) r policy ty d s1 = (s2, Done td)"
  proof (cases x)
    case (Inl e)
    then show ?thesis
      using s1(3) JDoTask.prems(1) by (auto simp: act_defs dest: not_fired [OF toy])
  qed (use s1(2) in \<open>simp add: try_act_Done that\<close>)
  have r2: "run_job (Suc fuel) r dl to (k (Inr td)) s2 = (s', Done (Some out, None))" using s1(3) td(1) by simp
  have f2: "flawless s2" by (rule flawless_run [OF r2 logs_run_job JDoTask.prems(3)])
  have c2: "storyCounter s2 \<le> storyCounter s'" using logs_run [OF logs_run_job r2] by (simp add: extends_log_def)
  have c1: "storyCounter s1 \<le> storyCounter s2" using logs_run [OF logs_DoTask td(2)] by (simp add: extends_log_def)
  have o1: "ordered_log r s1" using JDoTask.prems(5) ordered_same [OF s1(1)] by simp
  have "int64 (storyCounter s1)" using c1 c2 n(1) JDoTask.prems(4,6) by (simp add: int64_def)
  from DoTask_live [OF assms(1,2) o1 this _ td(2) f2] n(1) JDoTask.prems(6)
  obtain h where h: "computeInputHash (wr_env r) d = Inr h" "done_task r s1 s2 h td" by auto
  have d: "recorded r s2 (storyCounter s) h td" "storyCounter s2 = storyCounter s + 1"
    "touches (wr_jobKey r) (storyCounter s) (engine (world s)) (engine (world s2))"
    using h(2) n by (simp_all add: done_task_def)
  have o2: "ordered_log r s2" using touches_ordered [OF JDoTask.prems(5) d(1,3)] .
  have g: "tasks_only (k (Inr td))" using JDoTask.prems(1) by simp
  note IH0 = JDoTask.IH [OF rangeI g r2 JDoTask.prems(3,4) o2]
  have pos: "0 < storyCounter s2" using d(2) JDoTask.prems(6) by simp
  note IH = IH0 [OF pos, unfolded d(2)]
  have sh2: "shares (storyCounter s + 1) (wr_jobKey r) (engine (world s2)) (engine (world s'))" using IH by blast
  have sh: "shares (storyCounter s) (wr_jobKey r) (engine (world s)) (engine (world s'))"
    by (rule shares_trans [OF touches_shares [OF d(3)] sh2]) simp
  have rec: "recorded r s' (storyCounter s) h td"
    by (rule recorded_shares [OF toy d(1) sh2])
  have again: "\<exists>t'. run_job (Suc fuel') r' 0 to' (JDoTask policy ty d k) t = (t', Done (Some out, None)) \<and>
      engine (world t') = engine (world t) \<and> storyCounter t' = storyCounter s'"
    if t: "storyCounter t = storyCounter s" "readable r' t (storyCounter s - 1)"
      "shares (storyCounter s') (wr_jobKey r) (engine (world s')) (engine (world t))" for t
  proof -
    have "shares (storyCounter s + 1) (wr_jobKey r) (engine (world s')) (engine (world t))"
      using t(3) c2 d(2) by (simp add: shares_def)
    from DoTask_again [OF toy assms(3,4,5,6) rec this h(1) t(1) JDoTask.prems(6) t(2), of fuel' policy ty]
    obtain t1 where t1: "DoTask (Suc fuel') r' policy ty d t = (t1, Done td)" "engine (world t1) = engine (world t)"
      "storyCounter t1 = storyCounter s + 1" "readable r' t1 (storyCounter s)" by blast
    have "shares (storyCounter s') (wr_jobKey r) (engine (world s')) (engine (world t1))" using t(3) t1(2) by simp
    moreover have "readable r' t1 (storyCounter s + 1 - 1)" using t1(4) by simp
    ultimately have "\<exists>t'. run_job (Suc fuel') r' 0 to' (k (Inr td)) t1 = (t', Done (Some out, None)) \<and>
      engine (world t') = engine (world t1) \<and> storyCounter t' = storyCounter s'" using IH t1(3) by blast
    then show ?thesis using t1 by (auto simp: unless_fired_def timer_fires_def bind_act_def try_act_def act_defs)
  qed
  have "storyCounter s \<le> storyCounter s' \<and> ordered_log r s' \<and> honest_data (Some out)" using IH by simp
  then show ?case using sh rec again by blast
next
  case (JPanic m)
  have toy: "on_toy env orc r" using assms(1) by (simp add: live_def)
  show ?case using not_fired [OF toy JPanic.prems(2) [unfolded run_job.simps]] by (simp add: act_defs)
qed simp_all

end
