(* ===== verification/Worker_Again.thy ===== *)
theory Worker_Again
  imports Worker_Equiv Worker_Open
begin

text \<open>
  The job around its tasks: a live run that ends with an output leaves that output in the log as the outcome of
  the job (\<open>job_recorded\<close>), and a replay on a log with the same chapters returns it.
\<close>

section \<open>What a live job stores\<close>

definition job_recorded :: "World workerRunner \<Rightarrow> World run \<Rightarrow> int \<Rightarrow> string \<Rightarrow> TaskData option \<Rightarrow> bool" where
  "job_recorded r s n h out \<longleftrightarrow>
     (\<exists>c meta. chapter_at r s n = Some c \<and> ch_Ordinal c = n \<and> ChapterIs c ChapterTypeJobAttemptOutcome \<and>
        workerMetaFromChapter c = Inr meta \<and> (wm_InputHash meta = [] \<or> wm_InputHash meta = h) \<and>
        stored_answer r s c = Inr out) \<and>
     (\<exists>d td. finished_with (wr_jobKey r) d (engine (world s)) \<and> out = Some td \<and> td_GetData td = Inr d)"

text \<open>Without an outcome in the log there is nothing to use.\<close>

lemma checkCachedJobResult_open:
  assumes "on_toy env orc r" "open_log (wr_jobKey r) s" "checkCachedJobResult r cfg n s = (s1, Done j)" "cj_err j = None"
  shows "idle s s1 \<and> \<not> cj_cached j"
  using assms
  by (auto simp: checkCachedJobResult_def getChapter_toy [OF assms(1)] run_Done not_cached_def open_log_def unfinished_def
      chapter_at_log split: option.splits sum.splits if_splits)

text \<open>A fresh output is stored as the final chapter of the job.\<close>

lemma prepareJobResultPayload_output:
  assumes "prepareJobResultPayload r (Some td) None ref = Inr (payload, as, kind)" "honest_data (Some td)"
  shows "kind = payloadKindApp \<and> list_all honest as"
  using assms by (auto simp: prepareJobResultPayload_def honest_data_def split: sum.splits)

lemma completeJobOutcome_Done:
  assumes "live env orc l r" "int64 n" "int64 a" "int64 (ref_Ordinal (jc_inputRef cfg))" "list_all honest as"
    and "completeJobOutcome r cfg n (payload, as, payloadKindApp) a period None s = (s', Done out)"
    and "open_log (wr_jobKey r) s"
  shows "job_recorded r s' n (ref_Hash (jc_inputRef cfg)) out \<and> touches (wr_jobKey r) n (engine (world s)) (engine (world s')) \<and>
    storyCounter s' = storyCounter s"
proof -
  have toy: "on_toy env orc r" and k: "wr_jobKey r = ls_JobKey l" using assms(1) by (simp_all add: live_def)
  have lease: "wr_lease r = Some (toy_lease env orc l)" "\<not> wr_replay r" using assms(1) by (simp_all add: live_def)
  obtain st d0 where cd: "completionStatusAndDetail None = (st, d0)" "st \<noteq> ''cancelled''"
    by (simp add: completionStatusAndDetail_def)
  define d where "d = Text d0"
  obtain c us created w1 where p: "prepareTaskDataChapterWrite (wr_env r) n (ws_JobType (wr_worker r))
      ChapterTypeJobAttemptOutcome payloadKindApp (ref_Hash (jc_inputRef cfg)) created
      (outcome_meta a (jc_inputRef cfg) period) payload as = Inr (c, us)"
    "le_Complete (toy_lease env orc l) \<lparr>ce_Status = st, ce_Detail = d, ce_Chapter = Some c, ce_Uploads = us\<rparr> (world (tick s)) =
      (w1, Inr ())" "to_task_data r c ((tick s)\<lparr>world := w1\<rparr>) = (s', Done out)"
    using assms(6) lease cd
    by (auto simp: completeJobOutcome_def read_clock_toy [OF toy] d_def bind_act_Done act_Done world_op_Done)
  have s': "s' = (tick s)\<lparr>world := w1\<rparr>" "stored_answer r s' c = Inr out"
    using p(3) by (auto simp: to_task_data_toy split: sum.splits)
  from p(2) obtain env' where e: "completeLease env' (ls_JobKey l) (ls_LeaseID l)
      \<lparr>ce_Status = st, ce_Detail = d, ce_Chapter = Some c, ce_Uploads = us\<rparr> (engine (world s)) = (engine w1, Inr ())"
    using on_engine_Inr by (fastforce simp: toy_lease_def)
  have o1: "ch_Ordinal c = n" using p(1) by (auto simp: prepareTaskDataChapterWrite_def Let_def split: sum.splits)
  note st = completeLease_stores [OF e disjI1 [OF conjI [OF p(1) assms(5)]] o1]
  have fin: "finished_with (ls_JobKey l) payload (engine w1)"
    by (rule completeLease_result [OF e p(1) assms(5) _ cd(2)]) (use assms(7) k in \<open>auto simp: open_log_def unfinished_def\<close>)
  obtain body where body: "ChapterBodyFromWire ChapterTypeJobAttemptOutcome payloadKindApp payload = Inr body"
    "ch_Body c = Some body" using p(1) by (auto simp: prepareTaskDataChapterWrite_def Let_def split: sum.splits)
  have out: "\<exists>td. out = Some td \<and> td_GetData td = Inr payload"
    using s'(2) by (auto simp: stored_answer_def chapterToTaskData_def app_payload [OF body] data_or_error_def Let_def
        EnvelopedTaskData_def)
  have "wire_meta (outcome_meta a (jc_inputRef cfg) period)" "wm_InputHash (outcome_meta a (jc_inputRef cfg) period) = []"
    using assms(3,4) by (simp_all add: wire_meta_def outcome_meta_def zero_workerMeta_def int64_def)
  from stored_here [OF p(1) this(1) assms(2) this(2)]
  obtain m where "workerMetaFromChapter c = Inr m" "wm_InputHash m = ref_Hash (jc_inputRef cfg)" by blast
  then show ?thesis
    using st to_chapter_type [OF p(1)] o1 s' k fin out by (auto simp: job_recorded_def chapter_at_log)
qed

lemma settle_job_Done:
  assumes "live env orc l r" "int64 n" "int64 a" "int64 (ref_Ordinal (jc_inputRef cfg))" "storyCounter s = n"
    and "err = None \<Longrightarrow> \<exists>td. output = Some td \<and> honest_data (Some td)" "open_log (wr_jobKey r) s"
    and "settle_job r cfg n a st fin output err s = (s', Done (Inl out))"
  shows "job_recorded r s' n (ref_Hash (jc_inputRef cfg)) out \<and> touches (wr_jobKey r) n (engine (world s)) (engine (world s')) \<and>
    storyCounter s' = n + 1"
proof -
  have e: "err = None"
    using assms(8) by (cases err) (auto simp: settle_job_def run_Done Let_def split: if_splits)
  obtain td where td: "output = Some td" "honest_data (Some td)" using assms(6) e by blast
  obtain payload as kind s1 where p: "prepareJobResultPayload r (Some td) None (jc_inputRef cfg) = Inr (payload, as, kind)"
    "completeJobOutcome r cfg n (payload, as, kind) a (Some (st, fin)) None s = (s1, Done out)"
    "s' = emit (JobEndEvent a out None fin) (markStoryOrdinalConsumed n s1)"
    using assms(8) by (auto simp: settle_job_def run_Done consume_def e td(1))
  note k = prepareJobResultPayload_output [OF p(1) td(2)]
  have "stored_answer r s' c = stored_answer r s1 c" for c
    using assms(1) by (intro stored_answer_cong) (auto simp: live_def p(3))
  then show ?thesis
    using completeJobOutcome_Done [OF assms(1,2,3,4) _ p(2) [unfolded conjunct1 [OF k]]] k assms(5,7)
    by (simp add: p(3) job_recorded_def chapter_at_log)
qed

section \<open>An attempt of the job\<close>

text \<open>What a successful attempt leaves: the outcome at the ordinal \<open>n\<close> before the counter and, if chapters were
  passed on the way, a program that runs up to there again.\<close>

definition runs_again ::
  "World workerRunner \<Rightarrow> World workerRunner \<Rightarrow> nat \<Rightarrow> job_program \<Rightarrow> int \<Rightarrow> int \<Rightarrow> World run \<Rightarrow> bool" where
  "runs_again r r' fuel p m n s' \<longleftrightarrow>
     (\<exists>out. \<forall>t to. storyCounter t = m \<longrightarrow> readable r' t (m - 1) \<longrightarrow>
        shares n (wr_jobKey r) (engine (world s')) (engine (world t)) \<longrightarrow>
        (\<exists>t'. run_job fuel r' 0 to p t = (t', Done (Some out, None)) \<and> engine (world t') = engine (world t) \<and>
           storyCounter t' = n))"

definition attempt_done ::
  "World workerRunner \<Rightarrow> World workerRunner \<Rightarrow> nat \<Rightarrow> job_program \<Rightarrow> string \<Rightarrow> World run \<Rightarrow> World run \<Rightarrow> TaskData option
   \<Rightarrow> bool" where
  "attempt_done r r' fuel p h s s' out \<longleftrightarrow>
     (\<exists>n\<ge>storyCounter s. storyCounter s' = n + 1 \<and> job_recorded r s' n h out \<and>
        shares (storyCounter s) (wr_jobKey r) (engine (world s)) (engine (world s')) \<and>
        (n = storyCounter s \<or>
         (\<exists>h1 td. recorded r s' (storyCounter s) h1 td) \<and> runs_again r r' fuel p (storyCounter s) n s'))"

lemma execute_job_Done:
  assumes "execute_job fuel r c d s = (s', Done (Some out, None))"
  shows "\<exists>to. run_job fuel r (nearest_deadline (wc_invocationDeadline c) (wc_totalDeadline c)) to
    (ws_Run (wr_worker r) (wr_jobKey r) d) s = (s', Done (Some out, None))"
proof -
  let ?m = "run_job fuel r (nearest_deadline (wc_invocationDeadline c) (wc_totalDeadline c)) (deadline_error r c)
    (ws_Run (wr_worker r) (wr_jobKey r) d)"
  obtain s1 y where y: "?m s = (s1, y)" by (cases "?m s")
  then show ?thesis using assms by (cases y) (auto simp: execute_job_def finish_act_def recover_act_def)
qed

text \<open>The worker has answered; the log has no outcome yet.\<close>

lemma answer_job_Done:
  assumes "live env orc l r" "int64 n" "int64 a" "int64 (ref_Ordinal (jc_inputRef cfg))"
    and "err = None \<Longrightarrow> \<exists>td. output = Some td \<and> honest_data (Some td)" "storyCounter s = n" "open_log (wr_jobKey r) s"
    and "answer_job r cfg a st fin output err n s = (s', Done (Inl out))"
  shows "err = None \<and> job_recorded r s' n (ref_Hash (jc_inputRef cfg)) out \<and>
    touches (wr_jobKey r) n (engine (world s)) (engine (world s')) \<and> storyCounter s' = n + 1"
proof -
  have toy: "on_toy env orc r" and nr: "\<not> wr_replay r" using assms(1) by (simp_all add: live_def)
  obtain j s1 where j: "checkCachedJobResult r cfg n s = (s1, Done j)" "cj_err j = None"
    using assms(8) by (auto simp: answer_job_def bind_act_Done act_Done split: option.splits)
  have i: "idle s s1" "\<not> cj_cached j" using checkCachedJobResult_open [OF toy assms(7) j] by simp_all
  then have st: "settle_job r cfg n a st fin output err s1 = (s', Done (Inl out))"
    using assms(8) j nr by (simp add: answer_job_def bind_run)
  have "err = None" using st by (cases err) (auto simp: settle_job_def run_Done Let_def split: if_splits)
  moreover have "open_log (wr_jobKey r) s1" using i(1) assms(7) by (simp add: idle_def open_log_def)
  ultimately show ?thesis using settle_job_Done [OF assms(1-4) _ assms(5) _ st] i assms(6) by (simp add: idle_def)
qed

lemma attempt_done_idle: "idle s s1 \<Longrightarrow> attempt_done r r' f p h s1 s' out \<Longrightarrow> attempt_done r r' f p h s s' out"
  unfolding attempt_done_def idle_def by auto

lemma setupAttemptDeadlines_toy:
  assumes "on_toy env orc r"
  shows "\<exists>s1 c. setupAttemptDeadlines r cfg s = (s1, Done c) \<and> idle s s1 \<and> events s1 = events s \<and>
    (jc_invocationTimeout cfg \<le> 0 \<longrightarrow> wc_invocationDeadline c = 0) \<and> wc_totalDeadline c = jc_totalDeadline cfg"
  using assms
  by (auto simp: setupAttemptDeadlines_def Let_def bind_run(1) [OF read_clock_toy [OF assms]] job_wait_context_def act_defs
      bind_act_def idle_def tick_def asked_once_def)

lemma open_run_job:
  assumes "live env orc l r" "tasks_only p"
  shows "holds (open_log k) (run_job fuel r dl to p)"
  using assms(2)
proof (induction p)
  case (JDoTask policy ty d c)
  have "holds (open_log k) (run_job fuel r dl to (c x))" for x
  proof (cases x)
    case (Inl e)
    then show ?thesis
      using JDoTask.prems live_toy [OF assms(1)] by (simp add: unless_fired_def open_basic)
  qed (use JDoTask in simp)
  then show ?case using live_toy [OF assms(1)] by (simp add: unless_fired_def open_basic(1,3-) open_steps(2) [OF assms(1)])
qed (use live_toy [OF assms(1)] in \<open>simp_all add: unless_fired_def open_basic\<close>)

lemma holds_run: "holds I m \<Longrightarrow> I s \<Longrightarrow> m s = (s', x) \<Longrightarrow> I s'"
  by (metis holds_def fst_conv)

lemma late_job_error_toy:
  assumes "on_toy env orc r" "late_job_error r c err s = (s', Done err')"
  shows "idle s s' \<and> (err' = None \<longrightarrow> err = None)"
  using assms by (auto simp: late_job_error_def bind_run(1) [OF read_clock_toy] act_Done split: if_splits)

lemma job_finished_at_toy:
  assumes "on_toy env orc r" "job_finished_at r err s = (s', Done t)"
  shows "idle s s'"
  using assms(2)
  by (auto simp: job_finished_at_def fallbackTaskTime_def bind_run(1) [OF read_clock_toy [OF assms(1)]]
      read_clock_toy [OF assms(1)] run_Done split: option.splits if_splits)

lemma logs_answer: "holds (logs xs c0) (late_job_error r c e)" "holds (logs xs c0) (job_finished_at r e)"
  "holds (logs xs c0) (answer_job r cfg a st fin out err n)"
  by (simp_all add: late_job_error_def job_finished_at_def fallbackTaskTime_def answer_job_def consume_def split_def Let_def
      logs_basic logs_checkCachedJobResult logs_getChapter logs_use_cached_job logs_settle_job)

lemma logs_execute_job: "holds (logs xs c0) (execute_job f r c d)"
  by (simp add: execute_job_def logs_basic logs_run_job)

lemma touches_shares_le: "touches k n e e' \<Longrightarrow> m \<le> n \<Longrightarrow> shares m k e e'"
  by (simp add: touches_def shares_def)

text \<open>The worker answered in time and without an error, or the log would have no outcome.\<close>

lemma work_on_job_Done:
  assumes "live env orc l r" "hashes (wr_env r)" "on_toy env' orc' r'" "wr_replay r'" "wr_env r' = wr_env r"
    "wr_jobKey r' = wr_jobKey r" "tasks_only (ws_Run (wr_worker r) (wr_jobKey r) d)"
    and "work_on_job (Suc fuel) r cfg d a st s = (s', Done (Inl (Some out)))" "flawless s'" "int64 (storyCounter s')"
    and "ordered_log r s" "0 < storyCounter s" "int64 a" "int64 (ref_Ordinal (jc_inputRef cfg))" "open_log (wr_jobKey r) s"
  shows "attempt_done r r' (Suc fuel') (ws_Run (wr_worker r) (wr_jobKey r) d) (ref_Hash (jc_inputRef cfg)) s s' (Some out)"
proof -
  have toy: "on_toy env orc r" using assms(1) by (simp add: live_def)
  let ?p = "ws_Run (wr_worker r) (wr_jobKey r) d"
  obtain s1 c where s1: "setupAttemptDeadlines r cfg s = (s1, Done c)" "idle s s1"
    using setupAttemptDeadlines_toy [OF toy] by blast
  obtain o2 e2 s2 where s2: "execute_job (Suc fuel) r c d s1 = (s2, Done (o2, e2))" "o2 \<noteq> None \<or> e2 \<noteq> None"
    using assms(8) by (auto simp: work_on_job_def bind_run s1(1) bind_act_Done act_Done split: if_splits)
  obtain e3 s3 fin s4 where w: "late_job_error r c e2 s2 = (s3, Done e3)" "job_finished_at r e3 s3 = (s4, Done fin)"
    "answer_job r cfg a st fin o2 e3 (storyCounter s4) s4 = (s', Done (Inl (Some out)))"
    using assms(8) s2(2) by (auto simp: work_on_job_def bind_run s1(1) s2(1) bind_act_Done act_Done split: if_splits)
  have i: "idle s2 s3" "e3 = None \<Longrightarrow> e2 = None" "idle s3 s4"
    using late_job_error_toy [OF toy w(1)] job_finished_at_toy [OF toy w(2)] by simp_all
  have i4: "idle s2 s4" using idle_trans [OF i(1,3)] .
  let ?n = "storyCounter s4"
  have n: "storyCounter s2 = ?n" "engine (world s4) = engine (world s2)" "storyCounter s1 = storyCounter s"
    using i4 s1(2) by (simp_all add: idle_def)
  have c4: "?n \<le> storyCounter s'" using logs_run [OF logs_answer(3) w(3)] by (simp add: extends_log_def)
  have f4: "flawless s4" by (rule flawless_run [OF w(3) logs_answer(3) assms(9)])
  have f2: "flawless s2"
    by (rule flawless_run [OF w(1) logs_answer(1) flawless_run [OF w(2) logs_answer(2) f4]])
  have c2: "storyCounter s1 \<le> storyCounter s2"
    using logs_run [OF logs_execute_job s2(1)] by (simp add: extends_log_def)
  have m: "int64 ?n" using assms(10,12) c4 c2 n by (simp add: int64_def)
  have again: "e3 = None \<Longrightarrow> \<exists>td to. o2 = Some td \<and>
      run_job (Suc fuel) r (nearest_deadline (wc_invocationDeadline c) (wc_totalDeadline c)) to ?p s1 = (s2, Done (Some td, None))"
    using execute_job_Done s2 i(2) by (cases o2) auto
  have o1: "ordered_log r s1" using assms(11) ordered_same [OF s1(2)] by simp
  have ahead: "0 < storyCounter s1" "int64 (storyCounter s2)" using assms(12) n(1,3) m by simp_all
  note run = run_again [where fuel' = fuel', OF assms(1-7) _ f2 ahead(2) o1 ahead(1)]
  have hon: "\<exists>td. o2 = Some td \<and> honest_data (Some td)" if none: "e3 = None"
  proof -
    obtain td to where "o2 = Some td" and td: "run_job (Suc fuel) r
        (nearest_deadline (wc_invocationDeadline c) (wc_totalDeadline c)) to ?p s1 = (s2, Done (Some td, None))"
      using again [OF none] by blast
    from run [OF td] this(1) show ?thesis by simp
  qed
  have op: "open_log (wr_jobKey r) s4"
  proof -
    have 1: "open_log (wr_jobKey r) s1" using assms(15) s1(2) by (simp add: open_log_def idle_def)
    have 2: "holds (open_log (wr_jobKey r)) (execute_job (Suc fuel) r c d)"
      unfolding execute_job_def by (intro holds_finish open_run_job [OF assms(1,7)])
    have "open_log (wr_jobKey r) s2" by (rule holds_run [OF 2 1 s2(1)])
    then show ?thesis by (simp add: open_log_def n(2))
  qed
  from answer_job_Done [OF assms(1) m assms(13,14) hon refl op w(3)]
  have a: "e3 = None" "job_recorded r s' ?n (ref_Hash (jc_inputRef cfg)) (Some out)"
    "touches (wr_jobKey r) ?n (engine (world s4)) (engine (world s'))" "storyCounter s' = ?n + 1" by simp_all
  obtain td to where td: "run_job (Suc fuel) r (nearest_deadline (wc_invocationDeadline c) (wc_totalDeadline c)) to ?p s1 =
      (s2, Done (Some td, None))" using again [OF a(1)] by blast
  note fact = run [OF td, unfolded n(1,3)]
  have f: "storyCounter s \<le> ?n" "shares (storyCounter s) (wr_jobKey r) (engine (world s1)) (engine (world s2))"
    "storyCounter s < ?n \<longrightarrow> (\<exists>h td. recorded r s2 (storyCounter s) h td)" using fact by blast+
  have sh: "shares ?n (wr_jobKey r) (engine (world s2)) (engine (world s'))"
    using touches_shares [OF a(3)] n(2) by simp
  show ?thesis
    unfolding attempt_done_def
  proof (intro exI [of _ ?n] conjI)
    show "storyCounter s \<le> ?n" by (rule f)
    show "storyCounter s' = ?n + 1" "job_recorded r s' ?n (ref_Hash (jc_inputRef cfg)) (Some out)" using a by simp_all
    show "shares (storyCounter s) (wr_jobKey r) (engine (world s)) (engine (world s'))"
      using shares_trans [OF f(2) sh f(1)] s1(2) by (simp add: idle_def)
    show "?n = storyCounter s \<or> (\<exists>h1 td. recorded r s' (storyCounter s) h1 td) \<and>
      runs_again r r' (Suc fuel') ?p (storyCounter s) ?n s'"
    proof (cases "?n = storyCounter s")
      case False
      then have lt: "storyCounter s + 1 \<le> ?n" using f(1) by simp
      obtain h1 td1 where "recorded r s2 (storyCounter s) h1 td1" using f(3) lt by auto
      then have "recorded r s' (storyCounter s) h1 td1"
        using recorded_shares [OF toy] sh lt by (auto simp: shares_def)
      moreover have "runs_again r r' (Suc fuel') ?p (storyCounter s) ?n s'"
        unfolding runs_again_def
      proof (intro exI [of _ td] allI impI)
        fix t to' assume t: "storyCounter t = storyCounter s" "readable r' t (storyCounter s - 1)"
          "shares ?n (wr_jobKey r) (engine (world s')) (engine (world t))"
        have "shares ?n (wr_jobKey r) (engine (world s2)) (engine (world t))" by (rule shares_trans [OF sh t(3)]) simp
        with fact t(1,2) show "\<exists>t'. run_job (Suc fuel') r' 0 to' ?p t = (t', Done (Some td, None)) \<and>
            engine (world t') = engine (world t) \<and> storyCounter t' = ?n" by blast
      qed
      ultimately show ?thesis by blast
    qed simp
  qed
qed

end
