(* ===== verification/Worker_Same.thy ===== *)
theory Worker_Same
  imports Worker_Again
begin

text \<open>
  The whole job: a live run that ends with an output, and the replays of it.
\<close>

section \<open>The live run\<close>

text \<open>The part of a round after the deadline check.\<close>

definition round_from ::
  "nat \<Rightarrow> 'w workerRunner \<Rightarrow> jobExecutionConfig \<Rightarrow> TaskData option \<Rightarrow> int \<Rightarrow> go_time
   \<Rightarrow> ('w, TaskData option round) run_act" where
  "round_from fuel r cfg d a st =
     bind_act (read_act storyCounter) (\<lambda>ordinal.
     bind_act (try_act (getChapter r ordinal)) (\<lambda>x.
       case x of
         Inl e \<Rightarrow> if errors_is e ErrChapterNotFound then work_on_job fuel r cfg d a st else fail_act e
       | Inr (c, _) \<Rightarrow>
           if ChapterIs c ChapterTypeJobAttemptOutcome
           then
             bind_act (checkCachedJobResult r cfg ordinal) (\<lambda>j.
               case cj_err j of
                 Some e \<Rightarrow> fail_act e
               | None \<Rightarrow> if cj_cached j then use_cached_job r ordinal a st c j else work_on_job fuel r cfg d a st)
           else work_on_job fuel r cfg d a st))"

lemma job_round_toy:
  assumes "on_toy env orc r"
  shows "\<exists>s1 st late. idle s s1 \<and> (jc_totalDeadline cfg = 0 \<longrightarrow> \<not> late) \<and>
    job_round fuel r cfg d t0 a next s = (if late then expire_job r cfg a st else round_from fuel r cfg d a st) s1"
proof -
  let ?st = "case next of Some t \<Rightarrow> t | None \<Rightarrow> if a = 1 then t0 else or_time orc (asked (world s))"
  let ?s = "emit (JobStartEvent a d ?st) ((tick s)\<lparr>currentJobAttemptStartAt := ?st, lastTaskEndAt := None\<rparr>)"
  have i: "idle s ?s" by (simp add: idle_def)
  let ?tail = "\<lambda>late. if late then expire_job r cfg a ?st else round_from fuel r cfg d a ?st"
  have "job_round fuel r cfg d t0 a next s =
    bind_act (if jc_totalDeadline cfg = 0 then ret_act False
      else bind_act (read_clock r) (\<lambda>t. ret_act (past (jc_totalDeadline cfg) t))) ?tail ?s"
    unfolding job_round_def Let_def round_from_def [symmetric] by (simp add: bind_run(1) [OF read_clock_toy [OF assms]])
  also have "\<dots> = (if jc_totalDeadline cfg = 0 then ?tail False ?s
      else ?tail (past (jc_totalDeadline cfg) (or_time orc (asked (world ?s)))) (tick ?s))"
    by (simp add: bind_act_def read_clock_toy [OF assms] act_defs)
  finally have eq: "job_round fuel r cfg d t0 a next s = \<dots>" .
  show ?thesis
  proof (cases "jc_totalDeadline cfg = 0")
    case True
    then show ?thesis unfolding eq by (intro exI [of _ ?s] exI [of _ ?st] exI [of _ False]) (simp add: idle_def)
  next
    case False
    then show ?thesis
      unfolding eq
      by (intro exI [of _ "tick ?s"] exI [of _ ?st] exI [of _ "past (jc_totalDeadline cfg) (or_time orc (asked (world ?s)))"])
        (simp add: idle_def)
  qed
qed

lemma expire_job_Done: "expire_job r cfg a st s = (s', Done x) \<longleftrightarrow> False"
  by (auto simp: expire_job_def Let_def run_Done consume_def split: if_splits)

lemma round_from_Done:
  assumes "on_toy env orc r" "open_log (wr_jobKey r) s" "round_from fuel r cfg d a st s = (s', Done x)"
  shows "work_on_job fuel r cfg d a st s = (s', Done x)"
  using assms
  by (auto simp: round_from_def getChapter_toy [OF assms(1)] bind_act_Done act_Done try_act_Done chapter_at_log open_log_def
      unfinished_def split: option.splits sum.splits if_splits)

text \<open>Another attempt needs a failed one.\<close>

lemma marks_JobEnd:
  "(\<And>xs c0. holds (logs xs c0) m) \<Longrightarrow> marks (bind_act (write_act (emit (JobEndEvent a out (Some e) t))) (\<lambda>_. m))"
  by (rule marks_failed) auto

lemma marks_settle_job: "marks (settle_job r cfg n a st fin out err)"
  by (simp add: settle_job_def Let_def marks_basic marks_bind marks_JobEnd logs_basic logs_awaitUntil)

lemma answer_job_open:
  assumes "live env orc l r" "open_log (wr_jobKey r) s" "answer_job r cfg a st fin out err n s = (s', Done x)"
  shows "\<exists>s1. settle_job r cfg n a st fin out err s1 = (s', Done x)"
proof -
  have toy: "on_toy env orc r" and nr: "\<not> wr_replay r" using assms(1) by (simp_all add: live_def)
  obtain j s1 where j: "checkCachedJobResult r cfg n s = (s1, Done j)" "cj_err j = None"
    using assms(3) by (auto simp: answer_job_def bind_act_Done act_Done split: option.splits)
  have "\<not> cj_cached j" using checkCachedJobResult_open [OF toy assms(2) j] by simp
  then show ?thesis using assms(3) j nr by (auto simp: answer_job_def bind_run)
qed

lemma work_on_job_retry:
  assumes "live env orc l r" "tasks_only (ws_Run (wr_worker r) (wr_jobKey r) d)" "open_log (wr_jobKey r) s"
    and "work_on_job fuel r cfg d a st s = (s', Done (Inr y))"
  shows "\<not> flawless s'"
proof -
  have toy: "on_toy env orc r" using assms(1) by (simp add: live_def)
  obtain s1 c where s1: "setupAttemptDeadlines r cfg s = (s1, Done c)" "idle s s1"
    using setupAttemptDeadlines_toy [OF toy] by blast
  obtain o2 e2 s2 where s2: "execute_job fuel r c d s1 = (s2, Done (o2, e2))" "o2 \<noteq> None \<or> e2 \<noteq> None"
    using assms(4) by (auto simp: work_on_job_def bind_run s1(1) bind_act_Done act_Done split: if_splits)
  obtain e3 s3 fin s4 where w: "late_job_error r c e2 s2 = (s3, Done e3)" "job_finished_at r e3 s3 = (s4, Done fin)"
    "answer_job r cfg a st fin o2 e3 (storyCounter s4) s4 = (s', Done (Inr y))"
    using assms(4) s2(2) by (auto simp: work_on_job_def bind_run s1(1) s2(1) bind_act_Done act_Done split: if_splits)
  have i: "idle s2 s3" "idle s3 s4" using late_job_error_toy [OF toy w(1)] job_finished_at_toy [OF toy w(2)] by simp_all
  have 1: "open_log (wr_jobKey r) s1" using assms(3) s1(2) by (simp add: open_log_def idle_def)
  have 2: "holds (open_log (wr_jobKey r)) (execute_job fuel r c d)"
    unfolding execute_job_def by (intro holds_finish open_run_job [OF assms(1,2)])
  have "open_log (wr_jobKey r) s2" by (rule holds_run [OF 2 1 s2(1)])
  then have "open_log (wr_jobKey r) s4" using i by (simp add: open_log_def idle_def)
  from answer_job_open [OF assms(1) this w(3)] obtain s5 where
    "settle_job r cfg (storyCounter s4) a st fin o2 e3 s5 = (s', Done (Inr y))" by blast
  then show ?thesis using marks_settle_job [unfolded marks_def] by blast
qed

lemma job_loop_first:
  assumes "live env orc l r" "tasks_only (ws_Run (wr_worker r) (wr_jobKey r) d)" "open_log (wr_jobKey r) s"
    and "job_loop n fuel r cfg d t0 a st s = (s', Done out)" "flawless s'"
  shows "job_round fuel r cfg d t0 a st s = (s', Done (Inl out))"
proof (cases n)
  case (Suc m)
  have toy: "on_toy env orc r" using assms(1) by (simp add: live_def)
  obtain s1 x where x: "job_round fuel r cfg d t0 a st s = (s1, Done x)"
    "(case x of Inl out' \<Rightarrow> ret_act out' | Inr (b, st') \<Rightarrow> job_loop m fuel r cfg d t0 b (Some st')) s1 = (s', Done out)"
    using assms(4) by (auto simp: Suc bind_act_Done)
  show ?thesis
  proof (cases x)
    case (Inr p)
    obtain b st' where p: "p = (b, st')" by (cases p)
    have f: "flawless s1"
      by (rule flawless_run [OF _ logs_job_loop assms(5)]) (use x(2) in \<open>simp add: Inr p\<close>)
    obtain s2 st2 late where s2: "idle s s2" "job_round fuel r cfg d t0 a st s =
        (if late then expire_job r cfg a st2 else round_from fuel r cfg d a st2) s2"
      using job_round_toy [OF toy] by blast
    have o2: "open_log (wr_jobKey r) s2" using assms(3) s2(1) by (simp add: open_log_def idle_def)
    have "round_from fuel r cfg d a st2 s2 = (s1, Done (Inr p))"
      using x(1) s2(2) by (simp add: Inr expire_job_Done split: if_splits)
    from work_on_job_retry [OF assms(1,2) o2 round_from_Done [OF toy o2 this]] f show ?thesis by simp
  qed (use x in \<open>simp add: act_Done\<close>)
qed (use assms(4) in \<open>simp add: act_Done\<close>)

lemma job_round_Done:
  assumes "live env orc l r" "hashes (wr_env r)" "on_toy env' orc' r'" "wr_replay r'" "wr_env r' = wr_env r"
    "wr_jobKey r' = wr_jobKey r" "tasks_only (ws_Run (wr_worker r) (wr_jobKey r) d)"
    and "job_round (Suc fuel) r cfg d t0 a st s = (s', Done (Inl (Some out)))" "flawless s'" "int64 (storyCounter s')"
    and "ordered_log r s" "0 < storyCounter s" "int64 a" "int64 (ref_Ordinal (jc_inputRef cfg))" "open_log (wr_jobKey r) s"
  shows "attempt_done r r' (Suc fuel') (ws_Run (wr_worker r) (wr_jobKey r) d) (ref_Hash (jc_inputRef cfg)) s s' (Some out)"
proof -
  have toy: "on_toy env orc r" using assms(1) by (simp add: live_def)
  obtain s1 st1 late where s1: "idle s s1" "job_round (Suc fuel) r cfg d t0 a st s =
      (if late then expire_job r cfg a st1 else round_from (Suc fuel) r cfg d a st1) s1"
    using job_round_toy [OF toy] by blast
  have same: "ordered_log r s1" "0 < storyCounter s1" "open_log (wr_jobKey r) s1"
    using assms(11,12,15) ordered_same [OF s1(1)] s1(1) by (simp_all add: idle_def open_log_def)
  have "round_from (Suc fuel) r cfg d a st1 s1 = (s', Done (Inl (Some out)))"
    using assms(8) s1(2) by (simp add: expire_job_Done split: if_splits)
  from round_from_Done [OF toy same(3) this]
  have "work_on_job (Suc fuel) r cfg d a st1 s1 = (s', Done (Inl (Some out)))" .
  from work_on_job_Done [OF assms(1-7) this assms(9,10) same(1,2) assms(13,14) same(3)] s1(1)
  show ?thesis by (rule attempt_done_idle [rotated])
qed

text \<open>The chapter with which a job starts, its input and the hash of the input.\<close>

definition starts_with :: "World workerRunner \<Rightarrow> World run \<Rightarrow> workerMeta \<Rightarrow> TaskData option \<Rightarrow> string \<Rightarrow> bool" where
  "starts_with r s meta d h \<longleftrightarrow>
     (\<exists>c. chapter_at r s 0 = Some c \<and> ch_Ordinal c = 0 \<and> ChapterIs c ChapterTypeJobStart \<and> workerMetaFromChapter c = Inr meta \<and>
        stored_answer r s c = Inr d \<and> computeInputHash (wr_env r) d = Inr h)"

lemma loadInitial_Done:
  assumes "on_toy env orc r" "loadInitialChapterAndPolicy r s = (s', Done (d, meta))"
  shows "idle (s\<lparr>jobPolicy := jobPolicy s'\<rparr>) s' \<and> (\<exists>c. chapter_at r s 0 = Some c \<and> ChapterIs c ChapterTypeJobStart \<and>
    workerMetaFromChapter c = Inr meta \<and> stored_answer r s c = Inr d)"
  using assms(2)
  by (auto simp: loadInitialChapterAndPolicy_def getChapter_toy [OF assms(1)] run_Done to_task_data_toy idle_def
      stored_answer_def split: option.splits sum.splits if_splits)

lemma failJobPrerequisites_Done: "failJobPrerequisites r cfg d e s = (s', Done x) \<longleftrightarrow> False"
  by (auto simp: failJobPrerequisites_def run_Done consume_def)

lemma keep_alive_live: "live env orc l r \<Longrightarrow> keep_alive r s = (s, Done ())"
  by (simp add: keep_alive_def live_def toy_lease_def bind_act_def try_act_def act_defs world_op_def op_defs)

lemma DoJob_live:
  assumes "live env orc l r" "hashes (wr_env r)" "on_toy env' orc' r'" "wr_replay r'" "wr_env r' = wr_env r"
    "wr_jobKey r' = wr_jobKey r" "\<And>d. tasks_only (ws_Run (wr_worker r) (wr_jobKey r) d)"
    and "DoJob (Suc fuel) r s = (s', Done (Some out))" "flawless s'" "int64 (storyCounter s')"
    and "ordered_log r s" "storyCounter s = 1" "open_log (wr_jobKey r) s"
  shows "\<exists>meta d h. starts_with r s meta d h \<and>
    attempt_done r r' (Suc fuel') (ws_Run (wr_worker r) (wr_jobKey r) d) h s s' (Some out)"
proof -
  have toy: "on_toy env orc r" using assms(1) by (simp add: live_def)
  obtain d meta s1 where s1: "loadInitialChapterAndPolicy r s = (s1, Done (d, meta))"
    using assms(8) by (auto simp: DoJob_def bind_act_Done)
  obtain c where c: "idle (s\<lparr>jobPolicy := jobPolicy s1\<rparr>) s1" "chapter_at r s 0 = Some c" "ChapterIs c ChapterTypeJobStart"
    "workerMetaFromChapter c = Inr meta" "stored_answer r s c = Inr d" using loadInitial_Done [OF toy s1] by blast
  obtain cfg s2 where cfg: "setupJobExecutionConfig r d meta s1 = (s2, Done cfg)"
    using assms(8) by (auto simp: DoJob_def bind_act_Done s1)
  obtain h where h: "computeInputHash (wr_env r) d = Inr h" "s2 = s1" "jc_inputRef cfg = \<lparr>ref_Ordinal = 0, ref_Hash = h\<rparr>"
    using cfg by (auto simp: setupJobExecutionConfig_def run_Done Let_def split: sum.splits)
  obtain x where x: "try_act (checkPrerequisites r (wm_Prerequisites meta)) s1 = (s1, x)"
    using checkPrerequisites_toy [OF toy, of "wm_Prerequisites meta" s1]
    by (cases "checkPrerequisites r (wm_Prerequisites meta) s1" rule: catch_step.cases) (auto simp: try_act_def)
  have loop: "job_loop (Suc fuel) (Suc fuel) r cfg d (wm_CreatedAt meta) 1 None s1 = (s', Done (Some out))"
    using assms(1,8) x
    by (auto simp: DoJob_def bind_act_Done s1 cfg h(2) shouldCheckPrerequisites_def live_def failJobPrerequisites_Done
        keep_alive_live [OF assms(1)] simp del: job_loop.simps split: sum.splits dest: unit_result)
  have same: "engine (world s1) = engine (world s)" "storyCounter s1 = storyCounter s" using c(1) by (simp_all add: idle_def)
  have o1: "ordered_log r s1" "open_log (wr_jobKey r) s1" "0 < storyCounter s1"
    using assms(11-13) same by (simp_all add: ordered_log_def open_log_def chapter_at_log)
  have rd: "job_round (Suc fuel) r cfg d (wm_CreatedAt meta) 1 None s1 = (s', Done (Inl (Some out)))"
    by (rule job_loop_first [OF assms(1,7) o1(2) loop assms(9)])
  have i: "int64 1" "int64 (ref_Ordinal (jc_inputRef cfg))" by (simp_all add: h(3) int64_def)
  from job_round_Done [OF assms(1-7) rd assms(9,10) o1(1,3) i o1(2)]
  have "attempt_done r r' (Suc fuel') (ws_Run (wr_worker r) (wr_jobKey r) d) h s s' (Some out)"
    using same by (simp add: attempt_done_def h(3))
  moreover have "starts_with r s meta d h" using c h(1) assms(11) by (auto simp: starts_with_def ordered_log_def)
  ultimately show ?thesis by blast
qed

section \<open>The replay\<close>

text \<open>\<open>twins r r'\<close>: \<open>r'\<close> replays the job that \<open>r\<close> runs, with the same workers.\<close>

definition twins :: "World workerRunner \<Rightarrow> World workerRunner \<Rightarrow> bool" where
  "twins r r' \<longleftrightarrow>
     (\<exists>env orc. on_toy env orc r) \<and> (\<exists>env orc. on_toy env orc r') \<and> wr_replay r' \<and> wr_lease r' = None \<and>
     wr_env r' = wr_env r \<and> wr_jobKey r' = wr_jobKey r \<and> wr_worker r' = wr_worker r"

lemma twins_answer:
  assumes "twins r r'" "shares (ch_Ordinal c + 1) (wr_jobKey r) (engine (world s)) (engine (world t))"
  shows "stored_answer r' t c = stored_answer r s c"
  using assms by (auto simp: twins_def intro: stored_answer_shares)

lemma twins_chapter:
  assumes "twins r r'" "shares (n + 1) (wr_jobKey r) (engine (world s)) (engine (world t))"
  shows "chapter_at r' t n = chapter_at r s n"
  using assms by (simp add: twins_def chapter_at_log shares_def)

text \<open>The stored outcome is used.\<close>

definition outcome_used :: "cached_job \<Rightarrow> TaskData option \<Rightarrow> bool" where
  "outcome_used j out \<longleftrightarrow>
     cj_err j = None \<and> cj_cached j \<and> cj_terminal j \<and> cj_priorErr j = None \<and> cj_output j = out"

lemma outcome_again:
  assumes "twins r r'" "job_recorded r s n h out" "shares (n + 1) (wr_jobKey r) (engine (world s)) (engine (world t))"
    and "jc_totalDeadline cfg = 0" "ref_Hash (jc_inputRef cfg) = h"
  shows "\<exists>c meta j. getChapter r' n t = (t, Done (c, meta)) \<and> ChapterIs c ChapterTypeJobAttemptOutcome \<and>
    checkCachedJobResult r' cfg n t = (t, Done j) \<and> outcome_used j out"
proof -
  obtain env orc where toy: "on_toy env orc r'" using assms(1) by (auto simp: twins_def)
  obtain c meta where c: "chapter_at r s n = Some c" "ch_Ordinal c = n" "ChapterIs c ChapterTypeJobAttemptOutcome"
    "workerMetaFromChapter c = Inr meta" "wm_InputHash meta = [] \<or> wm_InputHash meta = h" "stored_answer r s c = Inr out"
    using assms(2) by (auto simp: job_recorded_def)
  have at: "chapter_at r' t n = Some c" using twins_chapter [OF assms(1,3)] c(1) by simp
  have ans: "stored_answer r' t c = Inr out" using twins_answer [OF assms(1), of c s t] assms(3) c(2,6) by simp
  have g: "getChapter r' n t = (t, Done (c, meta))" using at c(4) by (simp add: getChapter_toy [OF toy])
  have "checkCachedJobResult r' cfg n t = stored_job_outcome r' cfg n c meta t"
    using c(3,5) assms(4,5) g by (auto simp: checkCachedJobResult_def bind_try_run bind_act_def [of "ret_act b" for b] act_defs)
  also have "\<dots> = (t, Done \<lparr>cj_output = out, cj_nextAttempt = prior_attempt meta + 1, cj_cached = True, cj_terminal = True,
      cj_priorErr = None, cj_err = None, cj_endAt = Some (metaEndAt meta)\<rparr>)"
    using ans by (simp add: stored_job_outcome_def Let_def to_task_data_toy bind_act_def try_act_def act_defs)
  finally show ?thesis using g c(3) by (auto simp: outcome_used_def)
qed

lemma use_again:
  assumes "wr_replay r'" "outcome_used j out"
  shows "\<exists>t'. use_cached_job r' n a t0 c j t = (t', Done (Inl out)) \<and> engine (world t') = engine (world t)"
  using assms by (auto simp: use_cached_job_def Let_def outcome_used_def consume_def bind_act_def act_defs)

lemma work_again:
  assumes "twins r r'" "jc_invocationTimeout cfg \<le> 0" "jc_totalDeadline cfg = 0" "ref_Hash (jc_inputRef cfg) = h"
    and "runs_again r r' f (ws_Run (wr_worker r) (wr_jobKey r) d) m n s" "job_recorded r s n h out"
    and "storyCounter t = m" "readable r' t (m - 1)" "shares (n + 1) (wr_jobKey r) (engine (world s)) (engine (world t))"
  shows "\<exists>t'. work_on_job f r' cfg d a st t = (t', Done (Inl out)) \<and> engine (world t') = engine (world t)"
proof -
  obtain env orc where toy: "on_toy env orc r'" using assms(1) by (auto simp: twins_def)
  obtain t1 c where t1: "setupAttemptDeadlines r' cfg t = (t1, Done c)" "idle t t1" "wc_invocationDeadline c = 0"
    "wc_totalDeadline c = 0"
    using setupAttemptDeadlines_toy [OF toy, of cfg t] assms(2,3) by auto
  have same: "storyCounter t1 = m" "engine (world t1) = engine (world t)" "readable r' t1 (m - 1)"
    using t1(2) assms(7,8) by (simp_all add: idle_def readable_def chapter_at_log)
  have "shares n (wr_jobKey r) (engine (world s)) (engine (world t1))" using assms(9) same(2) by (simp add: shares_def)
  then obtain out1 t2 where t2: "run_job f r' 0 (deadline_error r' c) (ws_Run (wr_worker r) (wr_jobKey r) d) t1 =
      (t2, Done (Some out1, None))" "engine (world t2) = engine (world t1)" "storyCounter t2 = n"
    using assms(5) same(1,3) unfolding runs_again_def by blast
  have e: "execute_job f r' c d t1 = (t2, Done (Some out1, None))"
    using t2(1) assms(1) t1(3,4)
    by (simp add: execute_job_def finish_act_def recover_act_def nearest_deadline_def twins_def)
  have l: "late_job_error r' c None t2 = (tick t2, Done None)"
    using t1(3,4) by (simp add: late_job_error_def bind_run(1) [OF read_clock_toy [OF toy]] late_error_def past_def ret_act_def)
  have fin: "job_finished_at r' None (tick t2) = (tick (tick t2), Done (or_time orc (asked (world (tick t2)))))"
    by (simp add: job_finished_at_def bind_run(1) [OF read_clock_toy [OF toy]] ret_act_def)
  let ?t = "tick (tick t2)"
  have eng: "engine (world ?t) = engine (world t)" "storyCounter ?t = n" using t2 same by simp_all
  have "shares (n + 1) (wr_jobKey r) (engine (world s)) (engine (world ?t))" using assms(9) eng by simp
  from outcome_again [OF assms(1,6) this assms(3,4)]
  obtain ch meta j where j: "getChapter r' n ?t = (?t, Done (ch, meta))"
    "checkCachedJobResult r' cfg n ?t = (?t, Done j)" "outcome_used j out" by blast
  have rep: "wr_replay r'" using assms(1) by (simp add: twins_def)
  obtain t' where t': "use_cached_job r' n a (or_time orc (asked (world (tick t2)))) ch j ?t = (t', Done (Inl out))"
    "engine (world t') = engine (world ?t)" using use_again [OF rep j(3)] by blast
  have "work_on_job f r' cfg d a st t = (t', Done (Inl out))"
    using j t'(1) eng(2)
    by (simp add: work_on_job_def bind_run t1(1) e l fin answer_job_def outcome_used_def)
  then show ?thesis using t'(2) eng(1) by auto
qed

lemma round_again:
  assumes "twins r r'" "jc_invocationTimeout cfg \<le> 0" "jc_totalDeadline cfg = 0" "ref_Hash (jc_inputRef cfg) = h"
    and "attempt_done r r' f (ws_Run (wr_worker r) (wr_jobKey r) d) h s s' out"
    and "storyCounter t = storyCounter s" "readable r' t (storyCounter s - 1)"
    and "shares (storyCounter s') (wr_jobKey r) (engine (world s')) (engine (world t))"
  shows "\<exists>t'. job_round f r' cfg d t0 a next t = (t', Done (Inl out)) \<and> engine (world t') = engine (world t)"
proof -
  obtain env orc where toy: "on_toy env orc r'" using assms(1) by (auto simp: twins_def)
  have rep: "wr_replay r'" using assms(1) by (simp add: twins_def)
  obtain n where n: "storyCounter s \<le> n" "storyCounter s' = n + 1" "job_recorded r s' n h out"
    "n = storyCounter s \<or> (\<exists>h1 td. recorded r s' (storyCounter s) h1 td) \<and>
       runs_again r r' f (ws_Run (wr_worker r) (wr_jobKey r) d) (storyCounter s) n s'"
    using assms(5) by (auto simp: attempt_done_def)
  obtain t1 st where t1: "idle t t1" "job_round f r' cfg d t0 a next t = round_from f r' cfg d a st t1"
    using job_round_toy [OF toy, of t cfg f d t0 a "next"] assms(3) by auto
  have same: "storyCounter t1 = storyCounter s" "engine (world t1) = engine (world t)" "readable r' t1 (storyCounter s - 1)"
    using t1(1) assms(6,7) by (simp_all add: idle_def readable_def chapter_at_log)
  have sh: "shares (n + 1) (wr_jobKey r) (engine (world s')) (engine (world t1))" using assms(8) n(2) same(2) by simp
  show ?thesis
  proof (cases "n = storyCounter s")
    case True
    obtain c meta j where c: "getChapter r' n t1 = (t1, Done (c, meta))" "ChapterIs c ChapterTypeJobAttemptOutcome"
      "checkCachedJobResult r' cfg n t1 = (t1, Done j)" "outcome_used j out"
      using outcome_again [OF assms(1) n(3) sh assms(3,4)] by blast
    obtain t' where t': "use_cached_job r' n a st c j t1 = (t', Done (Inl out))" "engine (world t') = engine (world t1)"
      using use_again [OF rep c(4)] by blast
    have "round_from f r' cfg d a st t1 = (t', Done (Inl out))"
      using c t'(1) same(1) True by (simp add: round_from_def bind_try_run bind_run outcome_used_def)
    then show ?thesis using t1(2) t'(2) same(2) by simp
  next
    case False
    then obtain h1 td where rec: "recorded r s' (storyCounter s) h1 td"
      and runs: "runs_again r r' f (ws_Run (wr_worker r) (wr_jobKey r) d) (storyCounter s) n s'" using n(4) by blast
    obtain c meta where c: "chapter_at r s' (storyCounter s) = Some c" "workerMetaFromChapter c = Inr meta"
      "ChapterIs c ChapterTypeTaskAttemptOutcome \<or> ChapterIs c ChapterTypeRestartExtra" using rec by (auto simp: recorded_def)
    have "shares (storyCounter s + 1) (wr_jobKey r) (engine (world s')) (engine (world t1))"
      using sh n(1) by (simp add: shares_def)
    then have "chapter_at r' t1 (storyCounter s) = Some c" using twins_chapter [OF assms(1)] c(1) by metis
    then have g: "getChapter r' (storyCounter s) t1 = (t1, Done (c, meta))" using c(2) by (simp add: getChapter_toy [OF toy])
    have no: "\<not> ChapterIs c ChapterTypeJobAttemptOutcome"
      using c(3) by (auto simp: ChapterIs_def chapter_type_defs split: sum.splits)
    have "round_from f r' cfg d a st t1 = work_on_job f r' cfg d a st t1"
      using g no same(1) by (simp add: round_from_def bind_try_run bind_run)
    then show ?thesis
      using work_again [OF assms(1-4) runs n(3) same(1,3) sh, of a st] t1(2) same(2) by simp
  qed
qed

text \<open>The policy that chapter 0 stores for the job sets no time limits.\<close>

definition untimed :: "workerMeta \<Rightarrow> bool" where
  "untimed meta \<longleftrightarrow>
     (case wm_RunPolicy meta of
        None \<Rightarrow> True
      | Some p \<Rightarrow> durationPtrToDuration (InvocationTimeout p) \<le> 0 \<and> durationPtrToDuration (TotalTimeout p) \<le> 0)"

lemma DoJob_again:
  assumes "twins r r'" "starts_with r s meta d h" "untimed meta" "jobPolicy t = normalizeRunPolicy zero_RunPolicy"
    and "attempt_done r r' (Suc f) (ws_Run (wr_worker r) (wr_jobKey r) d) h s s' out" "storyCounter s = 1"
    and "storyCounter t = 1" "shares (storyCounter s') (wr_jobKey r) (engine (world s')) (engine (world t))"
  shows "\<exists>t'. DoJob (Suc f) r' t = (t', Done out) \<and> engine (world t') = engine (world t)"
proof -
  obtain env orc where toy: "on_toy env orc r'" using assms(1) by (auto simp: twins_def)
  have r': "wr_replay r'" "wr_lease r' = None" "wr_env r' = wr_env r" using assms(1) by (simp_all add: twins_def)
  obtain c where c: "chapter_at r s 0 = Some c" "ch_Ordinal c = 0" "ChapterIs c ChapterTypeJobStart"
    "workerMetaFromChapter c = Inr meta" "stored_answer r s c = Inr d" "computeInputHash (wr_env r) d = Inr h"
    using assms(2) by (auto simp: starts_with_def)
  have "shares 1 (wr_jobKey r) (engine (world s)) (engine (world s'))" "1 \<le> storyCounter s'"
    using assms(5,6) by (auto simp: attempt_done_def)
  from shares_trans [OF this(1) assms(8) this(2)]
  have sh: "shares (0 + 1) (wr_jobKey r) (engine (world s)) (engine (world t))" by simp
  have at: "chapter_at r' t 0 = Some c" using twins_chapter [OF assms(1) sh] c(1) by simp
  let ?pol = "case wm_RunPolicy meta of None \<Rightarrow> jobPolicy t | Some p \<Rightarrow> mergeRunPolicy p (jobPolicy t)"
  let ?t = "t\<lparr>jobPolicy := ?pol\<rparr>"
  have ans: "stored_answer r' ?t c = Inr d"
    using twins_answer [OF assms(1), of c s ?t] sh c(2,5) by simp
  have g: "getChapter r' 0 t = (t, Done (c, meta))" using at c(4) by (simp add: getChapter_toy [OF toy])
  have load: "loadInitialChapterAndPolicy r' t = (?t, Done (d, meta))"
    using c(3) ans
    by (cases "wm_RunPolicy meta")
      (simp_all add: loadInitialChapterAndPolicy_def bind_run g bind_act_def act_defs to_task_data_toy)
  have pol: "durationPtrToDuration (InvocationTimeout ?pol) \<le> 0" "durationPtrToDuration (TotalTimeout ?pol) \<le> 0"
    using assms(3,4)
    by (auto simp: untimed_def merge_fields normalizeRunPolicy_def normalizeTimeout_def zero_RunPolicy_def
        durationPtrToDuration_def split: option.splits if_splits)
  obtain cfg where cfg: "setupJobExecutionConfig r' d meta ?t = (?t, Done cfg)" "ref_Hash (jc_inputRef cfg) = h"
    "jc_invocationTimeout cfg \<le> 0" "jc_totalDeadline cfg = 0"
    using c(6) r'(3) pol by (simp add: setupJobExecutionConfig_def bind_act_def act_defs Let_def jobTotalDeadline_def)
  have "readable r' ?t (storyCounter s - 1)" using at c(4) assms(6) by (simp add: readable_def chapter_at_log)
  moreover have "storyCounter ?t = storyCounter s" "shares (storyCounter s') (wr_jobKey r) (engine (world s')) (engine (world ?t))"
    using assms(6,7,8) by simp_all
  ultimately obtain t' where t': "job_round (Suc f) r' cfg d (wm_CreatedAt meta) 1 None ?t = (t', Done (Inl out))"
    "engine (world t') = engine (world ?t)"
    using round_again [OF assms(1) cfg(3,4,2) assms(5)] by blast
  have "DoJob (Suc f) r' t = (t', Done out)"
    using t'(1) r'
    by (simp add: DoJob_def bind_run load cfg(1) shouldCheckPrerequisites_def keep_alive_def) 
      (simp add: bind_act_def act_defs)
  then show ?thesis using t'(2) by simp
qed

section \<open>A run and its replays\<close>

definition in_order :: "JobKey \<Rightarrow> ToyEngine \<Rightarrow> bool" where
  "in_order k e \<longleftrightarrow> (\<forall>n c. log_at e k n = Some c \<longrightarrow> ch_Ordinal c = n)"

text \<open>The worker set that a replay of the job uses is the one that ran it.\<close>

definition registered :: "(string \<rightharpoonup> WorkSet) \<Rightarrow> Chapter \<Rightarrow> workerMeta \<Rightarrow> WorkSet \<Rightarrow> bool" where
  "registered workers c meta ws \<longleftrightarrow>
     workers (JobTypeFromNextNeed (if wm_TaskType meta = [] then ch_TaskType c else wm_TaskType meta)) = Some ws"

lemma replay_same:
  assumes "runClaimedJobLease (Suc fuel) env scale (toy_runtime env orc) (toy_clock orc) ws (toy_lease env orc l) threshold
      storeInput w = (s', Done (Some out))"
    and "flawless s'" "int64 (storyCounter s')" "hashes env" "pure_tasks ws" "\<And>d. tasks_only (ws_Run ws (ls_JobKey l) d)"
    and "in_order (ls_JobKey l) (engine w)" "unfinished (ls_JobKey l) (engine w)"
    and "log_at (engine w) (ls_JobKey l) 0 = Some c" "workerMetaFromChapter c = Inr meta" "untimed meta"
    and "registered workers c meta ws"
    and "shares (storyCounter s') (ls_JobKey l) (engine (world s')) (engine w')"
  shows "\<exists>t'. replayRuntimeJob (Suc fuel') env scale' (toy_runtime env orc') (toy_clock orc') workers (ls_JobKey l) None
      threshold' w' = (t', Done (Some out))
    \<and> engine (world t') = engine w'"
proof -
  let ?r = "lease_runner env scale (toy_runtime env orc) (toy_clock orc) ws (toy_lease env orc l) threshold storeInput"
  let ?r' = "replay_runner env scale' (toy_runtime env orc') (toy_clock orc') ws (ls_JobKey l) threshold'"
  let ?s = "newWorkerRunner w (normalizeRunPolicy (wp_RunPolicy (lease_payload (le_Payload (toy_lease env orc l)))))"
  let ?t = "newWorkerRunner w' zero_RunPolicy"
  have live: "live env orc l ?r" using assms(5) by (simp add: live_def on_toy_def lease_runner_def toy_lease_def)
  have toy': "on_toy env orc' ?r'" by (simp add: on_toy_def replay_runner_def newReplayReadOnlyRuntime_def)
  have r: "wr_env ?r = env" "wr_worker ?r = ws" "wr_jobKey ?r = ls_JobKey l" "wr_replay ?r'" "wr_env ?r' = wr_env ?r"
    "wr_jobKey ?r' = wr_jobKey ?r" by (simp_all add: lease_runner_def replay_runner_def toy_lease_def)
  have twins: "twins ?r ?r'"
    using live toy' by (auto simp: twins_def live_def lease_runner_def replay_runner_def toy_lease_def)
  have s: "world ?s = w" "storyCounter ?s = 1" and t: "world ?t = w'" "storyCounter ?t = 1"
    "jobPolicy ?t = normalizeRunPolicy zero_RunPolicy" by (simp_all add: newWorkerRunner_def)
  have log: "ordered_log ?r ?s" "open_log (wr_jobKey ?r) ?s"
    using assms(7,8) by (simp_all add: ordered_log_def open_log_def in_order_def chapter_at_log r s)
  have run: "DoJob (Suc fuel) ?r ?s = (s', Done (Some out))" using assms(1) by (simp add: runClaimedJobLease_def)
  have h: "hashes (wr_env ?r)" "tasks_only (ws_Run (wr_worker ?r) (wr_jobKey ?r) d)" for d using assms(4,6) r by simp_all
  obtain meta' d h where d: "starts_with ?r ?s meta' d h"
    "attempt_done ?r ?r' (Suc fuel') (ws_Run (wr_worker ?r) (wr_jobKey ?r) d) h ?s s' (Some out)"
    using DoJob_live [where fuel' = fuel', OF live h(1) toy' r(4-6) h(2) run assms(2,3) log(1) s(2) log(2)] by blast
  have m: "meta' = meta" using d(1) assms(9,10) by (auto simp: starts_with_def chapter_at_log r s)
  have sh: "shares (storyCounter s') (wr_jobKey ?r) (engine (world s')) (engine (world ?t))" using assms(13) r t by simp
  obtain t' where t': "DoJob (Suc fuel') ?r' ?t = (t', Done (Some out))" "engine (world t') = engine w'"
    using DoJob_again [OF twins d(1) _ t(3) d(2) s(2) t(2) sh] assms(11) m t(1) by auto
  have "shares 1 (ls_JobKey l) (engine w) (engine (world s'))" "1 \<le> storyCounter s'"
    using d(2) by (auto simp: attempt_done_def r s)
  from shares_trans [OF this(1) assms(13) this(2)]
  have "log_at (engine w') (ls_JobKey l) 0 = Some c" using assms(9) by (simp add: shares_def)
  then have "GetChapter (engine w') (ls_JobKey l) 0 = Inr c" by (simp add: GetChapter_cases log_at_def)
  then have "rt_GetChapter (newReplayReadOnlyRuntime (toy_runtime env orc')) (ls_JobKey l) 0 w' = (w', Inr c)"
    by (simp add: newReplayReadOnlyRuntime_def toy_runtime_def)
  then show ?thesis using t' assms(10,12) by (simp add: replayRuntimeJob_def Let_def registered_def)
qed

end
