(* ===== verification/Worker_Demo.thy ===== *)
theory Worker_Demo
  imports Worker_Same
begin

text \<open>A job that runs one task and its run under a lease, on which the theorems about whole runs are tried.\<close>

definition demo_data :: "int \<Rightarrow> TaskData option" where
  "demo_data n = Some (SimpleTaskData (Json (JInt n)) [])"

definition demo_workers :: WorkSet where
  "demo_workers =
     \<lparr>ws_JobType = ''t'',
      ws_Run = (\<lambda>k d. JDoTask zero_RunPolicy ''u'' (demo_data 2) (\<lambda>x.
        case x of Inl e \<Rightarrow> JReturn None (Some e) | Inr td \<Rightarrow> JReturn (demo_data 4) None)),
      ws_TaskWorkers = [''u'' \<mapsto> (\<lambda>k n d. TReturn (demo_data 3) None)]\<rparr>"

definition demo_engine :: ToyEngine where
  "demo_engine = NewToyEngine\<lparr>
     jobRecords := [JobKey ''x'' ''j'' \<mapsto> (lease_record ''l'' occurrence_record)\<lparr>jr_metadata := Text []\<rparr>],
     runtimeChapters := [JobKey ''x'' ''j'' \<mapsto> [0 \<mapsto> sample_chapter 0 (JobStart (Json (JInt 1)))]]\<rparr>"

definition demo_world :: World where "demo_world = \<lparr>engine = demo_engine, asked = 0\<rparr>"

definition demo_run :: "World run \<times> TaskData option step" where
  "demo_run =
     runClaimedJobLease 1 sample_env (\<lambda>d c n. d) (toy_runtime sample_env sample_oracle) (toy_clock sample_oracle)
       demo_workers (toy_lease sample_env sample_oracle sample_lease) 10 True demo_world"

definition later_oracle :: Oracle where
  "later_oracle = \<lparr>or_time = (\<lambda>n. 5000 + 7 * int n), or_fires = (\<lambda>n. True), or_cancelled = (\<lambda>n. True)\<rparr>"

lemma demo_run_ends:
  "(case snd demo_run of Done (Some _) \<Rightarrow> True | _ \<Rightarrow> False) \<and> flawless (fst demo_run) \<and> storyCounter (fst demo_run) = 3"
  by code_simp

lemma demo_run_done:
  obtains s' out where "demo_run = (s', Done (Some out))" "flawless s'" "int64 (storyCounter s')"
proof -
  obtain out where "snd demo_run = Done (Some out)" using demo_run_ends by (auto split: step.splits option.splits)
  then show ?thesis using that [of "fst demo_run" out] demo_run_ends by (simp add: int64_def prod_eq_iff)
qed

lemma demo_key: "ls_JobKey sample_lease = JobKey ''x'' ''j''"
  by (simp add: sample_lease_def)

lemma demo_hashes: "hashes sample_env"
  by (simp add: hashes_def sample_env_def)

lemma demo_workers_pure: "pure_tasks demo_workers" "tasks_only (ws_Run demo_workers k d)"
  by (auto simp: pure_tasks_def pure_task_def demo_workers_def honest_data_def demo_data_def SimpleTaskData_def)

lemma demo_log: "log_at demo_engine (JobKey ''x'' ''j'') n = (if n = 0 then Some (sample_chapter 0 (JobStart (Json (JInt 1)))) else None)"
  by (simp add: log_at_def demo_engine_def)

lemma demo_open: "in_order (ls_JobKey sample_lease) (engine demo_world)" "unfinished (ls_JobKey sample_lease) (engine demo_world)"
  by (auto simp: demo_world_def in_order_def unfinished_def demo_key demo_log sample_chapter_def ChapterIs_def ChapterType_def
      chapter_type_defs split: if_splits)

end
