(* ===== verification/Worker_Engine.thy ===== *)
theory Worker_Engine
  imports Worker_Props Toy_List "HOL-Library.Word"
begin

text \<open>
  The worker engine, \<^verbatim>\<open>pkg/workflow/worker_engine.go\<close> and \<^verbatim>\<open>jobs.go\<close>: work sets and the builder, the
  registration of workers, the groups of capabilities under which the engine polls, one round of polling and
  the run of the lease it found. The engine needs more of its runtime than the runner does, so its interface
  extends the runner's. \<open>visits\<close> is the order in which Go ranges over the two maps: the workers by job
  type, and the task workers of one of them. The result \<^term>\<open>None\<close> of a call of the runtime is a call
  that never returns.
\<close>

section \<open>Work sets\<close>

record RegisteredWorkSet = WorkSet +
  ws_MetadataFilter :: "MetadataFilter option"
  ws_metadataEquals :: "MetadataPredicate list"

type_synonym task_worker = "string \<times> (JobKey \<Rightarrow> int \<Rightarrow> TaskData option \<Rightarrow> task_program)"

text \<open>The regular expression of \<^verbatim>\<open>AsWorkSetWithOptions\<close> is the one for schedule ids.\<close>

definition worker_name_ok :: "string \<Rightarrow> bool" where
  "worker_name_ok name \<longleftrightarrow> name \<noteq> [] \<and> list_all schedule_id_char name"

text \<open>
  The text that \<^verbatim>\<open>json.Marshal\<close> gives of the predicates, as the document; no text for no predicates. A
  raw message without bytes is the nil one.
\<close>

fun predicate_value_json :: "any_value \<Rightarrow> json res" where
  "predicate_value_json AnyNil = Inr JNull"
| "predicate_value_json (AnyRaw (Json j)) = Inr j"
| "predicate_value_json (AnyRaw (Text t)) =
     (if t = [] then Inr JNull else Inl (Errorf ''json: error calling MarshalJSON''))"
| "predicate_value_json (AnyJson j) = Inr j"
| "predicate_value_json AnyBad = Inl (Errorf ''json: unsupported type'')"

fun predicate_values_json :: "any_value list \<Rightarrow> json list res" where
  "predicate_values_json [] = Inr []"
| "predicate_values_json (v # vs) =
     (case predicate_value_json v of
        Inl e \<Rightarrow> Inl e
      | Inr j \<Rightarrow> (case predicate_values_json vs of Inl e \<Rightarrow> Inl e | Inr js \<Rightarrow> Inr (j # js)))"

fun predicates_json :: "MetadataPredicate list \<Rightarrow> json list res" where
  "predicates_json [] = Inr []"
| "predicates_json (p # ps) =
     (case predicate_values_json (mp_Values p) of
        Inl e \<Rightarrow> Inl e
      | Inr vs \<Rightarrow>
          (case predicates_json ps of
             Inl e \<Rightarrow> Inl e
           | Inr js \<Rightarrow> Inr (JObj [(''Path'', JArr (map JStr (mp_Path p))), (''Values'', JArr vs)] # js)))"

definition metadataPredicateSignature :: "MetadataPredicate list \<Rightarrow> json option res" where
  "metadataPredicateSignature ps =
     (if ps = [] then Inr None
      else
        (case predicates_json ps of
           Inl e \<Rightarrow> Inl (Wrap ''metadata predicates must be JSON-serializable'' e)
         | Inr js \<Rightarrow> Inr (Some (JArr js))))"

text \<open>The task workers, in the order given; the name of one is looked at only when it is taken already.\<close>

fun add_task_workers ::
  "task_worker list \<Rightarrow> (string \<rightharpoonup> (JobKey \<Rightarrow> int \<Rightarrow> TaskData option \<Rightarrow> task_program))
   \<Rightarrow> (string \<rightharpoonup> (JobKey \<Rightarrow> int \<Rightarrow> TaskData option \<Rightarrow> task_program)) res" where
  "add_task_workers [] tasks = Inr tasks"
| "add_task_workers ((name, run) # tws) tasks =
     (if tasks name \<noteq> None then
        (if \<not> worker_name_ok name then Inl (Errorf ''invalid task worker name'')
         else Inl (Errorf ''task worker with this name already registered''))
      else add_task_workers tws (tasks(name \<mapsto> run)))"

definition AsWorkSetWithOptions ::
  "string \<Rightarrow> (JobKey \<Rightarrow> TaskData option \<Rightarrow> job_program) \<Rightarrow> MetadataFilter option \<Rightarrow> task_worker list
   \<Rightarrow> RegisteredWorkSet res" where
  "AsWorkSetWithOptions name run filter1 taskWorkers =
     (if \<not> worker_name_ok name then Inl (Errorf ''invalid job worker name'')
      else
     (case MetadataPredicates filter1 of
        Inl e \<Rightarrow> Inl e
      | Inr predicates \<Rightarrow>
     (case metadataPredicateSignature predicates of
        Inl e \<Rightarrow> Inl e
      | Inr _ \<Rightarrow>
     (case add_task_workers taskWorkers Map.empty of
        Inl e \<Rightarrow> Inl e
      | Inr tasks \<Rightarrow>
          Inr \<lparr>ws_JobType = name, ws_Run = run, ws_TaskWorkers = tasks,
               ws_MetadataFilter = filter1, ws_metadataEquals = predicates\<rparr>))))"

definition AsWorkSet ::
  "string \<Rightarrow> (JobKey \<Rightarrow> TaskData option \<Rightarrow> job_program) \<Rightarrow> task_worker list \<Rightarrow> RegisteredWorkSet res" where
  "AsWorkSet name run taskWorkers = AsWorkSetWithOptions name run None taskWorkers"

section \<open>The engine and its poll groups\<close>

record pollGroup =
  pg_capabilities :: "string list"
  pg_metadataEquals :: "MetadataPredicate list"

record workerEngine =
  we_workerID :: string
  we_maxActive :: int
  we_awaitThreshold :: duration
  we_pollTenantId :: string
  we_workers :: "string \<rightharpoonup> RegisteredWorkSet"
  we_capabilities :: "string list"
  we_pollGroups :: "pollGroup list"

type_synonym visits = "string list \<times> (string \<Rightarrow> string list)"

text \<open>The capabilities of one work set: the job type, then a capability for each of its tasks.\<close>

definition capabilities_of :: "visits \<Rightarrow> string \<Rightarrow> string list" where
  "capabilities_of v jobType = jobType # map (workerCapability jobType) (snd v jobType)"

definition signature_of :: "RegisteredWorkSet \<Rightarrow> json option" where
  "signature_of ws = (case metadataPredicateSignature (ws_metadataEquals ws) of Inl _ \<Rightarrow> None | Inr s \<Rightarrow> s)"

text \<open>\<^verbatim>\<open>groupMap\<close> with \<^verbatim>\<open>groupOrder\<close>: the groups by signature, in the order in which they were made.\<close>

fun add_to_group ::
  "json option \<Rightarrow> MetadataPredicate list \<Rightarrow> string list \<Rightarrow> (json option \<times> pollGroup) list \<Rightarrow> (json option \<times> pollGroup) list" where
  "add_to_group sig predicates caps [] = [(sig, \<lparr>pg_capabilities = caps, pg_metadataEquals = predicates\<rparr>)]"
| "add_to_group sig predicates caps ((sig', g) # gs) =
     (if sig' = sig then (sig', g\<lparr>pg_capabilities := pg_capabilities g @ caps\<rparr>) # gs
      else (sig', g) # add_to_group sig predicates caps gs)"

fun group_loop ::
  "visits \<Rightarrow> (string \<rightharpoonup> RegisteredWorkSet) \<Rightarrow> string list \<Rightarrow> (json option \<times> pollGroup) list
   \<Rightarrow> (json option \<times> pollGroup) list" where
  "group_loop v workers [] gs = gs"
| "group_loop v workers (jobType # jobTypes) gs =
     (case workers jobType of
        None \<Rightarrow> group_loop v workers jobTypes gs
      | Some ws \<Rightarrow>
          group_loop v workers jobTypes
            (add_to_group (signature_of ws) (ws_metadataEquals ws) (capabilities_of v jobType) gs))"

fun all_capabilities :: "visits \<Rightarrow> (string \<rightharpoonup> RegisteredWorkSet) \<Rightarrow> string list \<Rightarrow> string list" where
  "all_capabilities v workers [] = []"
| "all_capabilities v workers (jobType # jobTypes) =
     (case workers jobType of
        None \<Rightarrow> all_capabilities v workers jobTypes
      | Some ws \<Rightarrow> capabilities_of v jobType @ all_capabilities v workers jobTypes)"

definition group_less :: "pollGroup \<Rightarrow> pollGroup \<Rightarrow> bool" where
  "group_less a b \<longleftrightarrow>
     (if length (pg_metadataEquals a) = length (pg_metadataEquals b)
      then join_char (CHR '','') (pg_capabilities a) < join_char (CHR '','') (pg_capabilities b)
      else length (pg_metadataEquals a) < length (pg_metadataEquals b))"

definition sorted_group :: "pollGroup \<Rightarrow> pollGroup" where
  "sorted_group g = g\<lparr>pg_capabilities := sort (pg_capabilities g)\<rparr>"

definition refreshCapabilities :: "visits \<Rightarrow> workerEngine \<Rightarrow> workerEngine" where
  "refreshCapabilities v e =
     e\<lparr>we_capabilities := sort (all_capabilities v (we_workers e) (fst v)),
       we_pollGroups := sort_slice group_less (map (\<lambda>(_, g). sorted_group g) (group_loop v (we_workers e) (fst v) []))\<rparr>"

definition RegisterWorkers :: "visits \<Rightarrow> RegisteredWorkSet option \<Rightarrow> workerEngine \<Rightarrow> workerEngine res" where
  "RegisterWorkers v workset e =
     (case workset of
        None \<Rightarrow> Inl (Errorf ''workset is nil'')
      | Some ws \<Rightarrow>
     (let jobType = ws_JobType ws in
      if we_workers e jobType \<noteq> None then Inl (Errorf ''worker already registered'')
      else if we_pollTenantId e = []
      then Inl (Errorf ''worker poll tenantId is required when workers are registered'')
      else
     (case MetadataPredicates (ws_MetadataFilter ws) of
        Inl err \<Rightarrow> Inl err
      | Inr predicates \<Rightarrow>
     (case metadataPredicateSignature predicates of
        Inl err \<Rightarrow> Inl err
      | Inr _ \<Rightarrow>
          Inr (refreshCapabilities v
            (e\<lparr>we_workers := (we_workers e)(jobType \<mapsto> ws\<lparr>ws_metadataEquals := predicates\<rparr>)\<rparr>))))))"

fun register_all :: "visits \<Rightarrow> RegisteredWorkSet list \<Rightarrow> workerEngine \<Rightarrow> workerEngine res" where
  "register_all v [] e = Inr e"
| "register_all v (ws # wss) e =
     (case RegisterWorkers v (Some ws) e of Inl err \<Rightarrow> Inl err | Inr e' \<Rightarrow> register_all v wss e')"

record RuntimeBuildOptions =
  bo_MaxActive :: int
  bo_AwaitRecycleThreshold :: duration
  bo_PollTenantId :: string

text \<open>\<open>workerID\<close>: what \<^verbatim>\<open>newRuntimeWorkerID\<close> makes of the host, the process and a fresh id.\<close>

definition newWorkerEngine ::
  "visits \<Rightarrow> string res \<Rightarrow> RegisteredWorkSet list \<Rightarrow> RuntimeBuildOptions \<Rightarrow> workerEngine res" where
  "newWorkerEngine v workerID workers opts =
     (case workerID of
        Inl e \<Rightarrow> Inl e
      | Inr name \<Rightarrow>
          if workers \<noteq> [] \<and> bo_PollTenantId opts = []
          then Inl (Errorf ''worker poll tenantId is required when workers are registered'')
          else
            register_all v workers
              \<lparr>we_workerID = name, we_maxActive = bo_MaxActive opts,
               we_awaitThreshold = bo_AwaitRecycleThreshold opts, we_pollTenantId = bo_PollTenantId opts,
               we_workers = Map.empty, we_capabilities = [], we_pollGroups = []\<rparr>)"

definition workSetForCapability :: "workerEngine \<Rightarrow> string \<Rightarrow> RegisteredWorkSet option" where
  "workSetForCapability e capability = we_workers e (JobTypeFromNextNeed capability)"

definition nextWorkerID :: "workerEngine \<Rightarrow> 64 word \<Rightarrow> string" where
  "nextWorkerID e n =
     (if we_maxActive e \<le> 1 \<and> n \<le> 1 then we_workerID e else we_workerID e @ ''/'' @ itoa (uint n))"

section \<open>The builder\<close>

record EngineBuilder =
  eb_workers :: "string \<rightharpoonup> RegisteredWorkSet"
  eb_maxActive :: int
  eb_awaitRecycle :: duration
  eb_pollTenantId :: string

definition NewEngineBuilder :: EngineBuilder where
  "NewEngineBuilder =
     \<lparr>eb_workers = Map.empty, eb_maxActive = 4, eb_awaitRecycle = 5 * minute, eb_pollTenantId = []\<rparr>"

definition WithMaxActive :: "int \<Rightarrow> EngineBuilder \<Rightarrow> EngineBuilder" where
  "WithMaxActive n b = b\<lparr>eb_maxActive := n\<rparr>"

definition WithWorkerTenantId :: "string \<Rightarrow> EngineBuilder \<Rightarrow> EngineBuilder" where
  "WithWorkerTenantId tenantId b = b\<lparr>eb_pollTenantId := tenantId\<rparr>"

definition WithAwaitRecycleThreshold :: "duration \<Rightarrow> EngineBuilder \<Rightarrow> EngineBuilder" where
  "WithAwaitRecycleThreshold d b = (if 0 < d then b\<lparr>eb_awaitRecycle := d\<rparr> else b)"

text \<open>An error of \<^verbatim>\<open>PlusWorkersWithOptions\<close> is a panic.\<close>

definition PlusWorkersWithOptions ::
  "string \<Rightarrow> (JobKey \<Rightarrow> TaskData option \<Rightarrow> job_program) \<Rightarrow> MetadataFilter option \<Rightarrow> task_worker list
   \<Rightarrow> EngineBuilder \<Rightarrow> EngineBuilder res" where
  "PlusWorkersWithOptions name run filter1 taskWorkers b =
     (if eb_workers b name \<noteq> None then Inl (Errorf ''job worker with this name already registered'')
      else
        (case AsWorkSetWithOptions name run filter1 taskWorkers of
           Inl e \<Rightarrow> Inl e
         | Inr ws \<Rightarrow> Inr (b\<lparr>eb_workers := (eb_workers b)(name \<mapsto> ws)\<rparr>)))"

definition BuildEngine :: "visits \<Rightarrow> string res \<Rightarrow> EngineBuilder \<Rightarrow> workerEngine res" where
  "BuildEngine v workerID b =
     newWorkerEngine v workerID (List.map_filter (eb_workers b) (fst v))
       \<lparr>bo_MaxActive = eb_maxActive b, bo_AwaitRecycleThreshold = eb_awaitRecycle b,
        bo_PollTenantId = eb_pollTenantId b\<rparr>"

section \<open>Polling and running a lease\<close>

text \<open>What the engine calls on its runtime beyond what the runner calls.\<close>

record 'w EngineRuntime = "'w WorkflowRuntime" +
  er_PollWork :: "PollWorkRequest \<Rightarrow> 'w \<Rightarrow> ('w \<times> 'w ExecutionLease list res) option"
  er_GetJobLease :: "GetJobLeaseRequest \<Rightarrow> 'w \<Rightarrow> ('w \<times> 'w ExecutionLease option res) option"
  er_ListJobs :: "ListJobsRequest \<Rightarrow> 'w \<Rightarrow> (JobSummary list \<times> PageToken) res"
  er_CompleteTaskIfWaiting :: "CompleteTaskIfWaitingRequest \<Rightarrow> ('w, unit) op"

definition poll_request :: "workerEngine \<Rightarrow> pollGroup \<Rightarrow> PollWorkRequest" where
  "poll_request e g =
     \<lparr>pw_TenantId = we_pollTenantId e, pw_Capabilities = pg_capabilities g, pw_Limit = 1, pw_LeaseDuration = 0,
      pw_MetadataEquals = pg_metadataEquals g\<rparr>"

text \<open>
  The loop over the groups of one round: the lease of the first group that has one, and whether a poll
  failed. \<open>over\<close> says whether the context has ended.
\<close>

fun poll_loop ::
  "'w EngineRuntime \<Rightarrow> ('w \<Rightarrow> bool) \<Rightarrow> workerEngine \<Rightarrow> pollGroup list \<Rightarrow> bool \<Rightarrow> 'w
   \<Rightarrow> ('w \<times> 'w ExecutionLease option \<times> bool) option" where
  "poll_loop rt over e [] hadPollError w = Some (w, None, hadPollError)"
| "poll_loop rt over e (g # gs) hadPollError w =
     (case er_PollWork rt (poll_request e g) w of
        None \<Rightarrow> None
      | Some (w', Inl err) \<Rightarrow> if over w' then Some (w', None, False) else poll_loop rt over e gs True w'
      | Some (w', Inr []) \<Rightarrow> poll_loop rt over e gs hadPollError w'
      | Some (w', Inr (lease # _)) \<Rightarrow> Some (w', Some lease, hadPollError))"

definition poll_round ::
  "'w EngineRuntime \<Rightarrow> ('w \<Rightarrow> bool) \<Rightarrow> workerEngine \<Rightarrow> 'w \<Rightarrow> ('w \<times> 'w ExecutionLease option \<times> bool) option" where
  "poll_round rt over e w = poll_loop rt over e (we_pollGroups e) False w"

text \<open>\<^verbatim>\<open>runLease\<close>: the outcome of the run is dropped; a lease without a work set is left alone.\<close>

definition runLease ::
  "nat \<Rightarrow> Env \<Rightarrow> (duration \<Rightarrow> rat \<Rightarrow> int \<Rightarrow> duration) \<Rightarrow> 'w EngineRuntime \<Rightarrow> 'w Clock \<Rightarrow> workerEngine
   \<Rightarrow> 'w ExecutionLease \<Rightarrow> bool \<Rightarrow> 'w \<Rightarrow> 'w" where
  "runLease fuel env scale rt clock e lease storeInput w =
     (case workSetForCapability e (le_Capability lease) of
        None \<Rightarrow> w
      | Some ws \<Rightarrow>
          world (fst (runClaimedJobLease fuel env scale (WorkflowRuntime.truncate rt) clock (WorkSet.truncate ws)
            lease (we_awaitThreshold e) storeInput w)))"

definition ReplayJobRun ::
  "nat \<Rightarrow> Env \<Rightarrow> (duration \<Rightarrow> rat \<Rightarrow> int \<Rightarrow> duration) \<Rightarrow> 'w EngineRuntime \<Rightarrow> 'w Clock \<Rightarrow> workerEngine \<Rightarrow> JobKey
   \<Rightarrow> (JobKey \<Rightarrow> TaskData option \<Rightarrow> job_program) option \<Rightarrow> 'w \<Rightarrow> 'w run \<times> TaskData option step" where
  "ReplayJobRun fuel env scale rt clock e jobKey override w =
     replayRuntimeJob fuel env scale (WorkflowRuntime.truncate rt) clock
       (\<lambda>jobType. map_option WorkSet.truncate (we_workers e jobType)) jobKey override (we_awaitThreshold e) w"

text \<open>\<^verbatim>\<open>GetArtifact\<close>: the first artifact of the chapter with the name.\<close>

definition engine_GetArtifact :: "'w EngineRuntime \<Rightarrow> string \<Rightarrow> ArtifactKey \<Rightarrow> ('w, Artifact) op" where
  "engine_GetArtifact rt tenantId key =
     (let jobKey = JobKey tenantId (ak_JobId key) in
      bind_op (rt_GetChapter rt jobKey (ak_TaskOrdinal key)) (\<lambda>chapter.
        case List.find (\<lambda>a. sa_Name a = ak_Name key) (ch_Artifacts chapter) of
          None \<Rightarrow> fail_op (Errorf ''artifact not found'')
        | Some a \<Rightarrow>
            read_op (\<lambda>w. Inr (newRuntimeBackedArtifact (WorkflowRuntime.truncate rt) jobKey (ak_TaskOrdinal key) w a))))"

text \<open>The toy runtime as the engine's runtime; \<open>order\<close> is the order of its iterations over the jobs.\<close>

definition toy_engine_runtime :: "Env \<Rightarrow> Oracle \<Rightarrow> JobKey list \<Rightarrow> World EngineRuntime" where
  "toy_engine_runtime env orc order =
     WorkflowRuntime.extend (toy_runtime env orc)
       \<lparr>er_PollWork = (\<lambda>req w.
          (case PollWork (env\<lparr>now := or_time orc (asked w)\<rparr>) order req (engine w) of
             None \<Rightarrow> None
           | Some (s, x) \<Rightarrow> Some ((asked_once w)\<lparr>engine := s\<rparr>, map_sum id (map (toy_lease env orc)) x))),
        er_GetJobLease = (\<lambda>req w.
          (case GetJobLease (env\<lparr>now := or_time orc (asked w)\<rparr>) req (engine w) of
             None \<Rightarrow> None
           | Some (s, x) \<Rightarrow> Some ((asked_once w)\<lparr>engine := s\<rparr>, map_sum id (map_option (toy_lease env orc)) x))),
        er_ListJobs = (\<lambda>req w. ListJobs order (engine w) req),
        er_CompleteTaskIfWaiting = (\<lambda>req. on_engine env orc (\<lambda>env. CompleteTaskIfWaiting env req))\<rparr>"

section \<open>What the poll groups are\<close>

lemma add_to_group_lookup:
  "map_of (add_to_group sig ps caps gs) s =
     (if s = sig then
        Some (case map_of gs sig of
                None \<Rightarrow> \<lparr>pg_capabilities = caps, pg_metadataEquals = ps\<rparr>
              | Some g \<Rightarrow> g\<lparr>pg_capabilities := pg_capabilities g @ caps\<rparr>)
      else map_of gs s)"
  by (induction sig ps caps gs rule: add_to_group.induct) auto

lemma add_to_group_keys: "fst ` set (add_to_group sig ps caps gs) = insert sig (fst ` set gs)"
  by (induction sig ps caps gs rule: add_to_group.induct) (auto split: if_splits)

lemma add_to_group_distinct: "distinct (map fst gs) \<Longrightarrow> distinct (map fst (add_to_group sig ps caps gs))"
  by (induction sig ps caps gs rule: add_to_group.induct) (auto simp: add_to_group_keys)

lemma group_loop_distinct: "distinct (map fst gs) \<Longrightarrow> distinct (map fst (group_loop v workers js gs))"
  by (induction v workers js gs rule: group_loop.induct) (auto simp: add_to_group_distinct split: option.splits)

text \<open>The group of a signature: it has the capabilities of the visited work sets with that signature, and the
  predicates of one of them (or of the group it was before).\<close>

definition offers :: "visits \<Rightarrow> (string \<rightharpoonup> RegisteredWorkSet) \<Rightarrow> string list \<Rightarrow> json option \<Rightarrow> string \<Rightarrow> bool" where
  "offers v workers js s c \<longleftrightarrow>
     (\<exists>j\<in>set js. \<exists>ws. workers j = Some ws \<and> signature_of ws = s \<and> c \<in> set (capabilities_of v j))"

lemma group_loop_lookup:
  assumes "map_of (group_loop v workers js gs) s = Some g"
  shows "set (pg_capabilities g) =
       (case map_of gs s of None \<Rightarrow> {} | Some g0 \<Rightarrow> set (pg_capabilities g0)) \<union> {c. offers v workers js s c}"
    and "(case map_of gs s of None \<Rightarrow> False | Some g0 \<Rightarrow> pg_metadataEquals g = pg_metadataEquals g0) \<or>
       (\<exists>j\<in>set js. \<exists>ws. workers j = Some ws \<and> signature_of ws = s \<and> pg_metadataEquals g = ws_metadataEquals ws)"
  using assms
proof (induction js arbitrary: gs)
  case (Cons j js)
  {
    case 1
    show ?case
    proof (cases "workers j")
      case (Some ws)
      show ?thesis
        using Cons(1) [of "add_to_group (signature_of ws) (ws_metadataEquals ws) (capabilities_of v j) gs"] 1 Some
        by (auto simp: add_to_group_lookup offers_def split: option.splits if_splits)
    qed (use Cons(1) 1 in \<open>auto simp: offers_def\<close>)
  next
    case 2
    show ?case
    proof (cases "workers j")
      case (Some ws)
      show ?thesis
        using Cons(2) [of "add_to_group (signature_of ws) (ws_metadataEquals ws) (capabilities_of v j) gs"] 2 Some
        by (auto simp: add_to_group_lookup split: option.splits if_splits)
    qed (use Cons(2) 2 in auto)
  }
qed (auto simp: offers_def)

lemma group_loop_covers:
  "j \<in> set js \<Longrightarrow> workers j = Some ws \<Longrightarrow> signature_of ws \<in> fst ` set (group_loop v workers js gs)"
proof (induction js arbitrary: gs)
  case (Cons j' js)
  have keep: "s \<in> fst ` set gs \<Longrightarrow> s \<in> fst ` set (group_loop v workers js gs)" for s gs
    by (induction v workers js gs rule: group_loop.induct) (auto simp: add_to_group_keys split: option.splits)
  show ?case
  proof (cases "j = j'")
    case True
    then show ?thesis using Cons.prems by (auto intro!: keep simp: add_to_group_keys)
  next
    case False
    then show ?thesis using Cons by (auto split: option.splits)
  qed
qed simp

text \<open>The groups of an engine whose workers were visited in some order.\<close>

definition grouped :: "visits \<Rightarrow> workerEngine \<Rightarrow> bool" where
  "grouped v e \<longleftrightarrow> we_pollGroups (refreshCapabilities v e) = we_pollGroups e"

lemma grouped_member:
  assumes "grouped v e" "g \<in> set (we_pollGroups e)"
  obtains s j ws where "set (pg_capabilities g) = {c. offers v (we_workers e) (fst v) s c}"
    "j \<in> set (fst v)" "we_workers e j = Some ws" "signature_of ws = s" "pg_metadataEquals g = ws_metadataEquals ws"
proof -
  have "g \<in> set (we_pollGroups (refreshCapabilities v e))" using assms by (simp add: grouped_def)
  then obtain s g' where g: "(s, g') \<in> set (group_loop v (we_workers e) (fst v) [])" "g = sorted_group g'"
    by (auto simp: refreshCapabilities_def)
  from g(1) have "map_of (group_loop v (we_workers e) (fst v) []) s = Some g'"
    by (simp add: map_of_is_SomeI group_loop_distinct)
  note l = group_loop_lookup [OF this]
  then obtain j ws where "j \<in> set (fst v)" "we_workers e j = Some ws" "signature_of ws = s"
    "pg_metadataEquals g = ws_metadataEquals ws"
    by (auto simp: g(2) sorted_group_def)
  then show ?thesis using l by (intro that) (simp_all add: g(2) sorted_group_def)
qed

section \<open>What the workers of an engine are\<close>

text \<open>A registered work set stands under its job type, with the predicates of its filter.\<close>

definition registered_as :: "RegisteredWorkSet list \<Rightarrow> string \<Rightarrow> RegisteredWorkSet \<Rightarrow> bool" where
  "registered_as wss j ws \<longleftrightarrow>
     ws_JobType ws = j \<and> MetadataPredicates (ws_MetadataFilter ws) = Inr (ws_metadataEquals ws) \<and>
     (\<exists>p. metadataPredicateSignature (ws_metadataEquals ws) = Inr p) \<and>
     (\<exists>ws0\<in>set wss. WorkSet.truncate ws = WorkSet.truncate ws0 \<and> ws_MetadataFilter ws = ws_MetadataFilter ws0)"

definition well_registered :: "visits \<Rightarrow> RegisteredWorkSet list \<Rightarrow> workerEngine \<Rightarrow> bool" where
  "well_registered v wss e \<longleftrightarrow>
     grouped v e \<and> (\<forall>j ws. we_workers e j = Some ws \<longrightarrow> registered_as wss j ws)"

lemma refresh_grouped [simp]: "grouped v (refreshCapabilities v e)"
  by (simp add: grouped_def refreshCapabilities_def)

lemma refresh_simps [simp]:
  "we_workers (refreshCapabilities v e) = we_workers e"
  "we_pollTenantId (refreshCapabilities v e) = we_pollTenantId e"
  by (simp_all add: refreshCapabilities_def)

lemma registered_new:
  "ws \<in> set wss \<Longrightarrow> MetadataPredicates (ws_MetadataFilter ws) = Inr ps \<Longrightarrow> metadataPredicateSignature ps = Inr p \<Longrightarrow>
   registered_as wss (ws_JobType ws) (ws\<lparr>ws_metadataEquals := ps\<rparr>)"
  by (auto simp: registered_as_def WorkSet.defs intro!: bexI [of _ ws])

lemma RegisterWorkers_ok:
  assumes "RegisterWorkers v (Some ws) e = Inr e'" "well_registered v wss e" "ws \<in> set wss"
  shows "well_registered v wss e' \<and> we_pollTenantId e' = we_pollTenantId e \<and>
    dom (we_workers e') = insert (ws_JobType ws) (dom (we_workers e))"
  using assms
  by (auto simp: RegisterWorkers_def well_registered_def Let_def registered_new split: if_splits sum.splits)

lemma register_all_ok:
  "register_all v ws e = Inr e' \<Longrightarrow> well_registered v wss e \<Longrightarrow> set ws \<subseteq> set wss \<Longrightarrow>
   well_registered v wss e' \<and> we_pollTenantId e' = we_pollTenantId e \<and>
   dom (we_workers e') = ws_JobType ` set ws \<union> dom (we_workers e)"
proof (induction ws arbitrary: e)
  case (Cons w ws)
  then obtain e1 where e1: "RegisterWorkers v (Some w) e = Inr e1" "register_all v ws e1 = Inr e'"
    by (auto split: sum.splits)
  with RegisterWorkers_ok [OF e1(1) Cons.prems(2)] Cons.IH [OF e1(2)] Cons.prems(3) show ?case by auto
qed simp

lemma group_loop_none [simp]: "group_loop v (\<lambda>x. None) js gs = gs"
  by (induction js) simp_all

lemma newWorkerEngine_ok:
  assumes "newWorkerEngine v workerID wss opts = Inr e"
  shows "well_registered v wss e \<and> we_pollTenantId e = bo_PollTenantId opts \<and> dom (we_workers e) = ws_JobType ` set wss"
  using assms
  by (auto simp: newWorkerEngine_def well_registered_def grouped_def refreshCapabilities_def dest!: register_all_ok [where wss = wss]
      split: sum.splits if_splits)

section \<open>A capability leads back to its work set\<close>

lemma name_char_no_colon: "schedule_id_char c \<Longrightarrow> c \<noteq> CHR '':''"
  by (auto simp: schedule_id_char_def)

lemma job_type_of_capability:
  assumes "worker_name_ok j"
  shows "JobTypeFromNextNeed j = j" "JobTypeFromNextNeed (workerCapability j t) = j"
proof -
  have c: "\<forall>c\<in>set j. c \<noteq> CHR '':''" "j \<noteq> []"
    using assms name_char_no_colon by (auto simp: worker_name_ok_def list_all_iff)
  then have "takeWhile (\<lambda>c. c \<noteq> CHR '':'') j = j" "takeWhile (\<lambda>c. c \<noteq> CHR '':'') (j @ '':'' @ t) = j"
    by (simp_all add: takeWhile_eq_all_conv)
  then show "JobTypeFromNextNeed j = j" "JobTypeFromNextNeed (workerCapability j t) = j"
    using c(2) by (simp_all add: JobTypeFromNextNeed_def workerCapability_def Let_def)
qed

lemma offered_work_set:
  assumes "offers v workers js s c" "\<forall>j\<in>dom workers. worker_name_ok j"
  obtains ws where "workers (JobTypeFromNextNeed c) = Some ws" "signature_of ws = s"
    "c = JobTypeFromNextNeed c \<or> (\<exists>t\<in>set (snd v (JobTypeFromNextNeed c)). c = workerCapability (JobTypeFromNextNeed c) t)"
proof -
  obtain j ws where j: "workers j = Some ws" "signature_of ws = s" "c \<in> set (capabilities_of v j)"
    using assms(1) by (auto simp: offers_def)
  have "worker_name_ok j" using assms(2) j(1) by auto
  then have "JobTypeFromNextNeed c = j" using j(3) by (auto simp: capabilities_of_def job_type_of_capability)
  then show ?thesis using j by (intro that [of ws]) (auto simp: capabilities_of_def)
qed

section \<open>One signature, one filter\<close>

text \<open>Raw values of a filter in the form in which stored metadata are compared.\<close>

fun settled_value :: "any_value \<Rightarrow> bool" where
  "settled_value (AnyRaw (Json j)) = (jnormalize j = j)"
| "settled_value (AnyRaw (Text _)) = False"
| "settled_value _ = True"

definition settled :: "RegisteredWorkSet \<Rightarrow> bool" where
  "settled ws \<longleftrightarrow>
     (case MetadataPredicates (ws_MetadataFilter ws) of
        Inl _ \<Rightarrow> True | Inr ps \<Rightarrow> list_all (\<lambda>p. list_all settled_value (mp_Values p)) ps)"

lemma value_signature:
  "predicate_value_json a = Inr j \<Longrightarrow> predicate_value_json b = Inr j \<Longrightarrow> settled_value a \<Longrightarrow> settled_value b \<Longrightarrow>
   a \<noteq> AnyNil \<Longrightarrow> b \<noteq> AnyNil \<Longrightarrow> encodeMetadataPredicateValue a = encodeMetadataPredicateValue b"
  by (cases a rule: predicate_value_json.cases; cases b rule: predicate_value_json.cases) (auto split: if_splits)

lemma values_signature:
  "predicate_values_json as = Inr js \<Longrightarrow> predicate_values_json bs = Inr js \<Longrightarrow> list_all settled_value as \<Longrightarrow>
   list_all settled_value bs \<Longrightarrow> AnyNil \<notin> set as \<Longrightarrow> AnyNil \<notin> set bs \<Longrightarrow> encode_values as = encode_values bs"
proof (induction as arbitrary: bs js)
  case Nil
  then show ?case by (cases bs) (auto split: sum.splits)
next
  case (Cons a as)
  then obtain j js' where j: "predicate_value_json a = Inr j" "predicate_values_json as = Inr js'" "js = j # js'"
    by (auto split: sum.splits)
  with Cons.prems(2) obtain b bs' where b: "bs = b # bs'" "predicate_value_json b = Inr j" "predicate_values_json bs' = Inr js'"
    by (cases bs) (auto split: sum.splits)
  with j Cons.prems value_signature [of a j b] Cons.IH [of js' bs'] show ?case by (auto split: sum.splits)
qed

definition no_nil :: "MetadataPredicate list \<Rightarrow> bool" where
  "no_nil ps \<longleftrightarrow> (\<forall>p\<in>set ps. AnyNil \<notin> set (mp_Values p) \<and> list_all settled_value (mp_Values p))"

lemma predicates_signature:
  "predicates_json ps = Inr js \<Longrightarrow> predicates_json qs = Inr js \<Longrightarrow> no_nil ps \<Longrightarrow> no_nil qs \<Longrightarrow>
   normalizeMetadataPredicates ps = normalizeMetadataPredicates qs"
proof (induction ps arbitrary: qs js)
  case Nil
  then show ?case by (cases qs) (auto split: sum.splits)
next
  case (Cons p ps)
  then obtain vs js' where p: "predicate_values_json (mp_Values p) = Inr vs" "predicates_json ps = Inr js'"
    "js = JObj [(''Path'', JArr (map JStr (mp_Path p))), (''Values'', JArr vs)] # js'"
    by (auto split: sum.splits)
  with Cons.prems(2) obtain q qs' where q: "qs = q # qs'" "predicate_values_json (mp_Values q) = Inr vs"
    "predicates_json qs' = Inr js'" "map JStr (mp_Path q) = map JStr (mp_Path p)"
    by (cases qs) (auto split: sum.splits)
  have "mp_Path q = mp_Path p" using q(4) by (simp add: inj_map_eq_map inj_def)
  moreover have "(mp_Values p = []) = (mp_Values q = [])"
    using p(1) q(2) by (cases "mp_Values p"; cases "mp_Values q") (auto split: sum.splits)
  moreover have "encode_values (mp_Values p) = encode_values (mp_Values q)"
    using values_signature [OF p(1) q(2)] Cons.prems(3,4) q(1) by (simp add: no_nil_def)
  moreover have "normalizeMetadataPredicates ps = normalizeMetadataPredicates qs'"
    using Cons.IH [OF p(2) q(3)] Cons.prems(3,4) q(1) by (simp add: no_nil_def)
  ultimately show ?case by (auto simp: q(1) split: sum.splits)
qed

lemma collected_no_nil:
  "collectMetadataPredicates f = Inr ps \<Longrightarrow> p \<in> set ps \<Longrightarrow> AnyNil \<notin> set (mp_Values p)"
  by (induction f arbitrary: ps) (auto simp: predicateFromEqual_def split: sum.splits if_splits)

lemma same_signature_same_filter:
  assumes "registered_as wss j a" "registered_as wss' j' b" "signature_of a = signature_of b" "settled a" "settled b"
  shows "normalizeMetadataPredicates (ws_metadataEquals a) = normalizeMetadataPredicates (ws_metadataEquals b)"
proof -
  have n: "no_nil (ws_metadataEquals x)" if "registered_as w i x" "settled x" for w i x
    using that collected_no_nil
    by (fastforce simp: registered_as_def MetadataPredicates_def no_nil_def settled_def list_all_iff split: option.splits)
  show ?thesis
  proof (cases "ws_metadataEquals a = [] \<or> ws_metadataEquals b = []")
    case False
    with assms(1-3) show ?thesis
      using predicates_signature [OF _ _ n [OF assms(1,4)] n [OF assms(2,5)]]
      by (auto simp: registered_as_def signature_of_def metadataPredicateSignature_def split: sum.splits)
  qed (use assms(1-3) in \<open>auto simp: registered_as_def signature_of_def metadataPredicateSignature_def split: sum.splits if_splits\<close>)
qed

section \<open>The engine runs what it polls for\<close>


definition team_filter :: MetadataFilter where "team_filter = metadataEqual ''team'' (AnyJson (JStr ''red''))"

definition team_workers :: RegisteredWorkSet where
  "team_workers = projr (AsWorkSetWithOptions ''t'' (\<lambda>_ d. JReturn d None) (Some team_filter)
     [(''u'', \<lambda>_ _ d. TReturn d None)])"

definition team_visits :: visits where "team_visits = ([''t''], \<lambda>_. [''u''])"

definition team_options :: RuntimeBuildOptions where
  "team_options = \<lparr>bo_MaxActive = 1, bo_AwaitRecycleThreshold = 0, bo_PollTenantId = ''x''\<rparr>"

definition team_engine :: workerEngine where
  "team_engine = projr (newWorkerEngine team_visits (Inr ''w'') [team_workers] team_options)"

definition team_job :: ToyEngine where
  "team_job = fst (submit_job sample_env
     (sample_submit\<lparr>sj_Metadata := Json (JObj [(''team'', JStr ''red'')])\<rparr>) NewToyEngine)"


end
