(* ===== verification/Job_Run.thy ===== *)
theory Job_Run
  imports Worker_Engine Worker_Demo
begin

text \<open>
  Running one job on demand, \<^verbatim>\<open>pkg/workflow/run_job_if_leaseable.go\<close>: \<^verbatim>\<open>GetJobForRun\<close> asks for the
  lease of a job and gives a runnable; \<^verbatim>\<open>Run\<close> runs the job under the lease once and then classifies what
  became of the job by asking the runtime, not by the result of the run. A goroutine that the run ends or a
  panic ends \<^verbatim>\<open>Run\<close> with it. Events reach the listener through a queue that its own goroutine empties.
\<close>

section \<open>Outcomes\<close>

datatype JobRunStatus = JobRunNotLeaseable | JobRunCompleted | JobRunFailed | JobRunSuspended

record JobRunOutcome =
  ro_Status :: "JobRunStatus option"
  ro_LeaseAcquired :: bool
  ro_Output :: "TaskData option"
  ro_JobError :: "go_error option"
  ro_JobStatus :: "JobStatus option"
  ro_NextNeed :: "string option"
  ro_WaitForJobIDs :: "string list"
  ro_MissingCapability :: "string option"

definition zero_outcome :: JobRunOutcome where
  "zero_outcome =
     \<lparr>ro_Status = None, ro_LeaseAcquired = False, ro_Output = None, ro_JobError = None, ro_JobStatus = None,
      ro_NextNeed = None, ro_WaitForJobIDs = [], ro_MissingCapability = None\<rparr>"

definition applyJobRunStatus :: "JobStatus \<Rightarrow> JobRunOutcome \<Rightarrow> JobRunOutcome" where
  "applyJobRunStatus st outcome = outcome\<lparr>ro_JobStatus := Some st\<rparr>"

definition classifyJobRunTerminal :: "RuntimeJobInfo \<Rightarrow> TaskData option \<Rightarrow> JobRunOutcome res" where
  "classifyJobRunTerminal job directOutput =
     (let outcome = applyJobRunStatus (rj_Status job) zero_outcome in
      if rj_Status job = Cancelled
      then Inr (outcome\<lparr>ro_Status := Some JobRunFailed, ro_JobError := Some (Sentinel ErrJobCancelled)\<rparr>)
      else if rj_Status job \<noteq> Completed then Inl (Errorf ''job is not terminal'')
      else
        (case rj_Data job of
           None \<Rightarrow>
             (if directOutput \<noteq> None
              then Inr (outcome\<lparr>ro_Status := Some JobRunCompleted, ro_Output := directOutput\<rparr>)
              else Inl (Errorf ''completed job result is missing''))
         | Some td \<Rightarrow>
             (case td_GetData td of
                Inl e \<Rightarrow> Inr (outcome\<lparr>ro_Status := Some JobRunFailed, ro_JobError := Some e\<rparr>)
              | Inr _ \<Rightarrow> Inr (outcome\<lparr>ro_Status := Some JobRunCompleted, ro_Output := Some td\<rparr>))))"

text \<open>The summary of the job, by a listing of one job.\<close>

definition summary_request :: "JobKey \<Rightarrow> ListJobsRequest" where
  "summary_request key =
     \<lparr>lj_TenantIds = [TenantId key], lj_Statuses = [], lj_Stores = [], lj_JobTypes = [], lj_JobTasks = [],
      lj_JobKeys = [key], lj_ParentJobIDs = [], lj_RootOnly = False, lj_MetadataFilter = None,
      lj_CreatedAfter = None, lj_CreatedBefore = None, lj_PageSize = 1, lj_PageToken = NoToken\<rparr>"

definition getJobSummaryForJobRun :: "'w EngineRuntime \<Rightarrow> JobKey \<Rightarrow> 'w \<Rightarrow> JobSummary res" where
  "getJobSummaryForJobRun rt key w =
     (case er_ListJobs rt (summary_request key) w of
        Inl e \<Rightarrow> Inl e
      | Inr (jobs, _) \<Rightarrow>
          (case List.find (\<lambda>j. js_JobKey j = key) jobs of
             None \<Rightarrow> Inl (Sentinel ErrJobNotFound) | Some j \<Rightarrow> Inr j))"

text \<open>An empty need stands for none.\<close>

definition next_need :: "JobSummary \<Rightarrow> string option" where
  "next_need j = (if js_NextNeed j = [] then None else Some (js_NextNeed j))"

definition applyJobRunSummary :: "'w EngineRuntime \<Rightarrow> JobKey \<Rightarrow> string list \<Rightarrow> 'w \<Rightarrow> JobRunOutcome \<Rightarrow> JobRunOutcome" where
  "applyJobRunSummary rt key supported w outcome =
     (case getJobSummaryForJobRun rt key w of
        Inl _ \<Rightarrow> outcome
      | Inr summary \<Rightarrow>
          (let outcome = (applyJobRunStatus (js_Status summary) outcome)
                 \<lparr>ro_NextNeed := next_need summary, ro_WaitForJobIDs := js_WaitFor summary\<rparr>
           in case next_need summary of
                None \<Rightarrow> outcome
              | Some need \<Rightarrow>
                  if need \<in> set supported then outcome else outcome\<lparr>ro_MissingCapability := Some need\<rparr>))"

definition classifyJobRunWithoutLease ::
  "'w EngineRuntime \<Rightarrow> JobKey \<Rightarrow> string list \<Rightarrow> ('w, JobRunOutcome) op" where
  "classifyJobRunWithoutLease rt key supported =
     bind_op (rt_GetJob rt key) (\<lambda>job.
       if terminal (rj_Status job) then lift_op (classifyJobRunTerminal job None)
       else
         get_op (\<lambda>w.
           (let outcome = applyJobRunSummary rt key supported w
                  (applyJobRunStatus (rj_Status job) (zero_outcome\<lparr>ro_Status := Some JobRunNotLeaseable\<rparr>))
            in if rj_Status job = PendingJobs \<or> rj_Status job = AwaitingFuture \<or> ro_MissingCapability outcome \<noteq> None
               then outcome\<lparr>ro_Status := Some JobRunSuspended\<rparr> else outcome)))"

definition classifyJobRunAfterRun ::
  "'w EngineRuntime \<Rightarrow> JobKey \<Rightarrow> string list \<Rightarrow> TaskData option \<Rightarrow> go_error option \<Rightarrow> ('w, JobRunOutcome) op" where
  "classifyJobRunAfterRun rt key supported directOutput runErr =
     bind_op (rt_GetJob rt key) (\<lambda>job.
       if terminal (rj_Status job)
       then bind_op (lift_op (classifyJobRunTerminal job directOutput)) (\<lambda>outcome.
              ret_op (outcome\<lparr>ro_LeaseAcquired := True\<rparr>))
       else
         (case runErr of
            Some e \<Rightarrow> fail_op (Wrap ''job did not reach a terminal state after execution'' e)
          | None \<Rightarrow>
              get_op (\<lambda>w. applyJobRunSummary rt key supported w
                (applyJobRunStatus (rj_Status job)
                  (zero_outcome\<lparr>ro_Status := Some JobRunSuspended, ro_LeaseAcquired := True\<rparr>)))))"

section \<open>Runnables\<close>

record 'w JobRunnable =
  jn_workset :: RegisteredWorkSet
  jn_lease :: "'w ExecutionLease option"
  jn_workerID :: string
  jn_awaitThreshold :: duration
  jn_supported :: "string list"
  jn_jobKey :: JobKey
  jn_running :: bool
  jn_runDone :: bool
  jn_outcome :: "JobRunOutcome option"
  jn_runErr :: "go_error option"

record GetJobForRunRequest =
  gr_JobKey :: JobKey
  gr_JobWorker :: "(string \<times> (JobKey \<Rightarrow> TaskData option \<Rightarrow> job_program)) option"
  gr_TaskWorkers :: "task_worker list"
  gr_WorkerID :: string
  gr_LeaseDuration :: duration
  gr_AwaitThreshold :: duration

text \<open>\<open>taskTypes\<close>: the keys of the map of task workers, in the order of the iteration.\<close>

definition workSetCapabilities :: "RegisteredWorkSet \<Rightarrow> string list \<Rightarrow> string list" where
  "workSetCapabilities ws taskTypes = ws_JobType ws # map (workerCapability (ws_JobType ws)) (sort taskTypes)"

definition normalizeRequestedWorkerID :: "string res \<Rightarrow> string \<Rightarrow> string res" where
  "normalizeRequestedWorkerID fresh workerID = (if workerID \<noteq> [] then Inr workerID else fresh)"

definition new_runnable ::
  "RegisteredWorkSet \<Rightarrow> 'w ExecutionLease option \<Rightarrow> string \<Rightarrow> string list \<Rightarrow> GetJobForRunRequest \<Rightarrow> JobKey
   \<Rightarrow> JobRunOutcome option \<Rightarrow> 'w JobRunnable" where
  "new_runnable ws lease workerID supported req key outcome =
     \<lparr>jn_workset = ws, jn_lease = lease, jn_workerID = workerID, jn_awaitThreshold = gr_AwaitThreshold req,
      jn_supported = supported, jn_jobKey = key, jn_running = False, jn_runDone = (outcome \<noteq> None),
      jn_outcome = outcome, jn_runErr = None\<rparr>"

text \<open>The result \<^term>\<open>None\<close>: the call for the lease never returns.\<close>

definition GetJobForRun ::
  "'w EngineRuntime \<Rightarrow> string res \<Rightarrow> string list \<Rightarrow> GetJobForRunRequest \<Rightarrow> 'w \<Rightarrow> ('w \<times> 'w JobRunnable res) option" where
  "GetJobForRun rt freshID taskTypes req w =
     (case gr_JobWorker req of
        None \<Rightarrow> Some (w, Inl (Errorf ''job worker is required''))
      | Some (name, run) \<Rightarrow>
     (case AsWorkSet name run (gr_TaskWorkers req) of
        Inl e \<Rightarrow> Some (w, Inl e)
      | Inr ws \<Rightarrow>
     (case normalizeRequestedWorkerID freshID (gr_WorkerID req) of
        Inl e \<Rightarrow> Some (w, Inl e)
      | Inr workerID \<Rightarrow>
     (let supported = workSetCapabilities ws taskTypes in
      case er_GetJobLease rt \<lparr>gl_JobKey = gr_JobKey req, gl_Capabilities = supported,
             gl_LeaseDuration = gr_LeaseDuration req\<rparr> w of
        None \<Rightarrow> None
      | Some (w1, Inl e) \<Rightarrow> Some (w1, Inl e)
      | Some (w1, Inr None) \<Rightarrow>
          (case classifyJobRunWithoutLease rt (gr_JobKey req) supported w1 of
             (w2, Inl e) \<Rightarrow> Some (w2, Inl e)
           | (w2, Inr outcome) \<Rightarrow>
               Some (w2, Inr (new_runnable ws None workerID supported req (gr_JobKey req) (Some outcome))))
      | Some (w1, Inr (Some lease)) \<Rightarrow>
          (let key = (if le_JobKey lease = JobKey [] [] then gr_JobKey req else le_JobKey lease)
           in Some (w1, Inr (new_runnable ws (Some lease) workerID supported req key None)))))))"

definition LeaseAcquired :: "'w JobRunnable \<Rightarrow> bool" where
  "LeaseAcquired n = (case jn_outcome n of Some out \<Rightarrow> ro_LeaseAcquired out | None \<Rightarrow> jn_lease n \<noteq> None)"

text \<open>What the run of the lease gives to the classification: the output or the error.\<close>

definition finish_run :: "'w JobRunnable \<Rightarrow> JobRunOutcome res \<Rightarrow> 'w JobRunnable" where
  "finish_run n r =
     n\<lparr>jn_running := False, jn_runDone := True,
       jn_outcome := (case r of Inl e \<Rightarrow> jn_outcome n | Inr out \<Rightarrow> Some out),
       jn_runErr := (case r of Inl e \<Rightarrow> Some e | Inr out \<Rightarrow> None)\<rparr>"

definition outcome_step :: "JobRunOutcome res \<Rightarrow> JobRunOutcome step" where
  "outcome_step r = (case r of Inl e \<Rightarrow> Fail e | Inr out \<Rightarrow> Done out)"

definition classify_run ::
  "'w EngineRuntime \<Rightarrow> 'w JobRunnable \<Rightarrow> TaskData option \<Rightarrow> go_error option \<Rightarrow> 'w \<Rightarrow> ('w JobRunnable \<times> 'w) \<times> JobRunOutcome step" where
  "classify_run rt n output runErr w =
     (case classifyJobRunAfterRun rt (jn_jobKey n) (jn_supported n) output runErr w of
        (w', r) \<Rightarrow> ((finish_run n r, w'), outcome_step r))"

text \<open>\<^verbatim>\<open>Run\<close>, with the events it gives to the listener's queue.\<close>

definition JobRunnable_Run ::
  "nat \<Rightarrow> Env \<Rightarrow> (duration \<Rightarrow> rat \<Rightarrow> int \<Rightarrow> duration) \<Rightarrow> 'w EngineRuntime \<Rightarrow> 'w Clock \<Rightarrow> bool \<Rightarrow> 'w JobRunnable \<Rightarrow> 'w
   \<Rightarrow> (('w JobRunnable \<times> 'w) \<times> JobRunOutcome step) \<times> ReplayEvent list" where
  "JobRunnable_Run fuel env scale rt clock storeInput n w =
     (if jn_runDone n
      then
        (((n, w),
          case jn_runErr n of
            Some e \<Rightarrow> Fail e
          | None \<Rightarrow> Done (case jn_outcome n of None \<Rightarrow> zero_outcome | Some out \<Rightarrow> out)), [])
      else if jn_running n then (((n, w), Fail (Errorf ''job runnable is already running'')), [])
      else
        (let n = n\<lparr>jn_running := True\<rparr> in
         case jn_lease n of
           None \<Rightarrow> (((n, w), Panic ''nil lease''), [])
         | Some lease \<Rightarrow>
             (case runClaimedJobLease fuel env scale (WorkflowRuntime.truncate rt) clock
                     (WorkSet.truncate (jn_workset n)) lease (jn_awaitThreshold n) storeInput w of
                (s, Done output) \<Rightarrow> (classify_run rt n output None (world s), events s)
              | (s, Fail e) \<Rightarrow> (classify_run rt n None (Some e) (world s), events s)
              | (s, Goexit) \<Rightarrow> (((n, world s), Goexit), events s)
              | (s, Panic m) \<Rightarrow> (((n, world s), Panic m), events s)
              | (s, NoFuel) \<Rightarrow> (((n, world s), NoFuel), events s))))"

section \<open>The listener's queue\<close>

record asyncJobRunListener =
  al_queue :: "ReplayEvent list"
  al_closed :: bool
  al_delivered :: "ReplayEvent list"

definition new_listener :: asyncJobRunListener where
  "new_listener = \<lparr>al_queue = [], al_closed = False, al_delivered = []\<rparr>"

definition listener_enqueue :: "ReplayEvent \<Rightarrow> asyncJobRunListener \<Rightarrow> asyncJobRunListener" where
  "listener_enqueue e l = (if al_closed l then l else l\<lparr>al_queue := al_queue l @ [e]\<rparr>)"

definition listener_Close :: "asyncJobRunListener \<Rightarrow> asyncJobRunListener" where
  "listener_Close l = l\<lparr>al_closed := True\<rparr>"

text \<open>One turn of the loop: it waits (no step), ends, or delivers the first event; a panic of the callback is
  recovered.\<close>

definition listener_deliver :: "asyncJobRunListener \<Rightarrow> asyncJobRunListener" where
  "listener_deliver l =
     (case al_queue l of [] \<Rightarrow> l | e # es \<Rightarrow> l\<lparr>al_queue := es, al_delivered := al_delivered l @ [e]\<rparr>)"

text \<open>What the run and the loop do, in any order; \<open>Some e\<close> is an event, \<open>None\<close> a turn of the loop.\<close>

fun listener_run :: "ReplayEvent option list \<Rightarrow> asyncJobRunListener \<Rightarrow> asyncJobRunListener" where
  "listener_run [] l = l"
| "listener_run (Some e # xs) l = listener_run xs (listener_enqueue e l)"
| "listener_run (None # xs) l = listener_run xs (listener_deliver l)"

lemma listener_deliver_keeps:
  "al_delivered (listener_deliver l) @ al_queue (listener_deliver l) = al_delivered l @ al_queue l"
  by (simp add: listener_deliver_def split: list.split)

text \<open>Whatever the interleaving, what was delivered and what is queued is what the run emitted, in order; after
  closing, as many turns as there are events left deliver them all.\<close>

lemma listener_order:
  "\<not> al_closed l \<Longrightarrow>
   al_delivered (listener_run xs l) @ al_queue (listener_run xs l) =
     al_delivered l @ al_queue l @ List.map_filter id xs \<and> \<not> al_closed (listener_run xs l)"
proof (induction xs l rule: listener_run.induct)
  case (2 e xs l)
  then show ?case by (simp add: listener_enqueue_def)
next
  case (3 xs l)
  have "\<not> al_closed (listener_deliver l)" using "3.prems" by (simp add: listener_deliver_def split: list.split)
  with "3.IH" listener_deliver_keeps [of l] show ?case by (simp flip: append_assoc)
qed simp

lemma listener_drains:
  "al_delivered ((listener_deliver ^^ length (al_queue l)) l) = al_delivered l @ al_queue l"
proof (induction "al_queue l" arbitrary: l)
  case (Cons e es)
  let ?l = "listener_deliver l"
  have q: "al_queue ?l = es" "al_delivered ?l = al_delivered l @ [e]"
    by (simp_all add: listener_deliver_def flip: Cons.hyps(2))
  have "(listener_deliver ^^ length (al_queue l)) l = (listener_deliver ^^ length (al_queue ?l)) ?l"
    using Cons.hyps(2) q(1) by (simp add: funpow_swap1 flip: Cons.hyps(2))
  with Cons.hyps(1) [of ?l] q Cons.hyps(2) show ?case by simp
qed simp

lemma listener_delivers_all:
  "al_delivered ((listener_deliver ^^ length (al_queue (listener_run xs new_listener)))
     (listener_Close (listener_run xs new_listener))) = List.map_filter id xs"
  using listener_order [of new_listener xs] listener_drains [of "listener_Close (listener_run xs new_listener)"]
  by (simp add: new_listener_def listener_Close_def)

section \<open>A run that completes its job\<close>

lemma second_run:
  "jn_runDone n \<Longrightarrow> jn_outcome n = Some out \<Longrightarrow> jn_runErr n = None \<Longrightarrow>
   JobRunnable_Run fuel env scale rt clock storeInput n w = (((n, w), Done out), [])"
  by (simp add: JobRunnable_Run_def)

lemma classify_finished:
  assumes "finished_with (jn_jobKey n) d (engine w)"
  obtains n' out td where
    "classify_run (toy_engine_runtime env orc order) n output runErr w = ((n', w), Done out)"
    "jn_runDone n'" "jn_outcome n' = Some out" "jn_runErr n' = None"
    "ro_Status out = Some JobRunCompleted" "ro_LeaseAcquired out" "ro_Output out = Some td" "td_GetData td = Inr d"
proof -
  obtain rec td where r: "jobRecords (engine w) (jn_jobKey n) = Some rec" "jr_status rec = Completed"
    "jr_result rec = Some td" "jr_err rec = None" "td_GetData td = Inr d"
    using assms by (auto simp: finished_with_def)
  show ?thesis
    by (rule that) (auto simp: classify_run_def classifyJobRunAfterRun_def toy_engine_runtime_def WorkflowRuntime.defs
      toy_runtime_def GetJob_def r terminal_def toy_job_info_def classifyJobRunTerminal_def applyJobRunStatus_def
      job_info_data_def jobInfoTaskData_GetData_def bind_op_def ret_op_def lift_op_def finish_run_def outcome_step_def Let_def)
qed

lemma live_run_finishes:
  assumes "runClaimedJobLease (Suc fuel) env scale (toy_runtime env orc) (toy_clock orc) ws (toy_lease env orc l) threshold
      storeInput w = (s', Done (Some out))"
    and "flawless s'" "int64 (storyCounter s')" "hashes env" "pure_tasks ws" "\<And>d. tasks_only (ws_Run ws (ls_JobKey l) d)"
    and "in_order (ls_JobKey l) (engine w)" "unfinished (ls_JobKey l) (engine w)"
  shows "\<exists>d. finished_with (ls_JobKey l) d (engine (world s')) \<and> td_GetData out = Inr d"
proof -
  let ?r = "lease_runner env scale (toy_runtime env orc) (toy_clock orc) ws (toy_lease env orc l) threshold storeInput"
  let ?r' = "replay_runner env scale (toy_runtime env orc) (toy_clock orc) ws (ls_JobKey l) threshold"
  let ?s = "newWorkerRunner w (normalizeRunPolicy (wp_RunPolicy (lease_payload (le_Payload (toy_lease env orc l)))))"
  have live: "live env orc l ?r" using assms(5) by (simp add: live_def on_toy_def lease_runner_def toy_lease_def)
  have toy': "on_toy env orc ?r'" by (simp add: on_toy_def replay_runner_def newReplayReadOnlyRuntime_def)
  have r: "wr_env ?r = env" "wr_worker ?r = ws" "wr_jobKey ?r = ls_JobKey l" "wr_replay ?r'" "wr_env ?r' = wr_env ?r"
    "wr_jobKey ?r' = wr_jobKey ?r" by (simp_all add: lease_runner_def replay_runner_def toy_lease_def)
  have s: "world ?s = w" "storyCounter ?s = 1" by (simp_all add: newWorkerRunner_def)
  have log: "ordered_log ?r ?s" "open_log (wr_jobKey ?r) ?s"
    using assms(7,8) by (simp_all add: ordered_log_def open_log_def in_order_def chapter_at_log r s)
  have run: "DoJob (Suc fuel) ?r ?s = (s', Done (Some out))" using assms(1) by (simp add: runClaimedJobLease_def)
  have h: "hashes (wr_env ?r)" "tasks_only (ws_Run (wr_worker ?r) (wr_jobKey ?r) d)" for d using assms(4,6) r by simp_all
  show ?thesis
    using DoJob_live [where fuel' = 0, OF live h(1) toy' r(4-6) h(2) run assms(2,3) log(1) s(2) log(2)]
    by (auto simp: attempt_done_def job_recorded_def r)
qed

text \<open>C36: running a job on demand reports what the job became. Take a runnable that holds the lease of an
  unfinished job on the toy runtime, whose run ends with an output and without a failed attempt (the worker runs
  tasks and gives up with their first error, the task workers make no calls on their context). Then its run
  answers COMPLETED, with the lease acquired and an output that has the data of the worker's output, read from the
  job and not from the run; the listener is given the events of the run; and running the runnable again, however
  often and whatever happened to the engine meanwhile, answers the same without touching the engine.\<close>
theorem job_run_completed:
  assumes "runClaimedJobLease (Suc fuel) env scale (toy_runtime env orc) (toy_clock orc) (WorkSet.truncate (jn_workset n))
      (toy_lease env orc l) (jn_awaitThreshold n) storeInput w = (s', Done (Some output))"
    and "flawless s'" "int64 (storyCounter s')" "hashes env" "pure_tasks (WorkSet.truncate (jn_workset n))"
    and "\<And>d. tasks_only (ws_Run (jn_workset n) (ls_JobKey l) d)"
    and "in_order (ls_JobKey l) (engine w)" "unfinished (ls_JobKey l) (engine w)"
    and "jn_lease n = Some (toy_lease env orc l)" "jn_jobKey n = ls_JobKey l" "\<not> jn_runDone n" "\<not> jn_running n"
  shows "\<exists>n' outcome td d.
     JobRunnable_Run (Suc fuel) env scale (toy_engine_runtime env orc order) (toy_clock orc) storeInput n w =
       (((n', world s'), Done outcome), events s') \<and>
     ro_Status outcome = Some JobRunCompleted \<and> ro_LeaseAcquired outcome \<and> LeaseAcquired n' \<and>
     ro_Output outcome = Some td \<and> td_GetData td = Inr d \<and> td_GetData output = Inr d \<and>
     (\<forall>fuel' clock storeInput' w'.
        JobRunnable_Run fuel' env scale (toy_engine_runtime env orc order) clock storeInput' n' w' =
          (((n', w'), Done outcome), []))"
proof -
  let ?n = "n\<lparr>jn_running := True\<rparr>" and ?rt = "toy_engine_runtime env orc order"
  obtain d where d: "finished_with (jn_jobKey ?n) d (engine (world s'))" "td_GetData output = Inr d"
    using live_run_finishes [OF assms(1-5) _ assms(7,8)] assms(6,10) by (auto simp: WorkSet.defs)
  obtain n' out td where c: "classify_run ?rt ?n (Some output) None (world s') = ((n', world s'), Done out)"
    "jn_runDone n'" "jn_outcome n' = Some out" "jn_runErr n' = None"
    "ro_Status out = Some JobRunCompleted" "ro_LeaseAcquired out" "ro_Output out = Some td" "td_GetData td = Inr d"
    by (rule classify_finished [OF d(1)])
  have "WorkflowRuntime.truncate ?rt = toy_runtime env orc"
    by (simp add: toy_engine_runtime_def WorkflowRuntime.defs)
  then have "JobRunnable_Run (Suc fuel) env scale ?rt (toy_clock orc) storeInput n w = (((n', world s'), Done out), events s')"
    using assms(1,9,11,12) c(1) by (simp add: JobRunnable_Run_def)
  then show ?thesis
    using c d(2) second_run [OF c(2-4)] by (intro exI conjI allI) (assumption | simp add: LeaseAcquired_def)+
qed

definition demo_runnable :: "World JobRunnable" where
  "demo_runnable =
     \<lparr>jn_workset = WorkSet.extend demo_workers \<lparr>ws_MetadataFilter = None, ws_metadataEquals = []\<rparr>,
      jn_lease = Some (toy_lease sample_env sample_oracle sample_lease), jn_workerID = ''w'', jn_awaitThreshold = 10,
      jn_supported = [''t'', ''t:u''], jn_jobKey = JobKey ''x'' ''j'', jn_running = False, jn_runDone = False,
      jn_outcome = None, jn_runErr = None\<rparr>"

theorem job_run_completed_witness:
  "\<exists>n' w' outcome es.
     JobRunnable_Run 1 sample_env (\<lambda>d c n. d) (toy_engine_runtime sample_env sample_oracle []) (toy_clock sample_oracle) True
       demo_runnable demo_world = (((n', w'), Done outcome), es) \<and>
     ro_Status outcome = Some JobRunCompleted \<and> LeaseAcquired n'"
proof -
  obtain s' out where run: "demo_run = (s', Done (Some out))" "flawless s'" "int64 (storyCounter s')"
    by (rule demo_run_done)
  have ws: "WorkSet.truncate (jn_workset demo_runnable) = demo_workers" "ws_Run (jn_workset demo_runnable) = ws_Run demo_workers"
    by (simp_all add: demo_runnable_def WorkSet.defs)
  have live: "runClaimedJobLease (Suc 0) sample_env (\<lambda>d c n. d) (toy_runtime sample_env sample_oracle) (toy_clock sample_oracle)
      (WorkSet.truncate (jn_workset demo_runnable)) (toy_lease sample_env sample_oracle sample_lease)
      (jn_awaitThreshold demo_runnable) True demo_world = (s', Done (Some out))"
    unfolding ws using run(1) by (simp add: demo_run_def demo_runnable_def)
  have n: "jn_lease demo_runnable = Some (toy_lease sample_env sample_oracle sample_lease)"
    "jn_jobKey demo_runnable = ls_JobKey sample_lease" "\<not> jn_runDone demo_runnable" "\<not> jn_running demo_runnable"
    by (simp_all add: demo_runnable_def demo_key)
  show ?thesis
    using job_run_completed [OF live run(2,3) demo_hashes demo_workers_pure(1) [folded ws(1)]
      demo_workers_pure(2) [folded ws(2)] demo_open n, where order = "[]"] by auto
qed

end
