(* ===== verification/Engine_Loop.thy ===== *)
theory Engine_Loop
  imports Worker_Engine
begin

text \<open>
  The loop of \<^verbatim>\<open>workerEngine.Run\<close> as a state machine. The main goroutine waits for a free slot, polls,
  starts a goroutine for the lease it found and sleeps when there was none or a poll failed; the goroutines of
  the leases end at any time: each gives its slot back and then signals the main one, which are two steps between
  which others may run. The channel \<^verbatim>\<open>active\<close> is the number of slots taken, \<^verbatim>\<open>leaseDone\<close> the number of
  signals not yet received; a signal that finds the channel full is dropped.
\<close>

section \<open>The loop\<close>

datatype loop_at = AtTop | AwaitsSlot | Polling | Sleeping | Stopped

record engine_loop =
  lp_at :: loop_at
  lp_active :: nat
  lp_ending :: nat
  lp_done :: nat
  lp_backoff :: duration
  lp_polls :: nat

definition loop_limit :: "workerEngine \<Rightarrow> nat" where
  "loop_limit e = (if we_maxActive e \<le> 0 then 1 else nat (we_maxActive e))"

definition minBackoff :: duration where "minBackoff = 50 * millisecond"
definition maxBackoff :: duration where "maxBackoff = 30 * second"

definition loop_start :: engine_loop where
  "loop_start = \<lparr>lp_at = AtTop, lp_active = 0, lp_ending = 0, lp_done = 0, lp_backoff = minBackoff, lp_polls = 0\<rparr>"

definition start_lease :: "bool \<Rightarrow> engine_loop \<Rightarrow> engine_loop" where
  "start_lease found s =
     (if found then s\<lparr>lp_backoff := minBackoff, lp_active := Suc (lp_active s)\<rparr> else s)"

text \<open>After a round of polling that found a lease or not, and in which a poll failed or not.\<close>

definition after_poll :: "bool \<Rightarrow> bool \<Rightarrow> engine_loop \<Rightarrow> engine_loop" where
  "after_poll found hadPollError s =
     (let s = start_lease found s in
      if hadPollError then s\<lparr>lp_at := Sleeping\<rparr>
      else if found then s\<lparr>lp_at := AtTop\<rparr>
      else if 0 < lp_done s then s\<lparr>lp_at := AtTop, lp_done := lp_done s - 1, lp_backoff := minBackoff\<rparr>
      else s\<lparr>lp_at := Sleeping\<rparr>)"

definition after_sleep :: "engine_loop \<Rightarrow> engine_loop" where
  "after_sleep s = s\<lparr>lp_at := AtTop, lp_backoff := min (lp_backoff s * 2) maxBackoff\<rparr>"

definition end_lease :: "engine_loop \<Rightarrow> engine_loop" where
  "end_lease s = s\<lparr>lp_active := lp_active s - 1, lp_ending := Suc (lp_ending s)\<rparr>"

definition signal_done :: "nat \<Rightarrow> engine_loop \<Rightarrow> engine_loop" where
  "signal_done limit s =
     s\<lparr>lp_ending := lp_ending s - 1, lp_done := (if lp_done s < limit then Suc (lp_done s) else lp_done s)\<rparr>"

inductive loop_step :: "nat \<Rightarrow> engine_loop \<Rightarrow> engine_loop \<Rightarrow> bool" for limit where
  loop_full: "lp_at s = AtTop \<Longrightarrow> limit \<le> lp_active s \<Longrightarrow> loop_step limit s (s\<lparr>lp_at := AwaitsSlot\<rparr>)"
| loop_slot: "lp_at s = AwaitsSlot \<Longrightarrow> 0 < lp_done s \<Longrightarrow>
    loop_step limit s (s\<lparr>lp_at := AtTop, lp_done := lp_done s - 1\<rparr>)"
| loop_poll: "lp_at s = AtTop \<Longrightarrow> lp_active s < limit \<Longrightarrow>
    loop_step limit s (s\<lparr>lp_at := Polling, lp_polls := Suc (lp_polls s)\<rparr>)"
| loop_polled: "lp_at s = Polling \<Longrightarrow> loop_step limit s (after_poll found hadPollError s)"
| loop_woke: "lp_at s = Sleeping \<Longrightarrow> loop_step limit s (after_sleep s)"
| loop_stop: "lp_at s = AwaitsSlot \<or> lp_at s = Sleeping \<Longrightarrow> loop_step limit s (s\<lparr>lp_at := Stopped\<rparr>)"
| loop_stop_polled: "lp_at s = Polling \<Longrightarrow> loop_step limit s ((start_lease found s)\<lparr>lp_at := Stopped\<rparr>)"
| lease_ends: "0 < lp_active s \<Longrightarrow> loop_step limit s (end_lease s)"
| lease_signals: "0 < lp_ending s \<Longrightarrow> loop_step limit s (signal_done limit s)"

inductive loop_reachable :: "nat \<Rightarrow> engine_loop \<Rightarrow> bool" for limit where
  loop_reachable_start: "loop_reachable limit loop_start"
| loop_reachable_step: "loop_reachable limit s \<Longrightarrow> loop_step limit s s' \<Longrightarrow> loop_reachable limit s'"

inductive_cases loop_stepE: "loop_step limit s s'"

section \<open>Its invariant\<close>

definition loop_ok :: "nat \<Rightarrow> engine_loop \<Rightarrow> bool" where
  "loop_ok limit s \<longleftrightarrow>
     lp_active s \<le> limit \<and> lp_done s \<le> limit \<and> minBackoff \<le> lp_backoff s \<and> lp_backoff s \<le> maxBackoff \<and>
     (lp_at s = Polling \<longrightarrow> lp_active s < limit) \<and>
     (lp_at s = AwaitsSlot \<and> lp_active s < limit \<longrightarrow> 0 < lp_done s + lp_ending s)"

lemmas loop_defs = loop_ok_def loop_start_def after_poll_def start_lease_def after_sleep_def end_lease_def
  signal_done_def minBackoff_def maxBackoff_def duration_defs Let_def

lemma loop_step_ok: "loop_step limit s s' \<Longrightarrow> 0 < limit \<Longrightarrow> loop_ok limit s \<Longrightarrow> loop_ok limit s'"
  by (erule loop_stepE) (auto simp: loop_defs split: if_splits)

lemma loop_reachable_ok: "loop_reachable limit s \<Longrightarrow> 0 < limit \<Longrightarrow> loop_ok limit s"
proof (induction rule: loop_reachable.induct)
  case loop_reachable_start
  then show ?case by (simp add: loop_defs)
qed (rule loop_step_ok)

text \<open>Idle rounds in a row double the pause up to the bound.\<close>

lemma idle_backoff:
  "minBackoff \<le> lp_backoff s \<Longrightarrow>
   lp_backoff ((after_sleep ^^ n) s) = (if n = 0 then lp_backoff s else min (lp_backoff s * 2 ^ n) maxBackoff)"
proof (induction n)
  case (Suc n)
  have "0 < lp_backoff s" using Suc.prems by (simp add: minBackoff_def duration_defs)
  then have "lp_backoff s * 2 ^ n < lp_backoff s * 2 ^ Suc n" by simp
  with Suc show ?case by (auto simp: after_sleep_def min_def maxBackoff_def duration_defs)
qed simp

text \<open>C35: whatever the polls bring and however the runs of leases interleave with the loop, the engine never has
  more than its limit of leases running at once, and when it polls there is a slot for the lease it may find,
  so that starting the run never blocks. The pause between polls stays between 50 milliseconds and 30 seconds.
  A loop that waits for a slot while one is free is about to be woken: a signal is in the channel, or a run
  that gave its slot back is about to send one; no wake-up is lost, although signals may be dropped.\<close>
theorem engine_loop_bounded:
  assumes "loop_reachable (loop_limit e) s"
  shows "lp_active s \<le> loop_limit e \<and> (lp_at s = Polling \<longrightarrow> lp_active s < loop_limit e) \<and>
    50 * millisecond \<le> lp_backoff s \<and> lp_backoff s \<le> 30 * second \<and>
    (lp_at s = AwaitsSlot \<and> lp_active s < loop_limit e \<longrightarrow> 0 < lp_done s \<or> 0 < lp_ending s)"
proof -
  have "0 < loop_limit e" by (simp add: loop_limit_def)
  from loop_reachable_ok [OF assms this] show ?thesis by (auto simp: loop_ok_def minBackoff_def maxBackoff_def)
qed

text \<open>A loop with one slot that found a lease and waits, and whose lease has just ended.\<close>

definition waiting_loop :: engine_loop where
  "waiting_loop = \<lparr>lp_at = AwaitsSlot, lp_active = 0, lp_ending = 1, lp_done = 0, lp_backoff = minBackoff, lp_polls = 1\<rparr>"

lemma waiting_loop_reachable: "loop_reachable 1 waiting_loop"
proof -
  let ?polling = "loop_start\<lparr>lp_at := Polling, lp_polls := Suc (lp_polls loop_start)\<rparr>"
  let ?full = "after_poll True False ?polling"
  have "loop_step 1 loop_start ?polling" by (rule loop_poll) (simp_all add: loop_start_def)
  moreover have "loop_step 1 ?polling ?full" by (rule loop_polled) simp
  moreover have "loop_step 1 ?full (?full\<lparr>lp_at := AwaitsSlot\<rparr>)"
    by (rule loop_full) (simp_all add: after_poll_def start_lease_def loop_start_def Let_def)
  moreover have "loop_step 1 (?full\<lparr>lp_at := AwaitsSlot\<rparr>) (end_lease (?full\<lparr>lp_at := AwaitsSlot\<rparr>))"
    by (rule lease_ends) (simp add: after_poll_def start_lease_def loop_start_def Let_def)
  moreover have "end_lease (?full\<lparr>lp_at := AwaitsSlot\<rparr>) = waiting_loop"
    by (simp add: waiting_loop_def end_lease_def after_poll_def start_lease_def loop_start_def Let_def)
  ultimately show ?thesis by (metis loop_reachable_start loop_reachable_step)
qed

theorem engine_loop_bounded_witness:
  "lp_at waiting_loop = AwaitsSlot \<and> lp_active waiting_loop \<le> 1 \<and> (0 < lp_done waiting_loop \<or> 0 < lp_ending waiting_loop)"
proof -
  have "loop_limit team_engine = 1" by code_simp
  with waiting_loop_reachable have "loop_reachable (loop_limit team_engine) waiting_loop" by simp
  from engine_loop_bounded [OF this] \<open>loop_limit team_engine = 1\<close> show ?thesis by (simp add: waiting_loop_def)
qed

end
