(* ===== verification/Task_Find.thy ===== *)
theory Task_Find
  imports Worker_Engine Task_Props Worker_Meta
begin

text \<open>
  Tasks without a worker, \<^verbatim>\<open>pkg/workflow/runtime_task_handle.go\<close> and the parts of \<^verbatim>\<open>runtime_engine.go\<close> that do more
  than forward a call: finding the jobs that wait for a task, the handles by which a client finishes one, and
  the artifact of a job. The theorem follows a task from the listing to the run that goes on with its output.
\<close>

section \<open>Handles\<close>

record TaskHandle =
  th_jobKey :: JobKey
  th_metadata :: raw
  th_createdAt :: go_time
  th_capability :: string
  th_resumeNeed :: string
  th_taskType :: string
  th_inputOrdinal :: int
  th_outputOrdinal :: int
  th_inputHash :: string

text \<open>The pointers of the summary to the parts of the wait are set together; an empty need is a nil one.\<close>

definition taskHandleFromJobSummary :: "JobSummary \<Rightarrow> TaskHandle option" where
  "taskHandleFromJobSummary summary =
     (case js_TaskWait summary of
        None \<Rightarrow> None
      | Some w \<Rightarrow>
          (let capability = js_NextNeed summary; taskType = taskTypeFromCapability capability in
           if capability = [] \<or> CHR '':'' \<notin> set capability then None
           else if tw_Next w = [] then None
           else if taskType = [] \<or> taskType = capability then None
           else
             Some \<lparr>th_jobKey = js_JobKey summary, th_metadata = js_Metadata summary,
                   th_createdAt = js_CreatedAt summary, th_capability = capability, th_resumeNeed = tw_Next w,
                   th_taskType = taskType, th_inputOrdinal = tw_InputStep w, th_outputOrdinal = tw_OutputStep w,
                   th_inputHash = tw_InputHash w\<rparr>))"

definition handle_Data :: "Env \<Rightarrow> 'w EngineRuntime \<Rightarrow> TaskHandle \<Rightarrow> ('w, TaskData option) op" where
  "handle_Data env rt h =
     bind_op (rt_GetChapter rt (th_jobKey h) (th_inputOrdinal h)) (\<lambda>chapter.
       read_op (\<lambda>w. data_or_error (chapterToTaskData env (WorkflowRuntime.truncate rt) (th_jobKey h) chapter w)))"

definition finish_request :: "TaskHandle \<Rightarrow> TaskData option \<Rightarrow> CompleteTaskIfWaitingRequest" where
  "finish_request h d =
     \<lparr>ct_JobKey = th_jobKey h, ct_Capability = th_capability h, ct_ResumeNeed = th_resumeNeed h,
      ct_InputOrdinal = th_inputOrdinal h, ct_OutputOrdinal = th_outputOrdinal h, ct_InputHash = th_inputHash h,
      ct_Data = d\<rparr>"

definition handle_Finish :: "'w EngineRuntime \<Rightarrow> TaskHandle \<Rightarrow> TaskData option \<Rightarrow> ('w, unit) op" where
  "handle_Finish rt h d = er_CompleteTaskIfWaiting rt (finish_request h d)"

section \<open>Finding them\<close>

record FindTasksWaitingRequest =
  fw_JobType :: string
  fw_TaskType :: string
  fw_TenantIds :: "string list"
  fw_MetadataFilter :: "MetadataFilter option"
  fw_Limit :: int

definition find_request :: "FindTasksWaitingRequest \<Rightarrow> int \<Rightarrow> PageToken \<Rightarrow> ListJobsRequest" where
  "find_request req pageSize tok =
     \<lparr>lj_TenantIds = fw_TenantIds req, lj_Statuses = [StatusArg Ready], lj_Stores = [], lj_JobTypes = [],
      lj_JobTasks = [(fw_JobType req, fw_TaskType req)], lj_JobKeys = [], lj_ParentJobIDs = [], lj_RootOnly = False,
      lj_MetadataFilter = fw_MetadataFilter req, lj_CreatedAfter = None, lj_CreatedBefore = None,
      lj_PageSize = pageSize, lj_PageToken = tok\<rparr>"

text \<open>The jobs of one page; the flag says that the limit was reached.\<close>

fun add_handles ::
  "string \<Rightarrow> int \<Rightarrow> int \<Rightarrow> JobSummary list \<Rightarrow> TaskHandle list \<Rightarrow> TaskHandle list \<times> bool" where
  "add_handles capability limit remaining [] hs = (hs, False)"
| "add_handles capability limit remaining (job # jobs) hs =
     (if js_NextNeed job \<noteq> capability then add_handles capability limit remaining jobs hs
      else
        (case taskHandleFromJobSummary job of
           None \<Rightarrow> add_handles capability limit remaining jobs hs
         | Some h \<Rightarrow>
             if 0 < remaining \<and> limit \<le> int (length (hs @ [h])) then (hs @ [h], True)
             else add_handles capability limit remaining jobs (hs @ [h])))"

definition MaxListJobsPageSize :: int where "MaxListJobsPageSize = 200"

text \<open>The loop over the pages, at most \<open>n\<close> of them; \<^term>\<open>None\<close> when there are more.\<close>

fun find_loop ::
  "nat \<Rightarrow> 'w EngineRuntime \<Rightarrow> FindTasksWaitingRequest \<Rightarrow> int \<Rightarrow> PageToken \<Rightarrow> TaskHandle list \<Rightarrow> 'w
   \<Rightarrow> TaskHandle list res option" where
  "find_loop 0 rt req remaining tok hs w = None"
| "find_loop (Suc n) rt req remaining tok hs w =
     (let pageSize = (if 0 < remaining \<and> remaining < MaxListJobsPageSize then remaining else MaxListJobsPageSize) in
      case er_ListJobs rt (find_request req pageSize tok) w of
        Inl e \<Rightarrow> Some (Inl e)
      | Inr (jobs, next) \<Rightarrow>
          (case add_handles (workerCapability (fw_JobType req) (fw_TaskType req)) (fw_Limit req) remaining jobs hs of
             (hs', full) \<Rightarrow>
               if full \<or> next = NoToken then Some (Inr hs')
               else if 0 < remaining then
                 (let remaining' = fw_Limit req - int (length hs') in
                  if remaining' \<le> 0 then Some (Inr hs') else find_loop n rt req remaining' next hs' w)
               else find_loop n rt req remaining next hs' w))"

definition findWaitingTasks ::
  "nat \<Rightarrow> 'w EngineRuntime \<Rightarrow> FindTasksWaitingRequest \<Rightarrow> 'w \<Rightarrow> TaskHandle list res option" where
  "findWaitingTasks n rt req w =
     (if fw_TenantIds req = [] then Some (Inl (Errorf ''tenant_ids is required for task discovery''))
      else find_loop n rt req (fw_Limit req) NoToken [] w)"

definition waiting_request :: "JobKey \<Rightarrow> ListJobsRequest" where
  "waiting_request key =
     \<lparr>lj_TenantIds = [TenantId key], lj_Statuses = [], lj_Stores = [], lj_JobTypes = [], lj_JobTasks = [],
      lj_JobKeys = [key], lj_ParentJobIDs = [], lj_RootOnly = False, lj_MetadataFilter = None,
      lj_CreatedAfter = None, lj_CreatedBefore = None, lj_PageSize = 1, lj_PageToken = NoToken\<rparr>"

definition getWaitingTask :: "'w EngineRuntime \<Rightarrow> JobKey \<Rightarrow> 'w \<Rightarrow> TaskHandle res" where
  "getWaitingTask rt key w =
     (case er_ListJobs rt (waiting_request key) w of
        Inl e \<Rightarrow> Inl e
      | Inr (jobs, _) \<Rightarrow>
          (case List.find (\<lambda>j. js_JobKey j = key) jobs of
             None \<Rightarrow> Inl (Sentinel ErrJobNotFound)
           | Some job \<Rightarrow>
               (case taskHandleFromJobSummary job of
                  None \<Rightarrow> Inl (Sentinel ErrJobNotFound) | Some h \<Rightarrow> Inr h)))"

definition FindTasksWaitingForCapability ::
  "nat \<Rightarrow> 'w EngineRuntime \<Rightarrow> string \<Rightarrow> string \<Rightarrow> string list \<Rightarrow> 'w \<Rightarrow> TaskHandle list res option" where
  "FindTasksWaitingForCapability n rt jobType taskType tenantIds w =
     findWaitingTasks n rt
       \<lparr>fw_JobType = jobType, fw_TaskType = taskType, fw_TenantIds = tenantIds, fw_MetadataFilter = None, fw_Limit = 0\<rparr> w"

definition runtime_GetArtifact :: "'w EngineRuntime \<Rightarrow> string \<Rightarrow> ArtifactKey \<Rightarrow> ('w, Artifact) op" where
  "runtime_GetArtifact rt tenantId key =
     (if tenantId = [] then fail_op (Errorf ''tenantId is required'')
      else
        (case ArtifactKey_Validate key of
           Some msg \<Rightarrow> fail_op (Errorf msg)
         | None \<Rightarrow> engine_GetArtifact rt tenantId key))"

section \<open>What a handle comes from\<close>

lemma add_handles_sound:
  "add_handles c limit remaining jobs hs = (hs', full) \<Longrightarrow> h \<in> set hs' \<Longrightarrow>
   h \<in> set hs \<or> (\<exists>j\<in>set jobs. js_NextNeed j = c \<and> taskHandleFromJobSummary j = Some h)"
proof (induction jobs arbitrary: hs)
  case (Cons job jobs)
  show ?case
  proof (cases "js_NextNeed job = c \<and> taskHandleFromJobSummary job \<noteq> None")
    case False
    then have "add_handles c limit remaining jobs hs = (hs', full)" using Cons.prems(1) by (auto split: if_splits)
    from Cons.IH [OF this Cons.prems(2)] show ?thesis by auto
  next
    case True
    then obtain h0 where h0: "js_NextNeed job = c" "taskHandleFromJobSummary job = Some h0" by auto
    then have "hs' = hs @ [h0] \<or> add_handles c limit remaining jobs (hs @ [h0]) = (hs', full)"
      using Cons.prems(1) by (simp split: if_splits)
    then show ?thesis using Cons.IH [of "hs @ [h0]"] Cons.prems(2) h0 by auto
  qed
qed simp

text \<open>A job of the listing: a record of the engine that has the status asked for.\<close>

lemma job_listed_status: "job_listed req scope preds k r = Inr True \<Longrightarrow> allowed (lj_Statuses req) (StatusArg (jr_status r))"
  by (auto simp: job_listed_def split: if_splits)

lemma listed_entry_record:
  "listed_entry req scope preds s k = Some j \<Longrightarrow> lj_Statuses req = [StatusArg st] \<Longrightarrow>
   \<exists>r p. jobRecords s k = Some r \<and> j = job_summary k r p \<and> jr_status r = st"
  by (auto simp: listed_entry_def allowed_def dest!: job_listed_status split: option.splits if_splits)

lemma listed_entry_of:
  assumes "ListJobs order s req = Inr (jobs, tok)" "j \<in> set jobs"
  shows "\<exists>k scope preds. listed_entry req scope preds s k = Some j"
proof -
  have page: "set (fst (page n xs)) \<subseteq> set xs" for n :: int and xs :: "JobSummary list"
    by (auto simp: page_def dest: in_set_takeD)
  obtain scope raw preds records where r: "collect_jobs req scope preds s order = Inr records"
    "fst (page (list_page_size (lj_PageSize req)) (filter (after_cursor (lj_PageToken req)) (sort_jobs records))) = jobs"
    using assms by (auto simp: ListJobs_def split: if_splits sum.splits prod.splits)
  from r(2) assms(2) page have "j \<in> set (filter (after_cursor (lj_PageToken req)) (sort_jobs records))" by blast
  then have "j \<in> set records" by (simp add: sort_jobs_def)
  then obtain k where "listed_entry req scope preds s k = Some j"
    using r(1) by (auto simp: collect_jobs_Inr set_map_filter_eq)
  then show ?thesis by blast
qed

lemma listed_record:
  assumes "ListJobs order s req = Inr (jobs, tok)" "j \<in> set jobs"
  shows "\<exists>k r p. jobRecords s k = Some r \<and> j = job_summary k r p"
proof -
  obtain k scope preds where "listed_entry req scope preds s k = Some j" using listed_entry_of [OF assms] by blast
  then show ?thesis by (auto simp: listed_entry_def split: option.splits if_splits)
qed

lemma listed_job:
  "ListJobs order s req = Inr (jobs, tok) \<Longrightarrow> j \<in> set jobs \<Longrightarrow> lj_Statuses req = [StatusArg st] \<Longrightarrow>
   \<exists>k r p. jobRecords s k = Some r \<and> j = job_summary k r p \<and> jr_status r = st"
  by (metis listed_entry_of listed_entry_record)

lemma find_loop_sound:
  "find_loop n rt req remaining tok hs w = Some (Inr hs') \<Longrightarrow> h \<in> set hs' \<Longrightarrow>
   h \<in> set hs \<or>
   (\<exists>sz tok jobs nxt j. er_ListJobs rt (find_request req sz tok) w = Inr (jobs, nxt) \<and> j \<in> set jobs \<and>
      js_NextNeed j = workerCapability (fw_JobType req) (fw_TaskType req) \<and> taskHandleFromJobSummary j = Some h)"
proof (induction n arbitrary: remaining tok hs)
  case (Suc n)
  let ?sz = "if 0 < remaining \<and> remaining < MaxListJobsPageSize then remaining else MaxListJobsPageSize"
  obtain jobs nxt where l: "er_ListJobs rt (find_request req ?sz tok) w = Inr (jobs, nxt)"
    using Suc.prems(1) by (auto simp: Let_def split: sum.splits)
  obtain hs1 full where a: "add_handles (workerCapability (fw_JobType req) (fw_TaskType req)) (fw_Limit req) remaining jobs hs =
      (hs1, full)" by fastforce
  have "hs' = hs1 \<or> (\<exists>rem. find_loop n rt req rem nxt hs1 w = Some (Inr hs'))"
    using Suc.prems(1) l a by (auto simp: Let_def split: if_splits)
  then have "h \<in> set hs1 \<or>
     (\<exists>sz tok jobs nxt j. er_ListJobs rt (find_request req sz tok) w = Inr (jobs, nxt) \<and> j \<in> set jobs \<and>
      js_NextNeed j = workerCapability (fw_JobType req) (fw_TaskType req) \<and> taskHandleFromJobSummary j = Some h)"
    using Suc.IH [OF _ Suc.prems(2)] Suc.prems(2) by blast
  then show ?case using add_handles_sound [OF a] l by metis
qed simp

text \<open>A handle and the wait it was made from.\<close>

definition handle_of_wait :: "TaskHandle \<Rightarrow> string \<Rightarrow> workerTaskWait \<Rightarrow> bool" where
  "handle_of_wait h c w \<longleftrightarrow>
     th_capability h = c \<and> th_resumeNeed h = tw_Next w \<and> tw_Next w \<noteq> [] \<and> th_inputOrdinal h = tw_InputStep w \<and>
     th_outputOrdinal h = tw_OutputStep w \<and> th_inputHash h = tw_InputHash w"

lemma handle_from_summary:
  "taskHandleFromJobSummary j = Some h \<Longrightarrow>
   th_jobKey h = js_JobKey j \<and> (\<exists>w. js_TaskWait j = Some w \<and> handle_of_wait h (js_NextNeed j) w)"
  by (auto simp: taskHandleFromJobSummary_def handle_of_wait_def Let_def split: option.splits if_splits)

lemma summary_wait: "js_TaskWait (job_summary k r p) = Some w \<Longrightarrow> extractWorkerTaskWait (jr_payload r) = Inr (Some w)"
  by (simp add: job_summary_def split: sum.splits)

lemma summary_key: "js_JobKey (job_summary k r p) = k" "js_NextNeed (job_summary k r p) = jr_capability r"
  by (simp_all add: job_summary_def)

lemma found_handle:
  assumes "findWaitingTasks n (toy_engine_runtime env orc order) req w = Some (Inr hs)" "h \<in> set hs"
  obtains r wait where "jobRecords (engine w) (th_jobKey h) = Some r" "jr_status r = Ready"
    "jr_capability r = workerCapability (fw_JobType req) (fw_TaskType req)"
    "extractWorkerTaskWait (jr_payload r) = Inr (Some wait)" "handle_of_wait h (jr_capability r) wait"
proof -
  have l: "er_ListJobs (toy_engine_runtime env orc order) r w = ListJobs order (engine w) r" for r
    by (simp add: toy_engine_runtime_def WorkflowRuntime.defs)
  have "find_loop n (toy_engine_runtime env orc order) req (fw_Limit req) NoToken [] w = Some (Inr hs)"
    using assms(1) by (simp add: findWaitingTasks_def split: if_splits)
  from find_loop_sound [OF this assms(2)]
  obtain sz tok jobs nxt j where j: "ListJobs order (engine w) (find_request req sz tok) = Inr (jobs, nxt)"
    "j \<in> set jobs" "js_NextNeed j = workerCapability (fw_JobType req) (fw_TaskType req)"
    "taskHandleFromJobSummary j = Some h"
    by (auto simp: l)
  obtain k r p where r: "jobRecords (engine w) k = Some r" "j = job_summary k r p" "jr_status r = Ready"
    using listed_job [OF j(1,2), of Ready] by (auto simp: find_request_def)
  obtain wait where w: "js_TaskWait j = Some wait" "handle_of_wait h (js_NextNeed j) wait" "th_jobKey h = js_JobKey j"
    using handle_from_summary [OF j(4)] by blast
  show ?thesis
    using r j(3) w summary_wait [of k r p wait] by (intro that [of r wait]) (simp_all add: summary_key)
qed

section \<open>The outcome of a finished task, read by the runner\<close>

lemma task_chapter_meta:
  assumes "marshalChapterMetadata (chapter_metadata_fields env n ty h rp) = Inr md" "wire_policy rp" "int64 n"
    and "ch_Metadata c = md"
  shows "\<exists>meta. workerMetaFromChapter c = Inr meta \<and> (h \<noteq> [] \<longrightarrow> wm_InputHash meta = h)"
proof -
  let ?m = "chapter_metadata_fields env n ty h rp"
  have ok: "distinct (map fst ?m)" "lower_keys ?m"
    by (simp_all add: chapter_metadata_fields_def) (simp add: lower_key_def fold_char_def)
  have f: "jfield k (kept ?m) = map_option stored_json (gget ?m k)" if "lower_key k" for k
    by (rule jfield_kept [OF ok(2,1) that])
  have lower: "lower_key ''version''" "lower_key ''ordinal''" "lower_key ''task_type''" "lower_key ''worker_id''"
    "lower_key ''created_at''" "lower_key ''started_at''" "lower_key ''finished_at''" "lower_key ''input_hash''"
    "lower_key ''input''" "lower_key ''attempt''" "lower_key ''max_attempts''" "lower_key ''next_attempt_at''"
    "lower_key ''backoff_ms''" "lower_key ''retryable''" "lower_key ''input_ref''" "lower_key ''run_policy''"
    "lower_key ''prereqs''"
    by (simp_all add: lower_key_def fold_char_def)
  have g: "gget ?m ''version'' = Some (JInt 1)" "gget ?m ''ordinal'' = Some (JInt n)" "gget ?m ''task_type'' = Some (JStr ty)"
    "gget ?m ''worker_id'' = None" "gget ?m ''created_at'' = Some (JTime (now env))" "gget ?m ''started_at'' = None"
    "gget ?m ''finished_at'' = None" "gget ?m ''input_hash'' = Some (JStr h)" "gget ?m ''input'' = None"
    "gget ?m ''attempt'' = Some (JInt 1)" "gget ?m ''max_attempts'' = None" "gget ?m ''next_attempt_at'' = None"
    "gget ?m ''backoff_ms'' = None" "gget ?m ''retryable'' = None" "gget ?m ''input_ref'' = None"
    "gget ?m ''run_policy'' = Some (enc_RunPolicy rp)" "gget ?m ''prereqs'' = None"
    by (simp_all add: chapter_metadata_fields_def)
  have pol: "dec_ptr dec_RunPolicy (Some (stored_json (enc_RunPolicy rp))) = Some (Some rp)"
    using dec_stored_RunPolicy [OF assms(2)] stored_objects(2) [of rp] by (auto simp: dec_ptr_def split: json.splits)
  have i: "int64 1" by (simp add: int64_def)
  have none: "dec_ptr d None = Some None" "dec_slice d' None = Some None" "dec_int64 None = Some 0" "dec_string None = Some []"
    for d :: "json option \<Rightarrow> 'x option" and d' :: "json option \<Rightarrow> 'y option"
    by (simp_all add: dec_ptr_def dec_slice_def dec_int64_def dec_string_def)
  have "\<exists>meta. dec_workerMeta d (kept ?m) = Some meta \<and> wm_InputHash meta = h" for d
    by (simp only: dec_workerMeta_def f lower g option.map stored_leaf dec_keep_simps codec_simps none pol
        dec_int64_simps(2) [OF i] dec_int64_simps(2) [OF assms(3)] prod.case option.case) simp
  then obtain meta where d: "dec_workerMeta (zero_workerMeta\<lparr>wm_Version := envelopeVersion, wm_Ordinal := ch_Ordinal c,
      wm_TaskType := ch_TaskType c, wm_CreatedAt := ch_CreatedAt c, wm_InputHash := ch_InputHash c\<rparr>) (kept ?m) = Some meta"
    "wm_InputHash meta = h" by blast
  have "ChapterMetadataToJSON (ch_Metadata c) = Inr (Json (JObj (kept ?m)))"
    using metadata_kept assms(1,4) by (simp add: marshalChapterMetadata_def)
  then have "workerMetaFromChapter c = Inr (meta_defaults c meta)"
    by (simp add: workerMetaFromChapter_def Let_def raw_len0_def d)
  then show ?thesis using d(2) by (simp add: meta_defaults_def)
qed

lemma dec_wait_range: "dec_workerTaskWait v = Some w \<Longrightarrow> int64 (tw_OutputStep w)"
  by (auto simp: dec_workerTaskWait_def dest!: dec_int64_range split: option.splits)

lemma wait_range:
  assumes "extractWorkerTaskWait p = Inr (Some w)"
  shows "int64 (tw_OutputStep w)"
proof -
  obtain x where "dec_workerJobPayload p = Some x" "wp_TaskWait x = Some w"
    using assms by (auto simp: extractWorkerTaskWait_def split: option.splits if_splits)
  then obtain v where "dec_ptr dec_workerTaskWait v = Some (Some w)"
    by (auto simp: dec_workerJobPayload_def split: option.splits)
  then show ?thesis by (auto simp: dec_ptr_def dest: dec_wait_range split: option.splits json.splits)
qed

text \<open>What the runner makes of the stored output.\<close>

lemma task_chapter_answer:
  "stored_answer r s (task_chapter env w ty md payload stored) =
     Inr (Some (EnvelopedTaskData payload
       (map (newRuntimeBackedArtifact (wr_runtime r) (wr_jobKey r) (tw_OutputStep w) (world s)) stored) payloadKindApp))"
  by (simp add: stored_answer_def chapterToTaskData_def ChapterPayload_def task_chapter_def data_or_error_def clone_json_def)

lemma handle_finished:
  assumes "handle_Finish (toy_engine_runtime env orc order) h d w = (w', Inr ())"
    and "jobRecords (engine w) (th_jobKey h) = Some r" "extractWorkerTaskWait (jr_payload r) = Inr (Some wait)"
    and "handle_of_wait h c wait"
  obtains env' ty md payload stored rp r' td where
    "GetChapter (engine w') (th_jobKey h) (th_outputOrdinal h) = Inr (task_chapter env' wait ty md payload stored)"
    "marshalChapterMetadata (chapter_metadata_fields env' (th_outputOrdinal h) ty (th_inputHash h) rp) = Inr md"
    "wire_policy rp" "int64 (th_outputOrdinal h)" "d = Some td" "td_GetData td = Inr payload"
    "jobRecords (engine w') (th_jobKey h) = Some r'" "jr_status r' = Ready" "jr_capability r' = th_resumeNeed h"
    "jr_leaseID r' = []"
proof -
  let ?env = "env\<lparr>now := or_time orc (asked w)\<rparr>"
  have c: "CompleteTaskIfWaiting ?env (finish_request h d) (engine w) = (engine w', Inr ())"
    using assms(1) by (auto simp: handle_Finish_def toy_engine_runtime_def WorkflowRuntime.defs on_engine_def
        split: prod.splits)
  have q: "ct_JobKey (finish_request h d) = th_jobKey h" "ct_Data (finish_request h d) = d"
    "ct_ResumeNeed (finish_request h d) = th_resumeNeed h" by (simp_all add: finish_request_def)
  have h: "th_resumeNeed h \<noteq> []" "tw_OutputStep wait = th_outputOrdinal h" "tw_InputHash wait = th_inputHash h"
    using assms(4) by (simp_all add: handle_of_wait_def)
  obtain r0 w0 r3 md payload stored rp where f: "jobRecords (engine w) (th_jobKey h) = Some r0"
    "extractWorkerTaskWait (jr_payload r0) = Inr (Some w0)"
    "wait_matches w0 (jr_capability r0) (finish_request h d) = Inr ()"
    "GetChapter (engine w') (th_jobKey h) (tw_OutputStep w0) =
       Inr (task_chapter ?env w0 (extractTaskType (jr_capability r0)) md payload stored)"
    "marshalChapterMetadata
       (chapter_metadata_fields ?env (tw_OutputStep w0) (extractTaskType (jr_capability r0)) (tw_InputHash w0) rp) = Inr md"
    "wire_policy rp" "\<exists>td. d = Some td \<and> td_GetData td = Inr payload"
    "jobRecords (engine w') (th_jobKey h) = Some (resume_record (if th_resumeNeed h \<noteq> [] then th_resumeNeed h else tw_Next w0)
       (mustMarshalWorkerPayload \<lparr>wp_RunPolicy = rp, wp_TaskWait = None\<rparr>) (tw_OutputStep w0) r3)"
    by (rule task_completed [OF c, unfolded q clone_json_id])
  have "w0 = wait" using f(1,2) assms(2,3) by simp
  then show ?thesis
    using f(4-8) h wait_range [OF assms(3)] that by (auto simp: resume_record_def)
qed

text \<open>C37: a task that no worker serves, from the listing to the run that goes on: a handle that the search for
  waiting tasks finds belongs to a job that was ready for exactly the task asked for; once the client has
  finished it with data, the job is ready, without a lease, for the need that the wait resumes, and a runner of
  the job whose counter is at the task and whose input has the hash of the wait gets exactly that data, under
  any policy of the task and without calling a worker: the log is not written and the counter goes on.\<close>
theorem external_task_roundtrip:
  assumes "findWaitingTasks n (toy_engine_runtime env orc order) req w = Some (Inr hs)" "h \<in> set hs"
    and "handle_Finish (toy_engine_runtime env orc order) h d w = (w', Inr ())"
    and "on_toy env orc r" "wr_jobKey r = th_jobKey h" "engine (world s) = engine w'"
    and "storyCounter s = th_outputOrdinal h" "computeInputHash (wr_env r) input = Inr (th_inputHash h)"
    and "th_inputHash h \<noteq> []" "readable r s (if storyCounter s - 1 < 0 then 0 else storyCounter s - 1)"
  shows "\<exists>before after td out s'.
     jobRecords (engine w) (th_jobKey h) = Some before \<and> jr_status before = Ready \<and>
     jr_capability before = workerCapability (fw_JobType req) (fw_TaskType req) \<and>
     jobRecords (engine w') (th_jobKey h) = Some after \<and> jr_status after = Ready \<and> jr_leaseID after = [] \<and>
     jr_capability after = th_resumeNeed h \<and>
     DoTask (Suc fuel) r policy taskType input s = (s', Done (Some out)) \<and>
     d = Some td \<and> td_GetData out = td_GetData td \<and>
     engine (world s') = engine w' \<and> storyCounter s' = storyCounter s + 1"
proof -
  obtain before wait where b: "jobRecords (engine w) (th_jobKey h) = Some before" "jr_status before = Ready"
    "jr_capability before = workerCapability (fw_JobType req) (fw_TaskType req)"
    "extractWorkerTaskWait (jr_payload before) = Inr (Some wait)" "handle_of_wait h (jr_capability before) wait"
    using found_handle [OF assms(1,2)] by blast
  obtain env' ty md payload stored rp after td where f:
    "GetChapter (engine w') (th_jobKey h) (th_outputOrdinal h) = Inr (task_chapter env' wait ty md payload stored)"
    "marshalChapterMetadata (chapter_metadata_fields env' (th_outputOrdinal h) ty (th_inputHash h) rp) = Inr md"
    "wire_policy rp" "int64 (th_outputOrdinal h)" "d = Some td" "td_GetData td = Inr payload"
    "jobRecords (engine w') (th_jobKey h) = Some after" "jr_status after = Ready" "jr_capability after = th_resumeNeed h"
    "jr_leaseID after = []"
    by (rule handle_finished [OF assms(3) b(1,4,5)])
  let ?c = "task_chapter env' wait ty md payload stored"
  have at: "chapter_at r s (storyCounter s) = Some ?c"
    using f(1) assms(5-7) by (simp add: chapter_at_def GetChapter_cases split: option.splits)
  have body: "ch_Body ?c = Some (TaskAttemptOutcome (Some (ApplicationOutput payload)))" "ch_Metadata ?c = md"
    by (simp_all add: task_chapter_def clone_json_def)
  have wire: "ChapterOutcomeToWire (Some (ApplicationOutput payload)) = Inr (payloadKindApp, payload)"
    by (simp add: clone_json_def)
  obtain meta where meta: "workerMetaFromChapter ?c = Inr meta" "wm_InputHash meta = th_inputHash h"
    using task_chapter_meta [OF f(2,3,4) body(2)] assms(9) by blast
  have "\<exists>s'. DoTask (Suc fuel) r policy taskType input s =
      (s', case stored_answer r s ?c of Inl e \<Rightarrow> Fail e | Inr td \<Rightarrow> Done td)
    \<and> engine (world s') = engine (world s) \<and> storyCounter s' = storyCounter s + 1"
    using meta(2) assms(8,9)
    by (intro DoTask_stored [OF assms(4) at body(1) wire meta(1) _ _ assms(10)])
      (simp_all add: final_answer_def task_chapter_answer)
  then show ?thesis
    using b(1-3) f(5-10) assms(6) by (auto simp: task_chapter_answer EnvelopedTaskData_def)
qed

text \<open>A job that waits for the task \<^verbatim>\<open>u\<close>, and a client that looks for it.\<close>

definition waiting_engine :: ToyEngine where
  "waiting_engine = NewToyEngine\<lparr>
     jobRecords := [JobKey ''x'' ''j'' \<mapsto> occurrence_record\<lparr>jr_metadata := Text [], jr_capability := ''t:u'',
       jr_status := Ready, jr_payload := mustMarshalWorkerPayload \<lparr>wp_RunPolicy = zero_RunPolicy, wp_TaskWait =
         Some \<lparr>tw_InputStep = 0, tw_OutputStep = 1, tw_Next = ''t'', tw_InputHash = ''i''\<rparr>\<rparr>\<rparr>],
     runtimeChapters := [JobKey ''x'' ''j'' \<mapsto> [0 \<mapsto> sample_chapter 0 (JobStart (Json (JInt 1)))]]\<rparr>"

definition waiting_world :: World where "waiting_world = \<lparr>engine = waiting_engine, asked = 0\<rparr>"

definition find_tasks :: FindTasksWaitingRequest where
  "find_tasks = \<lparr>fw_JobType = ''t'', fw_TaskType = ''u'', fw_TenantIds = [''x''], fw_MetadataFilter = None, fw_Limit = 1\<rparr>"

definition found_task :: TaskHandle where
  "found_task = \<lparr>th_jobKey = JobKey ''x'' ''j'', th_metadata = Text [], th_createdAt = jr_createdAt occurrence_record,
     th_capability = ''t:u'', th_resumeNeed = ''t'', th_taskType = ''u'', th_inputOrdinal = 0, th_outputOrdinal = 1,
     th_inputHash = ''i''\<rparr>"

lemma task_is_found:
  "findWaitingTasks 1 (toy_engine_runtime sample_env sample_oracle [JobKey ''x'' ''j'']) find_tasks waiting_world =
     Some (Inr [found_task])"
  by code_simp

lemma task_is_finished:
  "snd (handle_Finish (toy_engine_runtime sample_env sample_oracle [JobKey ''x'' ''j'']) found_task
     (Some (SimpleTaskData (Json (JInt 7)) [])) waiting_world) = Inr ()"
  by code_simp

definition finished_world :: World where
  "finished_world = fst (handle_Finish (toy_engine_runtime sample_env sample_oracle [JobKey ''x'' ''j'']) found_task
     (Some (SimpleTaskData (Json (JInt 7)) [])) waiting_world)"

lemma finished_start:
  "Option.bind (runtimeChapters (engine finished_world) (JobKey ''x'' ''j'')) (\<lambda>m. m 0) =
     Some (sample_chapter 0 (JobStart (Json (JInt 1))))"
  by code_simp

theorem external_task_roundtrip_witness:
  "\<exists>s' out. DoTask 1 sample_replayer DefaultRunPolicy ''u'' sample_input (newWorkerRunner finished_world DefaultRunPolicy) =
      (s', Done (Some out)) \<and> td_GetData out = Inr (Json (JInt 7)) \<and> storyCounter s' = 2"
proof -
  let ?rt = "toy_engine_runtime sample_env sample_oracle [JobKey ''x'' ''j'']"
  let ?d = "Some (SimpleTaskData (Json (JInt 7)) [])"
  let ?s = "newWorkerRunner finished_world DefaultRunPolicy"
  have f: "handle_Finish ?rt found_task ?d waiting_world = (finished_world, Inr ())"
    using task_is_finished by (simp add: finished_world_def prod_eq_iff)
  have r: "wr_jobKey sample_replayer = th_jobKey found_task" "wr_env sample_replayer = sample_env"
    by (simp_all add: sample_replayer_def replay_runner_def found_task_def)
  have s: "engine (world ?s) = engine finished_world" "storyCounter ?s = th_outputOrdinal found_task"
    by (simp_all add: newWorkerRunner_def found_task_def)
  have read: "readable sample_replayer ?s 0"
    using finished_start r(1) s(1) by (simp add: readable_def chapter_at_def found_task_def sample_meta)
  have "\<exists>before after td out s'.
     jobRecords (engine waiting_world) (th_jobKey found_task) = Some before \<and> jr_status before = Ready \<and>
     jr_capability before = workerCapability (fw_JobType find_tasks) (fw_TaskType find_tasks) \<and>
     jobRecords (engine finished_world) (th_jobKey found_task) = Some after \<and> jr_status after = Ready \<and>
     jr_leaseID after = [] \<and> jr_capability after = th_resumeNeed found_task \<and>
     DoTask (Suc 0) sample_replayer DefaultRunPolicy ''u'' sample_input ?s = (s', Done (Some out)) \<and>
     ?d = Some td \<and> td_GetData out = td_GetData td \<and>
     engine (world s') = engine finished_world \<and> storyCounter s' = storyCounter ?s + 1"
    by (rule external_task_roundtrip [OF task_is_found _ f sample_on_toy r(1) s])
      (use read r(2) sample_input_hash in \<open>simp_all add: found_task_def newWorkerRunner_def\<close>)
  then show ?thesis by (auto simp: SimpleTaskData_def s(2)) (auto simp: found_task_def)
qed

end
