(* ===== verification/Job_View.thy ===== *)
theory Job_View
  imports Task_Find
begin

text \<open>
  The view of a job's run, \<^verbatim>\<open>pkg/jobdb/job_run_runtime.go\<close>, \<^verbatim>\<open>job_run_details.go\<close> and \<^verbatim>\<open>job_run_output.go\<close>:
  the chapters of the log grouped into the attempts of the job, the runs of its tasks and their attempts, with
  what the job does or waits for now, and the output of the job read from that view. A nil message is the one
  without bytes; the lease owner and expiry of a runtime state are left out, as the summaries of the toy
  runtime never have one. The reading of the clock is an argument.
\<close>

section \<open>The parts of the view\<close>

record ArtifactInfo =
  ai_Name :: string
  ai_SizeBytes :: int
  ai_Sha256 :: string
  ai_Key :: "ArtifactKey option"

record TaskIO =
  io_Data :: raw
  io_Artifacts :: "ArtifactInfo list"

record TaskError =
  te_Kind :: string
  te_Message :: string
  te_Level :: string
  te_Attrs :: "json gomap"
  te_Component :: string
  te_Code :: string
  te_Retryable :: "bool option"
  te_Scope :: string
  te_After :: "duration option"
  te_InputRef :: "InputReference option"
  te_Stacktrace :: "string list"

record TaskOutcome =
  oc_Status :: string
  oc_PayloadKind :: string
  oc_Error :: "TaskError option"

record TaskRuntime =
  tm_NextNeed :: "string option"
  tm_AvailableAt :: "go_time option"
  tm_WaitFor :: "string list"

record TaskAttempt =
  at_Ordinal :: int
  at_Attempt :: int
  at_WorkerID :: string
  at_CreatedAt :: go_time
  at_InputHash :: string
  at_InputRef :: "InputReference option"
  at_RunPolicy :: "RunPolicy option"
  at_Retryable :: "bool option"
  at_MaxAttempts :: "int option"
  at_NextAttemptAt :: "go_time option"
  at_BackoffMillis :: "int option"
  at_Input :: "TaskIO option"
  at_Output :: "TaskIO option"
  at_State :: string
  at_Runtime :: "TaskRuntime option"
  at_Outcome :: TaskOutcome

record TaskRun =
  tr_TaskRunID :: string
  tr_TaskType :: string
  tr_Attempts :: "TaskAttempt list"

record JobAttempt =
  ja_Ordinal :: int
  ja_Attempt :: int
  ja_WorkerID :: string
  ja_CreatedAt :: go_time
  ja_InputRef :: "InputReference option"
  ja_Output :: "TaskIO option"
  ja_Outcome :: TaskOutcome
  ja_Tasks :: "TaskRun list"

record RunStart =
  st_Ordinal :: int
  st_WorkerID :: string
  st_CreatedAt :: go_time
  st_Input :: "TaskIO option"

record JobRunSummary =
  rs_JobKey :: JobKey
  rs_JobType :: string
  rs_Status :: JobStatus
  rs_CreatedAt :: go_time
  rs_ArchivedAt :: "go_time option"
  rs_Metadata :: raw

record GetJobRunResponse =
  gj_Job :: JobRunSummary
  gj_Start :: RunStart
  gj_Attempts :: "JobAttempt list"

record GetJobRunRequest =
  rq_JobKey :: JobKey
  rq_IncludeInputs :: bool
  rq_IncludeOutputs :: bool
  rq_IncludeArtifacts :: bool
  rq_IncludeAttemptInputs :: bool

definition no_outcome :: TaskOutcome where
  "no_outcome = \<lparr>oc_Status = [], oc_PayloadKind = [], oc_Error = None\<rparr>"

definition no_error :: TaskError where
  "no_error =
     \<lparr>te_Kind = [], te_Message = [], te_Level = [], te_Attrs = [], te_Component = [], te_Code = [], te_Retryable = None,
      te_Scope = [], te_After = None, te_InputRef = None, te_Stacktrace = []\<rparr>"

definition no_start :: RunStart where
  "no_start = \<lparr>st_Ordinal = 0, st_WorkerID = [], st_CreatedAt = 0, st_Input = None\<rparr>"

text \<open>\<^verbatim>\<open>intPtr\<close> and \<^verbatim>\<open>int64Ptr\<close>, \<^verbatim>\<open>timePtr\<close>, \<^verbatim>\<open>strPtr\<close>.\<close>

definition int_ptr :: "int \<Rightarrow> int option" where "int_ptr n = (if n \<le> 0 then None else Some n)"
definition time_ptr :: "go_time \<Rightarrow> go_time option" where "time_ptr t = (if t = 0 then None else Some t)"
definition str_ptr :: "string \<Rightarrow> string option" where "str_ptr s = (if s = [] then None else Some s)"

definition normalizeGetJobRunOptions :: "GetJobRunRequest \<Rightarrow> GetJobRunRequest" where
  "normalizeGetJobRunOptions req =
     (if \<not> rq_IncludeInputs req \<and> \<not> rq_IncludeOutputs req \<and> \<not> rq_IncludeArtifacts req \<and> \<not> rq_IncludeAttemptInputs req
      then req\<lparr>rq_IncludeInputs := True, rq_IncludeOutputs := True, rq_IncludeArtifacts := True\<rparr> else req)"

section \<open>One chapter\<close>

definition buildStoredArtifactInfos :: "JobKey \<Rightarrow> Chapter \<Rightarrow> ArtifactInfo list" where
  "buildStoredArtifactInfos key c =
     map (\<lambda>a. \<lparr>ai_Name = sa_Name a, ai_SizeBytes = sa_Size a, ai_Sha256 = sa_Digest a,
            ai_Key = Some \<lparr>ak_JobId = JobId key, ak_TaskOrdinal = ch_Ordinal c, ak_Name = sa_Name a,
              ak_SizeBytes = sa_Size a\<rparr>\<rparr>) (ch_Artifacts c)"

definition buildStoredTaskIO :: "JobKey \<Rightarrow> Chapter \<Rightarrow> bool \<Rightarrow> bool \<Rightarrow> TaskIO option res" where
  "buildStoredTaskIO key c includeData includeArtifacts =
     (if \<not> includeData \<and> \<not> includeArtifacts then Inr None
      else
     (case (if includeData then map_sum id snd (ChapterPayload c) else Inr (Text [])) of
        Inl e \<Rightarrow> Inl e
      | Inr d \<Rightarrow>
          (let infos = (if includeArtifacts then buildStoredArtifactInfos key c else [])
           in Inr (if raw_len0 d \<and> infos = [] then None else Some \<lparr>io_Data = clone_json d, io_Artifacts = infos\<rparr>))))"

definition resolveStoredInputRef ::
  "JobKey \<Rightarrow> (int \<rightharpoonup> Chapter) \<Rightarrow> InputReference option \<Rightarrow> bool \<Rightarrow> TaskIO option res" where
  "resolveStoredInputRef key chapters ref includeArtifacts =
     (case ref of
        None \<Rightarrow> Inr None
      | Some r \<Rightarrow>
          (case chapters (ref_Ordinal r) of
             None \<Rightarrow> Inl (Sentinel ErrChapterNotFound)
           | Some c \<Rightarrow> buildStoredTaskIO key c True includeArtifacts))"

definition app_task_error :: "AppErrorPayload \<Rightarrow> TaskError" where
  "app_task_error p =
     no_error\<lparr>te_Kind := ''APP'', te_Message := app_Message p, te_Level := app_Level p, te_Attrs := app_Attrs p,
       te_InputRef := app_InputRef p, te_Stacktrace := app_Stacktrace p\<rparr>"

definition system_task_error :: "SystemErrorPayload \<Rightarrow> TaskError" where
  "system_task_error p =
     no_error\<lparr>te_Kind := ''SYSTEM'', te_Message := sys_Message p, te_Component := sys_Component p, te_Code := sys_Code p,
       te_Retryable := Some (sys_Retryable p), te_InputRef := sys_InputRef p, te_Stacktrace := sys_Stacktrace p\<rparr>"

definition timeout_task_error :: "TimeoutPayload \<Rightarrow> TaskError" where
  "timeout_task_error p =
     no_error\<lparr>te_Kind := ''TIMEOUT'', te_Message := to_Message p, te_Component := to_Component p, te_Code := to_Code p,
       te_Retryable := Some (to_Retryable p), te_Scope := to_Scope p, te_After := Some (to_After p),
       te_InputRef := to_InputRef p\<rparr>"

definition failed_outcome_of :: "string \<Rightarrow> TaskError option \<Rightarrow> TaskOutcome res" where
  "failed_outcome_of kind e =
     (case e of
        None \<Rightarrow> Inl unmarshal_error
      | Some e \<Rightarrow> Inr \<lparr>oc_Status = ''FAILED'', oc_PayloadKind = kind, oc_Error = Some e\<rparr>)"

definition outcomeFromChapter :: "Chapter \<Rightarrow> TaskOutcome res" where
  "outcomeFromChapter c =
     (case ChapterPayload c of
        Inl e \<Rightarrow> Inl e
      | Inr (kind, d) \<Rightarrow>
          if kind = payloadKindApp then Inr \<lparr>oc_Status = ''SUCCEEDED'', oc_PayloadKind = kind, oc_Error = None\<rparr>
          else if kind = payloadKindAppError
          then failed_outcome_of kind (map_option app_task_error (dec_AppErrorPayload d))
          else if kind = payloadKindSystemError
          then failed_outcome_of kind (map_option system_task_error (dec_SystemErrorPayload d))
          else if kind = payloadKindTimeout
          then failed_outcome_of kind (map_option timeout_task_error (dec_TimeoutPayload d))
          else failed_outcome_of kind
            (Some (no_error\<lparr>te_Kind := ''SYSTEM'', te_Message := ''unsupported payload kind'', te_Code := ''unknown_payload_kind''\<rparr>)))"

definition stored_input ::
  "JobKey \<Rightarrow> workerMeta \<Rightarrow> (int \<rightharpoonup> Chapter) \<Rightarrow> GetJobRunRequest \<Rightarrow> TaskIO option res" where
  "stored_input key meta chapters opts =
     (if \<not> rq_IncludeInputs opts then Inr None
      else if rq_IncludeAttemptInputs opts \<and> wm_InputRef meta \<noteq> None
      then resolveStoredInputRef key chapters (wm_InputRef meta) (rq_IncludeArtifacts opts)
      else if \<not> raw_len0 (wm_Input meta) then Inr (Some \<lparr>io_Data = wm_Input meta, io_Artifacts = []\<rparr>)
      else Inr None)"

definition buildStoredTaskAttempt ::
  "JobKey \<Rightarrow> Chapter \<Rightarrow> workerMeta \<Rightarrow> (int \<rightharpoonup> Chapter) \<Rightarrow> GetJobRunRequest \<Rightarrow> bool \<Rightarrow> TaskAttempt res" where
  "buildStoredTaskAttempt key c meta chapters opts includeOutputs =
     (case buildStoredTaskIO key c includeOutputs (rq_IncludeArtifacts opts) of
        Inl e \<Rightarrow> Inl e
      | Inr output \<Rightarrow>
     (case stored_input key meta chapters opts of
        Inl e \<Rightarrow> Inl e
      | Inr input \<Rightarrow>
     (case outcomeFromChapter c of
        Inl e \<Rightarrow> Inl e
      | Inr outcome \<Rightarrow>
          Inr \<lparr>at_Ordinal = ch_Ordinal c, at_Attempt = (if wm_Attempt meta \<le> 0 then 1 else wm_Attempt meta),
               at_WorkerID = wm_WorkerID meta, at_CreatedAt = wm_CreatedAt meta, at_InputHash = wm_InputHash meta,
               at_InputRef = wm_InputRef meta, at_RunPolicy = wm_RunPolicy meta, at_Retryable = wm_Retryable meta,
               at_MaxAttempts = int_ptr (wm_MaxAttempts meta), at_NextAttemptAt = wm_NextAttemptAt meta,
               at_BackoffMillis = int_ptr (wm_BackoffMillis meta), at_Input = input,
               at_Output = (if includeOutputs then output else None),
               at_State = (if oc_Status outcome = [] then ''SUCCEEDED'' else oc_Status outcome),
               at_Runtime = None, at_Outcome = outcome\<rparr>)))"

section \<open>The loop over the chapters\<close>

text \<open>
  The variables of the loop. The map from attempt numbers to positions is left out: the attempt with a number
  is the one in the list that carries it. \<open>vw_run\<close> is the position of the current run of a task, if any.
\<close>

record view =
  vw_jobType :: string
  vw_respJobType :: string
  vw_policy :: RetryPolicy
  vw_startSet :: bool
  vw_start :: RunStart
  vw_startRef :: "InputReference option"
  vw_attempts :: "JobAttempt list"
  vw_active :: int
  vw_current :: int
  vw_run :: "nat option"
  vw_lastOrdinal :: int
  vw_lastDone :: int
  vw_lastOutcome :: TaskOutcome

definition start_view :: "JobSummary \<Rightarrow> view" where
  "start_view job =
     \<lparr>vw_jobType = js_JobType job, vw_respJobType = js_JobType job, vw_policy = Retry (normalizeRunPolicy zero_RunPolicy),
      vw_startSet = False, vw_start = no_start, vw_startRef = None, vw_attempts = [], vw_active = 1, vw_current = 0,
      vw_run = None, vw_lastOrdinal = -1, vw_lastDone = 0, vw_lastOutcome = no_outcome\<rparr>"

definition ensureAttempt :: "int \<Rightarrow> view \<Rightarrow> view" where
  "ensureAttempt num v =
     (let num = (if num \<le> 0 then 1 else num); first = (num = 1 \<and> vw_startSet v) in
      if num \<in> ja_Attempt ` set (vw_attempts v) then v
      else v\<lparr>vw_attempts := vw_attempts v @
        [\<lparr>ja_Ordinal = 0, ja_Attempt = num, ja_WorkerID = (if first then st_WorkerID (vw_start v) else []),
          ja_CreatedAt = (if first then st_CreatedAt (vw_start v) else 0), ja_InputRef = vw_startRef v,
          ja_Output = None, ja_Outcome = no_outcome, ja_Tasks = []\<rparr>]\<rparr>)"

text \<open>A change of the attempt with a number.\<close>

definition at_attempt :: "int \<Rightarrow> (JobAttempt \<Rightarrow> JobAttempt) \<Rightarrow> view \<Rightarrow> view" where
  "at_attempt num f v = v\<lparr>vw_attempts := map (\<lambda>a. if ja_Attempt a = num then f a else a) (vw_attempts v)\<rparr>"

definition attempt_tasks :: "int \<Rightarrow> view \<Rightarrow> TaskRun list" where
  "attempt_tasks num v = (case List.find (\<lambda>a. ja_Attempt a = num) (vw_attempts v) of None \<Rightarrow> [] | Some a \<Rightarrow> ja_Tasks a)"

definition runPolicyFromJobSummary :: "JobSummary \<Rightarrow> RunPolicy option" where
  "runPolicyFromJobSummary job =
     (if raw_len0 (js_Payload job) then None else map_option wp_RunPolicy (dec_workerJobPayload (js_Payload job)))"

definition not_deterministic :: "string \<Rightarrow> go_error" where
  "not_deterministic m = Wrap m (Sentinel ErrWorkflowNotDeterministic)"

definition view_start_chapter :: "GetJobRunRequest \<Rightarrow> JobSummary \<Rightarrow> Chapter \<Rightarrow> workerMeta \<Rightarrow> view \<Rightarrow> view res" where
  "view_start_chapter opts job c meta v =
     (if \<not> ChapterIs c ChapterTypeJobStart then Inl (not_deterministic ''unexpected chapter type at ordinal 0'')
      else
        (let jobType = (if wm_TaskType meta \<noteq> [] then wm_TaskType meta else vw_jobType v) in
         case buildStoredTaskIO (rq_JobKey opts) c (rq_IncludeInputs opts) (rq_IncludeArtifacts opts) of
           Inl e \<Rightarrow> Inl e
         | Inr input \<Rightarrow>
             Inr (ensureAttempt 1
               (v\<lparr>vw_jobType := jobType, vw_respJobType := jobType,
                  vw_startRef := Some \<lparr>ref_Ordinal = 0, ref_Hash = wm_InputHash meta\<rparr>,
                  vw_start := \<lparr>st_Ordinal = ch_Ordinal c, st_WorkerID = wm_WorkerID meta,
                    st_CreatedAt = wm_CreatedAt meta, st_Input = (if rq_IncludeInputs opts then input else None)\<rparr>,
                  vw_policy := (case wm_RunPolicy meta of
                      Some p \<Rightarrow> Retry (normalizeRunPolicy p)
                    | None \<Rightarrow> (case runPolicyFromJobSummary job of
                        Some p \<Rightarrow> Retry (normalizeRunPolicy p) | None \<Rightarrow> vw_policy v)),
                  vw_startSet := True\<rparr>))))"

definition job_outcome_view :: "TaskAttempt \<Rightarrow> view \<Rightarrow> view" where
  "job_outcome_view a v =
     (let num = (if at_Attempt a \<le> 0 then 1 else at_Attempt a) in
      (at_attempt num
        (\<lambda>j. j\<lparr>ja_Ordinal := at_Ordinal a, ja_WorkerID := at_WorkerID a, ja_CreatedAt := at_CreatedAt a,
               ja_InputRef := at_InputRef a, ja_Output := at_Output a, ja_Outcome := at_Outcome a\<rparr>)
        (ensureAttempt num v))
        \<lparr>vw_active := num + 1, vw_lastDone := num, vw_lastOutcome := at_Outcome a, vw_current := 0, vw_run := None\<rparr>)"

definition open_run :: "string \<Rightarrow> int \<Rightarrow> TaskRun" where
  "open_run taskType ordinal = \<lparr>tr_TaskRunID = taskType @ '':'' @ itoa ordinal, tr_TaskType = taskType, tr_Attempts = []\<rparr>"

definition add_to_run :: "TaskAttempt \<Rightarrow> TaskRun \<Rightarrow> TaskRun" where
  "add_to_run a t = t\<lparr>tr_Attempts := tr_Attempts t @ [a]\<rparr>"

definition task_view :: "string \<Rightarrow> TaskAttempt \<Rightarrow> view \<Rightarrow> view" where
  "task_view taskType a v =
     (let num = vw_active v;
          v = ensureAttempt num v;
          v = (if vw_current v \<noteq> num then v\<lparr>vw_current := num, vw_run := None\<rparr> else v);
          tasks = attempt_tasks num v;
          opened = (case vw_run v of
              None \<Rightarrow> tasks @ [open_run taskType (at_Ordinal a)]
            | Some i \<Rightarrow> if at_Attempt a \<le> 1 \<or> tr_TaskType (tasks ! i) \<noteq> taskType
                then tasks @ [open_run taskType (at_Ordinal a)] else tasks);
          i = (case vw_run v of
              None \<Rightarrow> length tasks
            | Some i \<Rightarrow> if at_Attempt a \<le> 1 \<or> tr_TaskType (tasks ! i) \<noteq> taskType then length tasks else i)
      in (at_attempt num (\<lambda>j. j\<lparr>ja_Tasks := opened[i := add_to_run a (opened ! i)]\<rparr>) v)\<lparr>vw_run := Some i\<rparr>)"

definition view_chapter :: "GetJobRunRequest \<Rightarrow> JobSummary \<Rightarrow> (int \<rightharpoonup> Chapter) \<Rightarrow> Chapter \<Rightarrow> view \<Rightarrow> view res" where
  "view_chapter opts job chapters c v =
     (let v = v\<lparr>vw_lastOrdinal := max (vw_lastOrdinal v) (ch_Ordinal c)\<rparr> in
      case workerMetaFromChapter c of
        Inl e \<Rightarrow> Inl (not_deterministic ''decode chapter metadata'')
      | Inr meta \<Rightarrow>
          if ch_Ordinal c = 0 \<and> \<not> vw_startSet v then view_start_chapter opts job c meta v
          else
            (let isJob = ChapterIs c ChapterTypeJobAttemptOutcome in
             case buildStoredTaskAttempt (rq_JobKey opts) c meta chapters opts (rq_IncludeOutputs opts \<or> isJob) of
               Inl e \<Rightarrow> Inl e
             | Inr a \<Rightarrow>
                 if isJob then Inr (job_outcome_view a v)
                 else if \<not> ChapterIs c ChapterTypeTaskAttemptOutcome \<and> \<not> ChapterIs c ChapterTypeRestartExtra
                 then Inl (not_deterministic ''unexpected chapter type'')
                 else Inr (task_view (wm_TaskType meta) a v)))"

fun view_chapters ::
  "GetJobRunRequest \<Rightarrow> JobSummary \<Rightarrow> (int \<rightharpoonup> Chapter) \<Rightarrow> Chapter list \<Rightarrow> view \<Rightarrow> view res" where
  "view_chapters opts job chapters [] v = Inr v"
| "view_chapters opts job chapters (c # cs) v =
     (case view_chapter opts job chapters c v of Inl e \<Rightarrow> Inl e | Inr v' \<Rightarrow> view_chapters opts job chapters cs v')"

section \<open>What the job does now\<close>

definition shouldSynthesizeNextAttempt :: "int \<Rightarrow> TaskOutcome \<Rightarrow> RetryPolicy \<Rightarrow> bool" where
  "shouldSynthesizeNextAttempt lastAttempt outcome policy =
     (if lastAttempt \<le> 0 \<or> oc_Status outcome \<noteq> ''FAILED'' then False
      else
        (let policy = (if MaximumAttempts policy \<le> 0 then normalizeRetryPolicy policy else policy) in
         if MaximumAttempts policy \<le> lastAttempt then False
         else
           (case oc_Error outcome of
              None \<Rightarrow> True
            | Some e \<Rightarrow>
                if te_Kind e = ''TIMEOUT'' then te_Retryable e = Some True
                else if te_Kind e = ''SYSTEM'' then te_Retryable e \<noteq> Some False
                else True)))"

definition currentNeedFromJobSummary :: "JobSummary \<Rightarrow> string" where
  "currentNeedFromJobSummary job = (if js_NextNeed job \<noteq> [] then js_NextNeed job else js_JobType job)"

definition runtimeStateFromJobSummary :: "go_time \<Rightarrow> JobSummary \<Rightarrow> string \<Rightarrow> string \<times> TaskRuntime option" where
  "runtimeStateFromJobSummary t job need =
     (if need = [] then ([], None)
      else
        (let runtime = \<lparr>tm_NextNeed = str_ptr need, tm_AvailableAt = time_ptr (js_AvailableAt job), tm_WaitFor = js_WaitFor job\<rparr>
         in case js_Status job of
              Ready \<Rightarrow> (if js_AvailableAt job \<le> t then ''READY'' else ''WAITING'', Some runtime)
            | Active \<Rightarrow> (''LEASED'', Some runtime)
            | AwaitingFuture \<Rightarrow> (''WAITING'', Some runtime)
            | PendingJobs \<Rightarrow> (''WAITING'', Some runtime)
            | _ \<Rightarrow> ([], None)))"

definition runtime_attempt :: "int \<Rightarrow> InputReference option \<Rightarrow> TaskIO option \<Rightarrow> string \<Rightarrow> TaskRuntime option \<Rightarrow> TaskAttempt" where
  "runtime_attempt ordinal ref input state rt =
     \<lparr>at_Ordinal = ordinal, at_Attempt = 1, at_WorkerID = [], at_CreatedAt = 0, at_InputHash = [], at_InputRef = ref,
      at_RunPolicy = None, at_Retryable = None, at_MaxAttempts = None, at_NextAttemptAt = None, at_BackoffMillis = None,
      at_Input = input, at_Output = None, at_State = state, at_Runtime = rt, at_Outcome = no_outcome\<rparr>"

definition buildRuntimeTaskRunFromSummary ::
  "go_time \<Rightarrow> JobSummary \<Rightarrow> int \<Rightarrow> (int \<rightharpoonup> Chapter) \<Rightarrow> GetJobRunRequest \<Rightarrow> TaskRun option res" where
  "buildRuntimeTaskRunFromSummary t job lastOrdinal chapters opts =
     (let need = currentNeedFromJobSummary job in
      if need = [] then Inr None
      else
     (case runtimeStateFromJobSummary t job need of
        (state, rt) \<Rightarrow>
          if state = [] then Inr None
          else
            (let ordinal = (if lastOrdinal + 1 < 0 then 0 else lastOrdinal + 1);
                 ref = (if 0 \<le> lastOrdinal then Some \<lparr>ref_Ordinal = lastOrdinal, ref_Hash = []\<rparr> else None)
             in case (if rq_IncludeInputs opts \<and> rq_IncludeAttemptInputs opts \<and> ref \<noteq> None
                      then resolveStoredInputRef (js_JobKey job) chapters ref (rq_IncludeArtifacts opts) else Inr None) of
                  Inl e \<Rightarrow> Inl e
                | Inr input \<Rightarrow>
                    Inr (Some \<lparr>tr_TaskRunID = need @ '':'' @ itoa ordinal, tr_TaskType = need,
                      tr_Attempts = [runtime_attempt ordinal ref input state rt]\<rparr>))))"

definition later_attempt :: "JobAttempt \<Rightarrow> JobAttempt \<Rightarrow> bool" where
  "later_attempt a b \<longleftrightarrow> ja_Attempt b < ja_Attempt a \<or> (ja_Attempt a = ja_Attempt b \<and> ja_Ordinal b < ja_Ordinal a)"

fun latest_of :: "JobAttempt \<Rightarrow> JobAttempt list \<Rightarrow> JobAttempt" where
  "latest_of best [] = best"
| "latest_of best (a # as) = latest_of (if later_attempt a best then a else best) as"

definition latestJobAttempt :: "JobAttempt list \<Rightarrow> JobAttempt" where
  "latestJobAttempt as = latest_of (hd as) (tl as)"

definition current_attempt :: "JobSummary \<Rightarrow> view \<Rightarrow> int" where
  "current_attempt job v =
     (if js_ArchivedAt job = None \<and> js_Status job \<noteq> Cancelled
      then
        (if vw_lastDone v = 0 then 1
         else if shouldSynthesizeNextAttempt (vw_lastDone v) (vw_lastOutcome v) (vw_policy v) then vw_lastDone v + 1
         else 0)
      else 0)"

definition add_runtime_run :: "int \<Rightarrow> TaskRun option \<Rightarrow> view \<Rightarrow> view" where
  "add_runtime_run num run v =
     (case run of
        None \<Rightarrow> v
      | Some t \<Rightarrow>
          if 0 < num then at_attempt num (\<lambda>j. j\<lparr>ja_Tasks := ja_Tasks j @ [t]\<rparr>) (ensureAttempt num v) else v)"

text \<open>Without \<^verbatim>\<open>IncludeOutputs\<close>, only the latest attempt keeps its output.\<close>

definition drop_outputs :: "JobAttempt list \<Rightarrow> JobAttempt list" where
  "drop_outputs as =
     (if as = [] then []
      else
        (let latest = latestJobAttempt as in
         map (\<lambda>a. if ja_Attempt a \<noteq> ja_Attempt latest \<or> ja_Ordinal a \<noteq> ja_Ordinal latest
                  then a\<lparr>ja_Output := None\<rparr> else a) as))"

definition view_response :: "GetJobRunRequest \<Rightarrow> JobSummary \<Rightarrow> view \<Rightarrow> GetJobRunResponse" where
  "view_response opts job v =
     \<lparr>gj_Job = \<lparr>rs_JobKey = rq_JobKey opts,
        rs_JobType = (if vw_respJobType v = [] then vw_jobType v else vw_respJobType v), rs_Status = js_Status job,
        rs_CreatedAt = js_CreatedAt job, rs_ArchivedAt = js_ArchivedAt job, rs_Metadata = js_Metadata job\<rparr>,
      gj_Start = vw_start v,
      gj_Attempts = (if rq_IncludeOutputs opts then vw_attempts v else drop_outputs (vw_attempts v))\<rparr>"

definition finish_view ::
  "go_time \<Rightarrow> GetJobRunRequest \<Rightarrow> JobSummary \<Rightarrow> (int \<rightharpoonup> Chapter) \<Rightarrow> view \<Rightarrow> GetJobRunResponse res" where
  "finish_view t opts job chapters v =
     (let num = current_attempt job v; v = (if 0 < num then ensureAttempt num v else v) in
      if js_ArchivedAt job \<noteq> None then Inr (view_response opts job v)
      else
        (case buildRuntimeTaskRunFromSummary t job (vw_lastOrdinal v) chapters opts of
           Inl e \<Rightarrow> Inl e
         | Inr run \<Rightarrow> Inr (view_response opts job (add_runtime_run num run v))))"

definition view_of :: "go_time \<Rightarrow> GetJobRunRequest \<Rightarrow> JobSummary \<Rightarrow> Chapter list \<Rightarrow> GetJobRunResponse res" where
  "view_of t opts job chapters =
     (let sorted = sort_slice (\<lambda>a b. ch_Ordinal a < ch_Ordinal b) chapters;
          byOrdinal = map_of (rev (map (\<lambda>c. (ch_Ordinal c, c)) sorted))
      in case view_chapters opts job byOrdinal sorted (start_view job) of
           Inl e \<Rightarrow> Inl e
         | Inr v \<Rightarrow> finish_view t opts job byOrdinal v)"

section \<open>The view of a job of a runtime\<close>

record 'w ViewRuntime = "'w EngineRuntime" +
  vr_ListChapters :: "JobKey \<Rightarrow> 'w \<Rightarrow> Chapter list res"

definition summary_page :: "JobKey \<Rightarrow> PageToken \<Rightarrow> ListJobsRequest" where
  "summary_page key tok =
     \<lparr>lj_TenantIds = [TenantId key], lj_Statuses = [], lj_Stores = [], lj_JobTypes = [], lj_JobTasks = [],
      lj_JobKeys = [key], lj_ParentJobIDs = [], lj_RootOnly = False, lj_MetadataFilter = None,
      lj_CreatedAfter = None, lj_CreatedBefore = None, lj_PageSize = MaxListJobsPageSize, lj_PageToken = tok\<rparr>"

text \<open>The loop over the pages of the listing, at most \<open>n\<close> of them; \<^term>\<open>None\<close> when there are more.\<close>

fun loadJobSummary :: "nat \<Rightarrow> 'w ViewRuntime \<Rightarrow> JobKey \<Rightarrow> PageToken \<Rightarrow> 'w \<Rightarrow> JobSummary res option" where
  "loadJobSummary 0 rt key tok w = None"
| "loadJobSummary (Suc n) rt key tok w =
     (case er_ListJobs rt (summary_page key tok) w of
        Inl e \<Rightarrow> Some (Inl e)
      | Inr (jobs, nxt) \<Rightarrow>
          (case List.find (\<lambda>j. js_JobKey j = key) jobs of
             Some j \<Rightarrow> Some (Inr j)
           | None \<Rightarrow> if nxt = NoToken then Some (Inl (Sentinel ErrJobNotFound)) else loadJobSummary n rt key nxt w))"

definition GetJobRun ::
  "nat \<Rightarrow> go_time \<Rightarrow> 'w ViewRuntime \<Rightarrow> GetJobRunRequest \<Rightarrow> 'w \<Rightarrow> GetJobRunResponse res option" where
  "GetJobRun n t rt req w =
     (case JobKey_Validate (rq_JobKey req) of
        Inl e \<Rightarrow> Some (Inl e)
      | Inr _ \<Rightarrow>
     (case loadJobSummary n rt (rq_JobKey req) NoToken w of
        None \<Rightarrow> None
      | Some (Inl e) \<Rightarrow> Some (Inl e)
      | Some (Inr job) \<Rightarrow>
     (case vr_ListChapters rt (rq_JobKey req) w of
        Inl e \<Rightarrow> Some (Inl e)
      | Inr chapters \<Rightarrow> Some (view_of t (normalizeGetJobRunOptions req) job chapters))))"

text \<open>The toy runtime; \<open>visit\<close> is the order of its iteration over the chapters of a job.\<close>

definition toy_view_runtime :: "Env \<Rightarrow> Oracle \<Rightarrow> JobKey list \<Rightarrow> (JobKey \<Rightarrow> int list) \<Rightarrow> World ViewRuntime" where
  "toy_view_runtime env orc order visit =
     EngineRuntime.extend (toy_engine_runtime env orc order)
       \<lparr>vr_ListChapters = (\<lambda>k w. ListChapters (visit k) (engine w) k 0 None)\<rparr>"

section \<open>The output of the job\<close>

definition taskErrorToError :: "TaskError \<Rightarrow> string \<Rightarrow> go_error" where
  "taskErrorToError e kind =
     (let sys = SystemError \<lparr>sys_Message = te_Message e, sys_Component = te_Component e, sys_Code = te_Code e,
            sys_Retryable = (te_Retryable e = Some True), sys_InputRef = te_InputRef e, sys_Stacktrace = te_Stacktrace e\<rparr>
      in if te_Kind e = ''TIMEOUT''
         then TimeoutError \<lparr>to_Scope = te_Scope e, to_After = (case te_After e of None \<Rightarrow> 0 | Some d \<Rightarrow> d),
                to_Retryable = (te_Retryable e = Some True), to_InputRef = te_InputRef e, to_Kind = [],
                to_Component = te_Component e, to_Code = te_Code e, to_Message = te_Message e\<rparr>
         else if te_Kind e = ''SYSTEM'' then sys
         else if te_Level e = [] \<and> kind = payloadKindSystemError then sys
         else AppError \<lparr>app_Message = te_Message e, app_Level = te_Level e, app_Attrs = te_Attrs e,
                app_InputRef = te_InputRef e, app_Stacktrace = te_Stacktrace e\<rparr>)"

definition jobFailedErrorFromOutcome :: "TaskOutcome \<Rightarrow> go_error" where
  "jobFailedErrorFromOutcome oc = JobFailed (map_option (\<lambda>e. taskErrorToError e (oc_PayloadKind oc)) (oc_Error oc))"

text \<open>A lazy artifact fetches itself when it is opened.\<close>

definition ToLazyArtifact :: "(string \<Rightarrow> ArtifactKey \<Rightarrow> Artifact res) \<Rightarrow> string \<Rightarrow> ArtifactKey \<Rightarrow> Artifact" where
  "ToLazyArtifact getter tenantId key =
     \<lparr>art_Name = ak_Name key, art_Size = ak_SizeBytes key,
      art_Content =
        (if tenantId = [] then Inl (Errorf ''tenantId is required'')
         else
           (case ArtifactKey_Validate key of
              Some m \<Rightarrow> Inl (Errorf m)
            | None \<Rightarrow> (case getter tenantId key of Inl e \<Rightarrow> Inl e | Inr a \<Rightarrow> art_Content a))),
      art_Digest = None\<rparr>"

fun artifactsFromInfos ::
  "(string \<Rightarrow> ArtifactKey \<Rightarrow> Artifact res) \<Rightarrow> string \<Rightarrow> JobKey \<Rightarrow> int \<Rightarrow> ArtifactInfo list \<Rightarrow> Artifact list res" where
  "artifactsFromInfos getter tenantId jobKey ordinal [] = Inr []"
| "artifactsFromInfos getter tenantId jobKey ordinal (i # is) =
     (let key = (case ai_Key i of
            Some k \<Rightarrow> k
          | None \<Rightarrow> \<lparr>ak_JobId = JobId jobKey, ak_TaskOrdinal = ordinal, ak_Name = ai_Name i, ak_SizeBytes = ai_SizeBytes i\<rparr>)
      in case ArtifactKey_Validate key of
           Some m \<Rightarrow> Inl (Wrap ''invalid artifact key'' (Sentinel ErrJobFailed))
         | None \<Rightarrow>
             (case artifactsFromInfos getter tenantId jobKey ordinal is of
                Inl e \<Rightarrow> Inl e | Inr as \<Rightarrow> Inr (ToLazyArtifact getter tenantId key # as)))"

definition missing_output :: go_error where
  "missing_output = JobFailed (Some (AppError \<lparr>app_Message = ''missing output'', app_Level = ''error'', app_Attrs = [],
     app_InputRef = None, app_Stacktrace = []\<rparr>))"

definition GetOutput :: "(string \<Rightarrow> ArtifactKey \<Rightarrow> Artifact res) \<Rightarrow> string \<Rightarrow> GetJobRunResponse \<Rightarrow> TaskData res" where
  "GetOutput getter tenantId r =
     (if rs_Status (gj_Job r) = Cancelled then Inl (Sentinel ErrJobCancelled)
      else if rs_Status (gj_Job r) \<noteq> Completed then Inl (Sentinel ErrJobNotComplete)
      else if gj_Attempts r = [] then Inl (Sentinel ErrJobNotComplete)
      else
        (let latest = latestJobAttempt (gj_Attempts r) in
         if oc_Status (ja_Outcome latest) = ''FAILED'' \<or> oc_Error (ja_Outcome latest) \<noteq> None
         then Inl (jobFailedErrorFromOutcome (ja_Outcome latest))
         else
           (case ja_Output latest of
              None \<Rightarrow> Inl missing_output
            | Some io \<Rightarrow>
                (case artifactsFromInfos getter tenantId (rs_JobKey (gj_Job r)) (ja_Ordinal latest) (io_Artifacts io) of
                   Inl e \<Rightarrow> Inl e
                 | Inr as \<Rightarrow> Inr (SimpleTaskData (io_Data io) as)))))"

end
