(* ===== verification/Job_View_Props.thy ===== *)
theory Job_View_Props
  imports Job_View Engine_Steps "HOL-Library.Multiset"
begin

text \<open>
  What one step of the view of a run adds, and the invariant of its loop over the chapters: the attempts of the
  job have different numbers, and the current run of a task is one of the active attempt.
\<close>

section \<open>Attempts\<close>

definition find_attempt :: "int \<Rightarrow> view \<Rightarrow> JobAttempt option" where
  "find_attempt num v = List.find (\<lambda>a. ja_Attempt a = num) (vw_attempts v)"

definition attempt_of_tasks :: "JobAttempt list \<Rightarrow> TaskAttempt list" where
  "attempt_of_tasks as = concat (map (\<lambda>j. concat (map tr_Attempts (ja_Tasks j))) as)"

definition numbers_ok :: "view \<Rightarrow> bool" where
  "numbers_ok v \<longleftrightarrow> distinct (map ja_Attempt (vw_attempts v))"

text \<open>The position of the current run is one of the active attempt.\<close>

definition view_ok :: "view \<Rightarrow> bool" where
  "view_ok v \<longleftrightarrow> numbers_ok v \<and> 1 \<le> vw_active v \<and>
     (\<forall>i. vw_run v = Some i \<longrightarrow> vw_current v = vw_active v \<and> i < length (attempt_tasks (vw_active v) v))"

lemma attempt_tasks_find: "attempt_tasks num v = (case find_attempt num v of None \<Rightarrow> [] | Some a \<Rightarrow> ja_Tasks a)"
  by (simp add: attempt_tasks_def find_attempt_def)

lemma find_change:
  "(\<And>a. ja_Attempt (f a) = ja_Attempt a) \<Longrightarrow>
   List.find (\<lambda>a. ja_Attempt a = n) (map (\<lambda>a. if ja_Attempt a = num then f a else a) as) =
     (if n = num then map_option f (List.find (\<lambda>a. ja_Attempt a = n) as) else List.find (\<lambda>a. ja_Attempt a = n) as)"
  by (induction as) auto

lemma find_append: "List.find p (as @ bs) = (case List.find p as of None \<Rightarrow> List.find p bs | Some a \<Rightarrow> Some a)"
  by (induction as) auto

lemma find_number: "List.find (\<lambda>a. ja_Attempt a = n) as = Some j \<Longrightarrow> ja_Attempt j = n \<and> j \<in> set as"
  by (induction as) (auto split: if_splits)

lemma find_none: "List.find (\<lambda>a. ja_Attempt a = n) as = None \<longleftrightarrow> n \<notin> ja_Attempt ` set as"
  by (induction as) auto

lemma find_at_attempt:
  assumes "\<And>a. ja_Attempt (f a) = ja_Attempt a"
  shows "find_attempt n (at_attempt num f v) =
    (if n = num then map_option f (find_attempt n v) else find_attempt n v)"
  using assms by (simp add: find_attempt_def at_attempt_def find_change)

lemma at_attempt_numbers:
  assumes "\<And>a. ja_Attempt (f a) = ja_Attempt a"
  shows "map ja_Attempt (vw_attempts (at_attempt num f v)) = map ja_Attempt (vw_attempts v)"
  using assms by (simp add: at_attempt_def)

definition new_attempt :: "int \<Rightarrow> view \<Rightarrow> JobAttempt" where
  "new_attempt num v =
     \<lparr>ja_Ordinal = 0, ja_Attempt = num, ja_WorkerID = (if num = 1 \<and> vw_startSet v then st_WorkerID (vw_start v) else []),
      ja_CreatedAt = (if num = 1 \<and> vw_startSet v then st_CreatedAt (vw_start v) else 0), ja_InputRef = vw_startRef v,
      ja_Output = None, ja_Outcome = no_outcome, ja_Tasks = []\<rparr>"

lemma ensure_attempts:
  assumes "1 \<le> num"
  shows "ensureAttempt num v =
    (if num \<in> ja_Attempt ` set (vw_attempts v) then v else v\<lparr>vw_attempts := vw_attempts v @ [new_attempt num v]\<rparr>)"
  using assms by (simp add: ensureAttempt_def new_attempt_def Let_def)

lemma find_ensure:
  assumes "1 \<le> num"
  shows "find_attempt n (ensureAttempt num v) =
    (if n = num \<and> find_attempt n v = None then Some (new_attempt num v) else find_attempt n v)"
  using assms find_none [of num "vw_attempts v"]
  by (cases "find_attempt n v") (auto simp: ensure_attempts find_attempt_def find_append new_attempt_def)

lemma ensure_numbers: "1 \<le> num \<Longrightarrow> numbers_ok v \<Longrightarrow> numbers_ok (ensureAttempt num v)"
  by (auto simp: ensure_attempts numbers_ok_def new_attempt_def)

lemma ensure_number_set:
  "1 \<le> num \<Longrightarrow> ja_Attempt ` set (vw_attempts (ensureAttempt num v)) = insert num (ja_Attempt ` set (vw_attempts v))"
  by (auto simp: ensure_attempts new_attempt_def)

lemma ensure_tasks: "1 \<le> num \<Longrightarrow> attempt_of_tasks (vw_attempts (ensureAttempt num v)) = attempt_of_tasks (vw_attempts v)"
  by (simp add: ensure_attempts attempt_of_tasks_def new_attempt_def)

lemma ensure_attempt_tasks: "1 \<le> num \<Longrightarrow> attempt_tasks n (ensureAttempt num v) = attempt_tasks n v"
  by (auto simp: attempt_tasks_find find_ensure new_attempt_def)

lemma ensure_simps [simp]:
  "vw_active (ensureAttempt num v) = vw_active v" "vw_current (ensureAttempt num v) = vw_current v"
  "vw_run (ensureAttempt num v) = vw_run v" "vw_startSet (ensureAttempt num v) = vw_startSet v"
  "vw_start (ensureAttempt num v) = vw_start v" "vw_lastOrdinal (ensureAttempt num v) = vw_lastOrdinal v"
  by (simp_all add: ensureAttempt_def Let_def)

lemma at_attempt_simps [simp]:
  "vw_active (at_attempt num f v) = vw_active v" "vw_current (at_attempt num f v) = vw_current v"
  "vw_run (at_attempt num f v) = vw_run v" "vw_startSet (at_attempt num f v) = vw_startSet v"
  "vw_start (at_attempt num f v) = vw_start v" "vw_lastOrdinal (at_attempt num f v) = vw_lastOrdinal v"
  by (simp_all add: at_attempt_def)

text \<open>A change that keeps the tasks keeps them all; one that adds a task attempt adds it once.\<close>

lemma at_attempt_same_tasks:
  "(\<And>a. ja_Tasks (f a) = ja_Tasks a) \<Longrightarrow> attempt_of_tasks (vw_attempts (at_attempt num f v)) = attempt_of_tasks (vw_attempts v)"
  by (simp add: at_attempt_def attempt_of_tasks_def o_def if_distrib cong: if_cong)

lemma at_attempt_adds:
  assumes "numbers_ok v" "find_attempt num v = Some j"
    and "mset (concat (map tr_Attempts (ja_Tasks (f j)))) = add_mset a (mset (concat (map tr_Attempts (ja_Tasks j))))"
  shows "mset (attempt_of_tasks (vw_attempts (at_attempt num f v))) = add_mset a (mset (attempt_of_tasks (vw_attempts v)))"
proof -
  have "mset (attempt_of_tasks (map (\<lambda>a. if ja_Attempt a = num then f a else a) as)) = add_mset a (mset (attempt_of_tasks as))"
    if "distinct (map ja_Attempt as)" "List.find (\<lambda>a. ja_Attempt a = num) as = Some j" for as
    using that
  proof (induction as)
    case (Cons b as)
    show ?case
    proof (cases "ja_Attempt b = num")
      case True
      then have "map (\<lambda>a. if ja_Attempt a = num then f a else a) as = as"
        using Cons.prems(1) by (intro map_idI) (simp, metis image_eqI)
      then show ?thesis using True Cons.prems(2) assms(3) by (simp add: attempt_of_tasks_def)
    next
      case False
      with Cons show ?thesis by (simp add: attempt_of_tasks_def)
    qed
  qed simp
  then show ?thesis using assms(1,2) by (simp add: at_attempt_def numbers_ok_def find_attempt_def)
qed

lemma add_to_run_adds:
  assumes "i < length ts"
  shows "mset (concat (map tr_Attempts (ts[i := add_to_run a (ts ! i)]))) = add_mset a (mset (concat (map tr_Attempts ts)))"
proof -
  have "ts = take i ts @ ts ! i # drop (Suc i) ts" using assms by (rule id_take_nth_drop)
  then have "mset (concat (map tr_Attempts ts)) = mset (concat (map tr_Attempts (take i ts @ ts ! i # drop (Suc i) ts)))"
    by simp
  then show ?thesis by (simp add: upd_conv_take_nth_drop [OF assms] add_to_run_def)
qed

section \<open>The steps of the loop\<close>

definition task_key :: "TaskAttempt \<Rightarrow> int \<times> TaskOutcome" where "task_key a = (at_Ordinal a, at_Outcome a)"

definition outcome_of :: "Chapter \<Rightarrow> TaskOutcome" where
  "outcome_of c = (case outcomeFromChapter c of Inl _ \<Rightarrow> no_outcome | Inr oc \<Rightarrow> oc)"

definition chapter_key :: "Chapter \<Rightarrow> int \<times> TaskOutcome" where "chapter_key c = (ch_Ordinal c, outcome_of c)"

definition chapter_attempt :: "Chapter \<Rightarrow> int" where
  "chapter_attempt c = (case workerMetaFromChapter c of Inl _ \<Rightarrow> 1 | Inr m \<Rightarrow> if wm_Attempt m \<le> 0 then 1 else wm_Attempt m)"

abbreviation job_chapter :: "Chapter \<Rightarrow> bool" where
  "job_chapter c \<equiv> ChapterIs c ChapterTypeJobAttemptOutcome"

lemma built_attempt:
  assumes "buildStoredTaskAttempt k c meta chapters opts b = Inr a" "workerMetaFromChapter c = Inr meta"
  shows "task_key a = chapter_key c" "at_Attempt a = chapter_attempt c" "at_Runtime a = None" "1 \<le> at_Attempt a"
  using assms
  by (auto simp: buildStoredTaskAttempt_def task_key_def chapter_key_def outcome_of_def chapter_attempt_def split: sum.splits)

lemma task_view_cases:
  assumes "view_ok v"
  obtains tasks opened i v2 j where
    "task_view ty a v = (at_attempt (vw_active v) (\<lambda>j. j\<lparr>ja_Tasks := opened[i := add_to_run a (opened ! i)]\<rparr>) v2)\<lparr>vw_run := Some i\<rparr>"
    "vw_attempts v2 = vw_attempts (ensureAttempt (vw_active v) v)" "vw_active v2 = vw_active v" "vw_current v2 = vw_active v"
    "vw_startSet v2 = vw_startSet v" "vw_lastOrdinal v2 = vw_lastOrdinal v" "vw_start v2 = vw_start v"
    "i < length opened" "opened = tasks \<or> opened = tasks @ [open_run ty (at_Ordinal a)]"
    "find_attempt (vw_active v) v2 = Some j" "ja_Tasks j = tasks"
proof -
  let ?n = "vw_active v"
  let ?v1 = "ensureAttempt ?n v"
  let ?v2 = "if vw_current ?v1 \<noteq> ?n then ?v1\<lparr>vw_current := ?n, vw_run := None\<rparr> else ?v1"
  let ?tasks = "attempt_tasks ?n ?v2"
  let ?new = "case vw_run ?v2 of None \<Rightarrow> True | Some i \<Rightarrow> at_Attempt a \<le> 1 \<or> tr_TaskType (?tasks ! i) \<noteq> ty"
  let ?opened = "if ?new then ?tasks @ [open_run ty (at_Ordinal a)] else ?tasks"
  let ?i = "if ?new then length ?tasks else the (vw_run ?v2)"
  have n: "1 \<le> ?n" using assms by (simp add: view_ok_def)
  have at: "vw_attempts ?v2 = vw_attempts ?v1" by simp
  have t: "?tasks = attempt_tasks ?n v"
    using ensure_attempt_tasks [OF n, of ?n v] by (auto simp: attempt_tasks_def)
  have i: "?i < length ?opened"
    using assms t by (auto simp: view_ok_def split: option.splits)
  obtain j where j: "find_attempt ?n ?v2 = Some j"
    using find_ensure [OF n, of ?n v] at by (cases "find_attempt ?n v") (simp_all add: find_attempt_def)
  have eq: "task_view ty a v = (at_attempt ?n (\<lambda>j. j\<lparr>ja_Tasks := ?opened[?i := add_to_run a (?opened ! ?i)]\<rparr>) ?v2)\<lparr>vw_run := Some ?i\<rparr>"
    by (simp add: task_view_def Let_def split: option.split)
  show ?thesis
    by (rule that [OF eq, where tasks = ?tasks and j = j])
      (use i j attempt_tasks_find [of ?n ?v2] in \<open>auto split del: option.splits\<close>)
qed

text \<open>What is shown of an attempt of the job.\<close>

definition shown :: "int \<Rightarrow> view \<Rightarrow> (int \<times> TaskOutcome \<times> TaskIO option) option" where
  "shown num v = map_option (\<lambda>j. (ja_Ordinal j, ja_Outcome j, ja_Output j)) (find_attempt num v)"

lemma update_run_simps [simp]:
  "find_attempt n (v\<lparr>vw_run := r\<rparr>) = find_attempt n v" "attempt_tasks n (v\<lparr>vw_run := r\<rparr>) = attempt_tasks n v"
  "numbers_ok (v\<lparr>vw_run := r\<rparr>) = numbers_ok v"
  by (simp_all add: find_attempt_def attempt_tasks_def numbers_ok_def)

lemma numbers_at_attempt [simp]:
  "(\<And>a. ja_Attempt (f a) = ja_Attempt a) \<Longrightarrow> numbers_ok (at_attempt num f v) = numbers_ok v"
  by (simp add: numbers_ok_def at_attempt_numbers)

lemma number_set_at_attempt:
  assumes "\<And>a. ja_Attempt (f a) = ja_Attempt a"
  shows "ja_Attempt ` set (vw_attempts (at_attempt num f v)) = ja_Attempt ` set (vw_attempts v)"
  using arg_cong [OF at_attempt_numbers [of f num v, OF assms], of set] by simp

lemma task_view_effect:
  assumes "view_ok v" "v' = task_view ty a v"
  shows "view_ok v'" "mset (attempt_of_tasks (vw_attempts v')) = add_mset a (mset (attempt_of_tasks (vw_attempts v)))"
    "ja_Attempt ` set (vw_attempts v') = insert (vw_active v) (ja_Attempt ` set (vw_attempts v))"
    "shown n v' = (if shown n v = None \<and> n = vw_active v then Some (0, no_outcome, None) else shown n v)"
    "vw_active v' = vw_active v" "vw_startSet v' = vw_startSet v" "vw_lastOrdinal v' = vw_lastOrdinal v" "vw_start v' = vw_start v"
proof -
  have n: "1 \<le> vw_active v" "numbers_ok v" using assms(1) by (simp_all add: view_ok_def)
  from assms(1) obtain tasks opened i v2 j where t:
    "task_view ty a v = (at_attempt (vw_active v) (\<lambda>j. j\<lparr>ja_Tasks := opened[i := add_to_run a (opened ! i)]\<rparr>) v2)\<lparr>vw_run := Some i\<rparr>"
    "vw_attempts v2 = vw_attempts (ensureAttempt (vw_active v) v)" "vw_active v2 = vw_active v" "vw_current v2 = vw_active v"
    "vw_startSet v2 = vw_startSet v" "vw_lastOrdinal v2 = vw_lastOrdinal v" "vw_start v2 = vw_start v"
    "i < length opened" "opened = tasks \<or> opened = tasks @ [open_run ty (at_Ordinal a)]"
    "find_attempt (vw_active v) v2 = Some j" "ja_Tasks j = tasks"
    by (rule task_view_cases)
  let ?f = "\<lambda>j. j\<lparr>ja_Tasks := opened[i := add_to_run a (opened ! i)]\<rparr>"
  have v2: "numbers_ok v2" using ensure_numbers [OF n(1,2)] t(2) by (simp add: numbers_ok_def)
  have find2: "find_attempt m v2 = find_attempt m (ensureAttempt (vw_active v) v)" for m
    using t(2) by (simp add: find_attempt_def)
  have find: "find_attempt m v' = (if m = vw_active v then Some (?f j) else find_attempt m v2)" for m
    using t(10) by (simp add: assms(2) t(1) find_at_attempt)
  show "view_ok v'"
    using n v2 t(3,4,8) find by (simp add: assms(2) t(1) view_ok_def attempt_tasks_find)
  have "mset (concat (map tr_Attempts opened)) = mset (concat (map tr_Attempts (ja_Tasks j)))"
    using t(9,11) by (auto simp: open_run_def)
  then have "mset (concat (map tr_Attempts (ja_Tasks (?f j)))) = add_mset a (mset (concat (map tr_Attempts (ja_Tasks j))))"
    using add_to_run_adds [OF t(8)] by simp
  from at_attempt_adds [OF v2 t(10), of ?f a, OF this]
  show "mset (attempt_of_tasks (vw_attempts v')) = add_mset a (mset (attempt_of_tasks (vw_attempts v)))"
    using ensure_tasks [OF n(1), of v] t(2) by (simp add: assms(2) t(1))
  show "ja_Attempt ` set (vw_attempts v') = insert (vw_active v) (ja_Attempt ` set (vw_attempts v))"
    using ensure_number_set [OF n(1), of v] t(2) number_set_at_attempt [of ?f "vw_active v" v2] by (simp add: assms(2) t(1))
  show "shown n v' = (if shown n v = None \<and> n = vw_active v then Some (0, no_outcome, None) else shown n v)"
    using find [of n] find2 [of n] t(10) find_ensure [OF n(1), of n v]
    by (auto simp: shown_def new_attempt_def split: if_splits)
  show "vw_active v' = vw_active v" "vw_startSet v' = vw_startSet v" "vw_lastOrdinal v' = vw_lastOrdinal v"
    "vw_start v' = vw_start v"
    using t(3,5-7) by (simp_all add: assms(2) t(1))
qed

lemma job_outcome_effect:
  assumes "view_ok v" "1 \<le> at_Attempt a" "v' = job_outcome_view a v"
  shows "view_ok v'" "attempt_of_tasks (vw_attempts v') = attempt_of_tasks (vw_attempts v)"
    "ja_Attempt ` set (vw_attempts v') = insert (at_Attempt a) (ja_Attempt ` set (vw_attempts v))"
    "shown n v' = (if n = at_Attempt a then Some (at_Ordinal a, at_Outcome a, at_Output a) else shown n v)"
    "vw_active v' = at_Attempt a + 1" "vw_startSet v' = vw_startSet v" "vw_lastOrdinal v' = vw_lastOrdinal v" "vw_start v' = vw_start v"
proof -
  let ?n = "at_Attempt a"
  let ?f = "\<lambda>j. j\<lparr>ja_Ordinal := at_Ordinal a, ja_WorkerID := at_WorkerID a, ja_CreatedAt := at_CreatedAt a,
               ja_InputRef := at_InputRef a, ja_Output := at_Output a, ja_Outcome := at_Outcome a\<rparr>"
  let ?v1 = "at_attempt ?n ?f (ensureAttempt ?n v)"
  have eq: "v' = ?v1\<lparr>vw_active := ?n + 1, vw_lastDone := ?n, vw_lastOutcome := at_Outcome a, vw_current := 0, vw_run := None\<rparr>"
    using assms(2,3) by (simp add: job_outcome_view_def Let_def)
  have at: "vw_attempts v' = vw_attempts ?v1" by (simp add: eq)
  have ok: "numbers_ok ?v1" using assms(1) ensure_numbers [OF assms(2)] by (simp add: view_ok_def)
  then have "numbers_ok v'" by (simp add: numbers_ok_def at)
  moreover have "vw_run v' = None" "1 \<le> vw_active v'" using assms(2) by (simp_all add: eq)
  ultimately show "view_ok v'" by (simp add: view_ok_def)
  show "attempt_of_tasks (vw_attempts v') = attempt_of_tasks (vw_attempts v)"
    using ensure_tasks [OF assms(2), of v] by (simp add: at at_attempt_same_tasks)
  show "ja_Attempt ` set (vw_attempts v') = insert ?n (ja_Attempt ` set (vw_attempts v))"
    using ensure_number_set [OF assms(2), of v] number_set_at_attempt [of ?f ?n] by (simp add: at)
  have "find_attempt n v' = find_attempt n ?v1" by (simp add: find_attempt_def at)
  then show "shown n v' = (if n = ?n then Some (at_Ordinal a, at_Outcome a, at_Output a) else shown n v)"
    using find_ensure [OF assms(2), of n v] find_at_attempt [of ?f n ?n "ensureAttempt ?n v"]
    by (cases "n = ?n"; cases "find_attempt n v") (simp_all add: shown_def)
  show "vw_active v' = ?n + 1" "vw_startSet v' = vw_startSet v" "vw_lastOrdinal v' = vw_lastOrdinal v" "vw_start v' = vw_start v"
    by (simp_all add: eq)
qed

text \<open>One chapter after the start.\<close>

definition task_chapters :: "Chapter list \<Rightarrow> Chapter list" where
  "task_chapters cs = filter (\<lambda>c. \<not> job_chapter c) cs"

lemma view_chapter_cases:
  assumes "view_chapter opts job chapters c v = Inr v'" "vw_startSet v \<or> ch_Ordinal c \<noteq> 0"
  obtains meta a where "workerMetaFromChapter c = Inr meta"
    "buildStoredTaskAttempt (rq_JobKey opts) c meta chapters opts (rq_IncludeOutputs opts \<or> job_chapter c) = Inr a"
    "v' = (if job_chapter c then job_outcome_view a (v\<lparr>vw_lastOrdinal := max (vw_lastOrdinal v) (ch_Ordinal c)\<rparr>)
           else task_view (wm_TaskType meta) a (v\<lparr>vw_lastOrdinal := max (vw_lastOrdinal v) (ch_Ordinal c)\<rparr>))"
  using assms by (auto simp: view_chapter_def Let_def split: sum.splits if_splits)

lemma ordinal_update [simp]:
  "view_ok (v\<lparr>vw_lastOrdinal := n\<rparr>) = view_ok v" "shown m (v\<lparr>vw_lastOrdinal := n\<rparr>) = shown m v"
  by (simp_all add: view_ok_def numbers_ok_def attempt_tasks_def shown_def find_attempt_def)

lemma view_chapter_effect:
  assumes "view_chapter opts job chapters c v = Inr v'" "vw_startSet v \<or> ch_Ordinal c \<noteq> 0" "view_ok v"
  shows "view_ok v' \<and> vw_startSet v' = vw_startSet v \<and> vw_start v' = vw_start v \<and>
    image_mset task_key (mset (attempt_of_tasks (vw_attempts v'))) =
      image_mset task_key (mset (attempt_of_tasks (vw_attempts v))) + image_mset chapter_key (mset (task_chapters [c])) \<and>
    ((\<forall>a\<in>set (attempt_of_tasks (vw_attempts v)). at_Runtime a = None) \<longrightarrow>
     (\<forall>a\<in>set (attempt_of_tasks (vw_attempts v')). at_Runtime a = None))"
proof -
  let ?v = "v\<lparr>vw_lastOrdinal := max (vw_lastOrdinal v) (ch_Ordinal c)\<rparr>"
  obtain meta a where a: "workerMetaFromChapter c = Inr meta"
    "buildStoredTaskAttempt (rq_JobKey opts) c meta chapters opts (rq_IncludeOutputs opts \<or> job_chapter c) = Inr a"
    "v' = (if job_chapter c then job_outcome_view a ?v else task_view (wm_TaskType meta) a ?v)"
    using view_chapter_cases [OF assms(1,2)] by metis
  note b = built_attempt [OF a(2,1)]
  have ok: "view_ok ?v" using assms(3) by simp
  show ?thesis
  proof (cases "job_chapter c")
    case True
    then have e: "v' = job_outcome_view a ?v" using a(3) by simp
    show ?thesis using job_outcome_effect [OF ok b(4) e] True by (simp add: task_chapters_def)
  next
    case False
    then have e: "v' = task_view (wm_TaskType meta) a ?v" using a(3) by simp
    note t = task_view_effect [OF ok e]
    have "set (attempt_of_tasks (vw_attempts v')) = insert a (set (attempt_of_tasks (vw_attempts v)))"
      using arg_cong [OF t(2), of set_mset] by simp
    then show ?thesis using t b False by (auto simp: task_chapters_def)
  qed
qed

lemma task_chapters_Cons: "mset (task_chapters (c # cs)) = mset (task_chapters [c]) + mset (task_chapters cs)"
  by (simp add: task_chapters_def)

lemma view_chapters_effect:
  "view_chapters opts job chapters cs v = Inr v' \<Longrightarrow> vw_startSet v \<or> (\<forall>c\<in>set cs. ch_Ordinal c \<noteq> 0) \<Longrightarrow> view_ok v \<Longrightarrow>
   view_ok v' \<and> vw_startSet v' = vw_startSet v \<and> vw_start v' = vw_start v \<and>
   image_mset task_key (mset (attempt_of_tasks (vw_attempts v'))) =
      image_mset task_key (mset (attempt_of_tasks (vw_attempts v))) + image_mset chapter_key (mset (task_chapters cs)) \<and>
    ((\<forall>a\<in>set (attempt_of_tasks (vw_attempts v)). at_Runtime a = None) \<longrightarrow>
     (\<forall>a\<in>set (attempt_of_tasks (vw_attempts v')). at_Runtime a = None))"
proof (induction cs arbitrary: v)
  case (Cons c cs)
  obtain v1 where v1: "view_chapter opts job chapters c v = Inr v1" "view_chapters opts job chapters cs v1 = Inr v'"
    using Cons.prems(1) by (auto split: sum.splits)
  have "vw_startSet v \<or> ch_Ordinal c \<noteq> 0" using Cons.prems(2) by auto
  note e = view_chapter_effect [OF v1(1) this Cons.prems(3)]
  have "vw_startSet v1 \<or> (\<forall>c\<in>set cs. ch_Ordinal c \<noteq> 0)" using Cons.prems(2) e by auto
  note i = Cons.IH [OF v1(2) this e [THEN conjunct1]]
  have "image_mset task_key (mset (attempt_of_tasks (vw_attempts v'))) =
      image_mset task_key (mset (attempt_of_tasks (vw_attempts v))) + image_mset chapter_key (mset (task_chapters (c # cs)))"
    using i e unfolding task_chapters_Cons [of c cs] image_mset_union by (elim conjE) (simp only: add.assoc)
  then show ?case using i e by (elim conjE) (intro conjI impI; simp)
qed (simp add: task_chapters_def)

text \<open>The attempts of the job that are shown, and the bound of their numbers.\<close>

lemma view_chapter_shown:
  assumes "view_chapter opts job chapters c v = Inr v'" "vw_startSet v \<or> ch_Ordinal c \<noteq> 0" "view_ok v" "job_chapter c"
  obtains io where "shown (chapter_attempt c) v' = Some (ch_Ordinal c, outcome_of c, io)"
    "buildStoredTaskIO (rq_JobKey opts) c True (rq_IncludeArtifacts opts) = Inr io"
proof -
  obtain meta a where a: "workerMetaFromChapter c = Inr meta"
    "buildStoredTaskAttempt (rq_JobKey opts) c meta chapters opts True = Inr a"
    "v' = job_outcome_view a (v\<lparr>vw_lastOrdinal := max (vw_lastOrdinal v) (ch_Ordinal c)\<rparr>)"
    using view_chapter_cases [OF assms(1,2)] assms(4) by auto
  note b = built_attempt [OF a(2,1)]
  have "buildStoredTaskIO (rq_JobKey opts) c True (rq_IncludeArtifacts opts) = Inr (at_Output a)"
    using a(2) by (auto simp: buildStoredTaskAttempt_def split: sum.splits)
  then show ?thesis
    using job_outcome_effect(4) [OF _ b(4) a(3), of "chapter_attempt c"] assms(3) b
    by (intro that) (simp_all add: task_key_def chapter_key_def)
qed

lemma view_chapter_keeps_shown:
  assumes "view_chapter opts job chapters c v = Inr v'" "vw_startSet v \<or> ch_Ordinal c \<noteq> 0" "view_ok v"
    and "job_chapter c \<longrightarrow> chapter_attempt c \<noteq> n" "shown n v = Some x"
  shows "shown n v' = Some x"
proof -
  let ?v = "v\<lparr>vw_lastOrdinal := max (vw_lastOrdinal v) (ch_Ordinal c)\<rparr>"
  obtain meta a where a: "workerMetaFromChapter c = Inr meta"
    "buildStoredTaskAttempt (rq_JobKey opts) c meta chapters opts (rq_IncludeOutputs opts \<or> job_chapter c) = Inr a"
    "v' = (if job_chapter c then job_outcome_view a ?v else task_view (wm_TaskType meta) a ?v)"
    using view_chapter_cases [OF assms(1,2)] by metis
  note b = built_attempt [OF a(2,1)]
  have ok: "view_ok ?v" using assms(3) by simp
  show ?thesis
  proof (cases "job_chapter c")
    case True
    then have "v' = job_outcome_view a ?v" using a(3) by simp
    from job_outcome_effect(4) [OF ok b(4) this, of n] True assms(4,5) b(2) show ?thesis by simp
  next
    case False
    then have "v' = task_view (wm_TaskType meta) a ?v" using a(3) by simp
    from task_view_effect(4) [OF ok this, of n] assms(5) show ?thesis by simp
  qed
qed

lemma view_chapters_keep_shown:
  "view_chapters opts job chapters cs v = Inr v' \<Longrightarrow> vw_startSet v \<or> (\<forall>c\<in>set cs. ch_Ordinal c \<noteq> 0) \<Longrightarrow> view_ok v \<Longrightarrow>
   \<forall>c\<in>set cs. job_chapter c \<longrightarrow> chapter_attempt c \<noteq> n \<Longrightarrow> shown n v = Some x \<Longrightarrow> shown n v' = Some x"
proof (induction cs arbitrary: v)
  case (Cons c cs)
  obtain v1 where v1: "view_chapter opts job chapters c v = Inr v1" "view_chapters opts job chapters cs v1 = Inr v'"
    using Cons.prems(1) by (auto split: sum.splits)
  have z: "vw_startSet v \<or> ch_Ordinal c \<noteq> 0" using Cons.prems(2) by auto
  note e = view_chapter_effect [OF v1(1) z Cons.prems(3)]
  have "vw_startSet v1 \<or> (\<forall>c\<in>set cs. ch_Ordinal c \<noteq> 0)" using Cons.prems(2) e by auto
  moreover have "shown n v1 = Some x"
    using view_chapter_keeps_shown [OF v1(1) z Cons.prems(3)] Cons.prems(4,5) by simp
  ultimately show ?case using Cons.IH [OF v1(2)] e Cons.prems(4) by simp
qed simp

lemma view_chapters_append:
  "view_chapters opts job chapters (cs @ ds) v =
     (case view_chapters opts job chapters cs v of Inl e \<Rightarrow> Inl e | Inr v' \<Rightarrow> view_chapters opts job chapters ds v')"
  by (induction cs arbitrary: v) (auto split: sum.splits)

definition below :: "int \<Rightarrow> view \<Rightarrow> bool" where
  "below n v \<longleftrightarrow> vw_active v \<le> n \<and> (\<forall>a\<in>set (vw_attempts v). ja_Attempt a \<le> n)"

lemma below_update [simp]: "below n (v\<lparr>vw_lastOrdinal := m\<rparr>) = below n v"
  by (simp add: below_def)

lemma view_chapter_below:
  assumes "view_chapter opts job chapters c v = Inr v'" "vw_startSet v \<or> ch_Ordinal c \<noteq> 0" "view_ok v"
    and "below n v" "job_chapter c \<longrightarrow> chapter_attempt c < n"
  shows "below n v'"
proof -
  let ?v = "v\<lparr>vw_lastOrdinal := max (vw_lastOrdinal v) (ch_Ordinal c)\<rparr>"
  obtain meta a where a: "workerMetaFromChapter c = Inr meta"
    "buildStoredTaskAttempt (rq_JobKey opts) c meta chapters opts (rq_IncludeOutputs opts \<or> job_chapter c) = Inr a"
    "v' = (if job_chapter c then job_outcome_view a ?v else task_view (wm_TaskType meta) a ?v)"
    using view_chapter_cases [OF assms(1,2)] by metis
  note b = built_attempt [OF a(2,1)]
  have ok: "view_ok ?v" "below n ?v" using assms(3,4) by simp_all
  have set: "x \<in> set (vw_attempts v') \<Longrightarrow> ja_Attempt x \<in> ja_Attempt ` set (vw_attempts v')" for x by simp
  show ?thesis
  proof (cases "job_chapter c")
    case True
    then have "v' = job_outcome_view a ?v" using a(3) by simp
    note j = job_outcome_effect(3,5) [OF ok(1) b(4) this]
    show ?thesis using j set ok(2) b(2) assms(5) True by (fastforce simp: below_def)
  next
    case False
    then have "v' = task_view (wm_TaskType meta) a ?v" using a(3) by simp
    note j = task_view_effect(3,5) [OF ok(1) this]
    show ?thesis using j set ok(2) by (fastforce simp: below_def)
  qed
qed

lemma view_chapters_below:
  "view_chapters opts job chapters cs v = Inr v' \<Longrightarrow> vw_startSet v \<or> (\<forall>c\<in>set cs. ch_Ordinal c \<noteq> 0) \<Longrightarrow> view_ok v \<Longrightarrow>
   \<forall>c\<in>set cs. job_chapter c \<longrightarrow> chapter_attempt c < n \<Longrightarrow> below n v \<Longrightarrow> below n v'"
proof (induction cs arbitrary: v)
  case (Cons c cs)
  obtain v1 where v1: "view_chapter opts job chapters c v = Inr v1" "view_chapters opts job chapters cs v1 = Inr v'"
    using Cons.prems(1) by (auto split: sum.splits)
  have z: "vw_startSet v \<or> ch_Ordinal c \<noteq> 0" using Cons.prems(2) by auto
  note e = view_chapter_effect [OF v1(1) z Cons.prems(3)]
  have "vw_startSet v1 \<or> (\<forall>c\<in>set cs. ch_Ordinal c \<noteq> 0)" using Cons.prems(2) e by auto
  moreover have "below n v1" using view_chapter_below [OF v1(1) z Cons.prems(3)] Cons.prems(4,5) by simp
  ultimately show ?case using Cons.IH [OF v1(2)] e Cons.prems(4) by simp
qed simp

end
