(* ===== verification/Job_View_Log.thy ===== *)
theory Job_View_Log
  imports Job_View_Props
begin

text \<open>
  The view of the run of a job of the toy runtime: its chapters are the log of the job, in order, and the theorems
  about what the view shows, when there is one, and which output it gives.
\<close>

section \<open>The chapters of a log\<close>

interpretation by_number: pageable "(<) :: int \<Rightarrow> int \<Rightarrow> bool" by unfold_locales auto

lemma sort_slice_id:
  assumes "sorted_wrt (\<lambda>a b. key a < key b) xs"
  shows "sort_slice (\<lambda>a b. key a < (key b :: int)) xs = xs"
proof -
  have "distinct (map key xs)" using assms strict_sorted_iff [of "map key xs"] by (simp add: sorted_wrt_map)
  from by_number.sort_slice_sorted [of key, OF this] assms
  show ?thesis by (intro by_number.sorted_unique [of key]) simp_all
qed

lemma sort_ints:
  assumes "distinct xs" "set xs = {0..n :: int}"
  shows "sort_slice (<) xs = [0..n]"
  using by_number.sort_slice_sorted [of id xs] assms
  by (intro by_number.sorted_unique [of id]) (simp_all add: strict_sorted_iff)

definition log_list :: "(int \<rightharpoonup> Chapter) \<Rightarrow> int \<Rightarrow> int \<Rightarrow> Chapter list" where
  "log_list m i n = map (\<lambda>j. the (m j)) [i..n]"

lemma ListChapters_log:
  assumes "runtimeChapters s k = Some m" "dom m = {0..n}" "distinct ordinals" "set ordinals = dom m"
  shows "ListChapters ordinals s k 0 None = Inr (log_list m 0 n)"
proof -
  have "set is \<subseteq> dom m \<Longrightarrow> List.map_filter m is = map (\<lambda>j. the (m j)) is" for "is"
    by (induction "is") (auto simp: map_filter_simps)
  then have "List.map_filter m [0..n] = log_list m 0 n" using assms(2) by (simp add: log_list_def)
  then show ?thesis
    using assms sort_ints [of ordinals n] by (simp add: ListChapters_def filter_id_conv takeWhile_eq_all_conv [THEN iffD2])
qed

lemma log_list_Cons: "0 \<le> n \<Longrightarrow> log_list m 0 n = the (m 0) # log_list m 1 n"
  by (simp add: log_list_def upto_rec1)

lemma log_list_snoc: "1 \<le> n \<Longrightarrow> log_list m 1 n = log_list m 1 (n - 1) @ [the (m n)]"
  by (simp add: log_list_def upto_rec2)

lemma log_at_ordinal:
  assumes "log_ok m" "dom m = {0..n}" "0 \<le> j" "j \<le> n"
  shows "m j = Some (the (m j))" "ch_Ordinal (the (m j)) = j"
proof -
  have "j \<in> dom m" using assms(2-4) by simp
  then obtain c where "m j = Some c" by blast
  then show "m j = Some (the (m j))" "ch_Ordinal (the (m j)) = j" using assms(1) by (simp_all add: log_ok_def)
qed

lemma log_ordinals:
  assumes "log_ok m" "dom m = {0..n}" "0 \<le> i"
  shows "map ch_Ordinal (log_list m i n) = [i..n]"
  using log_at_ordinal(2) [OF assms(1,2)] assms(3) by (auto simp: log_list_def intro!: map_idI)

lemma sorted_ints: "sorted_wrt (<) [i..j :: int]"
  by (simp add: strict_sorted_iff)

lemma log_sorted:
  assumes "log_ok m" "dom m = {0..n}"
  shows "sort_slice (\<lambda>a b. ch_Ordinal a < ch_Ordinal b) (log_list m 0 n) = log_list m 0 n"
proof -
  have "sorted_wrt (<) (map ch_Ordinal (log_list m 0 n))" using log_ordinals [OF assms, of 0] sorted_ints by simp
  then show ?thesis by (intro sort_slice_id) (simp add: sorted_wrt_map)
qed

lemma log_member: "c \<in> set (log_list m i n) \<longleftrightarrow> (\<exists>j. i \<le> j \<and> j \<le> n \<and> c = the (m j))"
  by (auto simp: log_list_def)

section \<open>The view of a log\<close>

definition by_ordinal :: "Chapter list \<Rightarrow> (int \<rightharpoonup> Chapter)" where
  "by_ordinal cs = map_of (rev (map (\<lambda>c. (ch_Ordinal c, c)) cs))"

lemma view_of_log:
  assumes "log_ok m" "dom m = {0..n}"
  shows "view_of t opts job (log_list m 0 n) =
    (case view_chapters opts job (by_ordinal (log_list m 0 n)) (log_list m 0 n) (start_view job) of
       Inl e \<Rightarrow> Inl e | Inr v \<Rightarrow> finish_view t opts job (by_ordinal (log_list m 0 n)) v)"
  by (simp only: view_of_def log_sorted [OF assms] Let_def by_ordinal_def)

lemma start_step:
  assumes "view_chapter opts job chapters c (start_view job) = Inr v" "ch_Ordinal c = 0"
  shows "view_ok v" "vw_startSet v" "st_Ordinal (vw_start v) = 0" "attempt_of_tasks (vw_attempts v) = []" "below 1 v"
  using assms
  by (auto simp: view_chapter_def view_start_chapter_def start_view_def ensureAttempt_def Let_def view_ok_def numbers_ok_def
      attempt_of_tasks_def below_def split: sum.splits if_splits)

lemma log_view:
  assumes "log_ok m" "dom m = {0..n}" "0 \<le> n"
    and "view_chapters opts job chapters (log_list m 0 n) (start_view job) = Inr v"
  obtains v0 where "view_chapter opts job chapters (the (m 0)) (start_view job) = Inr v0"
    "view_chapters opts job chapters (log_list m 1 n) v0 = Inr v"
    "view_ok v0" "vw_startSet v0" "st_Ordinal (vw_start v0) = 0" "attempt_of_tasks (vw_attempts v0) = []" "below 1 v0"
proof -
  obtain v0 where v0: "view_chapter opts job chapters (the (m 0)) (start_view job) = Inr v0"
    "view_chapters opts job chapters (log_list m 1 n) v0 = Inr v"
    using assms(4) by (auto simp: log_list_Cons [OF assms(3)] split: sum.splits)
  have "ch_Ordinal (the (m 0)) = 0" by (rule log_at_ordinal(2) [OF assms(1,2) order_refl assms(3)])
  from that [OF v0] start_step [OF v0(1) this] show ?thesis by blast
qed

text \<open>What follows the loop adds no stored attempt.\<close>

abbreviation stored_attempts :: "JobAttempt list \<Rightarrow> TaskAttempt list" where
  "stored_attempts as \<equiv> filter (\<lambda>a. at_Runtime a = None) (attempt_of_tasks as)"

lemma drop_outputs_tasks [simp]: "attempt_of_tasks (drop_outputs as) = attempt_of_tasks as"
  by (simp add: drop_outputs_def attempt_of_tasks_def Let_def o_def if_distrib cong: if_cong)

lemma drop_outputs_numbers [simp]: "map ja_Attempt (drop_outputs as) = map ja_Attempt as"
  by (simp add: drop_outputs_def Let_def)

lemma runtime_run_runtime:
  "buildRuntimeTaskRunFromSummary t job last1 chapters opts = Inr (Some run) \<Longrightarrow> \<forall>a\<in>set (tr_Attempts run). at_Runtime a \<noteq> None"
  by (auto simp: buildRuntimeTaskRunFromSummary_def runtimeStateFromJobSummary_def runtime_attempt_def Let_def
      split: if_splits sum.splits JobStatus.splits prod.splits)

lemma add_runtime_stored:
  assumes "numbers_ok v" "\<forall>t. run = Some t \<longrightarrow> (\<forall>a\<in>set (tr_Attempts t). at_Runtime a \<noteq> None)"
  shows "mset (stored_attempts (vw_attempts (add_runtime_run num run v))) = mset (stored_attempts (vw_attempts v))"
    "numbers_ok (add_runtime_run num run v)"
    "shown i v = Some x \<Longrightarrow> shown i (add_runtime_run num run v) = Some x"
proof -
  have c: "stored_attempts (map (\<lambda>a. if ja_Attempt a = num then a\<lparr>ja_Tasks := ja_Tasks a @ [t]\<rparr> else a) as) = stored_attempts as"
    if "\<forall>a\<in>set (tr_Attempts t). at_Runtime a \<noteq> None" for t as
  proof (induction as)
    case (Cons a as)
    have "filter (\<lambda>a. at_Runtime a = None) (tr_Attempts t) = []" using that by (simp add: filter_empty_conv)
    with Cons show ?case by (simp add: attempt_of_tasks_def)
  qed (simp add: attempt_of_tasks_def)
  show "mset (stored_attempts (vw_attempts (add_runtime_run num run v))) = mset (stored_attempts (vw_attempts v))"
    using assms(2) ensure_tasks [of num v] c
    by (auto simp: add_runtime_run_def at_attempt_def simp flip: mset_filter split: option.split)
  show "numbers_ok (add_runtime_run num run v)"
    using assms(1) ensure_numbers [of num v] by (auto simp: add_runtime_run_def split: option.split)
  show "shown i (add_runtime_run num run v) = Some x" if "shown i v = Some x"
    using that find_ensure [of num i v] by (auto simp: add_runtime_run_def shown_def find_at_attempt split: option.split)
qed

section \<open>Every chapter is shown\<close>

lemma finish_view_stored:
  assumes "finish_view t opts job chapters v = Inr resp" "numbers_ok v"
  shows "mset (stored_attempts (gj_Attempts resp)) = mset (stored_attempts (vw_attempts v))"
    "distinct (map ja_Attempt (gj_Attempts resp))" "gj_Start resp = vw_start v"
    "rs_Status (gj_Job resp) = js_Status job" "rs_JobKey (gj_Job resp) = rq_JobKey opts"
proof -
  let ?num = "current_attempt job v"
  let ?v = "if 0 < ?num then ensureAttempt ?num v else v"
  have v: "numbers_ok ?v" "attempt_of_tasks (vw_attempts ?v) = attempt_of_tasks (vw_attempts v)" "vw_start ?v = vw_start v"
    using assms(2) ensure_numbers [of ?num v] ensure_tasks [of ?num v] by auto
  obtain run where r: "resp = view_response opts job (add_runtime_run ?num run ?v)"
    "\<forall>t. run = Some t \<longrightarrow> (\<forall>a\<in>set (tr_Attempts t). at_Runtime a \<noteq> None)"
  proof (cases "js_ArchivedAt job = None")
    case False
    then have "resp = view_response opts job ?v" using assms(1) by (simp add: finish_view_def Let_def)
    then show ?thesis using that [of None] by (simp add: add_runtime_run_def)
  next
    case True
    then obtain run where "buildRuntimeTaskRunFromSummary t job (vw_lastOrdinal ?v) chapters opts = Inr run"
      "resp = view_response opts job (add_runtime_run ?num run ?v)"
      using assms(1) by (auto simp: finish_view_def Let_def split: sum.splits)
    then show ?thesis using that [of run] runtime_run_runtime by blast
  qed
  note a = add_runtime_stored [OF v(1) r(2), of ?num]
  show "mset (stored_attempts (gj_Attempts resp)) = mset (stored_attempts (vw_attempts v))"
    using a(1) v(2) by (simp add: r(1) view_response_def)
  show "distinct (map ja_Attempt (gj_Attempts resp))"
    using a(2) by (simp add: r(1) view_response_def numbers_ok_def)
  have "vw_start (add_runtime_run num run u) = vw_start u" for num u
    by (simp add: add_runtime_run_def split: option.split)
  then show "gj_Start resp = vw_start v" using v(3) by (simp add: r(1) view_response_def)
  show "rs_Status (gj_Job resp) = js_Status job" "rs_JobKey (gj_Job resp) = rq_JobKey opts"
    by (simp_all add: r(1) view_response_def)
qed

lemma view_of_stored:
  assumes "log_ok m" "dom m = {0..n}" "0 \<le> n" "view_of t opts job (log_list m 0 n) = Inr resp"
  shows "image_mset task_key (mset (stored_attempts (gj_Attempts resp))) = image_mset chapter_key (mset (task_chapters (log_list m 1 n)))"
    "distinct (map ja_Attempt (gj_Attempts resp))" "st_Ordinal (gj_Start resp) = 0" "rs_Status (gj_Job resp) = js_Status job"
proof -
  let ?chs = "by_ordinal (log_list m 0 n)"
  obtain v where v: "view_chapters opts job ?chs (log_list m 0 n) (start_view job) = Inr v" "finish_view t opts job ?chs v = Inr resp"
    using assms(4) by (auto simp: view_of_log [OF assms(1,2)] split: sum.splits)
  obtain v0 where v0: "view_chapters opts job ?chs (log_list m 1 n) v0 = Inr v" "view_ok v0" "vw_startSet v0"
    "st_Ordinal (vw_start v0) = 0" "attempt_of_tasks (vw_attempts v0) = []"
    using log_view [OF assms(1-3) v(1)] by metis
  note e = view_chapters_effect [OF v0(1) disjI1 [OF v0(3)] v0(2)]
  have rt: "\<forall>a\<in>set (attempt_of_tasks (vw_attempts v)). at_Runtime a = None" using e v0(5) by simp
  then have "stored_attempts (vw_attempts v) = attempt_of_tasks (vw_attempts v)" by (simp add: filter_id_conv)
  moreover have "numbers_ok v" using e by (simp add: view_ok_def)
  note f = finish_view_stored [OF v(2) this]
  ultimately show "image_mset task_key (mset (stored_attempts (gj_Attempts resp))) = image_mset chapter_key (mset (task_chapters (log_list m 1 n)))"
    using f(1) e v0(5) by simp
  show "distinct (map ja_Attempt (gj_Attempts resp))" "st_Ordinal (gj_Start resp) = 0" "rs_Status (gj_Job resp) = js_Status job"
    using f e v0(4) by simp_all
qed

section \<open>On the toy runtime\<close>

lemma loadJobSummary_toy:
  "loadJobSummary n (toy_view_runtime env orc order visit) k tok w = Some (Inr job) \<Longrightarrow>
   \<exists>r p. jobRecords (engine w) k = Some r \<and> job = job_summary k r p"
proof (induction n arbitrary: tok)
  case (Suc n)
  have l: "er_ListJobs (toy_view_runtime env orc order visit) q w = ListJobs order (engine w) q" for q
    by (simp add: toy_view_runtime_def EngineRuntime.defs toy_engine_runtime_def WorkflowRuntime.defs)
  obtain jobs nxt where jobs: "ListJobs order (engine w) (summary_page k tok) = Inr (jobs, nxt)"
    using Suc.prems by (auto simp: l split: sum.splits)
  show ?case
  proof (cases "List.find (\<lambda>j. js_JobKey j = k) jobs")
    case None
    with Suc jobs show ?thesis by (auto simp: l split: if_splits)
  next
    case (Some j)
    then have j: "j \<in> set jobs" "js_JobKey j = k" by (auto simp: find_Some_iff)
    obtain k' r p where "jobRecords (engine w) k' = Some r" "j = job_summary k' r p"
      using listed_record [OF jobs j(1)] by blast
    then show ?thesis using Suc.prems jobs j(2) Some by (auto simp: l summary_key)
  qed
qed simp

text \<open>The iteration over the chapters of a job visits each once.\<close>

definition visits_log :: "(JobKey \<Rightarrow> int list) \<Rightarrow> ToyEngine \<Rightarrow> JobKey \<Rightarrow> bool" where
  "visits_log visit s k \<longleftrightarrow> distinct (visit k) \<and> (\<forall>m. runtimeChapters s k = Some m \<longrightarrow> set (visit k) = dom m)"

lemma GetJobRun_toy:
  assumes "fresh_ids w0" "reachable w0 (engine w)" "visits_log visit (engine w) (rq_JobKey req)"
    and "GetJobRun n t (toy_view_runtime env orc order visit) req w = Some (Inr resp)"
  obtains r p m N where "jobRecords (engine w) (rq_JobKey req) = Some r" "runtimeChapters (engine w) (rq_JobKey req) = Some m"
    "record_ok r" "log_ok m" "dom m = {0..N}" "0 \<le> N" "JobId (rq_JobKey req) \<noteq> []"
    "view_of t (normalizeGetJobRunOptions req) (job_summary (rq_JobKey req) r p) (log_list m 0 N) = Inr resp"
proof -
  let ?k = "rq_JobKey req" and ?rt = "toy_view_runtime env orc order visit"
  have lc: "vr_ListChapters ?rt k w = ListChapters (visit k) (engine w) k 0 None" for k
    by (simp add: toy_view_runtime_def EngineRuntime.defs)
  obtain job chapters where g: "JobKey_Validate ?k = Inr ()" "loadJobSummary n ?rt ?k NoToken w = Some (Inr job)"
    "ListChapters (visit ?k) (engine w) ?k 0 None = Inr chapters"
    "view_of t (normalizeGetJobRunOptions req) job chapters = Inr resp"
    using assms(4) by (auto simp: GetJobRun_def lc split: sum.splits option.splits)
  obtain r p where r: "jobRecords (engine w) ?k = Some r" "job = job_summary ?k r p"
    using loadJobSummary_toy [OF g(2)] by blast
  have ok: "engine_ok w0 (engine w)" by (rule reachable_ok [OF assms(1,2)])
  then have "?k \<in> dom (runtimeChapters (engine w))" using r(1) by (auto simp: engine_ok_def)
  then obtain m where m: "runtimeChapters (engine w) ?k = Some m" "log_ok m" "record_ok r"
    using ok r(1) by (auto simp: engine_ok_def)
  obtain N where N: "0 \<le> N" "dom m = {0..N}" using m(2) by (auto simp: log_ok_def)
  have "chapters = log_list m 0 N"
    using ListChapters_log [OF m(1) N(2), of "visit ?k"] assms(3) m(1) g(3) by (simp add: visits_log_def)
  then show ?thesis using that [OF r(1) m(1,3,2) N(2,1)] g(1,4) r(2) by (auto simp: JobKey_Validate_def split: if_splits)
qed


text \<open>A job that was submitted, leased, given the outcome of a task and completed, and its view.\<close>

definition sample_step_chapter :: "int \<Rightarrow> ChapterBody \<Rightarrow> Chapter" where
  "sample_step_chapter n b =
     \<lparr>ch_Ordinal = n, ch_TaskType = ''t'', ch_Body = Some b, ch_InputHash = [], ch_CreatedAt = 10, ch_Metadata = None,
      ch_Artifacts = []\<rparr>"

abbreviation "sample_task \<equiv> sample_step_chapter 1 (TaskAttemptOutcome (Some (ApplicationOutput (Json (JInt 3)))))"
abbreviation "sample_final \<equiv> sample_step_chapter 2 (JobAttemptOutcome (Some (ApplicationOutput (Json (JInt 5)))))"

definition sample_put :: PutChapterRequest where
  "sample_put =
     \<lparr>pc_LeaseID = ksuid sample_env 0, pc_JobKey = JobKey ''x'' ''j'', pc_Ordinal = 1, pc_Chapter = sample_task,
      pc_Uploads = []\<rparr>"

definition sample_completion :: CompleteExecutionRequest where
  "sample_completion = \<lparr>ce_Status = ''completed'', ce_Detail = Text [], ce_Chapter = Some sample_final, ce_Uploads = []\<rparr>"

definition noted :: ToyEngine where "noted = fst (PutChapter sample_env None sample_put leased)"

definition completed :: ToyEngine where
  "completed = fst (completeLease sample_env (JobKey ''x'' ''j'') (ksuid sample_env 0) sample_completion noted)"

definition sample_view_request :: GetJobRunRequest where
  "sample_view_request =
     \<lparr>rq_JobKey = JobKey ''x'' ''j'', rq_IncludeInputs = False, rq_IncludeOutputs = False, rq_IncludeArtifacts = False,
      rq_IncludeAttemptInputs = False\<rparr>"

definition sample_visit :: "JobKey \<Rightarrow> int list" where
  "sample_visit k = [1, 0, 2]"

definition sample_view :: GetJobRunResponse where
  "sample_view = projr (the (GetJobRun 1 10 (toy_view_runtime sample_env sample_oracle [JobKey ''x'' ''j''] sample_visit)
     sample_view_request \<lparr>engine = completed, asked = 0\<rparr>))"

lemma sample_completed: "reachable sample_env completed"
proof -
  have "runs sample_env leased noted"
    by (rule sample_step [OF runs_refl step_put]) (simp add: noted_def prod_eq_iff)
  then have "runs sample_env leased completed"
    by (rule sample_step [OF _ step_complete]) (simp add: completed_def prod_eq_iff)
  then show ?thesis by (rule reachable_runs [OF sample_reachable(2)])
qed

lemma completed_log:
  obtains m where "runtimeChapters completed (JobKey ''x'' ''j'') = Some m" "dom m = {0..2}" "m 2 = Some sample_final"
    "m 1 = Some sample_task"
proof -
  have "(case runtimeChapters completed (JobKey ''x'' ''j'') of None \<Rightarrow> False
    | Some m \<Rightarrow> m 1 = Some sample_task \<and> m 2 = Some sample_final \<and> m 3 = None)" by code_simp
  then obtain m where m: "runtimeChapters completed (JobKey ''x'' ''j'') = Some m" "m 1 = Some sample_task" "m 2 = Some sample_final"
    "m 3 = None" by (auto split: option.splits)
  have "log_ok m" using reachable_ok [OF sample_fresh sample_completed] m(1) by (auto simp: engine_ok_def)
  then obtain n where n: "dom m = {0..n}" by (auto simp: log_ok_def)
  have "2 \<in> dom m" "3 \<notin> dom m" using m(3,4) by auto
  then have "n = 2" by (simp add: n)
  with that m n show ?thesis by blast
qed

lemma completed_visited: "visits_log sample_visit completed (JobKey ''x'' ''j'')"
proof -
  obtain m where m: "runtimeChapters completed (JobKey ''x'' ''j'') = Some m" "dom m = {0..2}" using completed_log by metis
  have "{1, 0, 2} = {0..2 :: int}" by auto
  then show ?thesis using m by (simp add: visits_log_def sample_visit_def)
qed

lemma sample_views:
  "GetJobRun 1 10 (toy_view_runtime sample_env sample_oracle [JobKey ''x'' ''j''] sample_visit)
     sample_view_request \<lparr>engine = completed, asked = 0\<rparr> = Some (Inr sample_view)"
proof -
  let ?g = "GetJobRun 1 10 (toy_view_runtime sample_env sample_oracle [JobKey ''x'' ''j''] sample_visit)
     sample_view_request \<lparr>engine = completed, asked = 0\<rparr>"
  have "(case ?g of Some (Inr _) \<Rightarrow> True | _ \<Rightarrow> False)" by code_simp
  then show ?thesis by (auto simp: sample_view_def split: option.splits sum.splits)
qed


section \<open>The output of a completed job\<close>

definition stored_key :: "JobKey \<Rightarrow> Chapter \<Rightarrow> StoredArtifact \<Rightarrow> ArtifactKey" where
  "stored_key key c a =
     \<lparr>ak_JobId = JobId key, ak_TaskOrdinal = ch_Ordinal c, ak_Name = sa_Name a, ak_SizeBytes = sa_Size a\<rparr>"

definition final_output ::
  "(string \<Rightarrow> ArtifactKey \<Rightarrow> Artifact res) \<Rightarrow> string \<Rightarrow> JobKey \<Rightarrow> bool \<Rightarrow> Chapter \<Rightarrow> ChapterOutcome \<Rightarrow> TaskData res" where
  "final_output getter tenantId key withArtifacts c oc =
     (case oc of
        ApplicationOutput d \<Rightarrow>
          (let as = (if withArtifacts then map (\<lambda>a. ToLazyArtifact getter tenantId (stored_key key c a)) (ch_Artifacts c) else [])
           in if raw_len0 d \<and> as = [] then Inl missing_output else Inr (SimpleTaskData d as))
      | AppErrorOutcome p \<Rightarrow> Inl (JobFailed (Some (AppError p)))
      | SystemErrorOutcome p \<Rightarrow> Inl (JobFailed (Some (SystemError p)))
      | TimeoutOutcome p \<Rightarrow> Inl (JobFailed (Some (TimeoutError (p\<lparr>to_Kind := []\<rparr>)))))"

text \<open>The error of an outcome, as it is shown.\<close>

fun shown_error :: "ChapterOutcome \<Rightarrow> TaskError option" where
  "shown_error (ApplicationOutput d) = None"
| "shown_error (AppErrorOutcome p) = Some (app_task_error p)"
| "shown_error (SystemErrorOutcome p) = Some (system_task_error p)"
| "shown_error (TimeoutOutcome p) = Some (timeout_task_error p)"

lemma wire_outcome_shown:
  assumes "wire_outcome oc" "ch_Body c = Some (JobAttemptOutcome (Some oc)) \<or> ch_Body c = Some (TaskAttemptOutcome (Some oc))"
    and "ChapterOutcomeToWire (Some oc) = Inr (kind, d)"
  shows "outcomeFromChapter c = Inr \<lparr>oc_Status = (if shown_error oc = None then ''SUCCEEDED'' else ''FAILED''),
    oc_PayloadKind = kind, oc_Error = shown_error oc\<rparr>"
  using assms
  by (cases oc) (auto simp: outcomeFromChapter_def ChapterPayload_def failed_outcome_of_def payload_kind_defs
      dec_enc_AppErrorPayload dec_enc_SystemErrorPayload dec_enc_TimeoutPayload)

lemma task_error_roundtrip:
  "taskErrorToError (app_task_error p) kind = AppError p \<or> kind = payloadKindSystemError"
  "taskErrorToError (system_task_error q) kind = SystemError q"
  "taskErrorToError (timeout_task_error u) kind = TimeoutError (u\<lparr>to_Kind := []\<rparr>)"
  by (simp_all add: taskErrorToError_def app_task_error_def system_task_error_def timeout_task_error_def no_error_def Let_def)

lemma latest_of_max:
  "j \<in> set (best # as) \<Longrightarrow> \<forall>a\<in>set (best # as). a \<noteq> j \<longrightarrow> ja_Attempt a < ja_Attempt j \<Longrightarrow> latest_of best as = j"
proof (induction as arbitrary: best)
  case (Cons a as)
  have "latest_of best (a # as) = latest_of (if later_attempt a best then a else best) as" by simp
  also have "\<dots> = j" by (rule Cons.IH) (use Cons.prems in \<open>auto simp: later_attempt_def\<close>)
  finally show ?case .
qed simp

lemma latest_max:
  assumes "j \<in> set as" "\<forall>a\<in>set as. a \<noteq> j \<longrightarrow> ja_Attempt a < ja_Attempt j"
  shows "latestJobAttempt as = j"
  using assms latest_of_max [of j "hd as" "tl as"] by (cases as) (simp_all add: latestJobAttempt_def)

lemma latest_shown:
  assumes "numbers_ok v" "\<forall>a\<in>set (vw_attempts v). ja_Attempt a \<le> n" "find_attempt n v = Some j"
  shows "latestJobAttempt (vw_attempts v) = j" "latestJobAttempt (drop_outputs (vw_attempts v)) = j" "vw_attempts v \<noteq> []"
proof -
  have j: "j \<in> set (vw_attempts v)" "ja_Attempt j = n"
    using find_number [of n "vw_attempts v"] assms(3) by (auto simp: find_attempt_def)
  have less: "a \<noteq> j \<longrightarrow> ja_Attempt a < ja_Attempt j" if "a \<in> set (vw_attempts v)" for a
    using that assms(1,2) j inj_onD [of ja_Attempt "set (vw_attempts v)" a j]
    by (force simp: numbers_ok_def distinct_map)
  then show l: "latestJobAttempt (vw_attempts v) = j" using j by (intro latest_max) auto
  let ?f = "\<lambda>a. if ja_Attempt a \<noteq> ja_Attempt j \<or> ja_Ordinal a \<noteq> ja_Ordinal j then a\<lparr>ja_Output := None\<rparr> else a"
  have d: "drop_outputs (vw_attempts v) = map ?f (vw_attempts v)" using l by (simp add: drop_outputs_def Let_def)
  show "latestJobAttempt (drop_outputs (vw_attempts v)) = j"
  proof (rule latest_max)
    have "?f j \<in> ?f ` set (vw_attempts v)" using j(1) by (rule imageI)
    then show "j \<in> set (drop_outputs (vw_attempts v))" by (simp add: d)
    show "\<forall>a\<in>set (drop_outputs (vw_attempts v)). a \<noteq> j \<longrightarrow> ja_Attempt a < ja_Attempt j"
      unfolding d using less by force
  qed
  show "vw_attempts v \<noteq> []" using j(1) by auto
qed

end
