(* ===== verification/Job_Output.thy ===== *)
theory Job_Output
  imports Job_View_Log
begin

text \<open>
  The output of a completed job, read from the view of its run: it is what the last chapter of the log holds.
\<close>

section \<open>The last outcome is the output\<close>

lemma infos_to_artifacts:
  assumes "JobId key \<noteq> []" "0 \<le> ch_Ordinal c" "\<forall>a\<in>set as. sa_Name a \<noteq> [] \<and> -1 \<le> sa_Size a"
  shows "artifactsFromInfos getter tn k' n' (map (\<lambda>a. \<lparr>ai_Name = sa_Name a, ai_SizeBytes = sa_Size a, ai_Sha256 = sa_Digest a,
      ai_Key = Some \<lparr>ak_JobId = JobId key, ak_TaskOrdinal = ch_Ordinal c, ak_Name = sa_Name a, ak_SizeBytes = sa_Size a\<rparr>\<rparr>) as) =
    Inr (map (\<lambda>a. ToLazyArtifact getter tn (stored_key key c a)) as)"
  using assms by (induction as) (auto simp: ArtifactKey_Validate_def stored_key_def)

text \<open>The view of a log that ends with the outcome of the attempt with the greatest number.\<close>

lemma last_outcome_view:
  assumes "log_ok m" "dom m = {0..N}" "0 \<le> N" "m N = Some c" "job_chapter c"
    and "view_chapters opts job chapters (log_list m 0 N) (start_view job) = Inr v"
    and "\<forall>i c'. 0 < i \<longrightarrow> i < N \<longrightarrow> m i = Some c' \<longrightarrow> job_chapter c' \<longrightarrow> chapter_attempt c' < chapter_attempt c"
  obtains io where "numbers_ok v" "shown (chapter_attempt c) v = Some (N, outcome_of c, io)"
    "\<forall>a\<in>set (vw_attempts v). ja_Attempt a \<le> chapter_attempt c"
    "buildStoredTaskIO (rq_JobKey opts) c True (rq_IncludeArtifacts opts) = Inr io"
proof -
  obtain v0 where v0: "view_chapters opts job chapters (log_list m 1 N) v0 = Inr v" "view_ok v0" "vw_startSet v0" "below 1 v0"
    using log_view [OF assms(1-3,6)] by metis
  have start: "ChapterIs c' ChapterTypeJobStart" if "m 0 = Some c'" for c' using assms(1) that by (simp add: log_ok_def)
  have N: "1 \<le> N"
  proof (rule ccontr)
    assume "\<not> 1 \<le> N"
    then have "N = 0" using assms(3) by simp
    with start assms(4,5) show False by (auto simp: ChapterIs_def chapter_type_defs split: sum.splits)
  qed
  have ord: "ch_Ordinal c = N" using log_at_ordinal(2) [OF assms(1,2) assms(3) order_refl] assms(4) by simp
  obtain v1 where v1: "view_chapters opts job chapters (log_list m 1 (N - 1)) v0 = Inr v1" "view_chapter opts job chapters c v1 = Inr v"
    using v0(1) assms(4) by (auto simp: log_list_snoc [OF N] view_chapters_append split: sum.splits)
  have n: "1 \<le> chapter_attempt c" by (auto simp: chapter_attempt_def split: sum.splits)
  have lt: "\<forall>c'\<in>set (log_list m 1 (N - 1)). job_chapter c' \<longrightarrow> chapter_attempt c' < chapter_attempt c"
    using assms(7) log_at_ordinal(1) [OF assms(1,2)] by (force simp: log_member)
  have "below (chapter_attempt c) v0" using v0(4) n by (auto simp: below_def)
  then have b: "below (chapter_attempt c) v1"
    by (rule view_chapters_below [OF v1(1) disjI1 [OF v0(3)] v0(2) lt])
  note e = view_chapters_effect [OF v1(1) disjI1 [OF v0(3)] v0(2)]
  have ok: "view_ok v1" "vw_startSet v1" using e v0(3) by simp_all
  obtain io where io: "shown (chapter_attempt c) v = Some (ch_Ordinal c, outcome_of c, io)"
    "buildStoredTaskIO (rq_JobKey opts) c True (rq_IncludeArtifacts opts) = Inr io"
    by (rule view_chapter_shown [OF v1(2) disjI1 [OF ok(2)] ok(1) assms(5)])
  obtain meta a where a: "workerMetaFromChapter c = Inr meta"
    "buildStoredTaskAttempt (rq_JobKey opts) c meta chapters opts True = Inr a"
    "v = job_outcome_view a (v1\<lparr>vw_lastOrdinal := max (vw_lastOrdinal v1) (ch_Ordinal c)\<rparr>)"
    using view_chapter_cases [OF v1(2) disjI1 [OF ok(2)]] assms(5) by auto
  note ba = built_attempt [OF a(2,1)]
  have ok1: "view_ok (v1\<lparr>vw_lastOrdinal := max (vw_lastOrdinal v1) (ch_Ordinal c)\<rparr>)" using ok(1) by simp
  note j = job_outcome_effect(1,3) [OF ok1 ba(4) a(3)]
  have "ja_Attempt ` set (vw_attempts v) \<subseteq> {..chapter_attempt c}" using j(2) b ba(2) by (auto simp: below_def)
  then show ?thesis using that io j(1) ord by (auto simp: view_ok_def)
qed

lemma archived_finish:
  assumes "finish_view t opts job chapters v = Inr resp" "js_ArchivedAt job \<noteq> None"
  shows "resp = view_response opts job v"
  using assms by (simp add: finish_view_def current_attempt_def Let_def)



end
