(* ===== verification/Job_View_Typed.thy ===== *)
theory Job_View_Typed
  imports Job_Output
begin

text \<open>
  The view of the run of a job whose log is typed always exists, whatever the request asks to include.
\<close>

section \<open>The view of a typed log\<close>

text \<open>
  A chapter of a known type, with metadata that can be read, a payload that comes back from its stored form and,
  when it names its input, an input in the log.
\<close>

definition typed_chapter :: "(int \<rightharpoonup> Chapter) \<Rightarrow> Chapter \<Rightarrow> bool" where
  "typed_chapter m c \<longleftrightarrow>
     (case ch_Body c of None \<Rightarrow> False | Some b \<Rightarrow> wire_body b) \<and>
     (\<exists>meta. workerMetaFromChapter c = Inr meta \<and>
       (\<forall>ref. wm_InputRef meta = Some ref \<longrightarrow> ref_Ordinal ref \<in> dom m))"

definition typed_log :: "(int \<rightharpoonup> Chapter) \<Rightarrow> bool" where
  "typed_log m \<longleftrightarrow> (\<forall>i c. m i = Some c \<longrightarrow> typed_chapter m c \<and> (0 < i \<longrightarrow> \<not> ChapterIs c ChapterTypeJobStart))"

lemma typed_payload:
  assumes "typed_chapter m c"
  shows "\<exists>kind d. ChapterPayload c = Inr (kind, d)" "\<exists>oc. outcomeFromChapter c = Inr oc"
    "ChapterIs c ChapterTypeJobStart \<or> job_chapter c \<or> ChapterIs c ChapterTypeTaskAttemptOutcome \<or> ChapterIs c ChapterTypeRestartExtra"
proof -
  obtain b where b: "ch_Body c = Some b" "wire_body b" using assms by (auto simp: typed_chapter_def split: option.splits)
  have "(\<exists>kind d. ChapterPayload c = Inr (kind, d)) \<and> (\<exists>oc. outcomeFromChapter c = Inr oc) \<and>
    (ChapterIs c ChapterTypeJobStart \<or> job_chapter c \<or> ChapterIs c ChapterTypeTaskAttemptOutcome \<or> ChapterIs c ChapterTypeRestartExtra)"
  proof (cases "\<exists>oc. b = JobAttemptOutcome (Some oc) \<or> b = TaskAttemptOutcome (Some oc)")
    case True
    then obtain oc where oc: "b = JobAttemptOutcome (Some oc) \<or> b = TaskAttemptOutcome (Some oc)" by blast
    obtain kind d where wire: "ChapterOutcomeToWire (Some oc) = Inr (kind, d)" by (cases oc) simp_all
    have "wire_outcome oc" using b(2) oc by auto
    from wire_outcome_shown [OF this _ wire, of c] show ?thesis
      using oc b(1) wire by (auto simp: ChapterPayload_def ChapterIs_def ChapterType_def)
  next
    case False
    then show ?thesis
      using b by (cases b rule: wire_body.cases)
        (auto simp: ChapterPayload_def outcomeFromChapter_def ChapterIs_def ChapterType_def)
  qed
  then show "\<exists>kind d. ChapterPayload c = Inr (kind, d)" "\<exists>oc. outcomeFromChapter c = Inr oc"
    "ChapterIs c ChapterTypeJobStart \<or> job_chapter c \<or> ChapterIs c ChapterTypeTaskAttemptOutcome \<or> ChapterIs c ChapterTypeRestartExtra"
    by blast+
qed

lemma typed_io: "typed_chapter m c \<Longrightarrow> \<exists>io. buildStoredTaskIO key c b1 b2 = Inr io"
  using typed_payload(1) [of m c] by (auto simp: buildStoredTaskIO_def Let_def)

lemma typed_ref:
  assumes "\<And>i. chapters i = m i" "typed_log m" "\<And>ref. r = Some ref \<Longrightarrow> ref_Ordinal ref \<in> dom m"
  shows "\<exists>io. resolveStoredInputRef key chapters r b = Inr io"
proof (cases r)
  case (Some ref)
  then obtain c where c: "m (ref_Ordinal ref) = Some c" using assms(3) by blast
  then have "typed_chapter m c" using assms(2) by (simp add: typed_log_def)
  then show ?thesis using Some c assms(1) typed_io by (simp add: resolveStoredInputRef_def)
qed (simp add: resolveStoredInputRef_def)

lemma typed_attempt:
  assumes "\<And>i. chapters i = m i" "typed_log m" "typed_chapter m c" "workerMetaFromChapter c = Inr meta"
  shows "\<exists>a. buildStoredTaskAttempt key c meta chapters opts b = Inr a"
proof -
  obtain io where io: "buildStoredTaskIO key c b (rq_IncludeArtifacts opts) = Inr io" using typed_io [OF assms(3)] by blast
  have "\<exists>x. resolveStoredInputRef key chapters (wm_InputRef meta) (rq_IncludeArtifacts opts) = Inr x"
    by (rule typed_ref [OF assms(1,2)]) (use assms(3,4) in \<open>auto simp: typed_chapter_def\<close>)
  then have "\<exists>x. stored_input key meta chapters opts = Inr x" by (simp add: stored_input_def)
  then show ?thesis using io typed_payload(2) [OF assms(3)] by (auto simp: buildStoredTaskAttempt_def)
qed

lemma view_chapter_ordinal:
  assumes "view_chapter opts job chapters c v = Inr v'" "view_ok v"
  shows "vw_lastOrdinal v' = max (vw_lastOrdinal v) (ch_Ordinal c)"
proof (cases "vw_startSet v \<or> ch_Ordinal c \<noteq> 0")
  case True
  let ?v = "v\<lparr>vw_lastOrdinal := max (vw_lastOrdinal v) (ch_Ordinal c)\<rparr>"
  obtain meta a where a: "workerMetaFromChapter c = Inr meta"
    "buildStoredTaskAttempt (rq_JobKey opts) c meta chapters opts (rq_IncludeOutputs opts \<or> job_chapter c) = Inr a"
    "v' = (if job_chapter c then job_outcome_view a ?v else task_view (wm_TaskType meta) a ?v)"
    using view_chapter_cases [OF assms(1) True] by metis
  have ok: "view_ok ?v" using assms(2) by simp
  have "vw_lastOrdinal v' = vw_lastOrdinal ?v"
  proof (cases "job_chapter c")
    case True
    then have "v' = job_outcome_view a ?v" using a(3) by simp
    from job_outcome_effect(7) [OF ok built_attempt(4) [OF a(2,1)] this] show ?thesis .
  next
    case False
    then have "v' = task_view (wm_TaskType meta) a ?v" using a(3) by simp
    from task_view_effect(7) [OF ok this] show ?thesis .
  qed
  then show ?thesis by simp
next
  case False
  then have "\<exists>meta. view_start_chapter opts job c meta (v\<lparr>vw_lastOrdinal := max (vw_lastOrdinal v) (ch_Ordinal c)\<rparr>) = Inr v'"
    using assms(1) by (auto simp: view_chapter_def Let_def split: sum.splits)
  then show ?thesis by (auto simp: view_start_chapter_def Let_def split: sum.splits if_splits)
qed

lemma typed_views:
  assumes "\<And>i. chapters i = m i" "typed_log m"
  shows "\<forall>c\<in>set cs. m (ch_Ordinal c) = Some c \<and> 0 < ch_Ordinal c \<Longrightarrow> view_ok v \<Longrightarrow>
    \<exists>v'. view_chapters opts job chapters cs v = Inr v' \<and> vw_lastOrdinal v' \<in> insert (vw_lastOrdinal v) (ch_Ordinal ` set cs)"
proof (induction cs arbitrary: v)
  case (Cons c cs)
  have c: "typed_chapter m c" "\<not> ChapterIs c ChapterTypeJobStart" "ch_Ordinal c \<noteq> 0"
    using Cons.prems(1) assms(2) by (auto simp: typed_log_def)
  obtain meta where meta: "workerMetaFromChapter c = Inr meta" using c(1) by (auto simp: typed_chapter_def)
  have "\<exists>v1. view_chapter opts job chapters c v = Inr v1"
    using typed_attempt [OF assms c(1) meta, of "rq_JobKey opts" opts "rq_IncludeOutputs opts \<or> job_chapter c"]
      typed_payload(3) [OF c(1)] c(2,3) by (auto simp: view_chapter_def meta Let_def)
  then obtain v1 where v1: "view_chapter opts job chapters c v = Inr v1" by blast
  have "view_ok v1" using view_chapter_effect [OF v1 disjI2 [OF c(3)] Cons.prems(2)] by simp
  then obtain v' where v': "view_chapters opts job chapters cs v1 = Inr v'"
    "vw_lastOrdinal v' \<in> insert (vw_lastOrdinal v1) (ch_Ordinal ` set cs)"
    using Cons.IH Cons.prems(1) by (metis list.set_intros(2))
  moreover have "vw_lastOrdinal v1 = vw_lastOrdinal v \<or> vw_lastOrdinal v1 = ch_Ordinal c"
    using view_chapter_ordinal [OF v1 Cons.prems(2)] by (simp add: max_def)
  ultimately show ?case using v1 by auto
qed simp

lemma by_ordinal_log:
  assumes "log_ok m" "dom m = {0..N}"
  shows "by_ordinal (log_list m 0 N) i = m i"
proof -
  let ?xs = "rev (map (\<lambda>c. (ch_Ordinal c, c)) (log_list m 0 N))"
  have f: "map fst ?xs = rev [0..N]" using log_ordinals [OF assms, of 0] by (simp add: rev_map o_def flip: rev_map)
  show ?thesis
  proof (cases "i \<in> {0..N}")
    case True
    then have i: "m i = Some (the (m i))" "ch_Ordinal (the (m i)) = i" using log_at_ordinal [OF assms, of i] by simp_all
    then have "(i, the (m i)) \<in> set ?xs" using True by (force simp: log_member)
    moreover have "distinct (map fst ?xs)" by (simp add: f)
    ultimately have "map_of ?xs i = Some (the (m i))" by (metis map_of_is_SomeI)
    then show ?thesis using i(1) by (simp add: by_ordinal_def)
  next
    case False
    then have "m i = None" using assms(2) by blast
    moreover have "i \<notin> set (map fst ?xs)" unfolding f using False by simp
    ultimately show ?thesis using map_of_eq_None_iff [of ?xs i] by (simp add: by_ordinal_def)
  qed
qed

lemma typed_start:
  assumes "typed_chapter m c" "ChapterIs c ChapterTypeJobStart" "ch_Ordinal c = 0"
  shows "\<exists>v. view_chapter opts job chapters c (start_view job) = Inr v \<and> vw_lastOrdinal v = 0 \<and> view_ok v"
proof -
  obtain meta where meta: "workerMetaFromChapter c = Inr meta" using assms(1) by (auto simp: typed_chapter_def)
  obtain io where "buildStoredTaskIO (rq_JobKey opts) c (rq_IncludeInputs opts) (rq_IncludeArtifacts opts) = Inr io"
    using typed_io [OF assms(1)] by blast
  then have "\<exists>v. view_chapter opts job chapters c (start_view job) = Inr v"
    using assms(2,3) meta by (simp add: view_chapter_def view_start_chapter_def start_view_def Let_def)
  then obtain v where v: "view_chapter opts job chapters c (start_view job) = Inr v" by blast
  have "view_ok (start_view job)" by (simp add: view_ok_def start_view_def numbers_ok_def)
  then have "vw_lastOrdinal v = 0" using view_chapter_ordinal [OF v] assms(3) by (simp add: start_view_def)
  then show ?thesis using v start_step(1) [OF v assms(3)] by blast
qed

lemma typed_finish:
  assumes "\<And>i. chapters i = m i" "typed_log m" "vw_lastOrdinal v \<in> dom m"
  shows "\<exists>resp. finish_view t opts job chapters v = Inr resp"
proof -
  have "\<exists>run. buildRuntimeTaskRunFromSummary t job (vw_lastOrdinal v) chapters opts = Inr run"
    using typed_ref [OF assms(1,2), of "Some \<lparr>ref_Ordinal = vw_lastOrdinal v, ref_Hash = []\<rparr>" "js_JobKey job" "rq_IncludeArtifacts opts"]
      assms(3) by (auto simp: buildRuntimeTaskRunFromSummary_def Let_def split: prod.split)
  then show ?thesis by (auto simp: finish_view_def Let_def)
qed

lemma typed_view:
  assumes "log_ok m" "dom m = {0..N}" "0 \<le> N" "typed_log m"
  shows "\<exists>resp. view_of t opts job (log_list m 0 N) = Inr resp"
proof -
  let ?chs = "by_ordinal (log_list m 0 N)"
  note chs = by_ordinal_log [OF assms(1,2)]
  have zero: "m 0 = Some (the (m 0))" "ch_Ordinal (the (m 0)) = 0" using log_at_ordinal [OF assms(1,2)] assms(3) by simp_all
  then have "ChapterIs (the (m 0)) ChapterTypeJobStart" "typed_chapter m (the (m 0))"
    using assms(1,4) by (auto simp: log_ok_def typed_log_def)
  then obtain v0 where v0: "view_chapter opts job ?chs (the (m 0)) (start_view job) = Inr v0" "vw_lastOrdinal v0 = 0" "view_ok v0"
    using typed_start zero(2) by blast
  have rest: "\<forall>c\<in>set (log_list m 1 N). m (ch_Ordinal c) = Some c \<and> 0 < ch_Ordinal c"
  proof
    fix c assume "c \<in> set (log_list m 1 N)"
    then obtain j where j: "1 \<le> j" "j \<le> N" "c = the (m j)" by (auto simp: log_member)
    then show "m (ch_Ordinal c) = Some c \<and> 0 < ch_Ordinal c" using log_at_ordinal [OF assms(1,2), of j] by simp
  qed
  obtain v where v: "view_chapters opts job ?chs (log_list m 1 N) v0 = Inr v"
    "vw_lastOrdinal v \<in> insert (vw_lastOrdinal v0) (ch_Ordinal ` set (log_list m 1 N))"
    using typed_views [OF chs assms(4) rest v0(3)] by blast
  have "vw_lastOrdinal v \<in> dom m" using v(2) v0(2) zero(1) rest by auto
  then obtain resp where "finish_view t opts job ?chs v = Inr resp" using typed_finish [OF chs assms(4)] by blast
  moreover have "view_chapters opts job ?chs (log_list m 0 N) (start_view job) = Inr v"
    unfolding arg_cong [OF log_list_Cons [OF assms(3)], of "\<lambda>cs. view_chapters opts job ?chs cs (start_view job)"]
    using v0(1) v(1) by simp
  ultimately show ?thesis by (simp add: view_of_log [OF assms(1,2)])
qed

section \<open>The summary of the job\<close>

lemma collect_one_job:
  assumes "jobRecords s k = Some r" "ExtractParentJobID (jr_metadata r) = Inr p"
  shows "\<exists>n. collect_jobs (summary_page k tok) (True, True) [] s order = Inr (replicate n (job_summary k r p)) \<and>
    (k \<in> set order \<longrightarrow> 0 < n)"
proof (induction order)
  case (Cons k' ks)
  have listed: "job_listed (summary_page k tok) (True, True) [] k' r' = Inr False" if "k' \<noteq> k" for r'
    using that by (simp add: job_listed_def summary_page_def allowed_def jobTaskAllowed_def)
  have "job_listed (summary_page k tok) (True, True) [] k r = Inr True"
    using assms(2) by (simp add: job_listed_def summary_page_def allowed_def jobTaskAllowed_def)
  with Cons listed assms show ?case
    by (cases "k' = k"; cases "jobRecords s k'") (auto intro: exI [of _ "Suc n" for n])
qed (auto intro: exI [of _ 0])

lemma summary_listed:
  assumes "jobRecords s k = Some r" "ExtractParentJobID (jr_metadata r) = Inr p" "k \<in> set order"
  shows "\<exists>jobs tok. ListJobs order s (summary_page k NoToken) = Inr (jobs, tok) \<and> jobs \<noteq> [] \<and> set jobs = {job_summary k r p}"
proof -
  obtain n where n: "collect_jobs (summary_page k NoToken) (True, True) [] s order = Inr (replicate n (job_summary k r p))" "0 < n"
    using collect_one_job [OF assms(1,2)] assms(3) by blast
  let ?xs = "filter (after_cursor NoToken) (sort_jobs (replicate n (job_summary k r p)))"
  have xs: "set ?xs = {job_summary k r p}" using n(2) by (simp add: sort_jobs_def after_cursor_def)
  then obtain x ys where "?xs = x # ys" by (cases ?xs) auto
  then have "fst (page 200 ?xs) \<noteq> []" "set (fst (page 200 ?xs)) \<subseteq> set ?xs" by (auto simp: page_def dest: in_set_takeD)
  then have "fst (page 200 ?xs) \<noteq> [] \<and> set (fst (page 200 ?xs)) = {job_summary k r p}"
    unfolding xs by (cases "fst (page 200 ?xs)") auto
  moreover obtain jobs last1 where "page 200 ?xs = (jobs, last1)" by (cases "page 200 ?xs")
  ultimately show ?thesis
    using n(1) by (simp add: ListJobs_def summary_page_def list_scope_def MetadataPredicates_def
        list_page_size_def MaxListJobsPageSize_def)
qed

section \<open>The view exists\<close>

text \<open>C40: the view of a typed log exists. For a job of a reachable toy engine whose chapters after the start are
  outcomes of the job, outcomes of tasks or extra chapters of a restart, with readable metadata, payloads that
  come back from their stored form and input references into the log, asking for the run succeeds on the first
  page of the listing, at any time and whatever the request asks to include: no chapter, reference or listing
  error can occur.\<close>
theorem typed_job_run_exists:
  assumes "fresh_ids w0" "reachable w0 (engine w)" "visits_log visit (engine w) (rq_JobKey req)"
    and "JobKey_Validate (rq_JobKey req) = Inr ()"
    and "jobRecords (engine w) (rq_JobKey req) = Some r" "ExtractParentJobID (jr_metadata r) = Inr p"
    and "rq_JobKey req \<in> set order"
    and "runtimeChapters (engine w) (rq_JobKey req) = Some m" "typed_log m"
  shows "\<exists>resp. GetJobRun (Suc n) t (toy_view_runtime env orc order visit) req w = Some (Inr resp)
    \<and> rs_Status (gj_Job resp) = jr_status r"
proof -
  let ?k = "rq_JobKey req" and ?rt = "toy_view_runtime env orc order visit"
  have log: "log_ok m" using reachable_ok [OF assms(1,2)] assms(8) by (auto simp: engine_ok_def)
  then obtain N where N: "0 \<le> N" "dom m = {0..N}" by (auto simp: log_ok_def)
  obtain jobs tok where jobs: "ListJobs order (engine w) (summary_page ?k NoToken) = Inr (jobs, tok)" "jobs \<noteq> []"
    "set jobs = {job_summary ?k r p}" using summary_listed [OF assms(5-7)] by blast
  then obtain js where "jobs = job_summary ?k r p # js" by (cases jobs) auto
  then have load: "loadJobSummary (Suc n) ?rt ?k NoToken w = Some (Inr (job_summary ?k r p))"
    using jobs(1) by (simp add: toy_view_runtime_def EngineRuntime.defs toy_engine_runtime_def WorkflowRuntime.defs summary_key)
  have cs: "vr_ListChapters ?rt ?k w = Inr (log_list m 0 N)"
    using ListChapters_log [OF assms(8) N(2), of "visit ?k"] assms(3,8)
    by (simp add: toy_view_runtime_def EngineRuntime.defs visits_log_def)
  obtain resp where resp: "view_of t (normalizeGetJobRunOptions req) (job_summary ?k r p) (log_list m 0 N) = Inr resp"
    using typed_view [OF log N(2,1) assms(9)] by blast
  have "rs_Status (gj_Job resp) = jr_status r" using view_of_stored(4) [OF log N(2,1) resp] by (simp add: job_summary_def)
  moreover have "GetJobRun (Suc n) t ?rt req w = Some (Inr resp)"
    unfolding GetJobRun_def load assms(4) using cs resp by simp
  ultimately show ?thesis by blast
qed

theorem typed_job_run_exists_witness:
  "\<exists>resp. GetJobRun 1 99 (toy_view_runtime sample_env sample_oracle [JobKey ''x'' ''j''] sample_visit)
     (sample_view_request\<lparr>rq_IncludeAttemptInputs := True\<rparr>) \<lparr>engine = completed, asked = 0\<rparr> = Some (Inr resp)
   \<and> rs_Status (gj_Job resp) = Completed"
proof -
  let ?req = "sample_view_request\<lparr>rq_IncludeAttemptInputs := True\<rparr>" and ?w = "\<lparr>engine = completed, asked = 0\<rparr>"
  obtain m where m: "runtimeChapters completed (JobKey ''x'' ''j'') = Some m" "dom m = {0..2}" "m 2 = Some sample_final"
    "m 1 = Some sample_task" using completed_log by metis
  have "(case jobRecords completed (JobKey ''x'' ''j'') of None \<Rightarrow> False
    | Some r \<Rightarrow> jr_status r = Completed \<and> ExtractParentJobID (jr_metadata r) = Inr [])" by code_simp
  then obtain r where r: "jobRecords completed (JobKey ''x'' ''j'') = Some r" "jr_status r = Completed"
    "ExtractParentJobID (jr_metadata r) = Inr []" by (auto split: option.splits)
  have "(case the (runtimeChapters completed (JobKey ''x'' ''j'')) 0 of None \<Rightarrow> False | Some c \<Rightarrow>
      ch_Body c = Some (JobStart (Json (JInt 1))) \<and>
      (case workerMetaFromChapter c of Inl _ \<Rightarrow> False | Inr meta \<Rightarrow> wm_InputRef meta = None))" by code_simp
  then obtain c meta where c: "m 0 = Some c" "ch_Body c = Some (JobStart (Json (JInt 1)))"
    "workerMetaFromChapter c = Inr meta" "wm_InputRef meta = None"
    using m(1) by (auto split: option.splits sum.splits)
  have other: "\<exists>meta. workerMetaFromChapter (sample_step_chapter i b) = Inr meta \<and> wm_InputRef meta = None" for i b
    by (simp add: workerMetaFromChapter_def sample_step_chapter_def ChapterMetadataToJSON_def meta_defaults_def zero_workerMeta_def Let_def)
  have "typed_log m"
  proof (unfold typed_log_def, intro allI impI)
    fix i c' assume i: "m i = Some c'"
    then have "i \<in> {0..2}" using m(2) by blast
    then consider "i = 0" | "i = 1" | "i = 2" by force
    then show "typed_chapter m c' \<and> (0 < i \<longrightarrow> \<not> ChapterIs c' ChapterTypeJobStart)"
      using i c m(3,4) other [of 1] other [of 2]
      by cases (fastforce simp: typed_chapter_def sample_step_chapter_def ChapterIs_def ChapterType_def chapter_type_defs)+
  qed
  then have "\<exists>resp. GetJobRun (Suc 0) 99 (toy_view_runtime sample_env sample_oracle [JobKey ''x'' ''j''] sample_visit) ?req ?w = Some (Inr resp)
      \<and> rs_Status (gj_Job resp) = jr_status r"
    by (intro typed_job_run_exists [OF sample_fresh])
      (use sample_completed completed_visited m(1) r(1,3) in \<open>simp_all add: sample_view_request_def JobKey_Validate_def\<close>)
  then show ?thesis using r(2) by simp
qed

end
