(* ===== verification/Spec2Isabelle.thy ===== *)
theory Spec2Isabelle
  imports Retry Job_Failed Failure_Policy Cron Toy_List Engine_Steps Task_Props Worker_Ends Worker_Demo Job_Run Engine_Loop Task_Find Job_View_Typed
begin

text \<open>
  A model of swf-go: a job database (\<^verbatim>\<open>pkg/jobdb\<close>) that stores jobs as logs of chapters and hands them out
  under leases, and a durable workflow engine (\<^verbatim>\<open>pkg/workflow\<close>) that runs jobs on it and replays them from
  their logs.

  \<^bold>\<open>The parts of the program and the theories that model them.\<close>

  \<^item> What the sources use of Go: \<^verbatim>\<open>Prelude\<close> (integers, maps, lists), \<^verbatim>\<open>Go_Strings\<close> (\<^verbatim>\<open>strings\<close>, \<^verbatim>\<open>strconv\<close>,
    \<^verbatim>\<open>fmt\<close>), \<^verbatim>\<open>Go_Json\<close> (\<^verbatim>\<open>encoding/json\<close>), \<^verbatim>\<open>Calendar\<close> (civil time). \<^verbatim>\<open>Ops\<close> has the chain of fallible
    operations, invariants of operations, and the record of the outside world.
  \<^item> \<^verbatim>\<open>pkg/jobdb\<close>, the shared vocabulary: \<^verbatim>\<open>Job_Types\<close> (\<^verbatim>\<open>types.go\<close>, \<^verbatim>\<open>jobs.go\<close>, \<^verbatim>\<open>errors.go\<close>, \<^verbatim>\<open>timeout.go\<close>),
    \<^verbatim>\<open>Retry\<close> (\<^verbatim>\<open>worker_retry.go\<close>), \<^verbatim>\<open>Job_Failed\<close> (\<^verbatim>\<open>job_failed_error.go\<close> and the error half of
    \<^verbatim>\<open>worker_envelope.go\<close>), \<^verbatim>\<open>Cron\<close> (\<^verbatim>\<open>schedule_trigger.go\<close>), \<^verbatim>\<open>Failure_Policy\<close> and \<^verbatim>\<open>Schedule_Types\<close>
    (\<^verbatim>\<open>schedule.go\<close>, \<^verbatim>\<open>internal/jobmetadata\<close>), \<^verbatim>\<open>Chapter_Codec\<close> (\<^verbatim>\<open>chapter.go\<close>), \<^verbatim>\<open>Job_Schema\<close> (\<^verbatim>\<open>schema.go\<close>,
    \<^verbatim>\<open>internal/jobschema\<close>), \<^verbatim>\<open>Metadata_Filter\<close> (\<^verbatim>\<open>list_jobs.go\<close>).
  \<^item> The toy runtime (\<^verbatim>\<open>pkg/jobdb/runtime/toy/internal/toyimpl\<close>), the in-memory implementation of the job
    database: \<^verbatim>\<open>Toy_State\<close> (the state \<^typ>\<open>ToyEngine\<close>, the schema registry), \<^verbatim>\<open>Toy_Chapters\<close> (the append-only
    chapter store), \<^verbatim>\<open>Toy_Runtime\<close> (submitting, restarting, cancelling), \<^verbatim>\<open>Toy_Lease\<close> (leases, completion,
    rescheduling, waiting tasks), \<^verbatim>\<open>Toy_Schedule\<close> (schedules, their preflight, granting a lease), \<^verbatim>\<open>Toy_List\<close>
    (listings, on \<^verbatim>\<open>Paging\<close>).
  \<^item> The worker runner (\<^verbatim>\<open>pkg/workflow/worker_runner.go\<close>): \<^verbatim>\<open>Worker_Step\<close> (results of a step: a value, an
    error, a panic, the end of the goroutine, out of fuel), \<^verbatim>\<open>Worker_Chapter\<close> (\<^verbatim>\<open>worker_envelope.go\<close>,
    \<^verbatim>\<open>worker_runtime_support.go\<close>), \<^verbatim>\<open>Worker_Runner\<close> (waiting, child jobs, tasks), \<^verbatim>\<open>Worker_Job\<close> (the job loop
    and \<^verbatim>\<open>replay.go\<close>), \<^verbatim>\<open>Worker_Toy\<close> (the runner on the toy runtime and the run of a claimed lease).
  \<^item> What drives the runner: \<^verbatim>\<open>Worker_Engine\<close> (\<^verbatim>\<open>worker_engine.go\<close>, \<^verbatim>\<open>jobs.go\<close>: registered workers, the groups
    under which the engine polls, the lease it runs), \<^verbatim>\<open>Engine_Loop\<close> (the goroutines of \<^verbatim>\<open>workerEngine.Run\<close> as a
    step relation), \<^verbatim>\<open>Job_Run\<close> (\<^verbatim>\<open>run_job_if_leaseable.go\<close>: one job on demand, and the listener of its events),
    \<^verbatim>\<open>Task_Find\<close> (\<^verbatim>\<open>runtime_task_handle.go\<close>: tasks that clients finish).
  \<^item> What clients see of a job: \<^verbatim>\<open>Job_View\<close> (\<^verbatim>\<open>job_run_runtime.go\<close>, \<^verbatim>\<open>job_run_details.go\<close>, \<^verbatim>\<open>job_run_output.go\<close>:
    the log grouped into attempts and runs of tasks, and the output read from it).

  \<^bold>\<open>How the parts meet.\<close> The toy runtime's operations are state transformers on \<^typ>\<open>ToyEngine\<close> with an error
  or a value as the result; what they did before an error stays done, as in the code. The runner sees a
  runtime and a lease as records of operations (the interfaces \<^verbatim>\<open>WorkflowRuntime\<close> and \<^verbatim>\<open>ExecutionLease\<close>);
  \<^verbatim>\<open>toy_runtime\<close> and \<^verbatim>\<open>toy_lease\<close> give the toy engine that shape. A job or task worker is a tree of the
  calls it makes on its context, so the runner's effect on any worker is defined by recursion on the tree.

  \<^bold>\<open>What the lemmas show.\<close>

  \<^item> The data: wire forms and stored forms read back what was written (\<^verbatim>\<open>Job_Failed\<close>, \<^verbatim>\<open>Chapter_Codec\<close>,
    \<^verbatim>\<open>Schedule_Types\<close>, \<^verbatim>\<open>Worker_Meta\<close>); policies, backoff, cron search, failure histories and filters compute
    what their abstract specifications say (\<^verbatim>\<open>Retry\<close>, \<^verbatim>\<open>Cron\<close>, \<^verbatim>\<open>Failure_Policy\<close>, \<^verbatim>\<open>Metadata_Filter\<close>).
  \<^item> The engine: \<^verbatim>\<open>Engine_Inv\<close> states the contract of an invariant once, as the locales \<open>calm_state\<close>,
    \<open>engine_invariant\<close> and \<open>engine_fact\<close>, and proves there that every operation keeps one; \<^verbatim>\<open>Engine_Steps\<close>
    makes the operations a step relation and interprets the locales for well-formed records and logs, for
    fencing of old leases, for chapters that are never changed, and for schedule generations.
    \<^verbatim>\<open>Lease_Props\<close> says what taking a lease does, \<^verbatim>\<open>Task_Props\<close> what completing a lease or a waiting task does, \<^verbatim>\<open>Toy_List\<close> that following page tokens lists every job once.
  \<^item> The runner: \<^verbatim>\<open>Worker_Replay\<close> shows for any runtime (locale \<open>observed\<close>) that a replay writes nothing;
    \<^verbatim>\<open>Worker_Props\<close> runs the code step by step on stored outcomes, long waits and empty results;
    \<^verbatim>\<open>Worker_Events\<close>, \<^verbatim>\<open>Worker_Log\<close>, \<^verbatim>\<open>Worker_Live\<close>, \<^verbatim>\<open>Worker_Open\<close>, \<^verbatim>\<open>Worker_Equiv\<close>, \<^verbatim>\<open>Worker_Again\<close> and
    \<^verbatim>\<open>Worker_Same\<close> lead to the theorem at the end of this theory: a replay returns what the live run returned.
    The locale \<open>task_invariant\<close> of \<^verbatim>\<open>Worker_Open\<close> proves for any fact about the log of a job that running tasks
    keeps it; its interpretations are that the job has no outcome yet and that nothing is stored beyond an
    ordinal, and \<^verbatim>\<open>Worker_Ends\<close> uses the second to show that the attempts of a task end. \<^verbatim>\<open>Worker_Demo\<close> has the
    concrete run on which the witnesses of these theorems evaluate.
  \<^item> The parts together: \<^verbatim>\<open>Worker_Engine\<close> shows that the engine runs a job only with the workers whose filter it
    meets, \<^verbatim>\<open>Engine_Loop\<close> that no wake-up is lost and no more leases run than allowed, \<^verbatim>\<open>Job_Run\<close> that running a
    job on demand reports the output that was stored, and \<^verbatim>\<open>Task_Find\<close> that data given to a found task reach the
    run of the job.
  \<^item> The view of a run: \<^verbatim>\<open>Job_View_Props\<close> has the invariant of the loop over the chapters (the attempts have
    different numbers, the current run is one of the active attempt) and what each step adds; from it
    \<^verbatim>\<open>Job_View_Log\<close> shows that a view has every chapter of a reachable log once, \<^verbatim>\<open>Job_Output\<close> that the output of a
    completed job is its last outcome, and \<^verbatim>\<open>Job_View_Typed\<close> that the view of a typed log exists.

  \<^bold>\<open>Conventions.\<close> Times are nanoseconds since the zero time of Go, durations are nanoseconds, \<^verbatim>\<open>float64\<close>
  coefficients are rationals and the one floating-point computation (a scaled backoff) is a parameter. JSON
  documents are trees; a \<^verbatim>\<open>json.RawMessage\<close> is a tree or text that is not JSON. Nil and empty slices are the
  same except where \<^verbatim>\<open>reflect.DeepEqual\<close> tells them apart. Pointer variants of chapter bodies and errors
  behave as the values. The order in which Go visits a map is an argument. An operation of the toy runtime
  reads the clock once; the runner's readings are explicit, drawn from an oracle that also decides whether
  a timer has fired before a call of a worker and whether a sleep was cut off. A goroutine that lost the race with its
  timer makes no further calls. Contexts are not cancelled otherwise. Logging, cleanup of temporary files and
  the keep-alive ticker have no effect on the modelled state and are left out. A deadlock is the result None.

  \<^bold>\<open>Fuel and bounds.\<close> The cron search takes 256 steps, which \<^verbatim>\<open>Cron\<close> proves to be enough for the five-year
  window of the code. The loops of the runner over attempts take fuel; running out is a result of its own,
  and the equivalence of run and replay needs one unit of fuel for the replay, whatever the run used.
  64-bit ordinals and counters appear as \<open>int64\<close> hypotheses where a value goes through JSON.

  \<^bold>\<open>Parameters.\<close> The record \<^typ>\<open>Env\<close> holds what is not in the repository: the clock, the drawn ids, SHA-256,
  the time zone database, the printing of durations and the JSON-schema compiler and validator.

  \<^bold>\<open>Not modelled.\<close> Artifacts as files and readers (the runtime sees a name, a size and the bytes); the SQL
  runtimes (sqlite and direct) and the chapter store, whose statements run in a database engine; the HTTP
  transport of the remote runtime and its generated types; command lines; tests.
\<close>

section \<open>A run and its replays\<close>

text \<open>C29: a replay computes what the live run computed. Take a run of a claimed lease on the toy runtime that
  ended with an output and without a failed attempt, of a job that had no outcome before, whose worker runs
  tasks and gives up with their first error, and whose task workers make no calls on their context. Replaying
  the job with the same workers, at any later time (another clock) and on any engine whose log and artifacts of
  the job are the ones the run left, returns exactly that output, and leaves the engine alone.
  The job stores no time limits: with one, the replay would count it on its own clock.\<close>
theorem replay_reproduces_run:
  assumes "runClaimedJobLease (Suc fuel) env scale (toy_runtime env orc) (toy_clock orc) ws (toy_lease env orc l) threshold
      storeInput w = (s', Done (Some out))"
    and "flawless s'" "int64 (storyCounter s')" "hashes env" "pure_tasks ws" "\<And>d. tasks_only (ws_Run ws (ls_JobKey l) d)"
    and "in_order (ls_JobKey l) (engine w)" "unfinished (ls_JobKey l) (engine w)"
    and "log_at (engine w) (ls_JobKey l) 0 = Some c" "workerMetaFromChapter c = Inr meta" "untimed meta"
    and "registered workers c meta ws"
    and "shares (storyCounter s') (ls_JobKey l) (engine (world s')) (engine w')"
  shows "\<exists>t'. replayRuntimeJob (Suc fuel') env scale' (toy_runtime env orc') (toy_clock orc') workers (ls_JobKey l) None
      threshold' w' = (t', Done (Some out))
    \<and> engine (world t') = engine w'"
  by (rule replay_same [OF assms])

theorem replay_reproduces_run_witness:
  "\<exists>s' out t'. demo_run = (s', Done (Some out)) \<and>
     replayRuntimeJob 1 sample_env (\<lambda>d c n. 0) (toy_runtime sample_env later_oracle) (toy_clock later_oracle)
       [''t'' \<mapsto> demo_workers] (JobKey ''x'' ''j'') None 0 (world s') = (t', Done (Some out))"
proof -
  obtain s' out where run: "demo_run = (s', Done (Some out))" "flawless s'" "int64 (storyCounter s')"
    by (rule demo_run_done)
  let ?meta = "zero_workerMeta\<lparr>wm_Version := 1, wm_Ordinal := 0, wm_TaskType := ''t'', wm_CreatedAt := 5, wm_InputHash := ''i''\<rparr>"
  let ?c = "sample_chapter 0 (JobStart (Json (JInt 1)))"
  have c: "log_at (engine demo_world) (ls_JobKey sample_lease) 0 = Some ?c" by (simp add: demo_world_def demo_key demo_log)
  have u: "untimed ?meta" "registered [''t'' \<mapsto> demo_workers] ?c ?meta demo_workers"
    by (simp_all add: untimed_def zero_workerMeta_def registered_def JobTypeFromNextNeed_def)
  have live: "runClaimedJobLease (Suc 0) sample_env (\<lambda>d c n. d) (toy_runtime sample_env sample_oracle) (toy_clock sample_oracle)
      demo_workers (toy_lease sample_env sample_oracle sample_lease) 10 True demo_world = (s', Done (Some out))"
    using run(1) by (simp add: demo_run_def)
  show ?thesis
    using replay_reproduces_run [OF live run(2,3) demo_hashes demo_workers_pure demo_open c sample_meta u shares_refl,
        where fuel' = 0 and scale' = "\<lambda>d c n. 0" and orc' = later_oracle and threshold' = 0] run(1)
    by (auto simp: demo_key)
qed

end
